(* ===== verification/Prelude.thy ===== *)
theory Prelude
  imports Complex_Main "HOL-Library.State_Monad"
begin

text \<open>
  What the component theories share: the strings the Go code works with (byte
  strings, modelled as lists of characters), the 64-bit wrap of Go's integers, the
  tables of a database, the state monad in which effectful functions are written,
  and two judgements on monadic programs with their syntax-directed rules:
  \<open>steps\<close> (every run moves the state along a given relation) and \<open>moves\<close> (the same
  from a precondition to a postcondition).
\<close>

type_synonym uuid = nat
type_synonym time = int

text \<open>
  Rules that split a judgement along the program text are collected here, so that
  a proof about a handler is one call of \<open>intro\<close>.
\<close>

named_theorems step_rules \<open>rules for the judgement \<open>steps\<close>\<close>

subsection \<open>Go integers\<close>

text \<open>The value of an \<open>int64\<close> (and of \<open>int\<close> on the supported platforms).\<close>

definition i64 :: "int \<Rightarrow> int" where
  "i64 x = signed_take_bit 63 x"

lemma i64_id: "- (2 ^ 63) \<le> x \<Longrightarrow> x < 2 ^ 63 \<Longrightarrow> i64 x = x"
  by (simp add: i64_def signed_take_bit_int_eq_self)

lemma i64_range: "- (2 ^ 63) \<le> i64 x" "i64 x < 2 ^ 63"
  unfolding i64_def
  using signed_take_bit_int_greater_eq_minus_exp [of 63 x] signed_take_bit_int_less_exp [of 63 x]
  by simp_all

text \<open>\<open>strconv.Itoa\<close> and the verb \<open>%d\<close>.\<close>

definition digit_char :: "int \<Rightarrow> char" where
  "digit_char d = ''0123456789'' ! nat d"

function utoa :: "int \<Rightarrow> string" where
  "utoa n = (if n < 10 then [digit_char n] else utoa (n div 10) @ [digit_char (n mod 10)])"
  by pat_completeness auto
termination by (relation "measure nat") auto

declare utoa.simps [simp del]

definition itoa :: "int \<Rightarrow> string" where
  "itoa i = (if i < 0 then CHR ''-'' # utoa (- i) else utoa i)"

subsection \<open>Byte strings\<close>

definition starts_with :: "string \<Rightarrow> string \<Rightarrow> bool" where
  "starts_with p s \<longleftrightarrow> take (length p) s = p"

lemma starts_with_iff: "starts_with p s \<longleftrightarrow> (\<exists>t. s = p @ t)"
  by (auto simp: starts_with_def) (metis append_take_drop_id)

definition trim_prefix :: "string \<Rightarrow> string \<Rightarrow> string" where
  "trim_prefix p s = (if starts_with p s then drop (length p) s else s)"

text \<open>\<open>strings.Split\<close> for a separator of one byte.\<close>

fun split_on :: "char \<Rightarrow> string \<Rightarrow> string list" where
  "split_on c [] = [[]]"
| "split_on c (x # xs) =
     (if x = c then [] # split_on c xs
      else (case split_on c xs of [] \<Rightarrow> [[x]] | p # ps \<Rightarrow> (x # p) # ps))"

lemma split_on_nonempty [simp]: "split_on c s \<noteq> []"
  by (induction s) (auto split: list.splits)

text \<open>
  \<open>strings.TrimSpace\<close> removes the white space of Unicode from both ends. The list
  holds the UTF-8 encoding of every such character; since the encoding is
  self-synchronising, looking for one of these encodings at either end is what the
  decoder of the library does.
\<close>

definition whitespace :: "string list" where
  "whitespace =
     [[CHR 0x09], [CHR 0x0A], [CHR 0x0B], [CHR 0x0C], [CHR 0x0D], [CHR 0x20],
      [CHR 0xC2, CHR 0x85], [CHR 0xC2, CHR 0xA0], [CHR 0xE1, CHR 0x9A, CHR 0x80],
      [CHR 0xE2, CHR 0x80, CHR 0x80], [CHR 0xE2, CHR 0x80, CHR 0x81],
      [CHR 0xE2, CHR 0x80, CHR 0x82], [CHR 0xE2, CHR 0x80, CHR 0x83],
      [CHR 0xE2, CHR 0x80, CHR 0x84], [CHR 0xE2, CHR 0x80, CHR 0x85],
      [CHR 0xE2, CHR 0x80, CHR 0x86], [CHR 0xE2, CHR 0x80, CHR 0x87],
      [CHR 0xE2, CHR 0x80, CHR 0x88], [CHR 0xE2, CHR 0x80, CHR 0x89],
      [CHR 0xE2, CHR 0x80, CHR 0x8A], [CHR 0xE2, CHR 0x80, CHR 0xA8],
      [CHR 0xE2, CHR 0x80, CHR 0xA9], [CHR 0xE2, CHR 0x80, CHR 0xAF],
      [CHR 0xE2, CHR 0x81, CHR 0x9F], [CHR 0xE3, CHR 0x80, CHR 0x80]]"

function strip :: "string list \<Rightarrow> string \<Rightarrow> string" where
  "strip ws s =
     (case find (\<lambda>w. w \<noteq> [] \<and> starts_with w s) ws of
        None \<Rightarrow> s
      | Some w \<Rightarrow> strip ws (drop (length w) s))"
  by pat_completeness auto
termination
proof (relation "measure (length o snd)", simp, goal_cases)
  case (1 ws s w)
  then have "w \<noteq> []" and "starts_with w s"
    by (auto simp: find_Some_iff)
  then show ?case by (auto simp: starts_with_iff)
qed

declare strip.simps [simp del]

definition trim_space :: "string \<Rightarrow> string" where
  "trim_space s = rev (strip (map rev whitespace) (rev (strip whitespace s)))"

lemma strip_None: "find (\<lambda>w. w \<noteq> [] \<and> starts_with w s) ws = None \<Longrightarrow> strip ws s = s"
  by (subst strip.simps) simp

lemma strip_Some:
  "find (\<lambda>w. w \<noteq> [] \<and> starts_with w s) ws = Some w \<Longrightarrow> strip ws s = strip ws (drop (length w) s)"
  by (subst strip.simps) simp

lemma strip_suffix: "\<exists>u. s = u @ strip ws s"
proof (induction ws s rule: strip.induct)
  case (1 ws s)
  show ?case
  proof (cases "find (\<lambda>w. w \<noteq> [] \<and> starts_with w s) ws")
    case None
    then show ?thesis by (simp add: strip_None)
  next
    case (Some w)
    then have "starts_with w s" by (auto simp: find_Some_iff)
    then obtain t where s: "s = w @ t" by (auto simp: starts_with_iff)
    from "1.IH" [OF Some] obtain u where "drop (length w) s = u @ strip ws s"
      unfolding strip_Some [OF Some] by blast
    with s have "s = (w @ u) @ strip ws s" by simp
    then show ?thesis by blast
  qed
qed

lemma strip_length: "length (strip ws s) \<le> length s"
  using strip_suffix [of s ws] by (metis length_append le_add2)

lemma trim_space_length: "length (trim_space s) \<le> length s"
  unfolding trim_space_def
  using strip_length [of "map rev whitespace" "rev (strip whitespace s)"] strip_length [of whitespace s]
  by simp

lemma strip_stop: "w \<in> set ws \<Longrightarrow> w \<noteq> [] \<Longrightarrow> \<not> starts_with w (strip ws s)"
proof (induction ws s rule: strip.induct)
  case (1 ws s)
  show ?case
  proof (cases "find (\<lambda>w. w \<noteq> [] \<and> starts_with w s) ws")
    case None
    with "1.prems" show ?thesis by (simp add: strip_None) (auto simp: find_None_iff)
  next
    case (Some v)
    then show ?thesis using "1.IH" [OF Some "1.prems"] by (simp add: strip_Some)
  qed
qed

lemma strip_fixed: "(\<And>w. w \<in> set ws \<Longrightarrow> w \<noteq> [] \<Longrightarrow> \<not> starts_with w s) \<Longrightarrow> strip ws s = s"
  by (rule strip_None) (auto simp: find_None_iff)

lemma starts_with_append: "starts_with w s \<Longrightarrow> starts_with w (s @ t)"
  by (auto simp: starts_with_iff)

lemma trim_space_idem [simp]: "trim_space (trim_space s) = trim_space s"
proof -
  define a where "a = strip whitespace s"
  define b where "b = strip (map rev whitespace) (rev a)"
  from strip_suffix [of "rev a" "map rev whitespace"] obtain u where "rev a = u @ b"
    unfolding b_def by blast
  then have a: "a = rev b @ rev u" by (metis rev_append rev_rev_ident)
  have "strip whitespace (rev b) = rev b"
  proof (rule strip_fixed)
    fix w assume "w \<in> set whitespace" "w \<noteq> []"
    then have "\<not> starts_with w a" unfolding a_def by (rule strip_stop)
    then show "\<not> starts_with w (rev b)" using starts_with_append unfolding a by blast
  qed
  moreover have "strip (map rev whitespace) b = b"
    unfolding b_def by (rule strip_fixed) (rule strip_stop)
  ultimately show ?thesis by (simp add: trim_space_def a_def [symmetric] b_def [symmetric])
qed

subsection \<open>Tables\<close>

text \<open>
  A table is the list of its rows. \<open>UPDATE ... SET f WHERE P\<close> is \<open>update_where\<close>,
  \<open>ORDER BY\<close> is \<open>sort_by\<close> for a strict order, and \<open>evolves\<close> relates two states of a
  table in which rows were changed in place along \<open>R\<close> and rows were added at the end.
\<close>

definition update_where :: "('r \<Rightarrow> bool) \<Rightarrow> ('r \<Rightarrow> 'r) \<Rightarrow> 'r list \<Rightarrow> 'r list" where
  "update_where P f rows = map (\<lambda>r. if P r then f r else r) rows"

definition affected :: "('r \<Rightarrow> bool) \<Rightarrow> 'r list \<Rightarrow> nat" where
  "affected P rows = length (filter P rows)"

lemma length_update_where [simp]: "length (update_where P f rows) = length rows"
  by (simp add: update_where_def)

lemma set_update_where:
  "set (update_where P f rows) = (\<lambda>r. if P r then f r else r) ` set rows"
  by (simp add: update_where_def)

lemma map_update_where:
  "(\<And>r. P r \<Longrightarrow> g (f r) = g r) \<Longrightarrow> map g (update_where P f rows) = map g rows"
  by (auto simp: update_where_def)

fun insert_by :: "('a \<Rightarrow> 'a \<Rightarrow> bool) \<Rightarrow> 'a \<Rightarrow> 'a list \<Rightarrow> 'a list" where
  "insert_by before x [] = [x]"
| "insert_by before x (y # ys) = (if before y x then y # insert_by before x ys else x # y # ys)"

definition sort_by :: "('a \<Rightarrow> 'a \<Rightarrow> bool) \<Rightarrow> 'a list \<Rightarrow> 'a list" where
  "sort_by before xs = foldr (insert_by before) xs []"

lemma set_insert_by [simp]: "set (insert_by before x ys) = insert x (set ys)"
  by (induction ys) auto

lemma set_sort_by [simp]: "set (sort_by before xs) = set xs"
  by (induction xs) (auto simp: sort_by_def)

lemma length_insert_by [simp]: "length (insert_by before x ys) = Suc (length ys)"
  by (induction ys) auto

lemma length_sort_by [simp]: "length (sort_by before xs) = length xs"
  by (induction xs) (auto simp: sort_by_def)

lemma distinct_insert_by: "distinct (map g (insert_by before x ys)) \<longleftrightarrow> distinct (map g (x # ys))"
  by (induction ys) auto

lemma distinct_sort_by [simp]: "distinct (map g (sort_by before xs)) \<longleftrightarrow> distinct (map g xs)"
proof (induction xs)
  case Nil
  then show ?case by (simp add: sort_by_def)
next
  case (Cons x xs)
  have "sort_by before (x # xs) = insert_by before x (sort_by before xs)" by (simp add: sort_by_def)
  then show ?case using Cons by (simp add: distinct_insert_by)
qed

definition evolves :: "('r \<Rightarrow> 'r \<Rightarrow> bool) \<Rightarrow> 'r list \<Rightarrow> 'r list \<Rightarrow> bool" where
  "evolves R xs ys \<longleftrightarrow> length xs \<le> length ys \<and> (\<forall>i < length xs. R (xs ! i) (ys ! i))"

lemma evolves_refl: "(\<And>x. R x x) \<Longrightarrow> evolves R xs xs"
  by (simp add: evolves_def)

lemma evolves_trans:
  "(\<And>x y z. R x y \<Longrightarrow> R y z \<Longrightarrow> R x z) \<Longrightarrow> evolves R xs ys \<Longrightarrow> evolves R ys zs \<Longrightarrow> evolves R xs zs"
  unfolding evolves_def by (metis le_trans less_le_trans)

lemma evolves_update_where:
  "(\<And>x. x \<in> set xs \<Longrightarrow> P x \<Longrightarrow> R x (f x)) \<Longrightarrow> (\<And>x. R x x) \<Longrightarrow> evolves R xs (update_where P f xs)"
  by (simp add: evolves_def update_where_def)

lemma evolves_append: "(\<And>x. R x x) \<Longrightarrow> evolves R xs (xs @ ys)"
  by (simp add: evolves_def nth_append)

lemma evolvesD: "evolves R xs ys \<Longrightarrow> x \<in> set xs \<Longrightarrow> \<exists>y \<in> set ys. R x y"
  unfolding evolves_def by (metis in_set_conv_nth nth_mem order_less_le_trans)

lemma evolves_cases:
  assumes "evolves R xs ys" and "y \<in> set ys"
  obtains x where "x \<in> set xs" "R x y" | "y \<in> set (drop (length xs) ys)"
proof -
  from assms(2) obtain i where i: "i < length ys" "y = ys ! i" by (auto simp: in_set_conv_nth)
  show thesis
  proof (cases "i < length xs")
    case True
    with assms(1) i that(1) [of "xs ! i"] show thesis by (simp add: evolves_def)
  next
    case False
    then have "drop (length xs) ys ! (i - length xs) = y" using i by simp
    then have "y \<in> set (drop (length xs) ys)" using i False by (metis length_drop diff_less_mono not_less nth_mem)
    then show thesis by (rule that(2))
  qed
qed

subsection \<open>Effectful functions\<close>

text \<open>
  An effectful Go function is a state transformer. \<open>bind_ok\<close> is the idiom
  \<open>x, err := m; if err != nil \<lbrace> return err \<rbrace>\<close>.
\<close>

definition bind_ok ::
  "('s, 'e + 'a) state \<Rightarrow> ('a \<Rightarrow> ('s, 'e + 'b) state) \<Rightarrow> ('s, 'e + 'b) state" where
  "bind_ok m f = do {
     r \<leftarrow> m;
     case r of Inl e \<Rightarrow> State_Monad.return (Inl e) | Inr x \<Rightarrow> f x }"

lemma run_bind_ok [simp]:
  "run_state (bind_ok m f) s =
     (case run_state m s of
        (Inl e, s') \<Rightarrow> (Inl e, s')
      | (Inr x, s') \<Rightarrow> run_state (f x) s')"
  by (auto simp: bind_ok_def split: prod.split sum.split)

subsection \<open>Judgements on effectful functions\<close>

text \<open>
  \<open>steps G m\<close>: every run of \<open>m\<close> relates its initial to its final state by \<open>G\<close>.
  \<open>moves P G m Q\<close>: every run from a state that satisfies \<open>P\<close> does so and ends with a
  result and a state that satisfy \<open>Q\<close>.
\<close>

definition steps :: "('s \<Rightarrow> 's \<Rightarrow> bool) \<Rightarrow> ('s, 'a) state \<Rightarrow> bool" where
  "steps G m \<longleftrightarrow> (\<forall>s. G s (snd (run_state m s)))"

definition moves ::
  "('s \<Rightarrow> bool) \<Rightarrow> ('s \<Rightarrow> 's \<Rightarrow> bool) \<Rightarrow> ('s, 'a) state \<Rightarrow> ('a \<Rightarrow> 's \<Rightarrow> bool) \<Rightarrow> bool" where
  "moves P G m Q \<longleftrightarrow>
     (\<forall>s. P s \<longrightarrow> G s (snd (run_state m s)) \<and> Q (fst (run_state m s)) (snd (run_state m s)))"

lemma stepsI: "(\<And>s. G s (snd (run_state m s))) \<Longrightarrow> steps G m"
  by (simp add: steps_def)

lemma stepsD: "steps G m \<Longrightarrow> run_state m s = (x, s') \<Longrightarrow> G s s'"
  by (metis steps_def snd_conv)

lemma movesD:
  "moves P G m Q \<Longrightarrow> P s \<Longrightarrow> run_state m s = (x, s') \<Longrightarrow> G s s' \<and> Q x s'"
  by (metis moves_def fst_conv snd_conv)

lemma moves_pre: "moves P' G m Q \<Longrightarrow> (\<And>s. P s \<Longrightarrow> P' s) \<Longrightarrow> moves P G m Q"
  by (simp add: moves_def)

lemma moves_post: "moves P G m Q' \<Longrightarrow> (\<And>x s. Q' x s \<Longrightarrow> Q x s) \<Longrightarrow> moves P G m Q"
  by (simp add: moves_def)

lemma steps_moves:
  "steps G m \<Longrightarrow> (\<And>s x s'. P s \<Longrightarrow> G s s' \<Longrightarrow> Q x s') \<Longrightarrow> moves P G m Q"
  by (simp add: steps_def moves_def)

lemma moves_steps: "moves (\<lambda>_. True) G m Q \<Longrightarrow> steps G m"
  by (simp add: steps_def moves_def)

text \<open>\<open>returns m R\<close>: whatever the initial state, the result of \<open>m\<close> satisfies \<open>R\<close>.\<close>

definition returns :: "('s, 'a) state \<Rightarrow> ('a \<Rightarrow> bool) \<Rightarrow> bool" where
  "returns m R \<longleftrightarrow> (\<forall>s. R (fst (run_state m s)))"

lemma returns_return: "R x \<Longrightarrow> returns (State_Monad.return x) R"
  by (simp add: returns_def)

lemma returns_any: "returns m (\<lambda>_. True)"
  by (simp add: returns_def)

lemma returns_post: "returns m Q \<Longrightarrow> (\<And>x. Q x \<Longrightarrow> R x) \<Longrightarrow> returns m R"
  by (simp add: returns_def)

lemma returns_via:
  "returns m Q \<Longrightarrow> (\<And>x. Q x \<Longrightarrow> returns (f x) R) \<Longrightarrow> returns (State_Monad.bind m f) R"
  by (simp add: returns_def split_beta)

lemma returns_bind: "(\<And>x. returns (f x) R) \<Longrightarrow> returns (State_Monad.bind m f) R"
  by (rule returns_via [OF returns_any])

lemma returns_bind_ok:
  "(\<And>e. R (Inl e)) \<Longrightarrow> (\<And>x. returns (f x) R) \<Longrightarrow> returns (bind_ok m f) R"
  unfolding bind_ok_def by (rule returns_bind) (auto intro: returns_return split: sum.split)

lemma returns_if:
  "(b \<Longrightarrow> returns m R) \<Longrightarrow> (\<not> b \<Longrightarrow> returns m' R) \<Longrightarrow> returns (if b then m else m') R"
  by simp

lemma returns_sum:
  "(\<And>a. x = Inl a \<Longrightarrow> returns (f a) R) \<Longrightarrow> (\<And>b. x = Inr b \<Longrightarrow> returns (g b) R) \<Longrightarrow>
     returns (case x of Inl a \<Rightarrow> f a | Inr b \<Rightarrow> g b) R"
  by (cases x) auto

lemma returns_option:
  "(x = None \<Longrightarrow> returns m R) \<Longrightarrow> (\<And>a. x = Some a \<Longrightarrow> returns (f a) R) \<Longrightarrow>
     returns (case x of None \<Rightarrow> m | Some a \<Rightarrow> f a) R"
  by (cases x) auto

lemma returns_prod:
  "(\<And>a b. x = (a, b) \<Longrightarrow> returns (f a b) R) \<Longrightarrow> returns (case x of (a, b) \<Rightarrow> f a b) R"
  by (cases x) auto

lemmas returns_syntax = returns_return returns_bind returns_bind_ok returns_if returns_sum
  returns_option returns_prod

text \<open>
  A relation on states that is reflexive and transitive is a guarantee: what one
  call ensures, every program made of such calls ensures.
\<close>

locale guarantee =
  fixes G :: "'s \<Rightarrow> 's \<Rightarrow> bool"
  assumes G_refl: "G s s"
    and G_trans: "G s t \<Longrightarrow> G t u \<Longrightarrow> G s u"
begin

lemma steps_return: "steps G (State_Monad.return x)"
  by (simp add: steps_def G_refl)

lemma steps_get: "steps G State_Monad.get"
  by (simp add: steps_def G_refl)

lemma steps_bind: "steps G m \<Longrightarrow> (\<And>x. steps G (f x)) \<Longrightarrow> steps G (State_Monad.bind m f)"
  unfolding steps_def by (simp add: split_beta) (blast intro: G_trans)

lemma steps_via:
  "steps G m \<Longrightarrow> returns m Q \<Longrightarrow> (\<And>x. Q x \<Longrightarrow> steps G (f x)) \<Longrightarrow> steps G (State_Monad.bind m f)"
  unfolding steps_def returns_def by (simp add: split_beta) (blast intro: G_trans)

lemma steps_bind_ok: "steps G m \<Longrightarrow> (\<And>x. steps G (f x)) \<Longrightarrow> steps G (bind_ok m f)"
  unfolding bind_ok_def by (rule steps_bind) (auto intro: steps_return split: sum.split)

lemma steps_if: "(b \<Longrightarrow> steps G m) \<Longrightarrow> (\<not> b \<Longrightarrow> steps G m') \<Longrightarrow> steps G (if b then m else m')"
  by simp

lemma steps_sum:
  "(\<And>a. x = Inl a \<Longrightarrow> steps G (f a)) \<Longrightarrow> (\<And>b. x = Inr b \<Longrightarrow> steps G (g b)) \<Longrightarrow>
     steps G (case x of Inl a \<Rightarrow> f a | Inr b \<Rightarrow> g b)"
  by (cases x) auto

lemma steps_option:
  "(x = None \<Longrightarrow> steps G m) \<Longrightarrow> (\<And>a. x = Some a \<Longrightarrow> steps G (f a)) \<Longrightarrow>
     steps G (case x of None \<Rightarrow> m | Some a \<Rightarrow> f a)"
  by (cases x) auto

lemma steps_prod: "(\<And>a b. x = (a, b) \<Longrightarrow> steps G (f a b)) \<Longrightarrow> steps G (case x of (a, b) \<Rightarrow> f a b)"
  by (cases x) auto

lemma steps_list:
  "(x = [] \<Longrightarrow> steps G m) \<Longrightarrow> (\<And>a as. x = a # as \<Longrightarrow> steps G (f a as)) \<Longrightarrow>
     steps G (case x of [] \<Rightarrow> m | a # as \<Rightarrow> f a as)"
  by (cases x) auto

lemma moves_return: "(\<And>s. P s \<Longrightarrow> Q x s) \<Longrightarrow> moves P G (State_Monad.return x) Q"
  by (simp add: moves_def G_refl)

lemma moves_bind:
  "moves P G m R \<Longrightarrow> (\<And>x. moves (R x) G (f x) Q) \<Longrightarrow> moves P G (State_Monad.bind m f) Q"
  unfolding moves_def by (simp add: split_beta) (blast intro: G_trans)

lemma moves_bind_ok:
  assumes "moves P G m R" and "\<And>e s. R (Inl e) s \<Longrightarrow> Q (Inl e) s"
    and "\<And>x. moves (R (Inr x)) G (f x) Q"
  shows "moves P G (bind_ok m f) Q"
  unfolding bind_ok_def
  by (rule moves_bind [OF assms(1)]) (auto intro: moves_return assms split: sum.split)

lemma moves_if:
  "(b \<Longrightarrow> moves P G m Q) \<Longrightarrow> (\<not> b \<Longrightarrow> moves P G m' Q) \<Longrightarrow> moves P G (if b then m else m') Q"
  by simp

lemma moves_sum:
  "(\<And>a. x = Inl a \<Longrightarrow> moves P G (f a) Q) \<Longrightarrow> (\<And>b. x = Inr b \<Longrightarrow> moves P G (g b) Q) \<Longrightarrow>
     moves P G (case x of Inl a \<Rightarrow> f a | Inr b \<Rightarrow> g b) Q"
  by (cases x) auto

lemma moves_option:
  "(x = None \<Longrightarrow> moves P G m Q) \<Longrightarrow> (\<And>a. x = Some a \<Longrightarrow> moves P G (f a) Q) \<Longrightarrow>
     moves P G (case x of None \<Rightarrow> m | Some a \<Rightarrow> f a) Q"
  by (cases x) auto

lemma moves_prod:
  "(\<And>a b. x = (a, b) \<Longrightarrow> moves P G (f a b) Q) \<Longrightarrow> moves P G (case x of (a, b) \<Rightarrow> f a b) Q"
  by (cases x) auto

lemmas moves_syntax = moves_bind moves_bind_ok moves_if moves_sum moves_option moves_prod

lemmas steps_syntax = steps_return steps_get steps_bind steps_bind_ok steps_if steps_sum
  steps_option steps_prod steps_list

end

end
