(* ===== verification/Float64.thy ===== *)
theory Float64
  imports Prelude
begin

text \<open>
  IEEE 754 binary64 numbers as the rationals they denote: rounding of an exact
  result to the nearest representable number, ties to even, and the shortest
  decimal text that reads back as the same number. Infinities, NaN and the sign of
  zero are outside the model; no computation of the services reaches them from
  finite operands below \<open>2 ^ 1024\<close>.
\<close>

function bit_len :: "int \<Rightarrow> int" where
  "bit_len n = (if n \<le> 0 then 0 else bit_len (n div 2) + 1)"
  by pat_completeness auto
termination by (relation "measure nat") auto

declare bit_len.simps [simp del]

definition pow2 :: "int \<Rightarrow> rat" where
  "pow2 i = (if 0 \<le> i then 2 ^ nat i else 1 / 2 ^ nat (- i))"

definition pow10 :: "int \<Rightarrow> rat" where
  "pow10 i = (if 0 \<le> i then 10 ^ nat i else 1 / 10 ^ nat (- i))"

definition round_even :: "rat \<Rightarrow> int" where
  "round_even q =
     (let f = \<lfloor>q\<rfloor>; r = q - of_int f
      in if r < 1 / 2 then f else if 1 / 2 < r then f + 1 else if even f then f else f + 1)"

text \<open>The exponent \<open>e\<close> with \<open>2 ^ e \<le> x < 2 ^ (e + 1)\<close>, for \<open>0 < x\<close>.\<close>

definition exponent2 :: "rat \<Rightarrow> int" where
  "exponent2 x =
     (case quotient_of x of (n, d) \<Rightarrow>
        let e = bit_len n - bit_len d
        in if pow2 e \<le> x then e else e - 1)"

definition fl_pos :: "rat \<Rightarrow> rat" where
  "fl_pos x = (let u = max (exponent2 x - 52) (- 1074) in of_int (round_even (x / pow2 u)) * pow2 u)"

definition fl :: "rat \<Rightarrow> rat" where
  "fl x = (if x = 0 then 0 else if x < 0 then - fl_pos (- x) else fl_pos x)"

subsection \<open>Shortest decimal text\<close>

fun small_exponent10 :: "nat \<Rightarrow> rat \<Rightarrow> int" where
  "small_exponent10 0 x = 0"
| "small_exponent10 (Suc fuel) x = (if 1 \<le> x then 0 else small_exponent10 fuel (x * 10) - 1)"

text \<open>
  The exponent \<open>e\<close> with \<open>10 ^ e \<le> x < 10 ^ (e + 1)\<close>. The smallest binary64 number
  is above \<open>10 ^ -324\<close>, so 400 steps are enough.
\<close>

definition exponent10 :: "rat \<Rightarrow> int" where
  "exponent10 x =
     (if 1 \<le> x then int (length (utoa \<lfloor>x\<rfloor>)) - 1 else small_exponent10 400 x)"

definition candidates :: "rat \<Rightarrow> nat \<Rightarrow> (int \<times> int) list" where
  "candidates x n =
     (let k = exponent10 x - int n + 1; q = \<lfloor>x / pow10 k\<rfloor>
      in filter (\<lambda>(d, k). fl (of_int d * pow10 k) = x) [(q, k), (q + 1, k)])"

definition nearest :: "rat \<Rightarrow> (int \<times> int) list \<Rightarrow> (int \<times> int) option" where
  "nearest x cs =
     (case cs of
        [] \<Rightarrow> None
      | [c] \<Rightarrow> Some c
      | (d, k) # (d', k') # _ \<Rightarrow>
          Some (if \<bar>x - of_int d * pow10 k\<bar> \<le> \<bar>x - of_int d' * pow10 k'\<bar> then (d, k) else (d', k')))"

text \<open>Seventeen digits always identify a binary64 number.\<close>

definition shortest :: "rat \<Rightarrow> int \<times> int" where
  "shortest x =
     (case List.map_filter (\<lambda>n. nearest x (candidates x n)) [1..<18] of
        [] \<Rightarrow> (\<lfloor>x\<rfloor>, 0)
      | c # _ \<Rightarrow> c)"

text \<open>
  The number text of \<open>encoding/json\<close>: positional between \<open>10 ^ -6\<close> and \<open>10 ^ 21\<close>,
  scientific outside.
\<close>

definition positional :: "int \<times> int \<Rightarrow> string" where
  "positional dk =
     (case dk of (d, k) \<Rightarrow>
        let ds = utoa d in
        if 0 \<le> k then ds @ replicate (nat k) CHR ''0''
        else let p = int (length ds) + k in
          if 0 < p then take (nat p) ds @ ''.'' @ drop (nat p) ds
          else ''0.'' @ replicate (nat (- p)) CHR ''0'' @ ds)"

definition scientific :: "int \<times> int \<Rightarrow> string" where
  "scientific dk =
     (case dk of (d, k) \<Rightarrow>
        let ds = utoa d; e = k + int (length ds) - 1 in
        take 1 ds @ (if length ds = 1 then [] else ''.'' @ drop 1 ds) @ ''e'' @
        (if e < 0 then ''-'' else ''+'') @ utoa \<bar>e\<bar>)"

definition float_text :: "rat \<Rightarrow> string" where
  "float_text x =
     (if x = 0 then ''0''
      else let y = \<bar>x\<bar> in
        (if x < 0 then ''-'' else []) @
        (if y < pow10 (- 6) \<or> pow10 21 \<le> y then scientific (shortest y)
         else positional (shortest y)))"

end
