(* ===== verification/Go_Json.thy ===== *)
theory Go_Json
  imports Float64
begin

text \<open>
  JSON as the services see it. A value of the Go type \<open>any\<close> that came from
  \<open>encoding/json\<close> is a \<open>json\<close>; an object is the list of its members in increasing
  key order without repetitions, so that \<open>reflect.DeepEqual\<close> is equality. A
  \<open>json.RawMessage\<close> is empty, or text that is not JSON, or a document. The model
  keeps documents as trees: the white space of a stored document and the spelling of
  its numbers are not part of it. \<open>json.Marshal\<close> is \<open>json_text\<close>; decoding an object
  into a struct with \<open>DisallowUnknownFields\<close> is \<open>decode_members\<close>.
\<close>

datatype json =
    JNull
  | JBool bool
  | JNum rat
  | JStr string
  | JArr "json list"
  | JObj "(string \<times> json) list"

datatype raw = RawNil | RawBad string | RawDoc json

definition raw_empty :: "raw \<Rightarrow> bool" where
  "raw_empty r \<longleftrightarrow> r = RawNil"

text \<open>\<open>bytes.Equal(bytes.TrimSpace(raw), []byte("null"))\<close>\<close>

definition raw_null :: "raw \<Rightarrow> bool" where
  "raw_null r \<longleftrightarrow> r = RawDoc JNull"

text \<open>\<open>json.Valid\<close>\<close>

definition raw_valid :: "raw \<Rightarrow> bool" where
  "raw_valid r \<longleftrightarrow> (case r of RawDoc _ \<Rightarrow> True | _ \<Rightarrow> False)"

text \<open>The error text of the scanner names the offending byte; the model keeps the common part.\<close>

definition syntax_error :: string where
  "syntax_error = ''invalid character in JSON input''"

text \<open>\<open>json.Unmarshal(raw, &value)\<close> for a variable of type \<open>any\<close>\<close>

definition unmarshal_any :: "raw \<Rightarrow> string + json" where
  "unmarshal_any r =
     (case r of
        RawNil \<Rightarrow> Inl ''unexpected end of JSON input''
      | RawBad _ \<Rightarrow> Inl syntax_error
      | RawDoc j \<Rightarrow> Inr j)"

subsection \<open>Objects as maps\<close>

text \<open>Byte-wise comparison of strings, the order of map keys in \<open>json.Marshal\<close> and of \<open>\<less>\<close> on Go strings.\<close>

fun str_less :: "string \<Rightarrow> string \<Rightarrow> bool" where
  "str_less [] [] = False"
| "str_less [] (_ # _) = True"
| "str_less (_ # _) [] = False"
| "str_less (x # xs) (y # ys) =
     (of_char x < (of_char y :: nat) \<or> x = y \<and> str_less xs ys)"

fun put :: "string \<Rightarrow> 'a \<Rightarrow> (string \<times> 'a) list \<Rightarrow> (string \<times> 'a) list" where
  "put k v [] = [(k, v)]"
| "put k v ((k', v') # ms) =
     (if k = k' then (k, v) # ms
      else if str_less k k' then (k, v) # (k', v') # ms
      else (k', v') # put k v ms)"

lemma map_of_put [simp]: "map_of (put k v ms) = (map_of ms)(k \<mapsto> v)"
  by (induction k v ms rule: put.induct) auto

subsection \<open>Encoding\<close>

text \<open>
  \<open>utf8.DecodeRuneInString\<close>: the rune at the front and its width; the replacement
  character with width one for an invalid encoding.
\<close>

definition byte :: "string \<Rightarrow> nat \<Rightarrow> int" where
  "byte s i = (if i < length s then int (of_char (s ! i)) else - 1)"

definition cont :: "int \<Rightarrow> int \<Rightarrow> int \<Rightarrow> bool" where
  "cont lo hi b \<longleftrightarrow> lo \<le> b \<and> b \<le> hi"

definition decode_rune :: "string \<Rightarrow> int \<times> nat" where
  "decode_rune s =
     (let b0 = byte s 0; b1 = byte s 1; b2 = byte s 2; b3 = byte s 3 in
      if b0 < 0x80 then (b0, 1)
      else if 0xC2 \<le> b0 \<and> b0 \<le> 0xDF \<and> cont 0x80 0xBF b1
      then ((b0 - 0xC0) * 64 + (b1 - 0x80), 2)
      else if 0xE0 \<le> b0 \<and> b0 \<le> 0xEF \<and>
        cont (if b0 = 0xE0 then 0xA0 else 0x80) (if b0 = 0xED then 0x9F else 0xBF) b1 \<and>
        cont 0x80 0xBF b2
      then ((b0 - 0xE0) * 4096 + (b1 - 0x80) * 64 + (b2 - 0x80), 3)
      else if 0xF0 \<le> b0 \<and> b0 \<le> 0xF4 \<and>
        cont (if b0 = 0xF0 then 0x90 else 0x80) (if b0 = 0xF4 then 0x8F else 0xBF) b1 \<and>
        cont 0x80 0xBF b2 \<and> cont 0x80 0xBF b3
      then ((b0 - 0xF0) * 262144 + (b1 - 0x80) * 4096 + (b2 - 0x80) * 64 + (b3 - 0x80), 4)
      else (0xFFFD, 1))"

lemma decode_rune_width: "0 < snd (decode_rune s)"
  by (simp add: decode_rune_def Let_def)

definition hex_digit :: "int \<Rightarrow> char" where
  "hex_digit d = ''0123456789abcdef'' ! nat d"

definition quote_rune :: "string \<Rightarrow> int \<times> nat \<Rightarrow> string" where
  "quote_rune s rw =
     (case rw of (r, w) \<Rightarrow>
        if r = 0x22 then [CHR 0x5C, CHR 0x22]
        else if r = 0x5C then [CHR 0x5C, CHR 0x5C]
        else if r = 0x08 then [CHR 0x5C, CHR ''b'']
        else if r = 0x0C then [CHR 0x5C, CHR ''f'']
        else if r = 0x0A then [CHR 0x5C, CHR ''n'']
        else if r = 0x0D then [CHR 0x5C, CHR ''r'']
        else if r = 0x09 then [CHR 0x5C, CHR ''t'']
        else if r < 0x20 \<or> r = 0x3C \<or> r = 0x3E \<or> r = 0x26
        then [CHR 0x5C] @ ''u00'' @ [hex_digit (r div 16), hex_digit (r mod 16)]
        else if r = 0xFFFD \<and> w = 1 then [CHR 0x5C] @ ''ufffd''
        else if r = 0x2028 then [CHR 0x5C] @ ''u2028''
        else if r = 0x2029 then [CHR 0x5C] @ ''u2029''
        else take w s)"

function quote_body :: "string \<Rightarrow> string" where
  "quote_body s =
     (if s = [] then [] else quote_rune s (decode_rune s) @ quote_body (drop (snd (decode_rune s)) s))"
  by pat_completeness auto
termination
  by (relation "measure length") (auto simp: decode_rune_width)

declare quote_body.simps [simp del]

definition quote :: "string \<Rightarrow> string" where
  "quote s = [CHR 0x22] @ quote_body s @ [CHR 0x22]"

fun join :: "string \<Rightarrow> string list \<Rightarrow> string" where
  "join sep [] = []"
| "join sep [x] = x"
| "join sep (x # y # ys) = x @ sep @ join sep (y # ys)"

fun json_text :: "json \<Rightarrow> string" where
  "json_text JNull = ''null''"
| "json_text (JBool b) = (if b then ''true'' else ''false'')"
| "json_text (JNum x) = float_text x"
| "json_text (JStr s) = quote s"
| "json_text (JArr js) = ''['' @ join '','' (map json_text js) @ '']''"
| "json_text (JObj ms) =
     ''{'' @ join '','' (map (\<lambda>(k, j). quote k @ '':'' @ json_text j) ms) @ ''}''"

text \<open>\<open>len(raw)\<close>: of a document, the length of its compact text.\<close>

definition raw_len :: "raw \<Rightarrow> nat" where
  "raw_len r =
     (case r of RawNil \<Rightarrow> 0 | RawBad s \<Rightarrow> max 1 (length s) | RawDoc j \<Rightarrow> length (json_text j))"

subsection \<open>Decoding an object into a struct\<close>

text \<open>
  Keys match field names exactly or else under case folding. The only characters
  outside ASCII that fold to an ASCII letter are the long s and the Kelvin sign.
\<close>

definition upper :: "char \<Rightarrow> char" where
  "upper c = (if 97 \<le> (of_char c :: nat) \<and> (of_char c :: nat) \<le> 122 then char_of (of_char c - 32 :: nat) else c)"

fun fold_name :: "string \<Rightarrow> string" where
  "fold_name [] = []"
| "fold_name (c # cs) =
     (case c # cs of
        CHR 0xC5 # CHR 0xBF # rest \<Rightarrow> CHR ''S'' # fold_name rest
      | CHR 0xE2 # CHR 0x84 # CHR 0xAA # rest \<Rightarrow> CHR ''K'' # fold_name rest
      | _ \<Rightarrow> upper c # fold_name cs)"

text \<open>
  A field is its name and the assignment of a JSON value to it: an error of the
  decoder, or the updated struct. An error is saved and decoding goes on; the first
  one is what \<open>Decode\<close> returns.
\<close>

type_synonym 'r field = "string \<times> (json \<Rightarrow> 'r \<Rightarrow> string + 'r)"

definition find_field :: "'r field list \<Rightarrow> string \<Rightarrow> 'r field option" where
  "find_field fs k =
     (case find (\<lambda>f. fst f = k) fs of
        Some f \<Rightarrow> Some f
      | None \<Rightarrow> find (\<lambda>f. fold_name (fst f) = fold_name k) fs)"

fun decode_members ::
  "'r field list \<Rightarrow> (string \<times> json) list \<Rightarrow> string option \<Rightarrow> 'r \<Rightarrow> string option \<times> 'r" where
  "decode_members fs [] saved r = (saved, r)"
| "decode_members fs ((k, j) # ms) saved r =
     (case find_field fs k of
        None \<Rightarrow>
          decode_members fs ms
            (Some (case saved of
               None \<Rightarrow> ''json: unknown field '' @ [CHR 0x22] @ k @ [CHR 0x22]
             | Some e \<Rightarrow> e)) r
      | Some f \<Rightarrow>
          (case snd f j r of
             Inr r' \<Rightarrow> decode_members fs ms saved r'
           | Inl e \<Rightarrow> decode_members fs ms (Some (case saved of None \<Rightarrow> e | Some e' \<Rightarrow> e')) r))"

definition json_kind :: "json \<Rightarrow> string" where
  "json_kind j =
     (case j of JNull \<Rightarrow> ''null'' | JBool _ \<Rightarrow> ''bool'' | JNum _ \<Rightarrow> ''number'' | JStr _ \<Rightarrow> ''string''
      | JArr _ \<Rightarrow> ''array'' | JObj _ \<Rightarrow> ''object'')"

definition type_error :: "string \<Rightarrow> string \<Rightarrow> string \<Rightarrow> string" where
  "type_error what target type_name =
     ''json: cannot unmarshal '' @ what @ '' into Go struct field '' @ target @ '' of type '' @ type_name"

text \<open>
  Assignments to fields of type \<open>string\<close>, \<open>int\<close>, \<open>*bool\<close>, \<open>any\<close> and
  \<open>json.RawMessage\<close>. A number is accepted for an \<open>int\<close> when its text is an integer of
  64 bits. \<open>null\<close> leaves a string or an integer unchanged.
\<close>

definition string_field :: "string \<Rightarrow> (string \<Rightarrow> 'r \<Rightarrow> 'r) \<Rightarrow> json \<Rightarrow> 'r \<Rightarrow> string + 'r" where
  "string_field target upd j r =
     (case j of
        JStr s \<Rightarrow> Inr (upd s r)
      | JNull \<Rightarrow> Inr r
      | _ \<Rightarrow> Inl (type_error (json_kind j) target ''string''))"

definition int_text :: "rat \<Rightarrow> bool" where
  "int_text x \<longleftrightarrow> x = of_int \<lfloor>x\<rfloor> \<and> - (2 ^ 63) \<le> \<lfloor>x\<rfloor> \<and> \<lfloor>x\<rfloor> < 2 ^ 63"

definition int_field :: "string \<Rightarrow> (int \<Rightarrow> 'r \<Rightarrow> 'r) \<Rightarrow> json \<Rightarrow> 'r \<Rightarrow> string + 'r" where
  "int_field target upd j r =
     (case j of
        JNum x \<Rightarrow> if int_text x then Inr (upd \<lfloor>x\<rfloor> r)
                  else Inl (type_error (''number '' @ float_text x) target ''int'')
      | JNull \<Rightarrow> Inr r
      | _ \<Rightarrow> Inl (type_error (json_kind j) target ''int''))"

definition bool_ptr_field :: "string \<Rightarrow> (bool option \<Rightarrow> 'r \<Rightarrow> 'r) \<Rightarrow> json \<Rightarrow> 'r \<Rightarrow> string + 'r" where
  "bool_ptr_field target upd j r =
     (case j of
        JBool b \<Rightarrow> Inr (upd (Some b) r)
      | JNull \<Rightarrow> Inr (upd None r)
      | _ \<Rightarrow> Inl (type_error (json_kind j) target ''bool''))"

definition any_field :: "(json \<Rightarrow> 'r \<Rightarrow> 'r) \<Rightarrow> json \<Rightarrow> 'r \<Rightarrow> string + 'r" where
  "any_field upd j r = Inr (upd j r)"

definition raw_field :: "(raw \<Rightarrow> 'r \<Rightarrow> 'r) \<Rightarrow> json \<Rightarrow> 'r \<Rightarrow> string + 'r" where
  "raw_field upd j r = Inr (upd (RawDoc j) r)"

end
