(* ===== verification/Domain.thy ===== *)
theory Domain
  imports Go_Json
begin

text \<open>
  The entities of internal/domain: tasks and their life cycle (task.go), retry
  policies (job.go), sentinel errors (errors.go), workflow definitions and versions
  (workflow.go), workflow executions (workflow_execution.go), webhook endpoints and
  deliveries (webhook.go). A struct is a record whose fields carry the Go names
  behind a short prefix; a pointer is an option; an identifier is a number with
  \<open>uuid.Nil\<close> as \<open>0\<close>; an instant is its distance from the zero instant in
  nanoseconds, a duration is in nanoseconds.
\<close>

subsection \<open>Errors\<close>

text \<open>
  The sentinel errors the services return, and \<open>ErrInfra\<close> for an error of Postgres or
  Redis that wraps none of them. \<open>errors.Is\<close> on the wrapped form is equality here.
\<close>

datatype err =
    ErrTaskNotFound
  | ErrDuplicateIdempotencyKey
  | ErrTaskAlreadyLocked
  | ErrVisibilityExpired
  | ErrQueueEmpty
  | ErrInvalidPayload
  | ErrMaxAttemptsReached
  | ErrShutdownInProgress
  | ErrRateLimitExceeded
  | ErrInvalidInput
  | ErrIdempotencyConflict
  | ErrInvalidStateTransition
  | ErrUnauthorized
  | ErrDispatchUnavailable
  | ErrWebhookEndpointNotFound
  | ErrWebhookDeliveryNotFound
  | ErrWorkflowNotFound
  | ErrWorkflowVersionNotFound
  | ErrWorkflowSlugConflict
  | ErrWorkflowPublishConflict
  | ErrWorkflowNotPublished
  | ErrWorkflowExecutionNotFound
  | ErrWorkflowExecutionTerminal
  | ErrWorkflowExecutionIdempotencyConflict
  | ErrWorkflowNodeNotClaimed
  | ErrInfra string

fun error_text :: "err \<Rightarrow> string" where
  "error_text ErrTaskNotFound = ''task not found''"
| "error_text ErrDuplicateIdempotencyKey = ''task with idempotency key already exists''"
| "error_text ErrTaskAlreadyLocked = ''task is locked by another worker''"
| "error_text ErrVisibilityExpired = ''task visibility timeout expired''"
| "error_text ErrQueueEmpty = ''queue is empty''"
| "error_text ErrInvalidPayload = ''invalid task payload''"
| "error_text ErrMaxAttemptsReached = ''max retry attempts reached, routing to DLQ''"
| "error_text ErrShutdownInProgress = ''worker is shutting down, rejecting new work''"
| "error_text ErrRateLimitExceeded = ''rate limit exceeded for worker''"
| "error_text ErrInvalidInput = ''invalid input parameters''"
| "error_text ErrIdempotencyConflict = ''idempotency key reused with a different request''"
| "error_text ErrInvalidStateTransition = ''invalid task state transition''"
| "error_text ErrUnauthorized = ''unauthorized''"
| "error_text ErrDispatchUnavailable = ''task persisted but broker dispatch is unavailable''"
| "error_text ErrWebhookEndpointNotFound = ''webhook endpoint not found''"
| "error_text ErrWebhookDeliveryNotFound = ''webhook delivery not found''"
| "error_text ErrWorkflowNotFound = ''workflow not found''"
| "error_text ErrWorkflowVersionNotFound = ''workflow version not found''"
| "error_text ErrWorkflowSlugConflict = ''workflow slug already exists''"
| "error_text ErrWorkflowPublishConflict = ''workflow changed during publish''"
| "error_text ErrWorkflowNotPublished = ''workflow is not published''"
| "error_text ErrWorkflowExecutionNotFound = ''workflow execution not found''"
| "error_text ErrWorkflowExecutionTerminal = ''workflow execution is terminal''"
| "error_text ErrWorkflowExecutionIdempotencyConflict = ''workflow execution idempotency conflict''"
| "error_text ErrWorkflowNodeNotClaimed = ''workflow node was not claimed''"
| "error_text (ErrInfra m) = m"

subsection \<open>Durations\<close>

abbreviation Microsecond :: int where "Microsecond \<equiv> 1000"
abbreviation Millisecond :: int where "Millisecond \<equiv> 1000000"
abbreviation Second :: int where "Second \<equiv> 1000000000"
abbreviation Minute :: int where "Minute \<equiv> 60000000000"

text \<open>\<open>Truncate(time.Microsecond)\<close> and \<open>Milliseconds()\<close>; Go divides towards zero.\<close>

definition truncate_us :: "time \<Rightarrow> time" where
  "truncate_us t = t - t mod Microsecond"

definition milliseconds :: "int \<Rightarrow> int" where
  "milliseconds d = (if d < 0 then - ((- d) div Millisecond) else d div Millisecond)"

subsection \<open>Tasks\<close>

datatype TaskStatus =
  StatusPending | StatusProcessing | StatusCompleted | StatusFailed | StatusDeadLetter | StatusCancelled

fun task_status_text :: "TaskStatus \<Rightarrow> string" where
  "task_status_text StatusPending = ''pending''"
| "task_status_text StatusProcessing = ''processing''"
| "task_status_text StatusCompleted = ''completed''"
| "task_status_text StatusFailed = ''failed''"
| "task_status_text StatusDeadLetter = ''dead_letter''"
| "task_status_text StatusCancelled = ''cancelled''"

record Task =
  t_ID :: uuid
  t_OrgID :: uuid
  t_Queue :: string
  t_Payload :: raw
  t_Status :: TaskStatus
  t_IdempotencyKey :: string
  t_RequestFingerprint :: string
  t_Priority :: int
  t_BackoffStrategy :: string
  t_TraceID :: string
  t_Attempts :: int
  t_MaxAttempts :: int
  t_TaskTimeout :: int
  t_VisibilityTimeout :: int
  t_VisibleAt :: time
  t_LockedBy :: string
  t_LastHeartbeatAt :: "time option"
  t_CreatedAt :: time
  t_UpdatedAt :: time
  t_ScheduledAt :: time
  t_CompletedAt :: "time option"
  t_DeletedAt :: "time option"
  t_DispatchedAt :: "time option"
  t_LastError :: string

text \<open>The identifier and the clock value that \<open>NewTask\<close> reads are its first arguments.\<close>

definition NewTask ::
  "uuid \<Rightarrow> time \<Rightarrow> uuid \<Rightarrow> string \<Rightarrow> raw \<Rightarrow> string \<Rightarrow> string \<Rightarrow> int \<Rightarrow> int \<Rightarrow> Task" where
  "NewTask i now orgID queue payload idempotencyKey requestFingerprint maxAttempts visibilityTimeout =
     \<lparr>t_ID = i, t_OrgID = orgID, t_Queue = queue, t_Payload = payload, t_Status = StatusPending,
      t_IdempotencyKey = idempotencyKey, t_RequestFingerprint = requestFingerprint,
      t_Priority = 0, t_BackoffStrategy = ''exponential'', t_TraceID = [],
      t_Attempts = 0, t_MaxAttempts = maxAttempts, t_TaskTimeout = 0,
      t_VisibilityTimeout = visibilityTimeout, t_VisibleAt = now, t_LockedBy = [],
      t_LastHeartbeatAt = None, t_CreatedAt = now, t_UpdatedAt = now, t_ScheduledAt = now,
      t_CompletedAt = None, t_DeletedAt = None, t_DispatchedAt = None, t_LastError = []\<rparr>"

definition task_status_terminal :: "TaskStatus \<Rightarrow> bool" where
  "task_status_terminal s \<longleftrightarrow>
     (case s of
        StatusCompleted \<Rightarrow> True | StatusFailed \<Rightarrow> True | StatusDeadLetter \<Rightarrow> True
      | StatusCancelled \<Rightarrow> True | _ \<Rightarrow> False)"

definition IsTerminal :: "Task \<Rightarrow> bool" where
  "IsTerminal t \<longleftrightarrow> task_status_terminal (t_Status t)"

definition IsExhausted :: "Task \<Rightarrow> bool" where
  "IsExhausted t \<longleftrightarrow> t_MaxAttempts t \<le> t_Attempts t"

definition MarkProcessing :: "string \<Rightarrow> time \<Rightarrow> Task \<Rightarrow> Task" where
  "MarkProcessing workerID now t =
     t\<lparr>t_Status := StatusProcessing, t_LockedBy := workerID, t_Attempts := t_Attempts t + 1,
       t_VisibleAt := now + t_VisibilityTimeout t, t_LastHeartbeatAt := Some now,
       t_UpdatedAt := now\<rparr>"

definition ExtendVisibility :: "time \<Rightarrow> Task \<Rightarrow> Task" where
  "ExtendVisibility now t =
     t\<lparr>t_VisibleAt := now + t_VisibilityTimeout t, t_LastHeartbeatAt := Some now\<rparr>"

definition IsVisibilityExpired :: "time \<Rightarrow> Task \<Rightarrow> bool" where
  "IsVisibilityExpired now t \<longleftrightarrow> t_Status t = StatusProcessing \<and> t_VisibleAt t < now"

subsection \<open>Retry policies\<close>

record RetryPolicy =
  rp_MaxAttempts :: int
  rp_InitialBackoff :: int
  rp_MaxBackoff :: int
  rp_BackoffMultiplier :: rat

text \<open>The loop of \<open>NextBackoff\<close> in binary64 arithmetic; \<open>Inl\<close> is its early return.\<close>

fun backoff_loop :: "RetryPolicy \<Rightarrow> nat \<Rightarrow> rat \<Rightarrow> int + rat" where
  "backoff_loop r 0 b = Inr b"
| "backoff_loop r (Suc n) b =
     (let b' = fl (b * rp_BackoffMultiplier r)
      in if fl (of_int (rp_MaxBackoff r)) < b' then Inl (rp_MaxBackoff r) else backoff_loop r n b')"

definition NextBackoff :: "RetryPolicy \<Rightarrow> int \<Rightarrow> int" where
  "NextBackoff r attempt =
     (case backoff_loop r (nat attempt) (fl (of_int (rp_InitialBackoff r))) of
        Inl d \<Rightarrow> d
      | Inr b \<Rightarrow> if b < 0 then - \<lfloor>- b\<rfloor> else \<lfloor>b\<rfloor>)"

definition DefaultRetryPolicy :: RetryPolicy where
  "DefaultRetryPolicy =
     \<lparr>rp_MaxAttempts = 5, rp_InitialBackoff = 2 * Second, rp_MaxBackoff = 5 * Minute,
      rp_BackoffMultiplier = 2\<rparr>"

record WorkerConfig =
  wc_WorkerID :: string
  wc_OrgID :: uuid
  wc_Concurrency :: int
  wc_RateLimitPerSec :: int
  wc_HeartbeatInterval :: int
  wc_ShutdownTimeout :: int

subsection \<open>Tenancy, workers and pages\<close>

record Principal =
  pr_OrgID :: uuid
  pr_Scopes :: "string list"

record APIKey =
  ak_OrgID :: uuid
  ak_Scopes :: "string list"
  ak_RevokedAt :: "time option"

record TaskFilter =
  tf_Queue :: string
  tf_Status :: "TaskStatus option"
  tf_Cursor :: string
  tf_Limit :: int

record Worker =
  w_ID :: string
  w_OrgID :: uuid
  w_Queue :: string
  w_Status :: string
  w_LastHeartbeatAt :: time
  w_CreatedAt :: time
  w_UpdatedAt :: time

record QueueScope =
  qs_OrgID :: uuid
  qs_Queue :: string

subsection \<open>Workflow definitions and versions\<close>

datatype WorkflowStatus = WorkflowStatusDraft | WorkflowStatusPublished | WorkflowStatusArchived

text \<open>A node type is a string; those the services know have a constructor of their own.\<close>

datatype WorkflowNodeType =
    WorkflowNodeTrigger
  | WorkflowNodeTask
  | WorkflowNodeWebhook
  | WorkflowNodeCondition
  | WorkflowNodeDelay
  | WorkflowNodeOther string

definition node_type_valid :: "WorkflowNodeType \<Rightarrow> bool" where
  "node_type_valid t \<longleftrightarrow> (case t of WorkflowNodeOther _ \<Rightarrow> False | _ \<Rightarrow> True)"

text \<open>A \<open>map[string]any\<close>: \<open>None\<close> is the nil map.\<close>

type_synonym config = "(string \<times> json) list option"

record WorkflowNode =
  dn_ID :: string
  dn_Type :: WorkflowNodeType
  dn_Name :: string
  dn_Position :: "(rat \<times> rat) option"
  dn_Config :: config

record WorkflowEdge =
  e_ID :: string
  e_From :: string
  e_To :: string
  e_Condition :: raw

text \<open>A slice: \<open>None\<close> is the nil slice.\<close>

record WorkflowDefinition =
  d_Nodes :: "WorkflowNode list option"
  d_Edges :: "WorkflowEdge list option"

definition elems :: "'a list option \<Rightarrow> 'a list" where
  "elems xs = (case xs of None \<Rightarrow> [] | Some ys \<Rightarrow> ys)"

lemma elems_simps [simp]: "elems None = []" "elems (Some xs) = xs"
  by (simp_all add: elems_def)

record Workflow =
  wf_ID :: uuid
  wf_OrgID :: uuid
  wf_Name :: string
  wf_Slug :: string
  wf_Description :: "string option"
  wf_Status :: WorkflowStatus
  wf_Definition :: WorkflowDefinition
  wf_CreatedAt :: time
  wf_UpdatedAt :: time
  wf_DeletedAt :: "time option"

record WorkflowValidationError =
  ve_Code :: string
  ve_Message :: string
  ve_Path :: string

record WorkflowValidationResult =
  vr_Valid :: bool
  vr_Errors :: "WorkflowValidationError list"

datatype WorkflowVersionStatus = WorkflowVersionStatusPublished | WorkflowVersionStatusDeprecated

record WorkflowVersion =
  v_ID :: uuid
  v_OrgID :: uuid
  v_WorkflowID :: uuid
  v_Version :: int
  v_Name :: string
  v_Slug :: string
  v_Description :: "string option"
  v_Definition :: WorkflowDefinition
  v_Status :: WorkflowVersionStatus
  v_PublishedAt :: time
  v_CreatedAt :: time

subsection \<open>Workflow executions\<close>

datatype WorkflowExecutionStatus =
    WorkflowExecutionPending
  | WorkflowExecutionRunning
  | WorkflowExecutionSucceeded
  | WorkflowExecutionFailed
  | WorkflowExecutionCancelled

definition execution_terminal :: "WorkflowExecutionStatus \<Rightarrow> bool" where
  "execution_terminal s \<longleftrightarrow>
     s = WorkflowExecutionSucceeded \<or> s = WorkflowExecutionFailed \<or> s = WorkflowExecutionCancelled"

datatype WorkflowNodeExecutionStatus =
    WorkflowNodePending
  | WorkflowNodeQueued
  | WorkflowNodeRunning
  | WorkflowNodeSucceeded
  | WorkflowNodeFailed
  | WorkflowNodeSkipped
  | WorkflowNodeCancelled

definition node_terminal :: "WorkflowNodeExecutionStatus \<Rightarrow> bool" where
  "node_terminal s \<longleftrightarrow>
     (case s of
        WorkflowNodeSucceeded \<Rightarrow> True | WorkflowNodeFailed \<Rightarrow> True | WorkflowNodeSkipped \<Rightarrow> True
      | WorkflowNodeCancelled \<Rightarrow> True | _ \<Rightarrow> False)"

record WorkflowExecution =
  x_ID :: uuid
  x_OrgID :: uuid
  x_WorkflowID :: uuid
  x_WorkflowVersionID :: uuid
  x_WorkflowVersion :: int
  x_Status :: WorkflowExecutionStatus
  x_Input :: raw
  x_Output :: raw
  x_ErrorCode :: string
  x_ErrorMessage :: string
  x_IdempotencyKey :: string
  x_RequestFingerprint :: string
  x_StartedAt :: "time option"
  x_CompletedAt :: "time option"
  x_CreatedAt :: time
  x_UpdatedAt :: time

record WorkflowNodeExecution =
  n_ID :: uuid
  n_OrgID :: uuid
  n_WorkflowExecutionID :: uuid
  n_NodeID :: string
  n_NodeType :: WorkflowNodeType
  n_Status :: WorkflowNodeExecutionStatus
  n_Attempt :: int
  n_Input :: raw
  n_Output :: raw
  n_ErrorCode :: string
  n_ErrorMessage :: string
  n_QueueTaskID :: "uuid option"
  n_WebhookDeliveryID :: "uuid option"
  n_AvailableAt :: "time option"
  n_StartedAt :: "time option"
  n_CompletedAt :: "time option"
  n_CreatedAt :: time
  n_UpdatedAt :: time

subsection \<open>Webhooks\<close>

datatype WebhookEventType =
    WebhookEventTaskCreated
  | WebhookEventTaskProcessing
  | WebhookEventTaskCompleted
  | WebhookEventTaskFailed
  | WebhookEventTaskDeadLetter
  | WebhookEventTaskCancelled
  | WebhookEventWorkflowNode

text \<open>What an endpoint may subscribe to: the events of tasks.\<close>

definition webhook_event_valid :: "WebhookEventType \<Rightarrow> bool" where
  "webhook_event_valid e \<longleftrightarrow>
     (case e of
        WebhookEventTaskCreated \<Rightarrow> True | WebhookEventTaskProcessing \<Rightarrow> True
      | WebhookEventTaskCompleted \<Rightarrow> True | WebhookEventTaskFailed \<Rightarrow> True
      | WebhookEventTaskDeadLetter \<Rightarrow> True | WebhookEventTaskCancelled \<Rightarrow> True
      | _ \<Rightarrow> False)"

fun webhook_event_text :: "WebhookEventType \<Rightarrow> string" where
  "webhook_event_text WebhookEventTaskCreated = ''task.created''"
| "webhook_event_text WebhookEventTaskProcessing = ''task.processing''"
| "webhook_event_text WebhookEventTaskCompleted = ''task.completed''"
| "webhook_event_text WebhookEventTaskFailed = ''task.failed''"
| "webhook_event_text WebhookEventTaskDeadLetter = ''task.dead_letter''"
| "webhook_event_text WebhookEventTaskCancelled = ''task.cancelled''"
| "webhook_event_text WebhookEventWorkflowNode = ''workflow.node''"

datatype WebhookDeliveryStatus =
    WebhookDeliveryPending
  | WebhookDeliveryDelivering
  | WebhookDeliveryDelivered
  | WebhookDeliveryRetrying
  | WebhookDeliveryFailed

record WebhookEndpoint =
  we_ID :: uuid
  we_OrgID :: uuid
  we_Name :: string
  we_URL :: string
  we_SecretHash :: string
  we_SecretCiphertext :: string
  we_EventTypes :: "WebhookEventType list"
  we_IsActive :: bool
  we_DeletedAt :: "time option"
  we_CreatedAt :: time
  we_UpdatedAt :: time

record WebhookDelivery =
  wd_ID :: uuid
  wd_OrgID :: uuid
  wd_EndpointID :: uuid
  wd_EventType :: WebhookEventType
  wd_Payload :: raw
  wd_Status :: WebhookDeliveryStatus
  wd_AttemptCount :: int
  wd_MaxAttempts :: int
  wd_NextAttemptAt :: "time option"
  wd_LastAttemptAt :: "time option"
  wd_ResponseStatus :: "int option"
  wd_ResponseBody :: "string option"
  wd_LastError :: "string option"
  wd_CreatedAt :: time
  wd_UpdatedAt :: time

end
