(* ===== verification/Metrics.thy ===== *)
theory Metrics
  imports Domain
begin

text \<open>
  Metric events (internal/domain/metric.go): which event and resource types a source
  may report, the construction of an event from its input, its validation, and the
  validation of a query. Event identity: an event's id is a function of the
  organisation, the source, the event type, the resource and the transition key, so
  that recording a transition twice yields the same row. \<open>uuid.NewSHA1\<close> and
  \<open>UUID.String\<close> of google/uuid are parameters.
\<close>

datatype MetricSource =
  MetricSourceQueueFlow | MetricSourceEventForge | MetricSourceTaskCanvas | MetricSourceWorker |
  MetricSourceQueue

datatype MetricEventType =
    MetricTaskIngested | MetricTaskStarted | MetricTaskSucceeded | MetricTaskFailed
  | MetricTaskRetryScheduled | MetricTaskDeadLettered | MetricTaskCancelled
  | MetricDeliveryCreated | MetricDeliveryStarted | MetricDeliverySucceeded | MetricDeliveryFailed
  | MetricDeliveryRetryScheduled | MetricDeliveryExhausted
  | MetricWorkflowExecutionCreated | MetricWorkflowExecutionStarted | MetricWorkflowExecutionSucceeded
  | MetricWorkflowExecutionFailed | MetricWorkflowExecutionCancelled
  | MetricNodeExecutionStarted | MetricNodeExecutionSucceeded | MetricNodeExecutionFailed
  | MetricNodeExecutionSkipped | MetricNodeExecutionCancelled
  | MetricWorkerRegistered | MetricWorkerHeartbeat | MetricWorkerStopped | MetricWorkerStale
  | MetricQueueSnapshotCaptured

datatype MetricResourceType =
  MetricResourceTask | MetricResourceWebhookDelivery | MetricResourceWorkflowExecution |
  MetricResourceNodeExecution | MetricResourceWorker | MetricResourceQueueSnapshot

fun metric_source_text :: "MetricSource \<Rightarrow> string" where
  "metric_source_text MetricSourceQueueFlow = ''queueflow''"
| "metric_source_text MetricSourceEventForge = ''eventforge''"
| "metric_source_text MetricSourceTaskCanvas = ''taskcanvas''"
| "metric_source_text MetricSourceWorker = ''worker''"
| "metric_source_text MetricSourceQueue = ''queue''"

fun metric_event_text :: "MetricEventType \<Rightarrow> string" where
  "metric_event_text MetricTaskIngested = ''task.ingested''"
| "metric_event_text MetricTaskStarted = ''task.started''"
| "metric_event_text MetricTaskSucceeded = ''task.succeeded''"
| "metric_event_text MetricTaskFailed = ''task.failed''"
| "metric_event_text MetricTaskRetryScheduled = ''task.retry_scheduled''"
| "metric_event_text MetricTaskDeadLettered = ''task.dead_lettered''"
| "metric_event_text MetricTaskCancelled = ''task.cancelled''"
| "metric_event_text MetricDeliveryCreated = ''delivery.created''"
| "metric_event_text MetricDeliveryStarted = ''delivery.started''"
| "metric_event_text MetricDeliverySucceeded = ''delivery.succeeded''"
| "metric_event_text MetricDeliveryFailed = ''delivery.failed''"
| "metric_event_text MetricDeliveryRetryScheduled = ''delivery.retry_scheduled''"
| "metric_event_text MetricDeliveryExhausted = ''delivery.exhausted''"
| "metric_event_text MetricWorkflowExecutionCreated = ''workflow_execution.created''"
| "metric_event_text MetricWorkflowExecutionStarted = ''workflow_execution.started''"
| "metric_event_text MetricWorkflowExecutionSucceeded = ''workflow_execution.succeeded''"
| "metric_event_text MetricWorkflowExecutionFailed = ''workflow_execution.failed''"
| "metric_event_text MetricWorkflowExecutionCancelled = ''workflow_execution.cancelled''"
| "metric_event_text MetricNodeExecutionStarted = ''node_execution.started''"
| "metric_event_text MetricNodeExecutionSucceeded = ''node_execution.succeeded''"
| "metric_event_text MetricNodeExecutionFailed = ''node_execution.failed''"
| "metric_event_text MetricNodeExecutionSkipped = ''node_execution.skipped''"
| "metric_event_text MetricNodeExecutionCancelled = ''node_execution.cancelled''"
| "metric_event_text MetricWorkerRegistered = ''worker.registered''"
| "metric_event_text MetricWorkerHeartbeat = ''worker.heartbeat''"
| "metric_event_text MetricWorkerStopped = ''worker.stopped''"
| "metric_event_text MetricWorkerStale = ''worker.stale''"
| "metric_event_text MetricQueueSnapshotCaptured = ''queue.snapshot.captured''"

fun metric_resource_text :: "MetricResourceType \<Rightarrow> string" where
  "metric_resource_text MetricResourceTask = ''task''"
| "metric_resource_text MetricResourceWebhookDelivery = ''webhook_delivery''"
| "metric_resource_text MetricResourceWorkflowExecution = ''workflow_execution''"
| "metric_resource_text MetricResourceNodeExecution = ''workflow_node_execution''"
| "metric_resource_text MetricResourceWorker = ''worker''"
| "metric_resource_text MetricResourceQueueSnapshot = ''queue_snapshot''"

record MetricMetadata =
  mm_Attempt :: "int option"
  mm_MaxAttempts :: "int option"
  mm_ErrorCode :: string
  mm_PreviousStatus :: string

record MetricEvent =
  me_ID :: uuid
  me_OrganizationID :: uuid
  me_Source :: MetricSource
  me_EventType :: MetricEventType
  me_ResourceType :: MetricResourceType
  me_ResourceID :: string
  me_Queue :: string
  me_Status :: string
  me_DurationMS :: "int option"
  me_OccurredAt :: time
  me_Metadata :: MetricMetadata
  me_CreatedAt :: time

record NewMetricEventInput =
  mi_OrganizationID :: uuid
  mi_Source :: MetricSource
  mi_EventType :: MetricEventType
  mi_ResourceType :: MetricResourceType
  mi_ResourceID :: string
  mi_Queue :: string
  mi_Status :: string
  mi_DurationMS :: "int option"
  mi_OccurredAt :: time
  mi_Metadata :: MetricMetadata
  mi_TransitionKey :: string

abbreviation no_metadata :: MetricMetadata where
  "no_metadata \<equiv> \<lparr>mm_Attempt = None, mm_MaxAttempts = None, mm_ErrorCode = [], mm_PreviousStatus = []\<rparr>"

fun metricEventsBySource :: "MetricSource \<Rightarrow> MetricEventType list" where
  "metricEventsBySource MetricSourceQueueFlow =
     [MetricTaskIngested, MetricTaskStarted, MetricTaskSucceeded, MetricTaskFailed,
      MetricTaskRetryScheduled, MetricTaskDeadLettered, MetricTaskCancelled]"
| "metricEventsBySource MetricSourceEventForge =
     [MetricDeliveryCreated, MetricDeliveryStarted, MetricDeliverySucceeded,
      MetricDeliveryFailed, MetricDeliveryRetryScheduled, MetricDeliveryExhausted]"
| "metricEventsBySource MetricSourceTaskCanvas =
     [MetricWorkflowExecutionCreated, MetricWorkflowExecutionStarted,
      MetricWorkflowExecutionSucceeded, MetricWorkflowExecutionFailed,
      MetricWorkflowExecutionCancelled, MetricNodeExecutionStarted,
      MetricNodeExecutionSucceeded, MetricNodeExecutionFailed,
      MetricNodeExecutionSkipped, MetricNodeExecutionCancelled]"
| "metricEventsBySource MetricSourceWorker =
     [MetricWorkerRegistered, MetricWorkerHeartbeat, MetricWorkerStopped, MetricWorkerStale]"
| "metricEventsBySource MetricSourceQueue = [MetricQueueSnapshotCaptured]"

definition metricEventAllowed :: "MetricSource \<Rightarrow> MetricEventType \<Rightarrow> bool" where
  "metricEventAllowed source eventType \<longleftrightarrow> eventType \<in> set (metricEventsBySource source)"

definition metricResourceAllowed :: "MetricSource \<Rightarrow> MetricResourceType \<Rightarrow> bool" where
  "metricResourceAllowed source resource \<longleftrightarrow>
     (case source of
        MetricSourceTaskCanvas \<Rightarrow>
          resource = MetricResourceWorkflowExecution \<or> resource = MetricResourceNodeExecution
      | MetricSourceQueueFlow \<Rightarrow> resource = MetricResourceTask
      | MetricSourceEventForge \<Rightarrow> resource = MetricResourceWebhookDelivery
      | MetricSourceWorker \<Rightarrow> resource = MetricResourceWorker
      | MetricSourceQueue \<Rightarrow> resource = MetricResourceQueueSnapshot)"

text \<open>\<open>json.Marshal\<close> of the metadata; fields marked \<open>omitempty\<close> are left out when empty.\<close>

definition metadata_json :: "MetricMetadata \<Rightarrow> json" where
  "metadata_json m = JObj
     ((case mm_Attempt m of None \<Rightarrow> [] | Some a \<Rightarrow> [(''attempt'', JNum (of_int a))]) @
      (case mm_MaxAttempts m of None \<Rightarrow> [] | Some a \<Rightarrow> [(''max_attempts'', JNum (of_int a))]) @
      (if mm_ErrorCode m = [] then [] else [(''error_code'', JStr (mm_ErrorCode m))]) @
      (if mm_PreviousStatus m = [] then [] else [(''previous_status'', JStr (mm_PreviousStatus m))]))"

definition negative_ptr :: "int option \<Rightarrow> bool" where
  "negative_ptr p \<longleftrightarrow> (case p of None \<Rightarrow> False | Some v \<Rightarrow> v < 0)"

definition metric_valid :: "MetricEvent \<Rightarrow> bool" where
  "metric_valid event \<longleftrightarrow>
     \<not> (me_ID event = 0 \<or> me_OrganizationID event = 0 \<or> me_OccurredAt event = 0 \<or>
        me_CreatedAt event = 0 \<or> me_ResourceID event = [] \<or> length (me_ResourceID event) > 255 \<or>
        length (me_Queue event) > 64 \<or> length (me_Status event) > 64) \<and>
     metricEventAllowed (me_Source event) (me_EventType event) \<and>
     metricResourceAllowed (me_Source event) (me_ResourceType event) \<and>
     \<not> negative_ptr (me_DurationMS event) \<and>
     \<not> (negative_ptr (mm_Attempt (me_Metadata event)) \<or>
        negative_ptr (mm_MaxAttempts (me_Metadata event)) \<or>
        length (mm_ErrorCode (me_Metadata event)) > 64 \<or>
        length (mm_PreviousStatus (me_Metadata event)) > 64) \<and>
     length (json_text (metadata_json (me_Metadata event))) \<le> 512"

definition metric_identity :: "(uuid \<Rightarrow> string) \<Rightarrow> NewMetricEventInput \<Rightarrow> string" where
  "metric_identity uuid_text input =
     join [CHR 0x1F]
       [uuid_text (mi_OrganizationID input), metric_source_text (mi_Source input),
        metric_event_text (mi_EventType input), metric_resource_text (mi_ResourceType input),
        trim_space (mi_ResourceID input), trim_space (mi_TransitionKey input)]"

definition NewMetricEvent ::
  "(uuid \<Rightarrow> string) \<Rightarrow> (string \<Rightarrow> uuid) \<Rightarrow> NewMetricEventInput \<Rightarrow> err + MetricEvent" where
  "NewMetricEvent uuid_text metric_uuid input =
     (let occurredAt = truncate_us (mi_OccurredAt input);
          event =
            \<lparr>me_ID = metric_uuid (metric_identity uuid_text input),
             me_OrganizationID = mi_OrganizationID input,
             me_Source = mi_Source input, me_EventType = mi_EventType input,
             me_ResourceType = mi_ResourceType input,
             me_ResourceID = trim_space (mi_ResourceID input),
             me_Queue = trim_space (mi_Queue input), me_Status = trim_space (mi_Status input),
             me_DurationMS = mi_DurationMS input, me_OccurredAt = occurredAt,
             me_Metadata = mi_Metadata input, me_CreatedAt = occurredAt\<rparr>
      in if metric_valid event then Inr event else Inl ErrInvalidInput)"

definition MetricTransitionKey :: "int \<Rightarrow> MetricEventType \<Rightarrow> string" where
  "MetricTransitionKey attempts eventType = join '':'' [itoa attempts, metric_event_text eventType]"

text \<open>Filters of the query side; an empty source or event type is \<open>None\<close>.\<close>

record MetricEventFilter =
  mf_From :: time
  mf_To :: time
  mf_Source :: "MetricSource option"
  mf_EventType :: "MetricEventType option"
  mf_Cursor :: string
  mf_Limit :: int

definition metric_filter_valid :: "MetricEventFilter \<Rightarrow> bool" where
  "metric_filter_valid f \<longleftrightarrow>
     \<not> (mf_From f = 0 \<or> mf_To f = 0 \<or> \<not> mf_From f < mf_To f \<or>
        mf_To f - mf_From f > 31 * 24 * 60 * Minute \<or> mf_Limit f < 1 \<or> mf_Limit f > 1000) \<and>
     (case (mf_Source f, mf_EventType f) of
        (Some s, Some e) \<Rightarrow> metricEventAllowed s e
      | (None, Some _) \<Rightarrow> False
      | _ \<Rightarrow> True)"

end
