(* ===== verification/Go_Time.thy ===== *)
theory Go_Time
  imports Domain
begin

text \<open>
  The text of an instant in the layout \<open>RFC3339Nano\<close>, which cursors and JSON documents
  hold: the proleptic Gregorian date and the time of day in UTC, with the fraction of a
  second written without trailing zeros. Instants count nanoseconds from
  0001-01-01T00:00:00Z, the zero instant.
\<close>

text \<open>
  Year, month and day of a day number, by stripping cycles of 400, 100, 4 and 1 years; the
  year is taken to begin in March.
\<close>

definition civil :: "int \<Rightarrow> int \<times> int \<times> int" where
  "civil days =
     (let z = days + 306;
          era = z div 146097;
          doe = z mod 146097;
          c = min 3 (doe div 36524);
          doc = doe - 36524 * c;
          q = doc div 1461;
          doq = doc - 1461 * q;
          n = min 3 (doq div 365);
          doy = doq - 365 * n;
          mp = (5 * doy + 2) div 153;
          d = doy - (153 * mp + 2) div 5 + 1;
          m = if mp < 10 then mp + 3 else mp - 9;
          y = 400 * era + 100 * c + 4 * q + n + (if m \<le> 2 then 1 else 0)
      in (y, m, d))"

definition pad :: "nat \<Rightarrow> int \<Rightarrow> string" where
  "pad w i = (let s = utoa i in replicate (w - length s) CHR ''0'' @ s)"

definition fraction_text :: "int \<Rightarrow> string" where
  "fraction_text ns =
     (if ns = 0 then [] else ''.'' @ rev (dropWhile (\<lambda>c. c = CHR ''0'') (rev (pad 9 ns))))"

definition time_text :: "time \<Rightarrow> string" where
  "time_text t =
     (let secs = t div Second; ns = t mod Second; days = secs div 86400; sod = secs mod 86400 in
      case civil days of (y, m, d) \<Rightarrow>
        pad 4 y @ ''-'' @ pad 2 m @ ''-'' @ pad 2 d @ ''T'' @
        pad 2 (sod div 3600) @ '':'' @ pad 2 (sod mod 3600 div 60) @ '':'' @ pad 2 (sod mod 60) @
        fraction_text ns @ ''Z'')"

end
