(* ===== verification/World.thy ===== *)
theory World
  imports Metrics Go_Time
begin

text \<open>
  The state the services share and the world they run in. \<open>store\<close> is the content of
  Postgres and Redis: a table is the list of its rows, a Redis queue is the record of
  the sorted sets, the hash, the counter and the list kept for it. \<open>world\<close> adds the
  metric events a process has recorded and a counter of the effects it has performed.

  What a process does not control is the environment \<open>env\<close>, a function of that
  counter: the clock, fresh identifiers, whether a call to Postgres or Redis succeeds,
  is refused, or takes effect without being acknowledged, and what other processes do to
  the store between two calls of this one. A statement or a transaction is atomic;
  everything may happen between two of them. The functions of google/uuid and of
  crypto/sha256 that the code calls are fields of the environment as well.
\<close>

subsection \<open>State\<close>

text \<open>A message of the broker names the organisation and the task.\<close>

record brokerMessage =
  bm_OrgID :: uuid
  bm_TaskID :: uuid

text \<open>A sorted set: its members with their scores, each member once.\<close>

type_synonym zset = "(brokerMessage \<times> int) list"

record queue_data =
  q_pending :: zset
  q_processing :: zset
  q_delayed :: zset
  q_priorities :: "(brokerMessage \<times> int) list"
  q_sequence :: int
  q_dlq :: "brokerMessage list"

abbreviation empty_queue :: queue_data where
  "empty_queue \<equiv>
     \<lparr>q_pending = [], q_processing = [], q_delayed = [], q_priorities = [], q_sequence = 0, q_dlq = []\<rparr>"

text \<open>The bucket the rate limiter keeps for a key: a Redis hash that expires.\<close>

record bucket =
  bk_tokens :: rat
  bk_ts :: rat
  bk_expires :: time

record store =
  tasks :: "Task list"
  workers :: "Worker list"
  api_keys :: "(string \<times> APIKey) list"
  endpoints :: "WebhookEndpoint list"
  deliveries :: "WebhookDelivery list"
  workflows :: "Workflow list"
  versions :: "WorkflowVersion list"
  executions :: "WorkflowExecution list"
  node_executions :: "WorkflowNodeExecution list"
  metric_events :: "MetricEvent list"
  queues :: "uuid \<times> string \<Rightarrow> queue_data"
  buckets :: "string \<Rightarrow> bucket option"

abbreviation empty_store :: store where
  "empty_store \<equiv>
     \<lparr>tasks = [], workers = [], api_keys = [], endpoints = [], deliveries = [], workflows = [],
      versions = [], executions = [], node_executions = [], metric_events = [], queues = (\<lambda>_. empty_queue),
      buckets = (\<lambda>_. None)\<rparr>"

record world =
  w_store :: store
  w_metrics :: "MetricEvent list"
  w_tick :: nat

subsection \<open>Environment\<close>

datatype outcome = Done | Refused | Unacknowledged

record env =
  clock :: "nat \<Rightarrow> time"
  fresh :: "nat \<Rightarrow> uuid"
  outcome_of :: "nat \<Rightarrow> outcome"
  interfere :: "nat \<Rightarrow> store \<Rightarrow> store"
  metric_room :: "nat \<Rightarrow> bool"
  uuid_text :: "uuid \<Rightarrow> string"
  parse_uuid :: "string \<Rightarrow> uuid option"
  parse_lenient :: "string \<Rightarrow> time option"
  sha1_uuid :: "string \<Rightarrow> uuid"
  metric_uuid :: "string \<Rightarrow> uuid"
  sha256_hex :: "string \<Rightarrow> string"

type_synonym 'a io = "(world, 'a) state"

definition tick :: "nat io" where
  "tick = do {
     w \<leftarrow> State_Monad.get;
     State_Monad.set (w\<lparr>w_tick := w_tick w + 1\<rparr>);
     State_Monad.return (w_tick w) }"

definition time_now :: "env \<Rightarrow> time io" where
  "time_now E = do { t \<leftarrow> tick; State_Monad.return (clock E t) }"

definition uuid_new :: "env \<Rightarrow> uuid io" where
  "uuid_new E = do { t \<leftarrow> tick; State_Monad.return (fresh E t) }"

text \<open>
  One call: other processes move first, then the call takes effect or not. A function
  of the store returns an error of its own for a row that is not there or a violated
  constraint; \<open>ErrInfra\<close> is the error of a call that was refused or not acknowledged.
\<close>

definition atomic :: "env \<Rightarrow> string \<Rightarrow> (store \<Rightarrow> (err + 'a) \<times> store) \<Rightarrow> (err + 'a) io" where
  "atomic E what f = do {
     t \<leftarrow> tick;
     w \<leftarrow> State_Monad.get;
     let s = interfere E t (w_store w);
     case outcome_of E t of
       Refused \<Rightarrow> do {
         State_Monad.set (w\<lparr>w_store := s\<rparr>);
         State_Monad.return (Inl (ErrInfra what)) }
     | Unacknowledged \<Rightarrow> do {
         State_Monad.set (w\<lparr>w_store := snd (f s)\<rparr>);
         State_Monad.return (Inl (ErrInfra what)) }
     | Done \<Rightarrow> do {
         State_Monad.set (w\<lparr>w_store := snd (f s)\<rparr>);
         State_Monad.return (fst (f s)) } }"

text \<open>A query that changes nothing.\<close>

definition query :: "env \<Rightarrow> string \<Rightarrow> (store \<Rightarrow> err + 'a) \<Rightarrow> (err + 'a) io" where
  "query E what f = atomic E what (\<lambda>s. (f s, s))"

text \<open>\<open>QueryRow\<close> for the first row that satisfies \<open>P\<close>; no row is the error \<open>e\<close>.\<close>

definition row :: "'e \<Rightarrow> ('r \<Rightarrow> bool) \<Rightarrow> 'r list \<Rightarrow> 'e + 'r" where
  "row e P rows = (case find P rows of None \<Rightarrow> Inl e | Some r \<Rightarrow> Inr r)"

text \<open>
  \<open>metrics.Record\<close>: an invalid event is dropped, and so is an event that finds the
  buffer of the recorder full (internal/metrics/recorder.go).
\<close>

definition Record :: "env \<Rightarrow> NewMetricEventInput \<Rightarrow> unit io" where
  "Record E input = do {
     t \<leftarrow> tick;
     w \<leftarrow> State_Monad.get;
     (case NewMetricEvent (uuid_text E) (metric_uuid E) input of
        Inl _ \<Rightarrow> State_Monad.return ()
      | Inr event \<Rightarrow>
          if metric_room E t then State_Monad.set (w\<lparr>w_metrics := w_metrics w @ [event]\<rparr>)
          else State_Monad.return ()) }"

subsection \<open>Running one call\<close>

lemma run_tick [simp]: "run_state tick w = (w_tick w, w\<lparr>w_tick := w_tick w + 1\<rparr>)"
  by (simp add: tick_def)

lemma run_time_now [simp]:
  "run_state (time_now E) w = (clock E (w_tick w), w\<lparr>w_tick := w_tick w + 1\<rparr>)"
  by (simp add: time_now_def)

lemma run_uuid_new [simp]:
  "run_state (uuid_new E) w = (fresh E (w_tick w), w\<lparr>w_tick := w_tick w + 1\<rparr>)"
  by (simp add: uuid_new_def)

lemma run_atomic:
  "run_state (atomic E what f) w =
     (let t = w_tick w; s = interfere E t (w_store w) in
      case outcome_of E t of
        Refused \<Rightarrow> (Inl (ErrInfra what), w\<lparr>w_tick := t + 1, w_store := s\<rparr>)
      | Unacknowledged \<Rightarrow> (Inl (ErrInfra what), w\<lparr>w_tick := t + 1, w_store := snd (f s)\<rparr>)
      | Done \<Rightarrow> (fst (f s), w\<lparr>w_tick := t + 1, w_store := snd (f s)\<rparr>))"
  by (simp add: atomic_def Let_def split: outcome.split)

lemma run_Record_store [simp]: "w_store (snd (run_state (Record E input) w)) = w_store w"
  by (simp add: Record_def split: sum.split)

subsection \<open>Relations on the store and the processes that respect them\<close>

text \<open>
  A relation \<open>G\<close> on stores lifts to worlds. A process whose calls all respect \<open>G\<close>
  respects it, provided the other processes do.
\<close>

definition on_store :: "(store \<Rightarrow> store \<Rightarrow> bool) \<Rightarrow> world \<Rightarrow> world \<Rightarrow> bool" where
  "on_store G w w' \<longleftrightarrow> G (w_store w) (w_store w')"

definition others_keep :: "env \<Rightarrow> (store \<Rightarrow> store \<Rightarrow> bool) \<Rightarrow> bool" where
  "others_keep E G \<longleftrightarrow> (\<forall>t s. G s (interfere E t s))"

locale store_guarantee =
  fixes G :: "store \<Rightarrow> store \<Rightarrow> bool"
  assumes refl: "G s s"
    and trans: "G s t \<Longrightarrow> G t u \<Longrightarrow> G s u"
begin

sublocale world: guarantee "on_store G"
  by unfold_locales (auto simp: on_store_def intro: refl trans)

lemma steps_time: "steps (on_store G) (time_now E)"
  by (simp add: steps_def on_store_def refl)

lemma steps_uuid: "steps (on_store G) (uuid_new E)"
  by (simp add: steps_def on_store_def refl)

lemma steps_metric: "steps (on_store G) (Record E input)"
  by (simp add: steps_def on_store_def refl)

lemma steps_atomic:
  assumes "others_keep E G" and "\<And>s. G s (snd (f s))"
  shows "steps (on_store G) (atomic E what f)"
  using assms unfolding steps_def on_store_def others_keep_def run_atomic Let_def
  by (auto split: outcome.split intro: trans)

lemma steps_query: "others_keep E G \<Longrightarrow> steps (on_store G) (query E what f)"
  unfolding query_def by (rule steps_atomic) (simp_all add: refl)

lemmas steps_world = steps_time steps_uuid steps_metric steps_query world.steps_syntax

text \<open>
  What holds of the result and of the store after one call, for an assertion on the
  store that no step of \<open>G\<close> falsifies.
\<close>

lemma moves_atomic:
  assumes "others_keep E G" and stable: "\<And>s s'. P s \<Longrightarrow> G s s' \<Longrightarrow> P s'"
    and f: "\<And>s. P s \<Longrightarrow> G s (snd (f s)) \<and> Q (fst (f s)) (snd (f s))"
    and err: "\<And>s. P s \<Longrightarrow> Q (Inl (ErrInfra what)) s"
  shows "moves (P \<circ> w_store) (on_store G) (atomic E what f) (\<lambda>r. Q r \<circ> w_store)"
proof -
  have "G s (snd (f (interfere E t s))) \<and> G s (interfere E t s) \<and> P (interfere E t s) \<and>
      P (snd (f (interfere E t s)))" if "P s" for s t
    using assms(1) f stable that trans unfolding others_keep_def by blast
  then show ?thesis
    unfolding moves_def on_store_def run_atomic Let_def comp_def
    using f err by (auto split: outcome.split)
qed

lemma moves_query:
  assumes "others_keep E G" and stable: "\<And>s s'. P s \<Longrightarrow> G s s' \<Longrightarrow> P s'"
    and f: "\<And>s. P s \<Longrightarrow> Q (f s) s"
    and err: "\<And>s. P s \<Longrightarrow> Q (Inl (ErrInfra what)) s"
  shows "moves (P \<circ> w_store) (on_store G) (query E what f) (\<lambda>r. Q r \<circ> w_store)"
  unfolding query_def by (rule moves_atomic) (use assms refl in auto)

lemma steps_keep:
  assumes "steps (on_store G) m" and "\<And>s s'. P s \<Longrightarrow> G s s' \<Longrightarrow> P s'"
  shows "moves (P \<circ> w_store) (on_store G) m (\<lambda>_. P \<circ> w_store)"
  using assms(1) by (rule steps_moves) (auto simp: on_store_def intro: assms(2))

lemma steps_keep_result:
  assumes "steps (on_store G) m" and "returns m R" and "\<And>s s'. P s \<Longrightarrow> G s s' \<Longrightarrow> P s'"
  shows "moves (P \<circ> w_store) (on_store G) m (\<lambda>r w. R r \<and> P (w_store w))"
  using assms unfolding steps_def returns_def moves_def on_store_def by auto

end

subsection \<open>Facts about results\<close>

text \<open>
  A relation that says nothing about stores outside an invariant \<open>I\<close> has to be shown for
  runs from stores inside it only, and a fact about the result of one call is at hand in
  what follows the call.
\<close>

lemma steps_inside:
  assumes "moves (I \<circ> w_store) (on_store G) m Q" and "\<And>s s'. \<not> I s \<Longrightarrow> G s s'"
  shows "steps (on_store G) m"
  using assms unfolding steps_def moves_def on_store_def by (metis comp_apply)

lemma moves_fact:
  assumes "p \<Longrightarrow> steps G m"
  shows "moves (\<lambda>_. p) G m (\<lambda>_ _. True)"
  using assms unfolding steps_def moves_def by blast

subsection \<open>Undisturbed runs\<close>

text \<open>
  In an undisturbed environment every call takes effect and no other process moves, so a
  program can be followed call by call.
\<close>

definition undisturbed :: "env \<Rightarrow> bool" where
  "undisturbed E \<longleftrightarrow> (\<forall>t. outcome_of E t = Done) \<and> (\<forall>t s. interfere E t s = s)"

interpretation any: guarantee "\<lambda>_ _. True"
  by unfold_locales simp_all

lemma moves_then:
  assumes "moves P (\<lambda>_ _. True) m (\<lambda>x w. x = c \<and> R w)" and "moves R (\<lambda>_ _. True) (f c) Q"
  shows "moves P (\<lambda>_ _. True) (State_Monad.bind m f) Q"
  using assms unfolding moves_def by (simp add: split_beta)

lemma moves_call:
  assumes "undisturbed E" and "\<And>w. P w \<Longrightarrow> fst (f (w_store w)) = c \<and> R (w\<lparr>w_tick := w_tick w + 1, w_store := snd (f (w_store w))\<rparr>)"
  shows "moves P (\<lambda>_ _. True) (atomic E what f) (\<lambda>x w. x = c \<and> R w)"
  using assms by (simp add: moves_def run_atomic undisturbed_def Let_def)

subsection \<open>An example\<close>

text \<open>
  Every call succeeds, no other process moves, the clock advances a millisecond with
  every effect. The examples run in it.
\<close>

definition quiet :: env where
  "quiet =
     \<lparr>clock = (\<lambda>t. 1000000 * int t), fresh = (\<lambda>t. 1000 + t), outcome_of = (\<lambda>_. Done),
      interfere = (\<lambda>_ s. s), metric_room = (\<lambda>_. True), uuid_text = (\<lambda>i. itoa (int i)),
      parse_uuid = (\<lambda>_. None), parse_lenient = (\<lambda>_. None), sha1_uuid = length, metric_uuid = length, sha256_hex = (\<lambda>s. s)\<rparr>"

lemma undisturbed_quiet: "undisturbed quiet"
  by (simp add: undisturbed_def quiet_def)

end
