(* ===== verification/Exec_Store.thy ===== *)
theory Exec_Store
  imports World
begin

text \<open>
  The repository of workflow executions (workflow_execution_repository.go) on the tables
  \<open>executions\<close> and \<open>node_executions\<close>. One definition per method; the SQL statement of
  a method is a function of the store, a transaction is one such function. Text columns
  compare byte-wise. \<open>exec_step\<close> is what every method guarantees of the two tables:
  rows are never removed, keep their identity, move along the status order, and never
  change once their status is terminal.
\<close>

subsection \<open>Statements\<close>

definition GetWorkflowExecutionVersion ::
  "env \<Rightarrow> uuid \<Rightarrow> uuid \<Rightarrow> uuid \<Rightarrow> (err + WorkflowVersion) io" where
  "GetWorkflowExecutionVersion E orgID workflowID versionID =
     query E ''postgres: get workflow execution version'' (\<lambda>s.
       case find (\<lambda>v. v_OrgID v = orgID \<and> v_WorkflowID v = workflowID \<and> v_ID v = versionID) (versions s) of
         None \<Rightarrow> Inl ErrWorkflowVersionNotFound
       | Some v \<Rightarrow> Inr v)"

definition GetWorkflowExecution :: "env \<Rightarrow> uuid \<Rightarrow> uuid \<Rightarrow> uuid \<Rightarrow> (err + WorkflowExecution) io" where
  "GetWorkflowExecution E orgID workflowID executionID =
     query E ''postgres: get workflow execution'' (\<lambda>s.
       case find (\<lambda>x. x_OrgID x = orgID \<and> x_WorkflowID x = workflowID \<and> x_ID x = executionID)
              (executions s) of
         None \<Rightarrow> Inl ErrWorkflowExecutionNotFound
       | Some x \<Rightarrow> Inr x)"

definition getWorkflowExecutionByIdempotency :: "env \<Rightarrow> uuid \<Rightarrow> string \<Rightarrow> (err + WorkflowExecution) io" where
  "getWorkflowExecutionByIdempotency E orgID idempotencyKey =
     query E ''postgres: get workflow execution by idempotency'' (\<lambda>s.
       case find (\<lambda>x. x_OrgID x = orgID \<and> x_IdempotencyKey x = idempotencyKey) (executions s) of
         None \<Rightarrow> Inl ErrWorkflowExecutionNotFound
       | Some x \<Rightarrow> Inr x)"

text \<open>
  The transaction of \<open>CreateWorkflowExecution\<close>: \<open>Inr False\<close> is the violation of the
  constraint \<open>workflow_executions_org_idempotency_unique\<close>, any other violation aborts.
\<close>

definition node_insertable ::
  "WorkflowExecution list \<Rightarrow> WorkflowNodeExecution \<Rightarrow> WorkflowNodeExecution list \<Rightarrow> bool" where
  "node_insertable xs n rows \<longleftrightarrow>
     n_ID n \<notin> n_ID ` set rows \<and> node_type_valid (n_NodeType n) \<and> 0 \<le> n_Attempt n \<and>
     (n_OrgID n, n_WorkflowExecutionID n) \<in> (\<lambda>x. (x_OrgID x, x_ID x)) ` set xs \<and>
     (\<forall>r \<in> set rows. \<not> (n_OrgID r = n_OrgID n \<and> n_WorkflowExecutionID r = n_WorkflowExecutionID n \<and>
        n_NodeID r = n_NodeID n))"

fun insert_nodes ::
  "WorkflowExecution list \<Rightarrow> WorkflowNodeExecution list \<Rightarrow> WorkflowNodeExecution list \<Rightarrow>
     WorkflowNodeExecution list option" where
  "insert_nodes xs [] rows = Some rows"
| "insert_nodes xs (n # ns) rows =
     (if node_insertable xs n rows then insert_nodes xs ns (rows @ [n]) else None)"

text \<open>The foreign key \<open>workflow_executions_version_fk\<close>.\<close>

definition version_exists :: "WorkflowExecution \<Rightarrow> WorkflowVersion list \<Rightarrow> bool" where
  "version_exists x vs \<longleftrightarrow>
     (\<exists>v \<in> set vs. v_OrgID v = x_OrgID x \<and> v_WorkflowID v = x_WorkflowID x \<and>
        v_ID v = x_WorkflowVersionID x \<and> v_Version v = x_WorkflowVersion x)"

definition insert_execution ::
  "WorkflowExecution \<Rightarrow> WorkflowNodeExecution list \<Rightarrow> store \<Rightarrow> (err + bool) \<times> store" where
  "insert_execution execution nodes s =
     (if x_ID execution \<in> x_ID ` set (executions s)
      then (Inl (ErrInfra ''postgres: create workflow execution''), s)
      else if \<exists>x \<in> set (executions s). x_OrgID x = x_OrgID execution \<and>
                x_IdempotencyKey x = x_IdempotencyKey execution
      then (Inr False, s)
      else if \<not> version_exists execution (versions s)
      then (Inl (ErrInfra ''postgres: create workflow execution''), s)
      else
        case insert_nodes (executions s @ [execution]) nodes (node_executions s) of
          None \<Rightarrow> (Inl (ErrInfra ''postgres: create workflow node execution''), s)
        | Some rows \<Rightarrow>
            (Inr True, s\<lparr>executions := executions s @ [execution], node_executions := rows\<rparr>))"

definition same_request ::
  "WorkflowExecution \<Rightarrow> WorkflowExecution \<Rightarrow> err + (WorkflowExecution \<times> bool)" where
  "same_request existing execution =
     (if x_RequestFingerprint existing \<noteq> x_RequestFingerprint execution
      then Inl ErrWorkflowExecutionIdempotencyConflict
      else Inr (existing, True))"

definition CreateWorkflowExecution ::
  "env \<Rightarrow> WorkflowExecution \<Rightarrow> WorkflowNodeExecution list \<Rightarrow> (err + (WorkflowExecution \<times> bool)) io" where
  "CreateWorkflowExecution E execution nodes = do {
     found \<leftarrow> getWorkflowExecutionByIdempotency E (x_OrgID execution) (x_IdempotencyKey execution);
     case found of
       Inr existing \<Rightarrow> State_Monad.return (same_request existing execution)
     | Inl e \<Rightarrow>
         if e \<noteq> ErrWorkflowExecutionNotFound then State_Monad.return (Inl e)
         else bind_ok (atomic E ''postgres: create workflow execution'' (insert_execution execution nodes))
           (\<lambda>inserted.
              if inserted then State_Monad.return (Inr (execution, False))
              else bind_ok
                (getWorkflowExecutionByIdempotency E (x_OrgID execution) (x_IdempotencyKey execution))
                (\<lambda>existing. State_Monad.return (same_request existing execution))) }"

definition node_before :: "WorkflowNodeExecution \<Rightarrow> WorkflowNodeExecution \<Rightarrow> bool" where
  "node_before a b \<longleftrightarrow>
     n_CreatedAt a < n_CreatedAt b \<or> n_CreatedAt a = n_CreatedAt b \<and> str_less (n_NodeID a) (n_NodeID b)"

definition nodes_of :: "uuid \<Rightarrow> uuid \<Rightarrow> store \<Rightarrow> WorkflowNodeExecution list" where
  "nodes_of orgID executionID s =
     filter (\<lambda>n. n_OrgID n = orgID \<and> n_WorkflowExecutionID n = executionID) (node_executions s)"

definition GetWorkflowNodeExecutions :: "env \<Rightarrow> uuid \<Rightarrow> uuid \<Rightarrow> (err + WorkflowNodeExecution list) io" where
  "GetWorkflowNodeExecutions E orgID executionID =
     query E ''postgres: get workflow node executions'' (\<lambda>s.
       Inr (sort_by node_before (nodes_of orgID executionID s)))"

definition claimable :: "uuid \<Rightarrow> uuid \<Rightarrow> string \<Rightarrow> WorkflowNodeExecution \<Rightarrow> bool" where
  "claimable orgID executionID nodeID n \<longleftrightarrow>
     n_OrgID n = orgID \<and> n_WorkflowExecutionID n = executionID \<and> n_NodeID n = nodeID \<and>
     n_Status n = WorkflowNodePending"

definition claimed :: "time \<Rightarrow> WorkflowNodeExecution \<Rightarrow> WorkflowNodeExecution" where
  "claimed now n =
     n\<lparr>n_Status := WorkflowNodeRunning, n_Attempt := n_Attempt n + 1,
       n_StartedAt := (case n_StartedAt n of None \<Rightarrow> Some now | Some t \<Rightarrow> Some t), n_UpdatedAt := now\<rparr>"

text \<open>\<open>None\<close> is the result \<open>(nil, false, nil)\<close>: another process won the node.\<close>

definition ClaimWorkflowNode ::
  "env \<Rightarrow> uuid \<Rightarrow> uuid \<Rightarrow> string \<Rightarrow> time \<Rightarrow> (err + WorkflowNodeExecution option) io" where
  "ClaimWorkflowNode E orgID executionID nodeID now =
     atomic E ''postgres: claim workflow node'' (\<lambda>s.
       case find (claimable orgID executionID nodeID) (node_executions s) of
         None \<Rightarrow> (Inr None, s)
       | Some n \<Rightarrow>
           (Inr (Some (claimed now n)),
            s\<lparr>node_executions :=
                update_where (claimable orgID executionID nodeID) (claimed now) (node_executions s)\<rparr>))"

definition write_node :: "WorkflowNodeExecution \<Rightarrow> WorkflowNodeExecution \<Rightarrow> WorkflowNodeExecution" where
  "write_node node r =
     r\<lparr>n_Status := n_Status node, n_Attempt := n_Attempt node, n_Input := n_Input node,
       n_Output := n_Output node, n_ErrorCode := n_ErrorCode node,
       n_ErrorMessage := n_ErrorMessage node, n_QueueTaskID := n_QueueTaskID node,
       n_WebhookDeliveryID := n_WebhookDeliveryID node, n_AvailableAt := n_AvailableAt node,
       n_StartedAt := n_StartedAt node, n_CompletedAt := n_CompletedAt node,
       n_UpdatedAt := n_UpdatedAt node\<rparr>"

definition node_expected ::
  "WorkflowNodeExecution \<Rightarrow> WorkflowNodeExecutionStatus \<Rightarrow> WorkflowNodeExecution \<Rightarrow> bool" where
  "node_expected node expected r \<longleftrightarrow>
     n_OrgID r = n_OrgID node \<and> n_WorkflowExecutionID r = n_WorkflowExecutionID node \<and>
     n_ID r = n_ID node \<and> n_Status r = expected"

definition UpdateWorkflowNodeExecution ::
  "env \<Rightarrow> WorkflowNodeExecution \<Rightarrow> WorkflowNodeExecutionStatus \<Rightarrow> (err + bool) io" where
  "UpdateWorkflowNodeExecution E node expected =
     atomic E ''postgres: update workflow node execution'' (\<lambda>s.
       (Inr (affected (node_expected node expected) (node_executions s) = 1),
        s\<lparr>node_executions :=
            update_where (node_expected node expected) (write_node node) (node_executions s)\<rparr>))"

definition write_execution :: "WorkflowExecution \<Rightarrow> WorkflowExecution \<Rightarrow> WorkflowExecution" where
  "write_execution execution r =
     r\<lparr>x_Status := x_Status execution, x_Output := x_Output execution,
       x_ErrorCode := x_ErrorCode execution, x_ErrorMessage := x_ErrorMessage execution,
       x_StartedAt := x_StartedAt execution, x_CompletedAt := x_CompletedAt execution,
       x_UpdatedAt := x_UpdatedAt execution\<rparr>"

definition execution_expected ::
  "WorkflowExecution \<Rightarrow> WorkflowExecutionStatus list \<Rightarrow> WorkflowExecution \<Rightarrow> bool" where
  "execution_expected execution expected r \<longleftrightarrow>
     x_OrgID r = x_OrgID execution \<and> x_ID r = x_ID execution \<and> x_Status r \<in> set expected"

definition UpdateWorkflowExecution ::
  "env \<Rightarrow> WorkflowExecution \<Rightarrow> WorkflowExecutionStatus list \<Rightarrow> (err + bool) io" where
  "UpdateWorkflowExecution E execution expected =
     atomic E ''postgres: update workflow execution'' (\<lambda>s.
       (Inr (affected (execution_expected execution expected) (executions s) = 1),
        s\<lparr>executions :=
            update_where (execution_expected execution expected) (write_execution execution)
              (executions s)\<rparr>))"

definition open_node :: "uuid \<Rightarrow> uuid \<Rightarrow> WorkflowNodeExecution \<Rightarrow> bool" where
  "open_node orgID executionID n \<longleftrightarrow>
     n_OrgID n = orgID \<and> n_WorkflowExecutionID n = executionID \<and>
     n_Status n \<in> {WorkflowNodePending, WorkflowNodeQueued, WorkflowNodeRunning}"

definition cancel_node :: "string \<Rightarrow> string \<Rightarrow> time \<Rightarrow> WorkflowNodeExecution \<Rightarrow> WorkflowNodeExecution" where
  "cancel_node code msg now n =
     n\<lparr>n_Status := WorkflowNodeCancelled, n_ErrorCode := code, n_ErrorMessage := msg,
       n_CompletedAt := Some now, n_UpdatedAt := now\<rparr>"

definition FinalizeWorkflowExecution ::
  "env \<Rightarrow> WorkflowExecution \<Rightarrow> WorkflowExecutionStatus list \<Rightarrow> bool \<Rightarrow> (err + bool) io" where
  "FinalizeWorkflowExecution E execution expected cancelOpenNodes =
     atomic E ''postgres: finalize workflow execution'' (\<lambda>s.
       if affected (execution_expected execution expected) (executions s) = 0 then (Inr False, s)
       else
         (Inr True,
          s\<lparr>executions :=
              update_where (execution_expected execution expected) (write_execution execution)
                (executions s),
            node_executions :=
              (if cancelOpenNodes
               then update_where (open_node (x_OrgID execution) (x_ID execution))
                      (cancel_node (x_ErrorCode execution) (x_ErrorMessage execution)
                         (x_UpdatedAt execution)) (node_executions s)
               else node_executions s)\<rparr>))"

definition cancel_execution :: "time \<Rightarrow> WorkflowExecution \<Rightarrow> WorkflowExecution" where
  "cancel_execution now x =
     x\<lparr>x_Status := WorkflowExecutionCancelled, x_ErrorCode := ''workflow_execution_cancelled'',
       x_ErrorMessage := ''workflow execution was cancelled'', x_CompletedAt := Some now,
       x_UpdatedAt := now\<rparr>"

definition CancelWorkflowExecution ::
  "env \<Rightarrow> uuid \<Rightarrow> uuid \<Rightarrow> uuid \<Rightarrow> time \<Rightarrow> (err + WorkflowExecution) io" where
  "CancelWorkflowExecution E orgID workflowID executionID now =
     atomic E ''postgres: cancel workflow execution'' (\<lambda>s.
       case find (\<lambda>x. x_OrgID x = orgID \<and> x_WorkflowID x = workflowID \<and> x_ID x = executionID)
              (executions s) of
         None \<Rightarrow> (Inl ErrWorkflowExecutionNotFound, s)
       | Some x \<Rightarrow>
           if execution_terminal (x_Status x) then (Inl ErrWorkflowExecutionTerminal, s)
           else
             (Inr (cancel_execution now x),
              s\<lparr>executions :=
                  update_where (\<lambda>r. x_OrgID r = orgID \<and> x_ID r = executionID) (cancel_execution now)
                    (executions s),
                node_executions :=
                  update_where (open_node orgID executionID)
                    (cancel_node ''workflow_execution_cancelled'' ''workflow execution was cancelled'' now)
                    (node_executions s)\<rparr>))"

definition reconcile_before :: "WorkflowExecution \<Rightarrow> WorkflowExecution \<Rightarrow> bool" where
  "reconcile_before a b \<longleftrightarrow>
     x_UpdatedAt a < x_UpdatedAt b \<or> x_UpdatedAt a = x_UpdatedAt b \<and> x_ID a < x_ID b"

definition ListWorkflowExecutionsForReconciliation :: "env \<Rightarrow> int \<Rightarrow> (err + WorkflowExecution list) io" where
  "ListWorkflowExecutionsForReconciliation E limit =
     (let limit' = if limit \<le> 0 \<or> limit > 1000 then 100 else limit in
      query E ''postgres: list workflow executions for reconciliation'' (\<lambda>s.
        Inr (take (nat limit') (sort_by reconcile_before
          (filter (\<lambda>x. x_Status x \<in> {WorkflowExecutionPending, WorkflowExecutionRunning}) (executions s))))))"

subsection \<open>What every method guarantees\<close>

definition node_identity :: "WorkflowNodeExecution \<Rightarrow> uuid \<times> uuid \<times> uuid \<times> string \<times> WorkflowNodeType \<times> time" where
  "node_identity n =
     (n_ID n, n_OrgID n, n_WorkflowExecutionID n, n_NodeID n, n_NodeType n, n_CreatedAt n)"

definition execution_identity ::
  "WorkflowExecution \<Rightarrow> uuid \<times> uuid \<times> uuid \<times> uuid \<times> int \<times> raw \<times> string \<times> string \<times> time" where
  "execution_identity x =
     (x_ID x, x_OrgID x, x_WorkflowID x, x_WorkflowVersionID x, x_WorkflowVersion x, x_Input x,
      x_IdempotencyKey x, x_RequestFingerprint x, x_CreatedAt x)"

text \<open>A node leaves \<open>pending\<close> once and never changes after a terminal status.\<close>

definition node_step :: "WorkflowNodeExecution \<Rightarrow> WorkflowNodeExecution \<Rightarrow> bool" where
  "node_step n n' \<longleftrightarrow>
     node_identity n' = node_identity n \<and>
     (n' = n \<or> \<not> node_terminal (n_Status n) \<and>
        (n_Status n' = WorkflowNodePending \<longrightarrow> n_Status n = WorkflowNodePending))"

definition execution_step :: "WorkflowExecution \<Rightarrow> WorkflowExecution \<Rightarrow> bool" where
  "execution_step x x' \<longleftrightarrow>
     execution_identity x' = execution_identity x \<and>
     (x' = x \<or> \<not> execution_terminal (x_Status x) \<and>
        (x_Status x' = WorkflowExecutionPending \<longrightarrow> x_Status x = WorkflowExecutionPending))"

text \<open>A published version keeps everything but its status.\<close>

definition version_identity ::
  "WorkflowVersion \<Rightarrow>
     uuid \<times> uuid \<times> uuid \<times> int \<times> string \<times> string \<times> string option \<times> WorkflowDefinition \<times> time \<times> time" where
  "version_identity v =
     (v_ID v, v_OrgID v, v_WorkflowID v, v_Version v, v_Name v, v_Slug v, v_Description v,
      v_Definition v, v_PublishedAt v, v_CreatedAt v)"

definition version_step :: "WorkflowVersion \<Rightarrow> WorkflowVersion \<Rightarrow> bool" where
  "version_step v v' \<longleftrightarrow> version_identity v' = version_identity v"

definition execution_keys :: "store \<Rightarrow> (uuid \<times> uuid) set" where
  "execution_keys s = (\<lambda>x. (x_OrgID x, x_ID x)) ` set (executions s)"

definition node_key :: "WorkflowNodeExecution \<Rightarrow> uuid \<times> uuid" where
  "node_key n = (n_OrgID n, n_WorkflowExecutionID n)"

text \<open>The set of nodes of an execution is fixed when the execution is created.\<close>

definition new_nodes :: "store \<Rightarrow> store \<Rightarrow> WorkflowNodeExecution list" where
  "new_nodes s s' = drop (length (node_executions s)) (node_executions s')"

definition exec_step :: "store \<Rightarrow> store \<Rightarrow> bool" where
  "exec_step s s' \<longleftrightarrow>
     evolves execution_step (executions s) (executions s') \<and>
     evolves node_step (node_executions s) (node_executions s') \<and>
     evolves version_step (versions s) (versions s') \<and>
     (\<forall>n \<in> set (new_nodes s s'). node_key n \<notin> execution_keys s)"

lemma node_step_refl [simp]: "node_step n n"
  by (simp add: node_step_def)

lemma node_step_trans: "node_step a b \<Longrightarrow> node_step b c \<Longrightarrow> node_step a c"
  by (auto simp: node_step_def)

lemma execution_step_refl [simp]: "execution_step x x"
  by (simp add: execution_step_def)

lemma execution_step_trans: "execution_step a b \<Longrightarrow> execution_step b c \<Longrightarrow> execution_step a c"
  by (auto simp: execution_step_def)

lemma version_step_refl [simp]: "version_step v v"
  by (simp add: version_step_def)

lemma version_step_trans: "version_step a b \<Longrightarrow> version_step b c \<Longrightarrow> version_step a c"
  by (simp add: version_step_def)

lemma node_step_key: "node_step n n' \<Longrightarrow> node_key n' = node_key n"
  by (simp add: node_step_def node_identity_def node_key_def)

lemma execution_step_key: "execution_step x x' \<Longrightarrow> x_OrgID x' = x_OrgID x \<and> x_ID x' = x_ID x"
  by (simp add: execution_step_def execution_identity_def)

lemma execution_keys_mono: "exec_step s s' \<Longrightarrow> execution_keys s \<subseteq> execution_keys s'"
proof
  fix k assume s: "exec_step s s'" and "k \<in> execution_keys s"
  then obtain x where x: "x \<in> set (executions s)" "k = (x_OrgID x, x_ID x)"
    by (auto simp: execution_keys_def)
  have "evolves execution_step (executions s) (executions s')" using s by (simp add: exec_step_def)
  from evolvesD [OF this x(1)] obtain x' where x': "x' \<in> set (executions s')" "execution_step x x'"
    by blast
  have "k = (x_OrgID x', x_ID x')" using execution_step_key [OF x'(2)] x(2) by simp
  then show "k \<in> execution_keys s'"
    unfolding execution_keys_def using x'(1) by (rule image_eqI)
qed

lemma new_nodes_trans:
  assumes "exec_step s t" and "exec_step t u" and "n \<in> set (new_nodes s u)"
  shows "node_key n \<notin> execution_keys s"
proof -
  from assms(3) obtain i where i: "i < length (node_executions u)" "length (node_executions s) \<le> i"
      "n = node_executions u ! i"
    unfolding new_nodes_def in_set_conv_nth by (auto simp: less_diff_conv add.commute)
  show ?thesis
  proof (cases "i < length (node_executions t)")
    case True
    have "node_step (node_executions t ! i) n"
      using assms(2) True i(3) by (simp add: exec_step_def evolves_def)
    moreover have "node_executions t ! i \<in> set (new_nodes s t)"
      unfolding new_nodes_def in_set_conv_nth using True i(2)
      by (intro exI [of _ "i - length (node_executions s)"]) auto
    ultimately show ?thesis using assms(1) by (simp add: node_step_key exec_step_def)
  next
    case False
    then have "n \<in> set (new_nodes t u)"
      unfolding new_nodes_def in_set_conv_nth using i
      by (intro exI [of _ "i - length (node_executions t)"]) auto
    then show ?thesis using assms(2) execution_keys_mono [OF assms(1)] by (auto simp: exec_step_def)
  qed
qed

interpretation ex: store_guarantee exec_step
proof
  show "exec_step s s" for s
    by (simp add: exec_step_def evolves_refl new_nodes_def)
  show "exec_step s u" if "exec_step s t" "exec_step t u" for s t u
    using that new_nodes_trans [OF that]
      evolves_trans [of execution_step "executions s" "executions t" "executions u"]
      evolves_trans [of node_step "node_executions s" "node_executions t" "node_executions u"]
      evolves_trans [of version_step "versions s" "versions t" "versions u"]
      execution_step_trans node_step_trans version_step_trans
    unfolding exec_step_def by blast
qed

text \<open>Statements that touch other tables only.\<close>

lemma exec_step_frame:
  assumes "executions s' = executions s" "node_executions s' = node_executions s" "versions s' = versions s"
  shows "exec_step s s'"
  using assms by (simp add: exec_step_def evolves_refl new_nodes_def)

lemma exec_step_nodes:
  assumes "executions s' = executions s" "versions s' = versions s"
    and "node_executions s' = update_where P f (node_executions s)"
    and "\<And>n. P n \<Longrightarrow> node_step n (f n)"
  shows "exec_step s s'"
  using assms by (simp add: exec_step_def evolves_refl evolves_update_where new_nodes_def)

lemma exec_step_both:
  assumes "executions s' = update_where P f (executions s)" "versions s' = versions s"
    and "node_executions s' = update_where Q g (node_executions s)"
    and "\<And>x. P x \<Longrightarrow> execution_step x (f x)" and "\<And>n. Q n \<Longrightarrow> node_step n (g n)"
  shows "exec_step s s'"
  using assms by (simp add: exec_step_def evolves_refl evolves_update_where new_nodes_def)

lemma exec_step_executions:
  assumes "executions s' = update_where P f (executions s)" "versions s' = versions s"
    and "node_executions s' = node_executions s"
    and "\<And>x. P x \<Longrightarrow> execution_step x (f x)"
  shows "exec_step s s'"
  using assms by (simp add: exec_step_def evolves_refl evolves_update_where new_nodes_def)

lemma step_claimed: "claimable orgID executionID nodeID n \<Longrightarrow> node_step n (claimed now n)"
  by (simp add: node_step_def claimable_def claimed_def node_identity_def node_terminal_def)

lemma step_write_node:
  assumes "node_expected node expected n" and "\<not> node_terminal expected"
    and "n_Status node \<noteq> WorkflowNodePending"
  shows "node_step n (write_node node n)"
  using assms by (simp add: node_step_def node_expected_def write_node_def node_identity_def)

lemma step_write_execution:
  assumes "execution_expected x expected r" and "\<forall>st \<in> set expected. \<not> execution_terminal st"
    and "x_Status x \<noteq> WorkflowExecutionPending"
  shows "execution_step r (write_execution x r)"
  using assms by (auto simp: execution_step_def execution_expected_def write_execution_def execution_identity_def)

lemma step_cancel_node: "open_node orgID executionID n \<Longrightarrow> node_step n (cancel_node code msg now n)"
  by (auto simp: node_step_def open_node_def cancel_node_def node_identity_def node_terminal_def)

lemma insert_nodes_rows: "insert_nodes xs ns rows = Some rows' \<Longrightarrow> rows' = rows @ ns"
  by (induction xs ns rows rule: insert_nodes.induct) (auto split: if_splits)

lemma step_insert_execution:
  assumes "\<forall>n \<in> set ns. node_key n = (x_OrgID x, x_ID x)"
  shows "exec_step s (snd (insert_execution x ns s))"
proof -
  have "node_key n \<notin> execution_keys s"
    if "x_ID x \<notin> x_ID ` set (executions s)" "n \<in> set ns" for n
    using that assms by (auto simp: execution_keys_def)
  then show ?thesis
    by (auto simp: insert_execution_def ex.refl exec_step_def evolves_refl evolves_append new_nodes_def
        dest!: insert_nodes_rows split: option.split)
qed

end
