(* ===== verification/Workflow_Store.thy ===== *)
theory Workflow_Store
  imports World
begin

text \<open>
  The repository of workflows and their published versions (workflow_repository.go) on
  the tables \<open>workflows\<close> and \<open>versions\<close>. A definition is stored as JSON: an edge
  condition that is empty comes back as the document \<open>null\<close>, and a condition that is
  not JSON cannot be stored.
\<close>

definition stored_edge :: "WorkflowEdge \<Rightarrow> WorkflowEdge" where
  "stored_edge e = (if raw_empty (e_Condition e) then e\<lparr>e_Condition := RawDoc JNull\<rparr> else e)"

definition stored_definition :: "WorkflowDefinition \<Rightarrow> WorkflowDefinition" where
  "stored_definition d = d\<lparr>d_Edges := map_option (map stored_edge) (d_Edges d)\<rparr>"

definition marshals :: "WorkflowDefinition \<Rightarrow> bool" where
  "marshals d \<longleftrightarrow>
     list_all (\<lambda>e. raw_empty (e_Condition e) \<or> raw_valid (e_Condition e)) (elems (d_Edges d))"

definition live_workflow :: "uuid \<Rightarrow> uuid \<Rightarrow> Workflow \<Rightarrow> bool" where
  "live_workflow orgID i w \<longleftrightarrow> wf_OrgID w = orgID \<and> wf_ID w = i \<and> wf_DeletedAt w = None"

text \<open>The unique index on the slugs of an organisation's workflows that are not deleted.\<close>

definition slug_taken :: "Workflow \<Rightarrow> Workflow list \<Rightarrow> bool" where
  "slug_taken w rows \<longleftrightarrow>
     (\<exists>r \<in> set rows. wf_OrgID r = wf_OrgID w \<and> wf_Slug r = wf_Slug w \<and> wf_DeletedAt r = None \<and>
        wf_ID r \<noteq> wf_ID w)"

definition CreateWorkflow :: "env \<Rightarrow> Workflow \<Rightarrow> (err + unit) io" where
  "CreateWorkflow E workflow =
     (if \<not> marshals (wf_Definition workflow)
      then State_Monad.return (Inl (ErrInfra ''postgres: marshal workflow definition''))
      else atomic E ''postgres: create workflow'' (\<lambda>s.
        if wf_ID workflow \<in> wf_ID ` set (workflows s) \<or> slug_taken workflow (workflows s)
        then (Inl ErrWorkflowSlugConflict, s)
        else
          (Inr (),
           s\<lparr>workflows := workflows s @
               [workflow\<lparr>wf_Definition := stored_definition (wf_Definition workflow),
                         wf_DeletedAt := None\<rparr>]\<rparr>)))"

definition GetWorkflowByID :: "env \<Rightarrow> uuid \<Rightarrow> uuid \<Rightarrow> (err + Workflow) io" where
  "GetWorkflowByID E orgID i =
     query E ''postgres: get workflow'' (\<lambda>s. row ErrWorkflowNotFound (live_workflow orgID i) (workflows s))"

definition GetWorkflowBySlug :: "env \<Rightarrow> uuid \<Rightarrow> string \<Rightarrow> (err + Workflow) io" where
  "GetWorkflowBySlug E orgID slug =
     query E ''postgres: get workflow by slug'' (\<lambda>s.
       row ErrWorkflowNotFound
         (\<lambda>w. wf_OrgID w = orgID \<and> wf_Slug w = slug \<and> wf_DeletedAt w = None) (workflows s))"

definition UpdateWorkflow :: "env \<Rightarrow> Workflow \<Rightarrow> (err + unit) io" where
  "UpdateWorkflow E workflow =
     (if \<not> marshals (wf_Definition workflow)
      then State_Monad.return (Inl (ErrInfra ''postgres: marshal workflow definition''))
      else atomic E ''postgres: update workflow'' (\<lambda>s.
        let P = live_workflow (wf_OrgID workflow) (wf_ID workflow) in
        if affected P (workflows s) = 0 then (Inl ErrWorkflowNotFound, s)
        else if slug_taken workflow (workflows s) then (Inl ErrWorkflowSlugConflict, s)
        else
          (Inr (),
           s\<lparr>workflows := update_where P
               (\<lambda>w. w\<lparr>wf_Name := wf_Name workflow, wf_Slug := wf_Slug workflow,
                      wf_Description := wf_Description workflow,
                      wf_Definition := stored_definition (wf_Definition workflow),
                      wf_Status := wf_Status workflow, wf_UpdatedAt := wf_UpdatedAt workflow\<rparr>)
               (workflows s)\<rparr>)))"

definition SoftDeleteWorkflow :: "env \<Rightarrow> uuid \<Rightarrow> uuid \<Rightarrow> time \<Rightarrow> (err + unit) io" where
  "SoftDeleteWorkflow E orgID i now =
     atomic E ''postgres: soft delete workflow'' (\<lambda>s.
       if affected (live_workflow orgID i) (workflows s) = 0 then (Inl ErrWorkflowNotFound, s)
       else
         (Inr (),
          s\<lparr>workflows := update_where (live_workflow orgID i)
              (\<lambda>w. w\<lparr>wf_DeletedAt := Some now, wf_UpdatedAt := now\<rparr>) (workflows s)\<rparr>))"

subsection \<open>Versions\<close>

definition unix_micro :: "time \<Rightarrow> int" where
  "unix_micro t = t div Microsecond"

definition next_version :: "uuid \<Rightarrow> uuid \<Rightarrow> WorkflowVersion list \<Rightarrow> int" where
  "next_version orgID workflowID rows =
     fold max (map v_Version (filter (\<lambda>v. v_OrgID v = orgID \<and> v_WorkflowID v = workflowID) rows)) 0 + 1"

definition version_insertable :: "WorkflowVersion \<Rightarrow> WorkflowVersion list \<Rightarrow> bool" where
  "version_insertable v rows \<longleftrightarrow>
     v_ID v \<notin> v_ID ` set rows \<and> 0 < v_Version v \<and>
     (\<forall>r \<in> set rows. \<not> (v_OrgID r = v_OrgID v \<and> v_WorkflowID r = v_WorkflowID v \<and>
        v_Version r = v_Version v))"

definition version_of :: "uuid \<Rightarrow> Workflow \<Rightarrow> int \<Rightarrow> time \<Rightarrow> WorkflowVersion" where
  "version_of i current n publishedAt =
     \<lparr>v_ID = i, v_OrgID = wf_OrgID current, v_WorkflowID = wf_ID current, v_Version = n,
      v_Name = wf_Name current, v_Slug = wf_Slug current, v_Description = wf_Description current,
      v_Definition = wf_Definition current, v_Status = WorkflowVersionStatusPublished,
      v_PublishedAt = publishedAt, v_CreatedAt = publishedAt\<rparr>"

text \<open>The transaction of \<open>PublishWorkflow\<close> under the row lock on the workflow.\<close>

definition publish_tx :: "uuid \<Rightarrow> Workflow \<Rightarrow> time \<Rightarrow> store \<Rightarrow> (err + WorkflowVersion) \<times> store" where
  "publish_tx i expected publishedAt s =
     (let P = live_workflow (wf_OrgID expected) (wf_ID expected) in
      case find P (workflows s) of
        None \<Rightarrow> (Inl ErrWorkflowNotFound, s)
      | Some current \<Rightarrow>
          if wf_Status current = WorkflowStatusArchived then (Inl ErrInvalidStateTransition, s)
          else if unix_micro (wf_UpdatedAt current) \<noteq> unix_micro (wf_UpdatedAt expected)
          then (Inl ErrWorkflowPublishConflict, s)
          else
            let version = version_of i current
                  (next_version (wf_OrgID current) (wf_ID current) (versions s)) publishedAt in
            if \<not> version_insertable version (versions s)
            then (Inl (ErrInfra ''postgres: publish workflow insert version''), s)
            else
              (Inr version,
               s\<lparr>versions := versions s @ [version],
                 workflows := update_where P
                   (\<lambda>w. w\<lparr>wf_Status := WorkflowStatusPublished, wf_UpdatedAt := publishedAt\<rparr>)
                   (workflows s)\<rparr>))"

definition repository_PublishWorkflow :: "env \<Rightarrow> Workflow \<Rightarrow> time \<Rightarrow> (err + WorkflowVersion) io" where
  "repository_PublishWorkflow E expected publishedAt = do {
     i \<leftarrow> uuid_new E;
     atomic E ''postgres: publish workflow'' (publish_tx i expected publishedAt) }"

definition CreateWorkflowVersion :: "env \<Rightarrow> WorkflowVersion \<Rightarrow> (err + unit) io" where
  "CreateWorkflowVersion E version =
     (if \<not> marshals (v_Definition version)
      then State_Monad.return (Inl (ErrInfra ''postgres: marshal workflow version definition''))
      else atomic E ''postgres: create workflow version'' (\<lambda>s.
        if version_insertable version (versions s)
        then (Inr (), s\<lparr>versions := versions s @
                [version\<lparr>v_Definition := stored_definition (v_Definition version)\<rparr>]\<rparr>)
        else (Inl (ErrInfra ''postgres: create workflow version''), s)))"

definition workflow_live :: "uuid \<Rightarrow> uuid \<Rightarrow> store \<Rightarrow> bool" where
  "workflow_live orgID workflowID s \<longleftrightarrow> (\<exists>w \<in> set (workflows s). live_workflow orgID workflowID w)"

definition is_version_of :: "uuid \<Rightarrow> uuid \<Rightarrow> WorkflowVersion \<Rightarrow> bool" where
  "is_version_of orgID workflowID v \<longleftrightarrow> v_OrgID v = orgID \<and> v_WorkflowID v = workflowID"

definition GetWorkflowVersion :: "env \<Rightarrow> uuid \<Rightarrow> uuid \<Rightarrow> int \<Rightarrow> (err + WorkflowVersion) io" where
  "GetWorkflowVersion E orgID workflowID version =
     query E ''postgres: get workflow version'' (\<lambda>s.
       row ErrWorkflowVersionNotFound
         (\<lambda>v. is_version_of orgID workflowID v \<and> v_Version v = version \<and> workflow_live orgID workflowID s)
         (versions s))"

definition newer :: "WorkflowVersion \<Rightarrow> WorkflowVersion \<Rightarrow> bool" where
  "newer a b \<longleftrightarrow> v_Version b < v_Version a"

record WorkflowVersionSummary =
  vs_Version :: int
  vs_VersionID :: uuid
  vs_Status :: WorkflowVersionStatus
  vs_PublishedAt :: time
  vs_Name :: string
  vs_Slug :: string

definition version_summary :: "WorkflowVersion \<Rightarrow> WorkflowVersionSummary" where
  "version_summary v =
     \<lparr>vs_Version = v_Version v, vs_VersionID = v_ID v, vs_Status = v_Status v,
      vs_PublishedAt = v_PublishedAt v, vs_Name = v_Name v, vs_Slug = v_Slug v\<rparr>"

definition ListWorkflowVersions :: "env \<Rightarrow> uuid \<Rightarrow> uuid \<Rightarrow> (err + WorkflowVersionSummary list) io" where
  "ListWorkflowVersions E orgID workflowID =
     bind_ok (GetWorkflowByID E orgID workflowID) (\<lambda>_.
       query E ''postgres: list workflow versions'' (\<lambda>s.
         Inr (map version_summary (sort_by newer (filter (is_version_of orgID workflowID) (versions s))))))"

definition GetLatestWorkflowVersion :: "env \<Rightarrow> uuid \<Rightarrow> uuid \<Rightarrow> (err + WorkflowVersion) io" where
  "GetLatestWorkflowVersion E orgID workflowID =
     query E ''postgres: get latest workflow version'' (\<lambda>s.
       if \<not> workflow_live orgID workflowID s then Inl ErrWorkflowVersionNotFound
       else case sort_by newer (filter (is_version_of orgID workflowID) (versions s)) of
              [] \<Rightarrow> Inl ErrWorkflowVersionNotFound
            | v # _ \<Rightarrow> Inr v)"

end
