(* ===== verification/Node_Config.thy ===== *)
theory Node_Config
  imports Domain
begin

text \<open>
  Node configurations (workflow_node_config.go): decoding a node's configuration
  object into the struct of its node type, the checks on it, the branch label of an
  edge that leaves a condition, and the evaluation of a condition on the input of an
  execution.
\<close>

definition maxWorkflowDelaySeconds :: int where
  "maxWorkflowDelaySeconds = 7 * 24 * 60 * 60"

definition maxWorkflowQueueLength :: nat where
  "maxWorkflowQueueLength = 64"

record workflowTaskConfig =
  tc_Queue :: string
  tc_Payload :: raw
  tc_Priority :: int
  tc_MaxRetries :: int
  tc_TimeoutSeconds :: int

record workflowWebhookConfig =
  hc_EndpointID :: string
  hc_Payload :: raw

record workflowDelayConfig =
  dc_DurationSeconds :: int

record workflowConditionConfig =
  cc_Field :: string
  cc_Operator :: string
  cc_Value :: json

subsection \<open>Decoding\<close>

text \<open>
  The configuration is encoded and decoded again, so that the decoder sees its
  members in key order; the result is a single object by construction.
\<close>

definition decodeWorkflowNodeConfig :: "'r field list \<Rightarrow> 'r \<Rightarrow> config \<Rightarrow> string + 'r" where
  "decodeWorkflowNodeConfig fs zero config =
     (case config of
        None \<Rightarrow> Inl ''config must be an object''
      | Some ms \<Rightarrow>
          (case decode_members fs ms None zero of
             (Some e, _) \<Rightarrow> Inl e
           | (None, r) \<Rightarrow> Inr r))"

definition task_fields :: "workflowTaskConfig field list" where
  "task_fields =
     [(''queue'', string_field ''workflowTaskConfig.queue'' (\<lambda>v r. r\<lparr>tc_Queue := v\<rparr>)),
      (''payload'', raw_field (\<lambda>v r. r\<lparr>tc_Payload := v\<rparr>)),
      (''priority'', int_field ''workflowTaskConfig.priority'' (\<lambda>v r. r\<lparr>tc_Priority := v\<rparr>)),
      (''max_retries'', int_field ''workflowTaskConfig.max_retries'' (\<lambda>v r. r\<lparr>tc_MaxRetries := v\<rparr>)),
      (''timeout_seconds'',
         int_field ''workflowTaskConfig.timeout_seconds'' (\<lambda>v r. r\<lparr>tc_TimeoutSeconds := v\<rparr>))]"

definition webhook_fields :: "workflowWebhookConfig field list" where
  "webhook_fields =
     [(''endpoint_id'', string_field ''workflowWebhookConfig.endpoint_id'' (\<lambda>v r. r\<lparr>hc_EndpointID := v\<rparr>)),
      (''payload'', raw_field (\<lambda>v r. r\<lparr>hc_Payload := v\<rparr>))]"

definition delay_fields :: "workflowDelayConfig field list" where
  "delay_fields =
     [(''duration_seconds'',
         int_field ''workflowDelayConfig.duration_seconds'' (\<lambda>v r. r\<lparr>dc_DurationSeconds := v\<rparr>))]"

definition condition_fields :: "workflowConditionConfig field list" where
  "condition_fields =
     [(''field'', string_field ''workflowConditionConfig.field'' (\<lambda>v r. r\<lparr>cc_Field := v\<rparr>)),
      (''operator'', string_field ''workflowConditionConfig.operator'' (\<lambda>v r. r\<lparr>cc_Operator := v\<rparr>)),
      (''value'', any_field (\<lambda>v r. r\<lparr>cc_Value := v\<rparr>))]"

definition branch_fields :: "bool option field list" where
  "branch_fields = [(''branch'', bool_ptr_field ''workflowBranchConfig.branch'' (\<lambda>v r. v))]"

subsection \<open>Checks\<close>

definition parseWorkflowTaskConfig :: "config \<Rightarrow> string + workflowTaskConfig" where
  "parseWorkflowTaskConfig config =
     (case decodeWorkflowNodeConfig task_fields
             \<lparr>tc_Queue = [], tc_Payload = RawNil, tc_Priority = 0, tc_MaxRetries = 0, tc_TimeoutSeconds = 0\<rparr>
             config of
        Inl e \<Rightarrow> Inl e
      | Inr decoded \<Rightarrow>
          let result = decoded\<lparr>tc_Queue := trim_space (tc_Queue decoded)\<rparr> in
          if tc_Queue result = [] \<or> length (tc_Queue result) > maxWorkflowQueueLength
          then Inl ''queue must be between 1 and 64 characters''
          else if tc_Priority result < 0 \<or> tc_Priority result > 9
          then Inl ''priority must be between 0 and 9''
          else if tc_MaxRetries result < 0 \<or> tc_MaxRetries result > 99
          then Inl ''max_retries must be between 0 and 99''
          else if tc_TimeoutSeconds result < 0 \<or> tc_TimeoutSeconds result > 86400
          then Inl ''timeout_seconds must be between 0 and 86400''
          else if \<not> raw_empty (tc_Payload result) \<and> \<not> raw_valid (tc_Payload result)
          then Inl ''payload must be valid JSON''
          else Inr result)"

definition parseWorkflowWebhookConfig :: "config \<Rightarrow> string + workflowWebhookConfig" where
  "parseWorkflowWebhookConfig config =
     (case decodeWorkflowNodeConfig webhook_fields \<lparr>hc_EndpointID = [], hc_Payload = RawNil\<rparr> config of
        Inl e \<Rightarrow> Inl e
      | Inr decoded \<Rightarrow>
          let result = decoded\<lparr>hc_EndpointID := trim_space (hc_EndpointID decoded)\<rparr> in
          if hc_EndpointID result = [] then Inl ''endpoint_id is required''
          else if \<not> raw_empty (hc_Payload result) \<and> \<not> raw_valid (hc_Payload result)
          then Inl ''payload must be valid JSON''
          else Inr result)"

definition parseWorkflowDelayConfig :: "config \<Rightarrow> string + workflowDelayConfig" where
  "parseWorkflowDelayConfig config =
     (case decodeWorkflowNodeConfig delay_fields \<lparr>dc_DurationSeconds = 0\<rparr> config of
        Inl e \<Rightarrow> Inl e
      | Inr result \<Rightarrow>
          if dc_DurationSeconds result < 0 \<or> dc_DurationSeconds result > maxWorkflowDelaySeconds
          then Inl (''duration_seconds must be between 0 and '' @ itoa maxWorkflowDelaySeconds)
          else Inr result)"

definition parseWorkflowConditionConfig :: "config \<Rightarrow> string + workflowConditionConfig" where
  "parseWorkflowConditionConfig config =
     (case decodeWorkflowNodeConfig condition_fields
             \<lparr>cc_Field = [], cc_Operator = [], cc_Value = JNull\<rparr> config of
        Inl e \<Rightarrow> Inl e
      | Inr decoded \<Rightarrow>
          let result = decoded\<lparr>cc_Field := trim_space (cc_Field decoded),
                               cc_Operator := trim_space (cc_Operator decoded)\<rparr> in
          if \<not> starts_with ''input.'' (cc_Field result) \<or> length (cc_Field result) \<le> length ''input.''
          then Inl ''field must start with input.''
          else if cc_Operator result = ''equals'' \<or> cc_Operator result = ''not_equals''
          then (if map_of (elems config) ''value'' = None
                then Inl ''value is required for equals and not_equals''
                else Inr result)
          else if cc_Operator result = ''exists'' then Inr result
          else Inl ''operator must be equals, not_equals, or exists'')"

definition parseWorkflowBranch :: "raw \<Rightarrow> string + bool option" where
  "parseWorkflowBranch condition =
     (if raw_empty condition \<or> raw_null condition then Inr None
      else
        case condition of
          RawDoc (JObj ms) \<Rightarrow>
            (case decode_members branch_fields ms None None of
               (None, Some b) \<Rightarrow> Inr (Some b)
             | _ \<Rightarrow> Inl ''condition edge must contain a boolean branch'')
        | _ \<Rightarrow> Inl ''condition edge must contain a boolean branch'')"

subsection \<open>Conditions\<close>

text \<open>Following the dotted path into the input: the value reached and whether it is there.\<close>

fun follow :: "json \<Rightarrow> string list \<Rightarrow> json \<times> bool" where
  "follow current [] = (current, True)"
| "follow current (part # parts) =
     (case current of
        JObj ms \<Rightarrow> (case map_of ms part of None \<Rightarrow> (JNull, False) | Some v \<Rightarrow> follow v parts)
      | _ \<Rightarrow> (current, False))"

definition evaluateWorkflowCondition :: "workflowConditionConfig \<Rightarrow> raw \<Rightarrow> string + bool" where
  "evaluateWorkflowCondition config input =
     (case (if raw_empty input then Inr (JObj []) else unmarshal_any input) of
        Inl e \<Rightarrow> Inl e
      | Inr doc \<Rightarrow>
          (case follow doc (split_on CHR ''.'' (trim_prefix ''input.'' (cc_Field config))) of
             (current, found) \<Rightarrow>
               if cc_Operator config = ''exists'' then Inr found
               else if cc_Operator config = ''equals'' then Inr (found \<and> current = cc_Value config)
               else if cc_Operator config = ''not_equals'' then Inr (\<not> found \<or> current \<noteq> cc_Value config)
               else Inl ''unsupported condition operator''))"

subsection \<open>What an accepted configuration satisfies\<close>

text \<open>The conditions the services rely on when they execute a node.\<close>

definition task_config_ok :: "workflowTaskConfig \<Rightarrow> bool" where
  "task_config_ok c \<longleftrightarrow>
     tc_Queue c \<noteq> [] \<and> length (tc_Queue c) \<le> 64 \<and> trim_space (tc_Queue c) = tc_Queue c \<and>
     tc_Priority c \<in> {0..9} \<and> tc_MaxRetries c \<in> {0..99} \<and> tc_TimeoutSeconds c \<in> {0..86400} \<and>
     (raw_empty (tc_Payload c) \<or> raw_valid (tc_Payload c))"

lemma parse_task_ok: "parseWorkflowTaskConfig config = Inr c \<Longrightarrow> task_config_ok c"
  by (auto simp: parseWorkflowTaskConfig_def task_config_ok_def maxWorkflowQueueLength_def Let_def
      split: sum.splits if_splits)

lemma parse_delay_ok:
  "parseWorkflowDelayConfig config = Inr c \<Longrightarrow> 0 \<le> dc_DurationSeconds c \<and> dc_DurationSeconds c \<le> 604800"
  by (auto simp: parseWorkflowDelayConfig_def maxWorkflowDelaySeconds_def split: sum.splits if_splits)

lemma parse_condition_operator:
  "parseWorkflowConditionConfig config = Inr c \<Longrightarrow>
     cc_Operator c \<in> {''equals'', ''not_equals'', ''exists''} \<and> starts_with ''input.'' (cc_Field c)"
  by (auto simp: parseWorkflowConditionConfig_def Let_def split: sum.splits if_splits)

text \<open>
  A condition that was accepted never fails on JSON input: the third operator is the
  negation of the second, and \<open>exists\<close> is implied by equality.
\<close>

lemma evaluate_total:
  assumes "parseWorkflowConditionConfig config = Inr c" and "raw_empty input \<or> raw_valid input"
  shows "\<exists>b. evaluateWorkflowCondition c input = Inr b"
proof -
  from assms(2) obtain doc where
    "(if raw_empty input then Inr (JObj []) else unmarshal_any input) = Inr doc"
    by (auto simp: raw_empty_def raw_valid_def unmarshal_any_def split: raw.splits)
  moreover note parse_condition_operator [OF assms(1)]
  ultimately show ?thesis
    by (auto simp: evaluateWorkflowCondition_def split: prod.split)
qed

lemma not_equals_negates:
  assumes "evaluateWorkflowCondition (c\<lparr>cc_Operator := ''equals''\<rparr>) input = Inr b"
  shows "evaluateWorkflowCondition (c\<lparr>cc_Operator := ''not_equals''\<rparr>) input = Inr (\<not> b)"
proof (cases "if raw_empty input then Inr (JObj []) else unmarshal_any input")
  case (Inl e)
  with assms show ?thesis by (simp add: evaluateWorkflowCondition_def del: if_split)
next
  case (Inr doc)
  then show ?thesis using assms
    by (simp add: evaluateWorkflowCondition_def del: if_split split: prod.splits) auto
qed

lemma branch_sum:
  "parseWorkflowBranch c = Inr b \<Longrightarrow> b = None \<longleftrightarrow> raw_empty c \<or> raw_null c"
  by (auto simp: parseWorkflowBranch_def split: if_splits raw.splits json.splits prod.splits option.splits)

end
