(* ===== verification/Broker.thy ===== *)
theory Broker
  imports World
begin

text \<open>
  The Redis broker (redis_broker.go). A queue of an organisation has a sorted set of
  pending messages whose scores order them by priority and then by arrival, a set of
  messages in flight, a set of delayed messages scored by the time they are due, the
  priorities of its messages, a sequence counter and a dead-letter list. Each Lua
  script and each transaction pipeline is one function of that record. Scores are
  integers; they stay exact in a binary64 number as long as the counter is below
  \<open>2 ^ 52\<close>. Messages with equal scores are ordered by their identifiers.
\<close>

definition priorityBucketSize :: int where
  "priorityBucketSize = 1000000000000"

subsection \<open>Keys\<close>

definition queueKey :: "env \<Rightarrow> uuid \<Rightarrow> string \<Rightarrow> string \<Rightarrow> string" where
  "queueKey E orgID queue part =
     ''queueflow:v1:org:'' @ uuid_text E orgID @ '':queue:'' @ queue @ '':'' @ part"

definition key_suffixes :: "string list" where
  "key_suffixes = [''pending'', ''processing'', ''delayed'', ''priorities'', ''sequence'', ''dlq'']"

subsection \<open>Sorted sets\<close>

definition zrem :: "brokerMessage \<Rightarrow> zset \<Rightarrow> zset" where
  "zrem m z = filter (\<lambda>p. fst p \<noteq> m) z"

definition zadd :: "brokerMessage \<Rightarrow> int \<Rightarrow> zset \<Rightarrow> zset" where
  "zadd m score z = zrem m z @ [(m, score)]"

definition msg_before :: "brokerMessage \<Rightarrow> brokerMessage \<Rightarrow> bool" where
  "msg_before a b \<longleftrightarrow> bm_OrgID a < bm_OrgID b \<or> bm_OrgID a = bm_OrgID b \<and> bm_TaskID a < bm_TaskID b"

definition z_before :: "brokerMessage \<times> int \<Rightarrow> brokerMessage \<times> int \<Rightarrow> bool" where
  "z_before a b \<longleftrightarrow> snd a < snd b \<or> snd a = snd b \<and> msg_before (fst a) (fst b)"

definition zsorted :: "zset \<Rightarrow> zset" where
  "zsorted z = sort_by z_before z"

text \<open>\<open>HGET\<close>, \<open>HSET\<close> and \<open>HDEL\<close> on the priorities.\<close>

definition hset :: "brokerMessage \<Rightarrow> int \<Rightarrow> (brokerMessage \<times> int) list \<Rightarrow> (brokerMessage \<times> int) list" where
  "hset m v h = filter (\<lambda>p. fst p \<noteq> m) h @ [(m, v)]"

definition hdel :: "brokerMessage \<Rightarrow> (brokerMessage \<times> int) list \<Rightarrow> (brokerMessage \<times> int) list" where
  "hdel m h = filter (\<lambda>p. fst p \<noteq> m) h"

definition hget :: "brokerMessage \<Rightarrow> (brokerMessage \<times> int) list \<Rightarrow> int" where
  "hget m h = (case map_of h m of None \<Rightarrow> 0 | Some v \<Rightarrow> v)"

subsection \<open>Scripts\<close>

definition normalizePriority :: "int \<Rightarrow> int" where
  "normalizePriority priority = (if priority < 0 then 0 else if priority > 9 then 9 else priority)"

definition pending_score :: "int \<Rightarrow> int \<Rightarrow> int" where
  "pending_score priority sequence = (9 - priority) * priorityBucketSize + sequence"

definition enqueueScript :: "brokerMessage \<Rightarrow> int \<Rightarrow> queue_data \<Rightarrow> queue_data" where
  "enqueueScript m priority q =
     (let p = normalizePriority priority; n = q_sequence q + 1 in
      q\<lparr>q_priorities := hset m p (q_priorities q), q_sequence := n,
        q_pending := zadd m (pending_score p n) (q_pending q)\<rparr>)"

definition dequeueScript :: "queue_data \<Rightarrow> brokerMessage option \<times> queue_data" where
  "dequeueScript q =
     (case zsorted (q_pending q) of
        [] \<Rightarrow> (None, q)
      | (m, score) # _ \<Rightarrow>
          (Some m, q\<lparr>q_pending := zrem m (q_pending q), q_processing := zadd m score (q_processing q)\<rparr>))"

definition immediateNackScript :: "brokerMessage \<Rightarrow> queue_data \<Rightarrow> queue_data" where
  "immediateNackScript m q =
     (let p = hget m (q_priorities q); n = q_sequence q + 1 in
      q\<lparr>q_processing := zrem m (q_processing q), q_sequence := n,
        q_pending := zadd m (pending_score p n) (q_pending q)\<rparr>)"

definition promote_one :: "brokerMessage \<Rightarrow> queue_data \<Rightarrow> queue_data" where
  "promote_one m q =
     (let p = hget m (q_priorities q); n = q_sequence q + 1 in
      q\<lparr>q_delayed := zrem m (q_delayed q), q_sequence := n,
        q_pending := zadd m (pending_score p n) (q_pending q)\<rparr>)"

definition due_delayed :: "int \<Rightarrow> queue_data \<Rightarrow> brokerMessage list" where
  "due_delayed nowMs q =
     take 100 (map fst (zsorted (filter (\<lambda>p. snd p \<le> nowMs) (q_delayed q))))"

definition promoteDelayedScript :: "int \<Rightarrow> queue_data \<Rightarrow> int \<times> queue_data" where
  "promoteDelayedScript nowMs q =
     (let ms = due_delayed nowMs q in (int (length ms), fold promote_one ms q))"

subsection \<open>Transaction pipelines\<close>

definition ack_pipe :: "brokerMessage \<Rightarrow> queue_data \<Rightarrow> queue_data" where
  "ack_pipe m q = q\<lparr>q_processing := zrem m (q_processing q), q_priorities := hdel m (q_priorities q)\<rparr>"

definition nack_pipe :: "brokerMessage \<Rightarrow> int \<Rightarrow> queue_data \<Rightarrow> queue_data" where
  "nack_pipe m readyMs q =
     q\<lparr>q_processing := zrem m (q_processing q), q_delayed := zadd m readyMs (q_delayed q)\<rparr>"

definition delay_pipe :: "brokerMessage \<Rightarrow> int \<Rightarrow> int \<Rightarrow> queue_data \<Rightarrow> queue_data" where
  "delay_pipe m priority readyMs q =
     q\<lparr>q_priorities := hset m (normalizePriority priority) (q_priorities q),
       q_delayed := zadd m readyMs (q_delayed q)\<rparr>"

definition dead_letter_pipe :: "brokerMessage \<Rightarrow> queue_data \<Rightarrow> queue_data" where
  "dead_letter_pipe m q =
     q\<lparr>q_processing := zrem m (q_processing q), q_pending := zrem m (q_pending q),
       q_delayed := zrem m (q_delayed q), q_priorities := hdel m (q_priorities q),
       q_dlq := m # q_dlq q\<rparr>"

definition remove_pipe :: "brokerMessage \<Rightarrow> queue_data \<Rightarrow> queue_data" where
  "remove_pipe m q =
     q\<lparr>q_pending := zrem m (q_pending q), q_processing := zrem m (q_processing q),
       q_delayed := zrem m (q_delayed q), q_priorities := hdel m (q_priorities q),
       q_dlq := removeAll m (q_dlq q)\<rparr>"

subsection \<open>Methods\<close>

definition message :: "uuid \<Rightarrow> uuid \<Rightarrow> brokerMessage" where
  "message orgID taskID = \<lparr>bm_OrgID = orgID, bm_TaskID = taskID\<rparr>"

definition parseMessage :: "brokerMessage \<Rightarrow> uuid \<Rightarrow> uuid option" where
  "parseMessage msg expectedOrgID =
     (if bm_OrgID msg \<noteq> expectedOrgID \<or> bm_TaskID msg = 0 then None else Some (bm_TaskID msg))"

definition on_queue :: "uuid \<Rightarrow> string \<Rightarrow> (queue_data \<Rightarrow> queue_data) \<Rightarrow> store \<Rightarrow> store" where
  "on_queue orgID queue f s =
     s\<lparr>queues := (queues s)((orgID, queue) := f (queues s (orgID, queue)))\<rparr>"

definition broker_call ::
  "env \<Rightarrow> string \<Rightarrow> uuid \<Rightarrow> string \<Rightarrow> (queue_data \<Rightarrow> queue_data) \<Rightarrow> (err + unit) io" where
  "broker_call E what orgID queue f = atomic E what (\<lambda>s. (Inr (), on_queue orgID queue f s))"

definition Enqueue :: "env \<Rightarrow> Task \<Rightarrow> (err + unit) io" where
  "Enqueue E task =
     broker_call E ''redis: enqueue'' (t_OrgID task) (t_Queue task)
       (enqueueScript (message (t_OrgID task) (t_ID task)) (t_Priority task))"

text \<open>
  The polling loop of \<open>Dequeue\<close> ends when a message is there, when the timeout expires
  or when the context is cancelled. \<open>polls\<close> is the number of polls that come back empty
  before one of the latter two happens, and \<open>gone\<close> tells which.
\<close>

fun Dequeue :: "env \<Rightarrow> uuid \<Rightarrow> string \<Rightarrow> err \<Rightarrow> nat \<Rightarrow> (err + uuid) io" where
  "Dequeue E orgID queue gone polls =
     bind_ok (atomic E ''redis dequeue'' (\<lambda>s.
                case dequeueScript (queues s (orgID, queue)) of
                  (r, q) \<Rightarrow> (Inr r, on_queue orgID queue (\<lambda>_. q) s)))
       (\<lambda>r. case r of
          Some m \<Rightarrow>
            (case parseMessage m orgID of
               None \<Rightarrow> State_Monad.return (Inl (ErrInfra ''redis dequeue: invalid task message''))
             | Some i \<Rightarrow> State_Monad.return (Inr i))
        | None \<Rightarrow>
            (case polls of
               0 \<Rightarrow> State_Monad.return (Inl gone)
             | Suc n \<Rightarrow> Dequeue E orgID queue gone n))"

declare Dequeue.simps [simp del]

definition Ack :: "env \<Rightarrow> uuid \<Rightarrow> string \<Rightarrow> uuid \<Rightarrow> (err + unit) io" where
  "Ack E orgID queue taskID =
     broker_call E ''redis: ack'' orgID queue (ack_pipe (message orgID taskID))"

definition unix_milli :: "time \<Rightarrow> int" where
  "unix_milli t = t div Millisecond - 62135596800000"

definition Nack :: "env \<Rightarrow> uuid \<Rightarrow> string \<Rightarrow> uuid \<Rightarrow> int \<Rightarrow> (err + unit) io" where
  "Nack E orgID queue taskID delay =
     (if delay \<le> 0
      then broker_call E ''redis: nack'' orgID queue (immediateNackScript (message orgID taskID))
      else do {
        now \<leftarrow> time_now E;
        broker_call E ''redis: nack'' orgID queue
          (nack_pipe (message orgID taskID) (unix_milli (now + delay))) })"

definition EnqueueDelayed :: "env \<Rightarrow> Task \<Rightarrow> int \<Rightarrow> (err + unit) io" where
  "EnqueueDelayed E task delay = do {
     now \<leftarrow> time_now E;
     broker_call E ''redis: enqueue delayed'' (t_OrgID task) (t_Queue task)
       (delay_pipe (message (t_OrgID task) (t_ID task)) (t_Priority task) (unix_milli (now + delay))) }"

definition broker_MoveToDeadLetter :: "env \<Rightarrow> uuid \<Rightarrow> string \<Rightarrow> uuid \<Rightarrow> (err + unit) io" where
  "broker_MoveToDeadLetter E orgID queue taskID =
     broker_call E ''redis: move to dead letter'' orgID queue (dead_letter_pipe (message orgID taskID))"

definition PromoteDueDelayed :: "env \<Rightarrow> uuid \<Rightarrow> string \<Rightarrow> (err + int) io" where
  "PromoteDueDelayed E orgID queue = do {
     now \<leftarrow> time_now E;
     atomic E ''redis promote delayed'' (\<lambda>s.
       case promoteDelayedScript (unix_milli now) (queues s (orgID, queue)) of
         (n, q) \<Rightarrow> (Inr n, on_queue orgID queue (\<lambda>_. q) s)) }"

definition QueueDepth :: "env \<Rightarrow> uuid \<Rightarrow> string \<Rightarrow> (err + int) io" where
  "QueueDepth E orgID queue =
     query E ''redis: queue depth'' (\<lambda>s. Inr (int (length (q_pending (queues s (orgID, queue))))))"

definition Remove :: "env \<Rightarrow> uuid \<Rightarrow> string \<Rightarrow> uuid \<Rightarrow> (err + unit) io" where
  "Remove E orgID queue taskID =
     broker_call E ''redis: remove'' orgID queue (remove_pipe (message orgID taskID))"

end
