(* ===== verification/Task_Store.thy ===== *)
theory Task_Store
  imports World
begin

text \<open>
  The task repository (postgres_storage.go, models.go) on the tables \<open>tasks\<close>,
  \<open>workers\<close> and \<open>api_keys\<close>. A row of \<open>tasks\<close> is kept in the form in which
  \<open>scanTaskRow\<close> returns it; \<open>stored_task\<close> is what an insert followed by a scan makes of
  a task. A row that a concurrent transaction holds is skipped by the claim and by the
  reclaim scan (\<open>SKIP LOCKED\<close>): it counts as taken by that transaction.
\<close>

subsection \<open>Rows\<close>

definition stored_task :: "Task \<Rightarrow> Task" where
  "stored_task t =
     t\<lparr>t_TaskTimeout := milliseconds (t_TaskTimeout t) * Millisecond,
       t_VisibilityTimeout := milliseconds (t_VisibilityTimeout t) * Millisecond,
       t_LockedBy := [], t_LastHeartbeatAt := None, t_CompletedAt := None, t_DeletedAt := None,
       t_DispatchedAt := None, t_LastError := []\<rparr>"

definition is_task :: "uuid \<Rightarrow> uuid \<Rightarrow> Task \<Rightarrow> bool" where
  "is_task orgID i t \<longleftrightarrow> t_OrgID t = orgID \<and> t_ID t = i"

text \<open>\<open>UPDATE tasks SET f WHERE P\<close>; no affected row is the error \<open>e\<close>.\<close>

definition update_task :: "err \<Rightarrow> (Task \<Rightarrow> bool) \<Rightarrow> (Task \<Rightarrow> Task) \<Rightarrow> store \<Rightarrow> (err + unit) \<times> store" where
  "update_task e P f s =
     (if affected P (tasks s) = 0 then Inl e else Inr (),
      s\<lparr>tasks := update_where P f (tasks s)\<rparr>)"

subsection \<open>Methods\<close>

definition Create :: "env \<Rightarrow> Task \<Rightarrow> (err + unit) io" where
  "Create E task =
     atomic E ''postgres: create task'' (\<lambda>s.
       if t_ID task \<in> t_ID ` set (tasks s) \<or>
          t_IdempotencyKey task \<noteq> [] \<and>
          (\<exists>r \<in> set (tasks s). t_OrgID r = t_OrgID task \<and> t_Queue r = t_Queue task \<and>
             t_IdempotencyKey r = t_IdempotencyKey task)
       then (Inl ErrDuplicateIdempotencyKey, s)
       else (Inr (), s\<lparr>tasks := tasks s @ [stored_task task]\<rparr>))"

definition GetByID :: "env \<Rightarrow> uuid \<Rightarrow> uuid \<Rightarrow> (err + Task) io" where
  "GetByID E orgID i =
     query E ''postgres: get task'' (\<lambda>s.
       row ErrTaskNotFound (\<lambda>t. is_task orgID i t \<and> t_DeletedAt t = None) (tasks s))"

definition FindByIdempotencyKey :: "env \<Rightarrow> uuid \<Rightarrow> string \<Rightarrow> string \<Rightarrow> (err + Task) io" where
  "FindByIdempotencyKey E orgID queue key =
     query E ''postgres: find by idempotency key'' (\<lambda>s.
       row ErrTaskNotFound
         (\<lambda>t. t_OrgID t = orgID \<and> t_Queue t = queue \<and> key \<noteq> [] \<and> t_IdempotencyKey t = key) (tasks s))"

definition claim_visible :: "uuid \<Rightarrow> uuid \<Rightarrow> time \<Rightarrow> Task \<Rightarrow> bool" where
  "claim_visible orgID i now t \<longleftrightarrow>
     is_task orgID i t \<and> t_DeletedAt t = None \<and> t_VisibleAt t \<le> now \<and>
     (t_Status t = StatusPending \<or> t_Status t = StatusProcessing \<and> t_VisibleAt t < now)"

definition ClaimForProcessing :: "env \<Rightarrow> uuid \<Rightarrow> uuid \<Rightarrow> string \<Rightarrow> time \<Rightarrow> (err + Task) io" where
  "ClaimForProcessing E orgID i workerID now =
     atomic E ''postgres: claim'' (\<lambda>s.
       case find (claim_visible orgID i now) (tasks s) of
         None \<Rightarrow> (Inl ErrTaskAlreadyLocked, s)
       | Some t \<Rightarrow>
           let t' = MarkProcessing workerID now t in
           (Inr t',
            s\<lparr>tasks := update_where (is_task orgID i)
                (\<lambda>r. r\<lparr>t_Status := t_Status t', t_LockedBy := t_LockedBy t', t_Attempts := t_Attempts t',
                       t_VisibleAt := t_VisibleAt t', t_LastHeartbeatAt := t_LastHeartbeatAt t',
                       t_UpdatedAt := now\<rparr>) (tasks s)\<rparr>))"

definition Heartbeat :: "env \<Rightarrow> uuid \<Rightarrow> uuid \<Rightarrow> string \<Rightarrow> int \<Rightarrow> time \<Rightarrow> (err + unit) io" where
  "Heartbeat E orgID i workerID visibilityTimeout now =
     atomic E ''postgres: heartbeat''
       (update_task ErrTaskAlreadyLocked
          (\<lambda>t. is_task orgID i t \<and> t_LockedBy t = workerID \<and> t_Status t = StatusProcessing)
          (\<lambda>t. t\<lparr>t_VisibleAt := now + visibilityTimeout, t_LastHeartbeatAt := Some now,
                 t_UpdatedAt := now\<rparr>))"

definition Complete :: "env \<Rightarrow> uuid \<Rightarrow> uuid \<Rightarrow> time \<Rightarrow> (err + unit) io" where
  "Complete E orgID i now =
     atomic E ''postgres: complete''
       (update_task ErrTaskNotFound
          (\<lambda>t. is_task orgID i t \<and> t_Status t = StatusProcessing)
          (\<lambda>t. t\<lparr>t_Status := StatusCompleted, t_CompletedAt := Some now, t_LockedBy := [],
                 t_LastHeartbeatAt := None, t_UpdatedAt := now\<rparr>))"

definition Fail :: "env \<Rightarrow> uuid \<Rightarrow> uuid \<Rightarrow> string \<Rightarrow> TaskStatus \<Rightarrow> time \<Rightarrow> time \<Rightarrow> (err + unit) io" where
  "Fail E orgID i errMsg nextStatus visibleAt now =
     atomic E ''postgres: fail''
       (update_task ErrTaskNotFound
          (\<lambda>t. is_task orgID i t \<and> t_Status t = StatusProcessing)
          (\<lambda>t. t\<lparr>t_Status := nextStatus, t_LastError := errMsg, t_VisibleAt := visibleAt,
                 t_LockedBy := [], t_LastHeartbeatAt := None, t_DispatchedAt := None,
                 t_UpdatedAt := now\<rparr>))"

definition MoveToDeadLetter :: "env \<Rightarrow> uuid \<Rightarrow> uuid \<Rightarrow> string \<Rightarrow> time \<Rightarrow> (err + unit) io" where
  "MoveToDeadLetter E orgID i errMsg now =
     atomic E ''postgres: move to dlq''
       (update_task ErrTaskNotFound
          (\<lambda>t. is_task orgID i t \<and> t_Status t = StatusProcessing)
          (\<lambda>t. t\<lparr>t_Status := StatusDeadLetter, t_LastError := errMsg, t_LockedBy := [],
                 t_LastHeartbeatAt := None, t_UpdatedAt := now\<rparr>))"

definition expired :: "uuid \<Rightarrow> string \<Rightarrow> time \<Rightarrow> Task \<Rightarrow> bool" where
  "expired orgID queue now t \<longleftrightarrow>
     t_OrgID t = orgID \<and> t_Queue t = queue \<and> t_Status t = StatusProcessing \<and> t_VisibleAt t < now"

text \<open>The rows are returned as they were selected, before the update.\<close>

definition ReclaimExpired :: "env \<Rightarrow> uuid \<Rightarrow> string \<Rightarrow> time \<Rightarrow> int \<Rightarrow> (err + Task list) io" where
  "ReclaimExpired E orgID queue now limit =
     atomic E ''postgres: reclaim'' (\<lambda>s.
       let reclaimed = take (nat limit)
             (sort_by (\<lambda>a b. t_VisibleAt a < t_VisibleAt b) (filter (expired orgID queue now) (tasks s)));
           ids = map t_ID reclaimed
       in (Inr reclaimed,
           s\<lparr>tasks := update_where (\<lambda>t. t_OrgID t = orgID \<and> t_ID t \<in> set ids)
               (\<lambda>t. t\<lparr>t_Status := StatusPending, t_LockedBy := [], t_LastHeartbeatAt := None,
                      t_VisibleAt := now, t_DispatchedAt := None, t_UpdatedAt := now\<rparr>) (tasks s)\<rparr>))"

definition Requeue :: "env \<Rightarrow> uuid \<Rightarrow> uuid \<Rightarrow> time \<Rightarrow> (err + unit) io" where
  "Requeue E orgID i now =
     atomic E ''postgres: requeue''
       (update_task ErrInvalidStateTransition
          (\<lambda>t. is_task orgID i t \<and> t_Status t \<in> {StatusFailed, StatusDeadLetter, StatusCancelled} \<and>
                t_DeletedAt t = None)
          (\<lambda>t. t\<lparr>t_Status := StatusPending, t_Attempts := 0, t_LockedBy := [], t_LastHeartbeatAt := None,
                 t_LastError := [], t_VisibleAt := now, t_DispatchedAt := None, t_CompletedAt := None,
                 t_UpdatedAt := now\<rparr>))"

definition cancelled_task :: "time \<Rightarrow> Task \<Rightarrow> Task" where
  "cancelled_task now t =
     t\<lparr>t_Status := StatusCancelled, t_LockedBy := [], t_LastHeartbeatAt := None, t_UpdatedAt := now\<rparr>"

definition Cancel :: "env \<Rightarrow> uuid \<Rightarrow> uuid \<Rightarrow> time \<Rightarrow> (err + Task) io" where
  "Cancel E orgID i now =
     atomic E ''postgres: cancel task'' (\<lambda>s.
       let P = \<lambda>t. is_task orgID i t \<and> t_Status t = StatusPending \<and> t_DeletedAt t = None in
       case find P (tasks s) of
         None \<Rightarrow> (Inl ErrInvalidStateTransition, s)
       | Some t \<Rightarrow>
           (Inr (cancelled_task now t), s\<lparr>tasks := update_where P (cancelled_task now) (tasks s)\<rparr>))"

definition SoftDelete :: "env \<Rightarrow> uuid \<Rightarrow> uuid \<Rightarrow> time \<Rightarrow> (err + unit) io" where
  "SoftDelete E orgID i now =
     atomic E ''postgres: soft delete task''
       (update_task ErrInvalidStateTransition
          (\<lambda>t. is_task orgID i t \<and> t_DeletedAt t = None \<and>
                t_Status t \<in> {StatusCompleted, StatusFailed, StatusDeadLetter, StatusCancelled})
          (\<lambda>t. t\<lparr>t_DeletedAt := Some now, t_UpdatedAt := now\<rparr>))"

text \<open>\<open>ByStatus\<close> holds the statuses that occur.\<close>

record queue_stats =
  qst_Queue :: string
  qst_ByStatus :: "(TaskStatus \<times> nat) list"
  qst_Total :: nat

text \<open>\<open>GROUP BY status\<close> has a row for each status that occurs.\<close>

definition QueueStats :: "env \<Rightarrow> uuid \<Rightarrow> string \<Rightarrow> (err + queue_stats) io" where
  "QueueStats E orgID queue =
     query E ''postgres: queue stats'' (\<lambda>s.
       let rows = filter (\<lambda>t. t_OrgID t = orgID \<and> t_Queue t = queue \<and> t_DeletedAt t = None) (tasks s);
           counts = map (\<lambda>st. (st, affected (\<lambda>t. t_Status t = st) rows)) (remdups (map t_Status rows))
       in Inr \<lparr>qst_Queue = queue, qst_ByStatus = counts, qst_Total = sum_list (map snd counts)\<rparr>)"

definition FindAPIKeyByHash :: "env \<Rightarrow> string \<Rightarrow> (err + APIKey) io" where
  "FindAPIKeyByHash E keyHash =
     query E ''postgres: find api key'' (\<lambda>s.
       case map_of (api_keys s) keyHash of None \<Rightarrow> Inl ErrUnauthorized | Some k \<Rightarrow> Inr k)"

definition MarkDispatched :: "env \<Rightarrow> uuid \<Rightarrow> uuid \<Rightarrow> time \<Rightarrow> (err + unit) io" where
  "MarkDispatched E orgID i now =
     atomic E ''postgres: mark dispatched''
       (update_task ErrTaskNotFound
          (\<lambda>t. is_task orgID i t \<and> t_Status t = StatusPending)
          (\<lambda>t. t\<lparr>t_DispatchedAt := Some now, t_UpdatedAt := now\<rparr>))"

text \<open>\<open>now()\<close> in the statement is the clock of the database.\<close>

definition ListUndispatchedPending :: "env \<Rightarrow> uuid \<Rightarrow> string \<Rightarrow> int \<Rightarrow> (err + Task list) io" where
  "ListUndispatchedPending E orgID queue limit = do {
     now \<leftarrow> time_now E;
     query E ''postgres: list undispatched'' (\<lambda>s.
       Inr (take (nat limit) (sort_by (\<lambda>a b. t_CreatedAt a < t_CreatedAt b)
         (filter (\<lambda>t. t_OrgID t = orgID \<and> t_Queue t = queue \<and> t_Status t = StatusPending \<and>
                    t_DispatchedAt t = None \<and> t_VisibleAt t \<le> now \<and> t_DeletedAt t = None) (tasks s))))) }"

definition ListWorkers :: "env \<Rightarrow> uuid \<Rightarrow> (err + Worker list) io" where
  "ListWorkers E orgID =
     query E ''postgres: list workers'' (\<lambda>s.
       Inr (sort_by (\<lambda>a b. str_less (w_ID a) (w_ID b)) (filter (\<lambda>w. w_OrgID w = orgID) (workers s))))"

definition is_worker :: "Worker \<Rightarrow> Worker \<Rightarrow> bool" where
  "is_worker worker w \<longleftrightarrow> w_OrgID w = w_OrgID worker \<and> w_ID w = w_ID worker"

definition UpsertWorkerHeartbeat :: "env \<Rightarrow> Worker \<Rightarrow> (err + unit) io" where
  "UpsertWorkerHeartbeat E worker =
     atomic E ''postgres: worker heartbeat'' (\<lambda>s.
       (Inr (),
        s\<lparr>workers :=
            (if affected (is_worker worker) (workers s) = 0
             then workers s @ [worker\<lparr>w_UpdatedAt := w_CreatedAt worker\<rparr>]
             else update_where (is_worker worker)
                    (\<lambda>w. w\<lparr>w_Queue := w_Queue worker, w_Status := w_Status worker,
                           w_LastHeartbeatAt := w_LastHeartbeatAt worker,
                           w_UpdatedAt := w_CreatedAt worker\<rparr>) (workers s))\<rparr>))"

definition scope_before :: "QueueScope \<Rightarrow> QueueScope \<Rightarrow> bool" where
  "scope_before a b \<longleftrightarrow>
     qs_OrgID a < qs_OrgID b \<or> qs_OrgID a = qs_OrgID b \<and> str_less (qs_Queue a) (qs_Queue b)"

definition ListActiveQueueScopes :: "env \<Rightarrow> (err + QueueScope list) io" where
  "ListActiveQueueScopes E =
     query E ''postgres: list active queue scopes'' (\<lambda>s.
       Inr (sort_by scope_before (remdups (map (\<lambda>t. \<lparr>qs_OrgID = t_OrgID t, qs_Queue = t_Queue t\<rparr>)
         (filter (\<lambda>t. t_DeletedAt t = None \<and> t_Status t \<in> {StatusPending, StatusProcessing}) (tasks s))))))"

definition ListDispatchableTasks :: "env \<Rightarrow> uuid \<Rightarrow> int \<Rightarrow> (err + Task list) io" where
  "ListDispatchableTasks E afterID limit =
     query E ''postgres: list dispatchable tasks'' (\<lambda>s.
       Inr (take (nat limit) (sort_by (\<lambda>a b. t_ID a < t_ID b)
         (filter (\<lambda>t. t_Status t = StatusPending \<and> t_DeletedAt t = None \<and> afterID < t_ID t) (tasks s)))))"

end
