(* ===== verification/Webhook_Store.thy ===== *)
theory Webhook_Store
  imports Task_Store
begin

text \<open>
  The repository of webhook endpoints and deliveries (webhook_repository.go) on the
  tables \<open>endpoints\<close> and \<open>deliveries\<close>.
\<close>

definition is_endpoint :: "uuid \<Rightarrow> uuid \<Rightarrow> WebhookEndpoint \<Rightarrow> bool" where
  "is_endpoint orgID i e \<longleftrightarrow> we_OrgID e = orgID \<and> we_ID e = i \<and> we_DeletedAt e = None"

definition CreateWebhookEndpoint :: "env \<Rightarrow> WebhookEndpoint \<Rightarrow> (err + unit) io" where
  "CreateWebhookEndpoint E endpoint =
     atomic E ''postgres: create webhook endpoint'' (\<lambda>s.
       if we_ID endpoint \<in> we_ID ` set (endpoints s) \<or> we_EventTypes endpoint = [] \<or>
          \<not> list_all webhook_event_valid (we_EventTypes endpoint)
       then (Inl (ErrInfra ''postgres: create webhook endpoint''), s)
       else (Inr (), s\<lparr>endpoints := endpoints s @ [endpoint\<lparr>we_DeletedAt := None\<rparr>]\<rparr>))"

definition ListWebhookEndpoints :: "env \<Rightarrow> uuid \<Rightarrow> (err + WebhookEndpoint list) io" where
  "ListWebhookEndpoints E orgID =
     query E ''postgres: list webhook endpoints'' (\<lambda>s.
       Inr (sort_by (\<lambda>a b. we_CreatedAt b < we_CreatedAt a \<or>
                         we_CreatedAt a = we_CreatedAt b \<and> we_ID b < we_ID a)
         (filter (\<lambda>e. we_OrgID e = orgID \<and> we_DeletedAt e = None) (endpoints s))))"

definition GetWebhookEndpoint :: "env \<Rightarrow> uuid \<Rightarrow> uuid \<Rightarrow> (err + WebhookEndpoint) io" where
  "GetWebhookEndpoint E orgID i =
     query E ''postgres: get webhook endpoint'' (\<lambda>s.
       row ErrWebhookEndpointNotFound (is_endpoint orgID i) (endpoints s))"

definition UpdateWebhookEndpoint :: "env \<Rightarrow> WebhookEndpoint \<Rightarrow> (err + unit) io" where
  "UpdateWebhookEndpoint E endpoint =
     atomic E ''postgres: update webhook endpoint'' (\<lambda>s.
       let P = is_endpoint (we_OrgID endpoint) (we_ID endpoint) in
       if affected P (endpoints s) = 0 then (Inl ErrWebhookEndpointNotFound, s)
       else if we_EventTypes endpoint = [] \<or> \<not> list_all webhook_event_valid (we_EventTypes endpoint)
       then (Inl (ErrInfra ''postgres: update webhook endpoint''), s)
       else
         (Inr (),
          s\<lparr>endpoints := update_where P
              (\<lambda>e. e\<lparr>we_Name := we_Name endpoint, we_URL := we_URL endpoint,
                     we_SecretHash := we_SecretHash endpoint,
                     we_SecretCiphertext := we_SecretCiphertext endpoint,
                     we_EventTypes := we_EventTypes endpoint, we_IsActive := we_IsActive endpoint,
                     we_UpdatedAt := we_UpdatedAt endpoint\<rparr>) (endpoints s)\<rparr>))"

definition SoftDeleteWebhookEndpoint :: "env \<Rightarrow> uuid \<Rightarrow> uuid \<Rightarrow> time \<Rightarrow> (err + unit) io" where
  "SoftDeleteWebhookEndpoint E orgID i now =
     atomic E ''postgres: soft delete webhook endpoint'' (\<lambda>s.
       if affected (is_endpoint orgID i) (endpoints s) = 0 then (Inl ErrWebhookEndpointNotFound, s)
       else
         (Inr (),
          s\<lparr>endpoints := update_where (is_endpoint orgID i)
              (\<lambda>e. e\<lparr>we_DeletedAt := Some now, we_IsActive := False, we_UpdatedAt := now\<rparr>)
              (endpoints s)\<rparr>))"

definition ListActiveWebhookEndpointsForEvent ::
  "env \<Rightarrow> uuid \<Rightarrow> WebhookEventType \<Rightarrow> (err + WebhookEndpoint list) io" where
  "ListActiveWebhookEndpointsForEvent E orgID eventType =
     query E ''postgres: list active webhook endpoints for event'' (\<lambda>s.
       Inr (sort_by (\<lambda>a b. we_CreatedAt a < we_CreatedAt b \<or>
                         we_CreatedAt a = we_CreatedAt b \<and> we_ID a < we_ID b)
         (filter (\<lambda>e. we_OrgID e = orgID \<and> we_IsActive e \<and> we_DeletedAt e = None \<and>
                    eventType \<in> set (we_EventTypes e)) (endpoints s))))"

subsection \<open>Deliveries\<close>

definition is_delivery :: "uuid \<Rightarrow> uuid \<Rightarrow> WebhookDelivery \<Rightarrow> bool" where
  "is_delivery orgID i d \<longleftrightarrow> wd_OrgID d = orgID \<and> wd_ID d = i"

text \<open>The constraint \<open>chk_webhook_delivery_attempts\<close>.\<close>

definition attempts_ok :: "WebhookDelivery \<Rightarrow> bool" where
  "attempts_ok d \<longleftrightarrow>
     0 \<le> wd_AttemptCount d \<and> 0 < wd_MaxAttempts d \<and> wd_AttemptCount d \<le> wd_MaxAttempts d"

definition CreateWebhookDelivery :: "env \<Rightarrow> WebhookDelivery \<Rightarrow> (err + unit) io" where
  "CreateWebhookDelivery E delivery =
     atomic E ''postgres: create webhook delivery'' (\<lambda>s.
       if wd_ID delivery \<in> wd_ID ` set (deliveries s) \<or> \<not> attempts_ok delivery \<or>
          (\<forall>e \<in> set (endpoints s). \<not> (we_OrgID e = wd_OrgID delivery \<and> we_ID e = wd_EndpointID delivery))
       then (Inl (ErrInfra ''postgres: create webhook delivery''), s)
       else (Inr (), s\<lparr>deliveries := deliveries s @ [delivery]\<rparr>))"

definition GetWebhookDelivery :: "env \<Rightarrow> uuid \<Rightarrow> uuid \<Rightarrow> (err + WebhookDelivery) io" where
  "GetWebhookDelivery E orgID i =
     query E ''postgres: get webhook delivery'' (\<lambda>s.
       row ErrWebhookDeliveryNotFound (is_delivery orgID i) (deliveries s))"

text \<open>\<open>ORDER BY next_attempt_at ASC NULLS FIRST, created_at ASC\<close>\<close>

definition due_before :: "WebhookDelivery \<Rightarrow> WebhookDelivery \<Rightarrow> bool" where
  "due_before a b \<longleftrightarrow>
     (case (wd_NextAttemptAt a, wd_NextAttemptAt b) of
        (None, None) \<Rightarrow> wd_CreatedAt a < wd_CreatedAt b
      | (None, Some _) \<Rightarrow> True
      | (Some _, None) \<Rightarrow> False
      | (Some x, Some y) \<Rightarrow> x < y \<or> x = y \<and> wd_CreatedAt a < wd_CreatedAt b)"

definition due_at :: "time \<Rightarrow> WebhookDelivery \<Rightarrow> bool" where
  "due_at now d \<longleftrightarrow>
     wd_Status d \<in> {WebhookDeliveryPending, WebhookDeliveryRetrying} \<and>
     wd_AttemptCount d < wd_MaxAttempts d \<and>
     (case wd_NextAttemptAt d of None \<Rightarrow> True | Some t \<Rightarrow> t \<le> now)"

definition due_limit :: "int \<Rightarrow> nat" where
  "due_limit limit = nat (if limit \<le> 0 \<or> limit > 1000 then 100 else limit)"

definition ListDueWebhookDeliveries :: "env \<Rightarrow> time \<Rightarrow> int \<Rightarrow> (err + WebhookDelivery list) io" where
  "ListDueWebhookDeliveries E now limit =
     query E ''postgres: list due webhook deliveries'' (\<lambda>s.
       Inr (take (due_limit limit) (sort_by due_before (filter (due_at now) (deliveries s)))))"

definition claim_delivery :: "time \<Rightarrow> WebhookDelivery \<Rightarrow> WebhookDelivery" where
  "claim_delivery now d =
     d\<lparr>wd_Status := WebhookDeliveryDelivering, wd_AttemptCount := wd_AttemptCount d + 1,
       wd_LastAttemptAt := Some now, wd_NextAttemptAt := None, wd_UpdatedAt := now\<rparr>"

text \<open>The update returns its rows in no particular order; the model takes table order.\<close>

definition ClaimDueWebhookDeliveries :: "env \<Rightarrow> time \<Rightarrow> int \<Rightarrow> (err + WebhookDelivery list) io" where
  "ClaimDueWebhookDeliveries E now limit =
     atomic E ''postgres: claim due webhook deliveries'' (\<lambda>s.
       let candidates = map wd_ID
             (take (due_limit limit) (sort_by due_before (filter (due_at now) (deliveries s))));
           P = \<lambda>d. wd_ID d \<in> set candidates
       in (Inr (map (claim_delivery now) (filter P (deliveries s))),
           s\<lparr>deliveries := update_where P (claim_delivery now) (deliveries s)\<rparr>))"

definition write_delivery :: "WebhookDelivery \<Rightarrow> WebhookDelivery \<Rightarrow> WebhookDelivery" where
  "write_delivery delivery d =
     d\<lparr>wd_Status := wd_Status delivery, wd_AttemptCount := wd_AttemptCount delivery,
       wd_MaxAttempts := wd_MaxAttempts delivery, wd_NextAttemptAt := wd_NextAttemptAt delivery,
       wd_LastAttemptAt := wd_LastAttemptAt delivery, wd_ResponseStatus := wd_ResponseStatus delivery,
       wd_ResponseBody := wd_ResponseBody delivery, wd_LastError := wd_LastError delivery,
       wd_UpdatedAt := wd_UpdatedAt delivery\<rparr>"

definition UpdateWebhookDelivery :: "env \<Rightarrow> WebhookDelivery \<Rightarrow> (err + unit) io" where
  "UpdateWebhookDelivery E delivery =
     atomic E ''postgres: update webhook delivery'' (\<lambda>s.
       let P = is_delivery (wd_OrgID delivery) (wd_ID delivery) in
       if affected P (deliveries s) = 0 then (Inl ErrWebhookDeliveryNotFound, s)
       else if \<not> attempts_ok delivery
       then (Inl (ErrInfra ''postgres: update webhook delivery''), s)
       else (Inr (), s\<lparr>deliveries := update_where P (write_delivery delivery) (deliveries s)\<rparr>))"

definition reset_delivery :: "time \<Rightarrow> WebhookDelivery \<Rightarrow> WebhookDelivery" where
  "reset_delivery now d =
     d\<lparr>wd_Status := WebhookDeliveryPending, wd_AttemptCount := 0, wd_NextAttemptAt := Some now,
       wd_LastAttemptAt := None, wd_ResponseStatus := None, wd_ResponseBody := None,
       wd_LastError := None, wd_UpdatedAt := now\<rparr>"

definition RetryWebhookDelivery :: "env \<Rightarrow> uuid \<Rightarrow> uuid \<Rightarrow> time \<Rightarrow> (err + WebhookDelivery) io" where
  "RetryWebhookDelivery E orgID i now =
     bind_ok
       (atomic E ''postgres: retry webhook delivery'' (\<lambda>s.
          let P = \<lambda>d. is_delivery orgID i d \<and>
                wd_Status d \<in> {WebhookDeliveryFailed, WebhookDeliveryRetrying} in
          case find P (deliveries s) of
            None \<Rightarrow> (Inr None, s)
          | Some d \<Rightarrow>
              (Inr (Some (reset_delivery now d)),
               s\<lparr>deliveries := update_where P (reset_delivery now) (deliveries s)\<rparr>)))
       (\<lambda>r. case r of
          Some d \<Rightarrow> State_Monad.return (Inr d)
        | None \<Rightarrow>
            bind_ok (GetWebhookDelivery E orgID i)
              (\<lambda>_. State_Monad.return (Inl ErrInvalidStateTransition)))"

end
