(* ===== verification/Webhook_Events.thy ===== *)
theory Webhook_Events
  imports Webhook_Store
begin

text \<open>
  Publication of task events (webhook_events.go): one delivery per active endpoint that
  subscribes to the event, all with the same payload. \<open>maxAttempts\<close> is the attempt budget
  the service was constructed with, after the default of \<open>NewWebhookEventService\<close>.
\<close>

definition webhook_max_attempts :: "int \<Rightarrow> int" where
  "webhook_max_attempts maxAttempts = (if maxAttempts \<le> 0 then 5 else maxAttempts)"

definition task_summary :: "env \<Rightarrow> Task \<Rightarrow> json" where
  "task_summary E task = JObj
     ([(''id'', JStr (uuid_text E (t_ID task))), (''queue'', JStr (t_Queue task)),
       (''status'', JStr (task_status_text (t_Status task))),
       (''priority'', JNum (of_int (t_Priority task))), (''attempts'', JNum (of_int (t_Attempts task))),
       (''max_attempts'', JNum (of_int (t_MaxAttempts task)))] @
      (if t_LastError task = [] then [] else [(''last_error'', JStr (t_LastError task))]) @
      [(''created_at'', JStr (time_text (t_CreatedAt task))),
       (''updated_at'', JStr (time_text (t_UpdatedAt task)))])"

definition event_payload :: "env \<Rightarrow> uuid \<Rightarrow> WebhookEventType \<Rightarrow> time \<Rightarrow> Task \<Rightarrow> json" where
  "event_payload E eventID eventType now task = JObj
     [(''event_id'', JStr (uuid_text E eventID)), (''event_type'', JStr (webhook_event_text eventType)),
      (''created_at'', JStr (time_text now)), (''org_id'', JStr (uuid_text E (t_OrgID task))),
      (''task'', task_summary E task)]"

definition new_delivery ::
  "uuid \<Rightarrow> uuid \<Rightarrow> uuid \<Rightarrow> WebhookEventType \<Rightarrow> json \<Rightarrow> int \<Rightarrow> time \<Rightarrow> WebhookDelivery" where
  "new_delivery i orgID endpointID eventType payload maxAttempts now =
     \<lparr>wd_ID = i, wd_OrgID = orgID, wd_EndpointID = endpointID, wd_EventType = eventType,
      wd_Payload = RawDoc payload, wd_Status = WebhookDeliveryPending, wd_AttemptCount = 0,
      wd_MaxAttempts = maxAttempts, wd_NextAttemptAt = None, wd_LastAttemptAt = None,
      wd_ResponseStatus = None, wd_ResponseBody = None, wd_LastError = None,
      wd_CreatedAt = now, wd_UpdatedAt = now\<rparr>"

definition delivery_created_metric :: "env \<Rightarrow> WebhookDelivery \<Rightarrow> unit io" where
  "delivery_created_metric E delivery =
     Record E
       \<lparr>mi_OrganizationID = wd_OrgID delivery, mi_Source = MetricSourceEventForge,
        mi_EventType = MetricDeliveryCreated, mi_ResourceType = MetricResourceWebhookDelivery,
        mi_ResourceID = uuid_text E (wd_ID delivery), mi_Queue = [],
        mi_Status = ''pending'', mi_DurationMS = None, mi_OccurredAt = wd_CreatedAt delivery,
        mi_Metadata = no_metadata, mi_TransitionKey = ''created''\<rparr>"

text \<open>The loop over the endpoints; its result is the list of the errors that are joined.\<close>

fun publish_to ::
  "env \<Rightarrow> int \<Rightarrow> WebhookEventType \<Rightarrow> json \<Rightarrow> time \<Rightarrow> Task \<Rightarrow> WebhookEndpoint list \<Rightarrow> err list io" where
  "publish_to E maxAttempts eventType payload now task [] = State_Monad.return []"
| "publish_to E maxAttempts eventType payload now task (endpoint # rest) = do {
     i \<leftarrow> uuid_new E;
     let delivery = new_delivery i (t_OrgID task) (we_ID endpoint) eventType payload maxAttempts now;
     r \<leftarrow> CreateWebhookDelivery E delivery;
     case r of
       Inl e \<Rightarrow> do {
         es \<leftarrow> publish_to E maxAttempts eventType payload now task rest;
         State_Monad.return (e # es) }
     | Inr _ \<Rightarrow> do {
         delivery_created_metric E delivery;
         publish_to E maxAttempts eventType payload now task rest } }"

definition PublishTaskEvent :: "env \<Rightarrow> int \<Rightarrow> WebhookEventType \<Rightarrow> Task \<Rightarrow> err list io" where
  "PublishTaskEvent E maxAttempts eventType task =
     (if \<not> webhook_event_valid eventType then State_Monad.return [ErrInvalidInput]
      else do {
        r \<leftarrow> ListActiveWebhookEndpointsForEvent E (t_OrgID task) eventType;
        case r of
          Inl e \<Rightarrow> State_Monad.return [e]
        | Inr [] \<Rightarrow> State_Monad.return []
        | Inr (e # es) \<Rightarrow> do {
            now \<leftarrow> time_now E;
            eventID \<leftarrow> uuid_new E;
            publish_to E maxAttempts eventType (event_payload E eventID eventType now task) now task
              (e # es) } })"

end
