(* ===== verification/Task_Service.thy ===== *)
theory Task_Service
  imports Broker Webhook_Events
begin

text \<open>
  The task service (service.go): creation with idempotency, retry, cancellation, soft
  deletion, worker heartbeats and authentication. \<open>wiring\<close> holds what the constructors
  are given: whether task events are published, and the attempt budget of webhook
  deliveries.
\<close>

record wiring =
  wr_events :: bool
  wr_maxAttempts :: int

record CreateTaskInput =
  ci_OrgID :: uuid
  ci_IdempotencyKey :: string
  ci_Queue :: string
  ci_Payload :: raw
  ci_Priority :: int
  ci_MaxRetries :: int
  ci_Timeout :: int
  ci_VisibilityTimeout :: int
  ci_ScheduledAt :: "time option"
  ci_BackoffStrategy :: string
  ci_TraceID :: string

subsection \<open>Fingerprints\<close>

text \<open>The text of an object whose members are given by the text of their values.\<close>

definition object_text :: "(string \<times> string) list \<Rightarrow> string" where
  "object_text ms = ''{'' @ join '','' (map (\<lambda>(k, v). quote k @ '':'' @ v) ms) @ ''}''"

definition canonical_request :: "CreateTaskInput \<Rightarrow> json \<Rightarrow> string" where
  "canonical_request input payload = object_text
     [(''queue'', quote (ci_Queue input)), (''payload'', json_text payload),
      (''priority'', itoa (ci_Priority input)), (''max_retries'', itoa (ci_MaxRetries input)),
      (''timeout_ms'', itoa (milliseconds (ci_Timeout input))),
      (''visibility_timeout_ms'', itoa (milliseconds (ci_VisibilityTimeout input))),
      (''scheduled_at'',
         case ci_ScheduledAt input of None \<Rightarrow> ''null'' | Some t \<Rightarrow> quote (time_text t)),
      (''backoff_strategy'', quote (ci_BackoffStrategy input))]"

definition requestFingerprint :: "env \<Rightarrow> CreateTaskInput \<Rightarrow> string + (string \<times> raw)" where
  "requestFingerprint E input =
     (case unmarshal_any (ci_Payload input) of
        Inl e \<Rightarrow> Inl e
      | Inr payload \<Rightarrow> Inr (sha256_hex E (canonical_request input payload), RawDoc payload))"

subsection \<open>Operations\<close>

definition publishTaskEvent :: "env \<Rightarrow> wiring \<Rightarrow> WebhookEventType \<Rightarrow> Task \<Rightarrow> unit io" where
  "publishTaskEvent E W eventType task =
     (if wr_events W then do {
        _ \<leftarrow> PublishTaskEvent E (wr_maxAttempts W) eventType task;
        State_Monad.return () }
      else State_Monad.return ())"

definition task_metric ::
  "env \<Rightarrow> Task \<Rightarrow> MetricEventType \<Rightarrow> time \<Rightarrow> string \<Rightarrow> unit io" where
  "task_metric E task eventType occurredAt transitionKey =
     Record E
       \<lparr>mi_OrganizationID = t_OrgID task, mi_Source = MetricSourceQueueFlow,
        mi_EventType = eventType, mi_ResourceType = MetricResourceTask,
        mi_ResourceID = uuid_text E (t_ID task), mi_Queue = t_Queue task,
        mi_Status = task_status_text (t_Status task), mi_DurationMS = None,
        mi_OccurredAt = occurredAt, mi_Metadata = no_metadata, mi_TransitionKey = transitionKey\<rparr>"

text \<open>
  \<open>CreateTask\<close> returns a task, whether it was there before, and an error; on a failed
  dispatch both the task and the error are returned.
\<close>

type_synonym create_result = "Task option \<times> bool \<times> err option"

definition reuse_task :: "Task \<Rightarrow> string \<Rightarrow> create_result" where
  "reuse_task existing fingerprint =
     (if t_RequestFingerprint existing \<noteq> fingerprint then (None, False, Some ErrIdempotencyConflict)
      else (Some existing, True, None))"

definition build_task :: "CreateTaskInput \<Rightarrow> uuid \<Rightarrow> time \<Rightarrow> raw \<Rightarrow> string \<Rightarrow> Task" where
  "build_task input i now payload fingerprint =
     (let task = NewTask i now (ci_OrgID input) (ci_Queue input) payload (ci_IdempotencyKey input)
                   fingerprint (ci_MaxRetries input + 1) (ci_VisibilityTimeout input);
          task = task\<lparr>t_Priority := ci_Priority input, t_BackoffStrategy := ci_BackoffStrategy input,
                      t_TaskTimeout := ci_Timeout input, t_TraceID := ci_TraceID input\<rparr>
      in case ci_ScheduledAt input of
           None \<Rightarrow> task
         | Some t \<Rightarrow> task\<lparr>t_ScheduledAt := t, t_VisibleAt := t\<rparr>)"

definition dispatch_task :: "env \<Rightarrow> Task \<Rightarrow> create_result io" where
  "dispatch_task E task = do {
     now \<leftarrow> time_now E;
     r \<leftarrow> (if now < t_ScheduledAt task
           then do { now' \<leftarrow> time_now E; EnqueueDelayed E task (t_ScheduledAt task - now') }
           else Enqueue E task);
     case r of
       Inl _ \<Rightarrow> State_Monad.return (Some task, False, Some ErrDispatchUnavailable)
     | Inr _ \<Rightarrow> do {
         m \<leftarrow> MarkDispatched E (t_OrgID task) (t_ID task) now;
         case m of
           Inl e \<Rightarrow> State_Monad.return (Some task, False, Some e)
         | Inr _ \<Rightarrow> State_Monad.return (Some task, False, None) } }"

definition insert_task ::
  "env \<Rightarrow> wiring \<Rightarrow> CreateTaskInput \<Rightarrow> string \<Rightarrow> raw \<Rightarrow> create_result io" where
  "insert_task E W input fingerprint payload = do {
     now \<leftarrow> time_now E;
     i \<leftarrow> uuid_new E;
     let task = build_task input i now payload fingerprint;
     created \<leftarrow> Create E task;
     case created of
       Inl ErrDuplicateIdempotencyKey \<Rightarrow> do {
         found \<leftarrow> FindByIdempotencyKey E (ci_OrgID input) (ci_Queue input) (ci_IdempotencyKey input);
         case found of
           Inr existing \<Rightarrow> State_Monad.return (reuse_task existing fingerprint)
         | Inl _ \<Rightarrow> State_Monad.return (None, False, Some ErrDuplicateIdempotencyKey) }
     | Inl e \<Rightarrow> State_Monad.return (None, False, Some e)
     | Inr _ \<Rightarrow> do {
         task_metric E task MetricTaskIngested (t_CreatedAt task) ''created'';
         publishTaskEvent E W WebhookEventTaskCreated task;
         dispatch_task E task } }"

definition CreateTask :: "env \<Rightarrow> wiring \<Rightarrow> CreateTaskInput \<Rightarrow> create_result io" where
  "CreateTask E W input =
     (case requestFingerprint E input of
        Inl _ \<Rightarrow> State_Monad.return (None, False, Some ErrInvalidPayload)
      | Inr (fingerprint, payload) \<Rightarrow> do {
          found \<leftarrow> FindByIdempotencyKey E (ci_OrgID input) (ci_Queue input) (ci_IdempotencyKey input);
          case found of
            Inr existing \<Rightarrow> State_Monad.return (reuse_task existing fingerprint)
          | Inl e \<Rightarrow>
              if e \<noteq> ErrTaskNotFound then State_Monad.return (None, False, Some e)
              else insert_task E W input fingerprint payload })"

definition GetTask :: "env \<Rightarrow> uuid \<Rightarrow> uuid \<Rightarrow> (err + Task) io" where
  "GetTask E orgID i = GetByID E orgID i"

text \<open>A failed dispatch of \<open>RetryTask\<close> returns the task together with the error.\<close>

type_synonym retry_result = "Task option \<times> err option"

definition retry_dispatch :: "env \<Rightarrow> uuid \<Rightarrow> uuid \<Rightarrow> time \<Rightarrow> Task \<Rightarrow> retry_result io" where
  "retry_dispatch E orgID i now task = do {
     r \<leftarrow> Enqueue E task;
     case r of
       Inl _ \<Rightarrow> State_Monad.return (Some task, Some ErrDispatchUnavailable)
     | Inr _ \<Rightarrow> do {
         m \<leftarrow> MarkDispatched E orgID i now;
         case m of
           Inl e \<Rightarrow> State_Monad.return (Some task, Some e)
         | Inr _ \<Rightarrow> do {
             g \<leftarrow> GetByID E orgID i;
             case g of
               Inl e \<Rightarrow> State_Monad.return (None, Some e)
             | Inr t \<Rightarrow> State_Monad.return (Some t, None) } } }"

definition RetryTask :: "env \<Rightarrow> uuid \<Rightarrow> uuid \<Rightarrow> retry_result io" where
  "RetryTask E orgID i = do {
     g \<leftarrow> GetByID E orgID i;
     case g of
       Inl e \<Rightarrow> State_Monad.return (None, Some e)
     | Inr task \<Rightarrow> do {
         now \<leftarrow> time_now E;
         r \<leftarrow> Requeue E orgID i now;
         case r of
           Inl e \<Rightarrow> State_Monad.return (None, Some e)
         | Inr _ \<Rightarrow>
             retry_dispatch E orgID i now
               (task\<lparr>t_Status := StatusPending, t_Attempts := 0, t_VisibleAt := now\<rparr>) } }"

definition CancelTask :: "env \<Rightarrow> wiring \<Rightarrow> uuid \<Rightarrow> uuid \<Rightarrow> (err + Task) io" where
  "CancelTask E W orgID i = do {
     now \<leftarrow> time_now E;
     bind_ok (Cancel E orgID i now) (\<lambda>task. do {
       _ \<leftarrow> Remove E orgID (t_Queue task) (t_ID task);
       task_metric E task MetricTaskCancelled (t_UpdatedAt task) ''cancelled'';
       publishTaskEvent E W WebhookEventTaskCancelled task;
       State_Monad.return (Inr task) }) }"

definition SoftDeleteTask :: "env \<Rightarrow> uuid \<Rightarrow> uuid \<Rightarrow> (err + unit) io" where
  "SoftDeleteTask E orgID i =
     bind_ok (GetByID E orgID i) (\<lambda>task.
       if \<not> IsTerminal task then State_Monad.return (Inl ErrInvalidStateTransition)
       else do {
         now \<leftarrow> time_now E;
         bind_ok (SoftDelete E orgID i now) (\<lambda>_. do {
           _ \<leftarrow> Remove E orgID (t_Queue task) i;
           State_Monad.return (Inr ()) }) })"

definition RequeueDLQ :: "env \<Rightarrow> uuid \<Rightarrow> uuid \<Rightarrow> retry_result io" where
  "RequeueDLQ E orgID i = RetryTask E orgID i"

text \<open>The handler that passes the worker sees the fields \<open>WorkerHeartbeat\<close> has set.\<close>

definition beating_worker :: "time \<Rightarrow> Worker \<Rightarrow> Worker" where
  "beating_worker now worker =
     worker\<lparr>w_LastHeartbeatAt := now,
            w_CreatedAt := (if w_CreatedAt worker = 0 then now else w_CreatedAt worker),
            w_Status := (if w_Status worker = [] then ''online'' else w_Status worker)\<rparr>"

definition WorkerHeartbeat :: "env \<Rightarrow> Worker \<Rightarrow> (err + Worker) io" where
  "WorkerHeartbeat E worker = do {
     now \<leftarrow> time_now E;
     bind_ok (UpsertWorkerHeartbeat E (beating_worker now worker))
       (\<lambda>_. State_Monad.return (Inr (beating_worker now worker))) }"

definition Authenticate :: "env \<Rightarrow> string \<Rightarrow> (err + Principal) io" where
  "Authenticate E rawKey = do {
     r \<leftarrow> FindAPIKeyByHash E (sha256_hex E rawKey);
     case r of
       Inl _ \<Rightarrow> State_Monad.return (Inl ErrUnauthorized)
     | Inr key \<Rightarrow>
         if ak_RevokedAt key \<noteq> None then State_Monad.return (Inl ErrUnauthorized)
         else State_Monad.return (Inr \<lparr>pr_OrgID = ak_OrgID key, pr_Scopes = ak_Scopes key\<rparr>) }"

end
