(* ===== verification/Dispatchers.thy ===== *)
theory Dispatchers
  imports Node_Config Task_Service
begin

text \<open>
  What a workflow node hands its work to (workflow_dispatchers.go): a task node becomes
  a task of the queue service, a webhook node becomes a delivery. Both are idempotent in
  the execution and the node: the task by its idempotency key, the delivery by its
  identifier, which \<open>uuid.NewSHA1\<close> computes from the two.
\<close>

subsection \<open>Tasks\<close>

definition workflow_task_input ::
  "env \<Rightarrow> uuid \<Rightarrow> uuid \<Rightarrow> string \<Rightarrow> workflowTaskConfig \<Rightarrow> raw \<Rightarrow> CreateTaskInput" where
  "workflow_task_input E orgID executionID nodeID parsed executionInput =
     (let payload = if raw_empty (tc_Payload parsed) then executionInput else tc_Payload parsed;
          payload = if raw_empty payload then RawDoc (JObj []) else payload;
          timeout = tc_TimeoutSeconds parsed * Second;
          timeout = if timeout = 0 then Minute else timeout
      in \<lparr>ci_OrgID = orgID,
          ci_IdempotencyKey = ''workflow:'' @ uuid_text E executionID @ '':'' @ nodeID,
          ci_Queue = tc_Queue parsed, ci_Payload = payload, ci_Priority = tc_Priority parsed,
          ci_MaxRetries = tc_MaxRetries parsed, ci_Timeout = timeout,
          ci_VisibilityTimeout = 30 * Second, ci_ScheduledAt = None,
          ci_BackoffStrategy = ''exponential'', ci_TraceID = uuid_text E executionID\<rparr>)"

text \<open>The task, if there is one, and the error; a created task may come with an error.\<close>

definition DispatchWorkflowTask ::
  "env \<Rightarrow> wiring \<Rightarrow> uuid \<Rightarrow> uuid \<Rightarrow> string \<Rightarrow> config \<Rightarrow> raw \<Rightarrow> (Task option \<times> err option) io" where
  "DispatchWorkflowTask E W orgID executionID nodeID config executionInput =
     (case parseWorkflowTaskConfig config of
        Inl _ \<Rightarrow> State_Monad.return (None, Some ErrInvalidInput)
      | Inr parsed \<Rightarrow> do {
          r \<leftarrow> CreateTask E W (workflow_task_input E orgID executionID nodeID parsed executionInput);
          case r of (task, _, e) \<Rightarrow> State_Monad.return (task, e) })"

definition GetWorkflowTask :: "env \<Rightarrow> uuid \<Rightarrow> uuid \<Rightarrow> (err + Task) io" where
  "GetWorkflowTask E orgID taskID = GetTask E orgID taskID"

subsection \<open>Webhook deliveries\<close>

definition raw_member :: "string \<Rightarrow> raw \<Rightarrow> (string \<times> json) list" where
  "raw_member k r = (case r of RawDoc j \<Rightarrow> [(k, j)] | _ \<Rightarrow> [])"

definition workflow_payload ::
  "env \<Rightarrow> uuid \<Rightarrow> time \<Rightarrow> WorkflowExecution \<Rightarrow> string \<Rightarrow> raw \<Rightarrow> json" where
  "workflow_payload E eventID now execution nodeID input = JObj
     ([(''event_id'', JStr (uuid_text E eventID)),
       (''event_type'', JStr (webhook_event_text WebhookEventWorkflowNode)),
       (''created_at'', JStr (time_text now)), (''org_id'', JStr (uuid_text E (x_OrgID execution))),
       (''workflow_id'', JStr (uuid_text E (x_WorkflowID execution))),
       (''workflow_execution_id'', JStr (uuid_text E (x_ID execution))), (''node_id'', JStr nodeID)] @
      raw_member ''input'' input)"

definition workflow_delivery_id :: "env \<Rightarrow> WorkflowExecution \<Rightarrow> string \<Rightarrow> uuid" where
  "workflow_delivery_id E execution nodeID =
     sha1_uuid E (uuid_text E (x_ID execution) @ '':'' @ nodeID)"

definition create_workflow_delivery ::
  "env \<Rightarrow> wiring \<Rightarrow> WorkflowExecution \<Rightarrow> WorkflowNode \<Rightarrow> uuid \<Rightarrow> raw \<Rightarrow> (err + WebhookDelivery) io" where
  "create_workflow_delivery E W execution node endpointID payloadInput = do {
     now0 \<leftarrow> time_now E;
     eventID \<leftarrow> uuid_new E;
     let now = truncate_us now0;
     let deliveryID = workflow_delivery_id E execution (dn_ID node);
     let delivery =
       new_delivery deliveryID (x_OrgID execution) endpointID WebhookEventWorkflowNode
         (workflow_payload E eventID now execution (dn_ID node) payloadInput)
         (webhook_max_attempts (wr_maxAttempts W)) now;
     (case payloadInput of
        RawBad _ \<Rightarrow> State_Monad.return (Inl (ErrInfra ''marshal workflow webhook payload''))
      | _ \<Rightarrow> do {
          created \<leftarrow> CreateWebhookDelivery E delivery;
          case created of
            Inl e \<Rightarrow> do {
              existing \<leftarrow> GetWebhookDelivery E (x_OrgID execution) deliveryID;
              case existing of
                Inr d \<Rightarrow> State_Monad.return (Inr d)
              | Inl e' \<Rightarrow>
                  State_Monad.return (Inl (ErrInfra (error_text e @ [CHR 0x0A] @ error_text e'))) }
          | Inr _ \<Rightarrow> do {
              delivery_created_metric E delivery;
              State_Monad.return (Inr delivery) } }) }"

definition DispatchWorkflowWebhook ::
  "env \<Rightarrow> wiring \<Rightarrow> WorkflowExecution \<Rightarrow> WorkflowNode \<Rightarrow> raw \<Rightarrow> (err + WebhookDelivery) io" where
  "DispatchWorkflowWebhook E W execution node executionInput =
     (case parseWorkflowWebhookConfig (dn_Config node) of
        Inl _ \<Rightarrow> State_Monad.return (Inl ErrInvalidInput)
      | Inr config \<Rightarrow>
          (case parse_uuid E (hc_EndpointID config) of
             None \<Rightarrow> State_Monad.return (Inl ErrInvalidInput)
           | Some endpointID \<Rightarrow>
               bind_ok (GetWebhookEndpoint E (x_OrgID execution) endpointID) (\<lambda>endpoint.
                 if \<not> we_IsActive endpoint then State_Monad.return (Inl ErrInvalidStateTransition)
                 else do {
                   existing \<leftarrow> GetWebhookDelivery E (x_OrgID execution)
                     (workflow_delivery_id E execution (dn_ID node));
                   case existing of
                     Inr d \<Rightarrow> State_Monad.return (Inr d)
                   | Inl _ \<Rightarrow>
                       create_workflow_delivery E W execution node endpointID
                         (if raw_empty (hc_Payload config) then executionInput else hc_Payload config) })))"

definition GetWorkflowWebhook :: "env \<Rightarrow> uuid \<Rightarrow> uuid \<Rightarrow> (err + WebhookDelivery) io" where
  "GetWorkflowWebhook E orgID deliveryID = GetWebhookDelivery E orgID deliveryID"

end
