(* ===== verification/Exec_Service.thy ===== *)
theory Exec_Service
  imports Exec_Store Workflow_Store Dispatchers
begin

text \<open>
  The workflow execution service (workflow_execution_service.go): starting an execution,
  advancing it, cancelling it, and the reconciliation of all active executions. The
  pointers to an execution and to its nodes are values here: a function that changes the
  execution in place returns it with its result.
\<close>

definition maxWorkflowExecutionInputBytes :: nat where
  "maxWorkflowExecutionInputBytes = 256 * 1024"

definition workflowNodeDispatchRecoveryAfter :: int where
  "workflowNodeDispatchRecoveryAfter = 30 * Second"

definition service_now :: "env \<Rightarrow> time io" where
  "service_now E = do { t \<leftarrow> time_now E; State_Monad.return (truncate_us t) }"

subsection \<open>Inputs and outputs\<close>

definition normalizeWorkflowExecutionInput :: "raw \<Rightarrow> string + raw" where
  "normalizeWorkflowExecutionInput r =
     (if raw_empty r then Inr RawNil
      else case unmarshal_any r of Inl e \<Rightarrow> Inl e | Inr value \<Rightarrow> Inr (RawDoc value))"

definition workflowExecutionFingerprint :: "env \<Rightarrow> uuid \<Rightarrow> int \<Rightarrow> raw \<Rightarrow> string" where
  "workflowExecutionFingerprint E workflowID version input =
     sha256_hex E (object_text
       [(''workflow_id'', quote (uuid_text E workflowID)), (''version'', itoa version),
        (''input'', case input of RawDoc j \<Rightarrow> json_text j | _ \<Rightarrow> ''null'')])"

definition firstFailedWorkflowNode :: "WorkflowNodeExecution list \<Rightarrow> WorkflowNodeExecution option" where
  "firstFailedWorkflowNode nodes = find (\<lambda>n. n_Status n = WorkflowNodeFailed) nodes"

text \<open>
  Decoding into a struct with the single field \<open>result\<close>: other members are ignored and
  \<open>null\<close> leaves the field as it is.
\<close>

fun result_member :: "(string \<times> json) list \<Rightarrow> bool \<Rightarrow> bool option" where
  "result_member [] b = Some b"
| "result_member ((k, j) # ms) b =
     (if fold_name k \<noteq> fold_name ''result'' then result_member ms b
      else case j of JBool b' \<Rightarrow> result_member ms b' | JNull \<Rightarrow> result_member ms b | _ \<Rightarrow> None)"

definition workflowConditionResult :: "raw \<Rightarrow> err + bool" where
  "workflowConditionResult output =
     (case output of
        RawDoc (JObj ms) \<Rightarrow>
          (case result_member ms False of
             None \<Rightarrow> Inl (ErrInfra ''json: cannot unmarshal into field result of type bool'')
           | Some b \<Rightarrow> Inr b)
      | RawDoc JNull \<Rightarrow> Inr False
      | RawNil \<Rightarrow> Inl (ErrInfra ''unexpected end of JSON input'')
      | _ \<Rightarrow> Inl (ErrInfra ''json: cannot unmarshal into struct''))"

definition condition_output :: "bool \<Rightarrow> raw" where
  "condition_output b = RawDoc (JObj [(''result'', JBool b)])"

subsection \<open>Metrics\<close>

definition execution_status_text :: "WorkflowExecutionStatus \<Rightarrow> string" where
  "execution_status_text st =
     (case st of
        WorkflowExecutionPending \<Rightarrow> ''pending'' | WorkflowExecutionRunning \<Rightarrow> ''running''
      | WorkflowExecutionSucceeded \<Rightarrow> ''succeeded'' | WorkflowExecutionFailed \<Rightarrow> ''failed''
      | WorkflowExecutionCancelled \<Rightarrow> ''cancelled'')"

definition node_status_text :: "WorkflowNodeExecutionStatus \<Rightarrow> string" where
  "node_status_text st =
     (case st of
        WorkflowNodePending \<Rightarrow> ''pending'' | WorkflowNodeQueued \<Rightarrow> ''queued''
      | WorkflowNodeRunning \<Rightarrow> ''running'' | WorkflowNodeSucceeded \<Rightarrow> ''succeeded''
      | WorkflowNodeFailed \<Rightarrow> ''failed'' | WorkflowNodeSkipped \<Rightarrow> ''skipped''
      | WorkflowNodeCancelled \<Rightarrow> ''cancelled'')"

definition recordExecutionMetric :: "env \<Rightarrow> WorkflowExecution \<Rightarrow> MetricEventType \<Rightarrow> string \<Rightarrow> unit io" where
  "recordExecutionMetric E execution eventType errorCode =
     Record E
       \<lparr>mi_OrganizationID = x_OrgID execution, mi_Source = MetricSourceTaskCanvas,
        mi_EventType = eventType, mi_ResourceType = MetricResourceWorkflowExecution,
        mi_ResourceID = uuid_text E (x_ID execution), mi_Queue = [],
        mi_Status = execution_status_text (x_Status execution), mi_DurationMS = None,
        mi_OccurredAt = x_UpdatedAt execution,
        mi_Metadata = no_metadata\<lparr>mm_ErrorCode := errorCode\<rparr>,
        mi_TransitionKey = metric_event_text eventType\<rparr>"

definition recordNodeMetric :: "env \<Rightarrow> WorkflowNodeExecution \<Rightarrow> MetricEventType \<Rightarrow> string \<Rightarrow> unit io" where
  "recordNodeMetric E node eventType errorCode =
     Record E
       \<lparr>mi_OrganizationID = n_OrgID node, mi_Source = MetricSourceTaskCanvas,
        mi_EventType = eventType, mi_ResourceType = MetricResourceNodeExecution,
        mi_ResourceID = uuid_text E (n_ID node), mi_Queue = [],
        mi_Status = node_status_text (n_Status node), mi_DurationMS = None,
        mi_OccurredAt = n_UpdatedAt node,
        mi_Metadata = no_metadata\<lparr>mm_Attempt := Some (n_Attempt node), mm_ErrorCode := errorCode\<rparr>,
        mi_TransitionKey = metric_event_text eventType\<rparr>"

fun record_cancelled :: "env \<Rightarrow> WorkflowNodeExecution list \<Rightarrow> unit io" where
  "record_cancelled E [] = State_Monad.return ()"
| "record_cancelled E (node # nodes) = do {
     (if n_Status node = WorkflowNodeCancelled
      then recordNodeMetric E node MetricNodeExecutionCancelled []
      else State_Monad.return ());
     record_cancelled E nodes }"

subsection \<open>Closing an execution\<close>

definition updateNode ::
  "env \<Rightarrow> WorkflowNodeExecution \<Rightarrow> WorkflowNodeExecutionStatus \<Rightarrow> (err + bool) io" where
  "updateNode E node expected =
     bind_ok (UpdateWorkflowNodeExecution E node expected) (\<lambda>updated.
       if \<not> updated then State_Monad.return (Inr False)
       else do {
         (case n_Status node of
            WorkflowNodeSucceeded \<Rightarrow> recordNodeMetric E node MetricNodeExecutionSucceeded []
          | WorkflowNodeFailed \<Rightarrow> recordNodeMetric E node MetricNodeExecutionFailed (n_ErrorCode node)
          | WorkflowNodeSkipped \<Rightarrow> recordNodeMetric E node MetricNodeExecutionSkipped []
          | WorkflowNodeCancelled \<Rightarrow> recordNodeMetric E node MetricNodeExecutionCancelled []
          | _ \<Rightarrow> State_Monad.return ());
         State_Monad.return (Inr True) })"

type_synonym exec_result = "WorkflowExecution \<times> err option"

definition failExecution :: "env \<Rightarrow> WorkflowExecution \<Rightarrow> string \<Rightarrow> string \<Rightarrow> exec_result io" where
  "failExecution E execution code msg = do {
     now \<leftarrow> service_now E;
     let x = execution\<lparr>x_Status := WorkflowExecutionFailed, x_ErrorCode := code,
                       x_ErrorMessage := msg, x_CompletedAt := Some now, x_UpdatedAt := now\<rparr>;
     updated \<leftarrow> FinalizeWorkflowExecution E x
       [WorkflowExecutionPending, WorkflowExecutionRunning] True;
     case updated of
       Inl e \<Rightarrow> State_Monad.return (x, Some e)
     | Inr False \<Rightarrow> State_Monad.return (x, None)
     | Inr True \<Rightarrow> do {
         recordExecutionMetric E x MetricWorkflowExecutionFailed code;
         nodes \<leftarrow> GetWorkflowNodeExecutions E (x_OrgID x) (x_ID x);
         (case nodes of Inl _ \<Rightarrow> State_Monad.return () | Inr ns \<Rightarrow> record_cancelled E ns);
         State_Monad.return (x, None) } }"

definition failClaimedNode ::
  "env \<Rightarrow> WorkflowExecution \<Rightarrow> WorkflowNodeExecution \<Rightarrow> string \<Rightarrow> string \<Rightarrow> exec_result io" where
  "failClaimedNode E execution node code msg = do {
     now \<leftarrow> service_now E;
     let n = node\<lparr>n_Status := WorkflowNodeFailed, n_ErrorCode := code, n_ErrorMessage := msg,
                  n_CompletedAt := Some now, n_UpdatedAt := now\<rparr>;
     updated \<leftarrow> updateNode E n WorkflowNodeRunning;
     case updated of
       Inl e \<Rightarrow> State_Monad.return (execution, Some e)
     | Inr _ \<Rightarrow> failExecution E execution code msg }"

definition touchRunningExecution :: "env \<Rightarrow> WorkflowExecution \<Rightarrow> exec_result io" where
  "touchRunningExecution E execution = do {
     now \<leftarrow> service_now E;
     let x = execution\<lparr>x_Status := WorkflowExecutionRunning, x_UpdatedAt := now\<rparr>;
     updated \<leftarrow> UpdateWorkflowExecution E x [WorkflowExecutionRunning];
     case updated of
       Inl e \<Rightarrow> State_Monad.return (x, Some e)
     | Inr _ \<Rightarrow> State_Monad.return (x, None) }"

definition node_done :: "WorkflowNodeExecution \<Rightarrow> bool" where
  "node_done n \<longleftrightarrow> n_Status n = WorkflowNodeSucceeded \<or> n_Status n = WorkflowNodeSkipped"

text \<open>\<open>outputs\<close> as it is filled in node order, and its encoding under the key \<open>nodes\<close>.\<close>

fun collect_outputs :: "WorkflowNodeExecution list \<Rightarrow> (string \<times> json) list \<Rightarrow> (string \<times> json) list option" where
  "collect_outputs [] acc = Some acc"
| "collect_outputs (n # ns) acc =
     (case n_Output n of
        RawNil \<Rightarrow> collect_outputs ns acc
      | RawDoc j \<Rightarrow> collect_outputs ns (put (n_NodeID n) j acc)
      | RawBad _ \<Rightarrow> None)"

definition finalizeExecutionIfComplete ::
  "env \<Rightarrow> WorkflowExecution \<Rightarrow> WorkflowDefinition \<Rightarrow> WorkflowNodeExecution list \<Rightarrow> exec_result io" where
  "finalizeExecutionIfComplete E execution definition nodes =
     (if length nodes \<noteq> length (elems (d_Nodes definition)) \<or> \<not> list_all node_done nodes
      then touchRunningExecution E execution
      else
        case collect_outputs nodes [] of
          None \<Rightarrow> State_Monad.return (execution, Some (ErrInfra ''json: error calling MarshalJSON''))
        | Some outputs \<Rightarrow> do {
            now \<leftarrow> service_now E;
            let x = execution\<lparr>x_Status := WorkflowExecutionSucceeded,
                              x_Output := RawDoc (JObj [(''nodes'', JObj outputs)]),
                              x_CompletedAt := Some now, x_UpdatedAt := now\<rparr>;
            updated \<leftarrow> FinalizeWorkflowExecution E x
              [WorkflowExecutionPending, WorkflowExecutionRunning] False;
            case updated of
              Inl e \<Rightarrow> State_Monad.return (x, Some e)
            | Inr False \<Rightarrow> State_Monad.return (x, None)
            | Inr True \<Rightarrow> do {
                recordExecutionMetric E x MetricWorkflowExecutionSucceeded [];
                State_Monad.return (x, None) } })"

subsection \<open>Executing a claimed node\<close>

definition settle_node :: "env \<Rightarrow> WorkflowExecution \<Rightarrow> time \<Rightarrow> WorkflowNodeExecution \<Rightarrow> exec_result io" where
  "settle_node E execution now node = do {
     updated \<leftarrow> updateNode E (node\<lparr>n_UpdatedAt := now\<rparr>) WorkflowNodeRunning;
     case updated of
       Inl e \<Rightarrow> State_Monad.return (execution, Some e)
     | Inr _ \<Rightarrow> State_Monad.return (execution, None) }"

definition dispatch_message :: "string \<Rightarrow> err option \<Rightarrow> string" where
  "dispatch_message fallback e = (case e of None \<Rightarrow> fallback | Some e' \<Rightarrow> error_text e')"

definition executeClaimedNode ::
  "env \<Rightarrow> wiring \<Rightarrow> WorkflowExecution \<Rightarrow> WorkflowNode \<Rightarrow> WorkflowNodeExecution \<Rightarrow> exec_result io" where
  "executeClaimedNode E W execution definitionNode node0 = do {
     let node = node0\<lparr>n_Input := x_Input execution\<rparr>;
     now \<leftarrow> service_now E;
     case dn_Type definitionNode of
       WorkflowNodeTrigger \<Rightarrow>
         settle_node E execution now
           (node\<lparr>n_Status := WorkflowNodeSucceeded, n_Output := x_Input execution,
                 n_CompletedAt := Some now\<rparr>)
     | WorkflowNodeCondition \<Rightarrow>
         (case parseWorkflowConditionConfig (dn_Config definitionNode) of
            Inl e \<Rightarrow> failClaimedNode E execution node ''invalid_node_config'' e
          | Inr config \<Rightarrow>
              (case evaluateWorkflowCondition config (x_Input execution) of
                 Inl e \<Rightarrow> failClaimedNode E execution node ''node_execution_failed'' e
               | Inr b \<Rightarrow>
                   settle_node E execution now
                     (node\<lparr>n_Status := WorkflowNodeSucceeded, n_Output := condition_output b,
                           n_CompletedAt := Some now\<rparr>)))
     | WorkflowNodeDelay \<Rightarrow>
         (case parseWorkflowDelayConfig (dn_Config definitionNode) of
            Inl e \<Rightarrow> failClaimedNode E execution node ''invalid_node_config'' e
          | Inr config \<Rightarrow>
              settle_node E execution now
                (node\<lparr>n_Status := WorkflowNodeQueued,
                      n_AvailableAt := Some (now + dc_DurationSeconds config * Second)\<rparr>))
     | WorkflowNodeTask \<Rightarrow> do {
         r \<leftarrow> DispatchWorkflowTask E W (x_OrgID execution) (x_ID execution) (dn_ID definitionNode)
           (dn_Config definitionNode) (x_Input execution);
         case r of
           (None, e) \<Rightarrow>
             failClaimedNode E execution node ''node_dispatch_failed''
               (dispatch_message ''QueueFlow task dispatch failed'' e)
         | (Some task, _) \<Rightarrow>
             settle_node E execution now
               (node\<lparr>n_Status := WorkflowNodeQueued, n_QueueTaskID := Some (t_ID task)\<rparr>) }
     | WorkflowNodeWebhook \<Rightarrow> do {
         r \<leftarrow> DispatchWorkflowWebhook E W execution definitionNode (x_Input execution);
         case r of
           Inl e \<Rightarrow>
             failClaimedNode E execution node ''node_dispatch_failed''
               (dispatch_message ''EventForge delivery dispatch failed'' (Some e))
         | Inr delivery \<Rightarrow>
             settle_node E execution now
               (node\<lparr>n_Status := WorkflowNodeQueued, n_WebhookDeliveryID := Some (wd_ID delivery)\<rparr>) }
     | _ \<Rightarrow> failClaimedNode E execution node ''invalid_node_config'' ''unsupported node type'' }"

subsection \<open>Readiness\<close>

text \<open>Go maps filled in order: the last entry for a key is the one that is read.\<close>

definition last_of :: "('a \<Rightarrow> string) \<Rightarrow> 'a list \<Rightarrow> string \<Rightarrow> 'a option" where
  "last_of key xs k = find (\<lambda>x. key x = k) (rev xs)"

definition incoming_edges :: "WorkflowDefinition \<Rightarrow> string \<Rightarrow> WorkflowEdge list" where
  "incoming_edges definition nodeID = filter (\<lambda>e. e_To e = nodeID) (elems (d_Edges definition))"

text \<open>A source that the definition does not contain reads as the zero node, of no known type.\<close>

definition source_is_condition :: "(string \<Rightarrow> WorkflowNode option) \<Rightarrow> WorkflowEdge \<Rightarrow> bool" where
  "source_is_condition definitionNodes edge \<longleftrightarrow>
     (case definitionNodes (e_From edge) of
        None \<Rightarrow> False
      | Some n \<Rightarrow> dn_Type n = WorkflowNodeCondition)"

text \<open>Whether an edge from a node that succeeded is taken.\<close>

definition edge_active :: "(string \<Rightarrow> WorkflowNode option) \<Rightarrow> WorkflowEdge \<Rightarrow> raw \<Rightarrow> err + bool" where
  "edge_active definitionNodes edge output =
     (if source_is_condition definitionNodes edge then
        (case parseWorkflowBranch (e_Condition edge) of
           Inl e \<Rightarrow> Inl (ErrInfra e)
         | Inr None \<Rightarrow> Inr True
         | Inr (Some branch) \<Rightarrow>
             (case workflowConditionResult output of
                Inl e \<Rightarrow> Inl e
              | Inr b \<Rightarrow> Inr (b = branch)))
      else Inr True)"

text \<open>The loop over the incoming edges; \<open>Inr None\<close> is the early return of \<open>(false, false)\<close>.\<close>

fun count_active ::
  "(string \<Rightarrow> WorkflowNode option) \<Rightarrow> (string \<Rightarrow> WorkflowNodeExecution option) \<Rightarrow> WorkflowEdge list \<Rightarrow>
     nat \<Rightarrow> err + nat option" where
  "count_active definitionNodes states [] active = Inr (Some active)"
| "count_active definitionNodes states (edge # edges) active =
     (case states (e_From edge) of
        None \<Rightarrow> Inr None
      | Some sourceState \<Rightarrow>
          if \<not> node_terminal (n_Status sourceState) then Inr None
          else if n_Status sourceState = WorkflowNodeFailed \<or> n_Status sourceState = WorkflowNodeCancelled
          then Inr None
          else if n_Status sourceState = WorkflowNodeSkipped
          then count_active definitionNodes states edges active
          else
            (case edge_active definitionNodes edge (n_Output sourceState) of
               Inl e \<Rightarrow> Inl e
             | Inr taken \<Rightarrow>
                 count_active definitionNodes states edges (if taken then active + 1 else active)))"

definition workflowNodeReadiness ::
  "WorkflowNode \<Rightarrow> WorkflowEdge list \<Rightarrow> (string \<Rightarrow> WorkflowNode option) \<Rightarrow>
     (string \<Rightarrow> WorkflowNodeExecution option) \<Rightarrow> err + (bool \<times> bool)" where
  "workflowNodeReadiness node incoming definitionNodes states =
     (if dn_Type node = WorkflowNodeTrigger then Inr (True, False)
      else if incoming = [] then Inr (False, False)
      else
        case count_active definitionNodes states incoming 0 of
          Inl e \<Rightarrow> Inl e
        | Inr None \<Rightarrow> Inr (False, False)
        | Inr (Some active) \<Rightarrow> if active = 0 then Inr (False, True) else Inr (True, False))"

subsection \<open>Scheduling\<close>

definition skip_node :: "env \<Rightarrow> WorkflowExecution \<Rightarrow> WorkflowNodeExecution \<Rightarrow> exec_result io" where
  "skip_node E execution node = do {
     now \<leftarrow> service_now E;
     updated \<leftarrow> updateNode E
       (node\<lparr>n_Status := WorkflowNodeSkipped, n_CompletedAt := Some now, n_UpdatedAt := now\<rparr>)
       WorkflowNodeRunning;
     case updated of
       Inl e \<Rightarrow> State_Monad.return (execution, Some e)
     | Inr _ \<Rightarrow> State_Monad.return (execution, None) }"

text \<open>The result of scheduling: the execution, whether there was progress, and the error.\<close>

type_synonym progress = "WorkflowExecution \<times> bool \<times> err option"

definition run_claimed ::
  "env \<Rightarrow> wiring \<Rightarrow> WorkflowExecution \<Rightarrow> WorkflowNode \<Rightarrow> bool \<Rightarrow> WorkflowNodeExecution \<Rightarrow> progress io" where
  "run_claimed E W execution definitionNode shouldSkip node = do {
     recordNodeMetric E node MetricNodeExecutionStarted [];
     r \<leftarrow> (if shouldSkip then skip_node E execution node
           else executeClaimedNode E W execution definitionNode node);
     case r of (x, e) \<Rightarrow> State_Monad.return (x, True, e) }"

fun schedule_nodes ::
  "env \<Rightarrow> wiring \<Rightarrow> WorkflowExecution \<Rightarrow> WorkflowDefinition \<Rightarrow> WorkflowNodeExecution list \<Rightarrow>
     WorkflowNode list \<Rightarrow> progress io" where
  "schedule_nodes E W execution definition nodes [] = State_Monad.return (execution, False, None)"
| "schedule_nodes E W execution definition nodes (definitionNode # rest) =
     (let nodeStates = last_of n_NodeID nodes;
          definitionNodes = last_of dn_ID (elems (d_Nodes definition)) in
      case nodeStates (dn_ID definitionNode) of
        None \<Rightarrow> schedule_nodes E W execution definition nodes rest
      | Some st \<Rightarrow>
          if n_Status st \<noteq> WorkflowNodePending then schedule_nodes E W execution definition nodes rest
          else
            (case workflowNodeReadiness definitionNode (incoming_edges definition (dn_ID definitionNode))
                    definitionNodes nodeStates of
               Inl e \<Rightarrow> State_Monad.return (execution, False, Some e)
             | Inr (runnable, shouldSkip) \<Rightarrow>
                 if \<not> runnable \<and> \<not> shouldSkip
                 then schedule_nodes E W execution definition nodes rest
                 else do {
                   now \<leftarrow> service_now E;
                   won \<leftarrow> ClaimWorkflowNode E (x_OrgID execution) (x_ID execution)
                     (dn_ID definitionNode) now;
                   case won of
                     Inl e \<Rightarrow> State_Monad.return (execution, False, Some e)
                   | Inr None \<Rightarrow> schedule_nodes E W execution definition nodes rest
                   | Inr (Some node) \<Rightarrow> run_claimed E W execution definitionNode shouldSkip node }))"

definition scheduleRunnableNodes ::
  "env \<Rightarrow> wiring \<Rightarrow> WorkflowExecution \<Rightarrow> WorkflowDefinition \<Rightarrow> WorkflowNodeExecution list \<Rightarrow> progress io" where
  "scheduleRunnableNodes E W execution definition nodes =
     schedule_nodes E W execution definition nodes (elems (d_Nodes definition))"

subsection \<open>Following tasks, deliveries and delays\<close>

definition task_outcome ::
  "env \<Rightarrow> time \<Rightarrow> Task \<Rightarrow> WorkflowNodeExecution \<Rightarrow> WorkflowNodeExecution" where
  "task_outcome E now task node =
     (let n = node\<lparr>n_Attempt := t_Attempts task\<rparr> in
      case t_Status task of
        StatusPending \<Rightarrow> n\<lparr>n_Status := WorkflowNodeQueued\<rparr>
      | StatusProcessing \<Rightarrow> n\<lparr>n_Status := WorkflowNodeRunning\<rparr>
      | StatusCompleted \<Rightarrow>
          n\<lparr>n_Status := WorkflowNodeSucceeded,
            n_Output := RawDoc (JObj [(''task_id'', JStr (uuid_text E (t_ID task)))]),
            n_CompletedAt := Some now\<rparr>
      | _ \<Rightarrow>
          n\<lparr>n_Status := WorkflowNodeFailed, n_ErrorCode := ''node_execution_failed'',
            n_ErrorMessage :=
              (if t_LastError task = [] then ''QueueFlow task did not complete successfully''
               else t_LastError task),
            n_CompletedAt := Some now\<rparr>)"

definition delivery_outcome ::
  "env \<Rightarrow> time \<Rightarrow> WebhookDelivery \<Rightarrow> WorkflowNodeExecution \<Rightarrow> WorkflowNodeExecution" where
  "delivery_outcome E now delivery node =
     (let n = node\<lparr>n_Attempt := wd_AttemptCount delivery\<rparr> in
      case wd_Status delivery of
        WebhookDeliveryPending \<Rightarrow> n\<lparr>n_Status := WorkflowNodeQueued\<rparr>
      | WebhookDeliveryRetrying \<Rightarrow> n\<lparr>n_Status := WorkflowNodeQueued\<rparr>
      | WebhookDeliveryDelivering \<Rightarrow> n\<lparr>n_Status := WorkflowNodeRunning\<rparr>
      | WebhookDeliveryDelivered \<Rightarrow>
          n\<lparr>n_Status := WorkflowNodeSucceeded,
            n_Output := RawDoc (JObj [(''webhook_delivery_id'', JStr (uuid_text E (wd_ID delivery)))]),
            n_CompletedAt := Some now\<rparr>
      | WebhookDeliveryFailed \<Rightarrow>
          n\<lparr>n_Status := WorkflowNodeFailed, n_ErrorCode := ''node_execution_failed'',
            n_ErrorMessage :=
              (case wd_LastError delivery of None \<Rightarrow> ''EventForge delivery failed'' | Some m \<Rightarrow> m),
            n_CompletedAt := Some now\<rparr>)"

definition delay_outcome :: "time \<Rightarrow> time \<Rightarrow> WorkflowNodeExecution \<Rightarrow> WorkflowNodeExecution" where
  "delay_outcome now availableAt node =
     (if availableAt \<le> now
      then node\<lparr>n_Status := WorkflowNodeSucceeded,
                n_Output := RawDoc (JObj [(''resumed_at'', JStr (time_text now))]),
                n_CompletedAt := Some now\<rparr>
      else node)"

text \<open>
  What the switch of one round of the loop makes of a node: leave it (\<open>continue\<close>), end
  the loop with an error, take a new state to be written, or execute it again because
  its dispatch was lost.
\<close>

datatype followed = Leave | Abort err | Changed WorkflowNodeExecution | Recover

definition follow_node ::
  "env \<Rightarrow> WorkflowExecution \<Rightarrow> time \<Rightarrow> WorkflowNodeExecution \<Rightarrow> followed io" where
  "follow_node E execution now node =
     (case n_QueueTaskID node of
        Some taskID \<Rightarrow> do {
          r \<leftarrow> GetWorkflowTask E (x_OrgID execution) taskID;
          State_Monad.return
            (case r of
               Inl e \<Rightarrow> if e = ErrTaskNotFound then Leave else Abort e
             | Inr task \<Rightarrow> Changed (task_outcome E now task node)) }
      | None \<Rightarrow>
          (case n_WebhookDeliveryID node of
             Some deliveryID \<Rightarrow> do {
               r \<leftarrow> GetWorkflowWebhook E (x_OrgID execution) deliveryID;
               State_Monad.return
                 (case r of
                    Inl e \<Rightarrow> if e = ErrWebhookDeliveryNotFound then Leave else Abort e
                  | Inr delivery \<Rightarrow> Changed (delivery_outcome E now delivery node)) }
           | None \<Rightarrow>
               State_Monad.return
                 (case (n_NodeType node, n_AvailableAt node) of
                    (WorkflowNodeDelay, Some availableAt) \<Rightarrow> Changed (delay_outcome now availableAt node)
                  | _ \<Rightarrow>
                      if n_Status node = WorkflowNodeRunning then
                        (if now - n_UpdatedAt node < workflowNodeDispatchRecoveryAfter then Leave
                         else Recover)
                      else Changed node)))"

definition needs_write :: "WorkflowNodeExecution \<Rightarrow> WorkflowNodeExecution \<Rightarrow> bool" where
  "needs_write before node \<longleftrightarrow>
     n_Status node \<noteq> n_Status before \<or> n_Attempt node \<noteq> n_Attempt before \<or> n_CompletedAt node \<noteq> None"

fun reconcile_nodes ::
  "env \<Rightarrow> wiring \<Rightarrow> WorkflowExecution \<Rightarrow> WorkflowDefinition \<Rightarrow> WorkflowNodeExecution list \<Rightarrow> bool \<Rightarrow>
     progress io" where
  "reconcile_nodes E W execution definition [] changed = State_Monad.return (execution, changed, None)"
| "reconcile_nodes E W execution definition (node # nodes) changed =
     (if n_Status node \<noteq> WorkflowNodeQueued \<and> n_Status node \<noteq> WorkflowNodeRunning
      then reconcile_nodes E W execution definition nodes changed
      else do {
        now \<leftarrow> service_now E;
        f \<leftarrow> follow_node E execution now node;
        case f of
          Leave \<Rightarrow> reconcile_nodes E W execution definition nodes changed
        | Abort e \<Rightarrow> State_Monad.return (execution, changed, Some e)
        | Recover \<Rightarrow>
            (case last_of dn_ID (elems (d_Nodes definition)) (n_NodeID node) of
               None \<Rightarrow> State_Monad.return (execution, changed, Some ErrInvalidInput)
             | Some definitionNode \<Rightarrow> do {
                 r \<leftarrow> executeClaimedNode E W execution definitionNode node;
                 case r of
                   (x, Some e) \<Rightarrow> State_Monad.return (x, True, Some e)
                 | (x, None) \<Rightarrow> reconcile_nodes E W x definition nodes True })
        | Changed n \<Rightarrow>
            if needs_write node n then do {
              r \<leftarrow> updateNode E (n\<lparr>n_UpdatedAt := now\<rparr>) (n_Status node);
              case r of
                Inl e \<Rightarrow> State_Monad.return (execution, changed, Some e)
              | Inr updated \<Rightarrow> reconcile_nodes E W execution definition nodes (changed \<or> updated) }
            else reconcile_nodes E W execution definition nodes changed })"

definition reconcileExternalNodes ::
  "env \<Rightarrow> wiring \<Rightarrow> WorkflowExecution \<Rightarrow> WorkflowDefinition \<Rightarrow> WorkflowNodeExecution list \<Rightarrow> progress io" where
  "reconcileExternalNodes E W execution definition nodes =
     reconcile_nodes E W execution definition nodes False"

subsection \<open>Advancing an execution\<close>

text \<open>
  One round of the loop: \<open>Inl\<close> continues with the execution as it is now, \<open>Inr\<close> is a
  return of \<open>AdvanceExecution\<close>. The second half of a round reads the rows again.
\<close>

definition advance_tail ::
  "env \<Rightarrow> wiring \<Rightarrow> uuid \<Rightarrow> uuid \<Rightarrow> WorkflowDefinition \<Rightarrow> WorkflowExecution \<Rightarrow>
     (WorkflowExecution + err option) io" where
  "advance_tail E W orgID executionID definition execution = do {
     r \<leftarrow> GetWorkflowNodeExecutions E orgID executionID;
     case r of
       Inl e \<Rightarrow> State_Monad.return (Inr (Some e))
     | Inr nodes \<Rightarrow>
         (case firstFailedWorkflowNode nodes of
            Some failed \<Rightarrow> do {
              f \<leftarrow> failExecution E execution (n_ErrorCode failed) (n_ErrorMessage failed);
              State_Monad.return (Inr (snd f)) }
          | None \<Rightarrow> do {
              p \<leftarrow> scheduleRunnableNodes E W execution definition nodes;
              case p of
                (_, _, Some e) \<Rightarrow> State_Monad.return (Inr (Some e))
              | (x, True, None) \<Rightarrow> State_Monad.return (Inl x)
              | (x, False, None) \<Rightarrow> do {
                  f \<leftarrow> finalizeExecutionIfComplete E x definition nodes;
                  State_Monad.return (Inr (snd f)) } }) }"

definition advance_round ::
  "env \<Rightarrow> wiring \<Rightarrow> uuid \<Rightarrow> uuid \<Rightarrow> WorkflowDefinition \<Rightarrow> WorkflowExecution \<Rightarrow>
     (WorkflowExecution + err option) io" where
  "advance_round E W orgID executionID definition execution = do {
     r \<leftarrow> GetWorkflowNodeExecutions E orgID executionID;
     case r of
       Inl e \<Rightarrow> State_Monad.return (Inr (Some e))
     | Inr nodes \<Rightarrow> do {
         p \<leftarrow> reconcileExternalNodes E W execution definition nodes;
         case p of
           (_, _, Some e) \<Rightarrow> State_Monad.return (Inr (Some e))
         | (x, True, None) \<Rightarrow> State_Monad.return (Inl x)
         | (x, False, None) \<Rightarrow> advance_tail E W orgID executionID definition x } }"

fun advance_loop ::
  "env \<Rightarrow> wiring \<Rightarrow> uuid \<Rightarrow> uuid \<Rightarrow> WorkflowDefinition \<Rightarrow> nat \<Rightarrow> WorkflowExecution \<Rightarrow>
     err option io" where
  "advance_loop E W orgID executionID definition 0 execution = State_Monad.return None"
| "advance_loop E W orgID executionID definition (Suc rounds) execution = do {
     r \<leftarrow> advance_round E W orgID executionID definition execution;
     case r of
       Inr e \<Rightarrow> State_Monad.return e
     | Inl x \<Rightarrow> advance_loop E W orgID executionID definition rounds x }"

definition start_running :: "env \<Rightarrow> WorkflowExecution \<Rightarrow> (err + WorkflowExecution) io" where
  "start_running E execution =
     (if x_Status execution \<noteq> WorkflowExecutionPending then State_Monad.return (Inr execution)
      else do {
        now \<leftarrow> service_now E;
        let x = execution\<lparr>x_Status := WorkflowExecutionRunning, x_StartedAt := Some now,
                          x_UpdatedAt := now\<rparr>;
        bind_ok (UpdateWorkflowExecution E x [WorkflowExecutionPending]) (\<lambda>updated. do {
          (if updated then recordExecutionMetric E x MetricWorkflowExecutionStarted []
           else State_Monad.return ());
          State_Monad.return (Inr x) }) })"

definition advance_version ::
  "env \<Rightarrow> wiring \<Rightarrow> uuid \<Rightarrow> uuid \<Rightarrow> WorkflowExecution \<Rightarrow> WorkflowVersion \<Rightarrow> err option io" where
  "advance_version E W orgID executionID execution version =
     (if v_Version version \<noteq> x_WorkflowVersion execution
      then State_Monad.return (Some ErrWorkflowVersionNotFound)
      else do {
        st \<leftarrow> start_running E execution;
        case st of
          Inl e \<Rightarrow> State_Monad.return (Some e)
        | Inr x \<Rightarrow>
            advance_loop E W orgID executionID (v_Definition version)
              (length (elems (d_Nodes (v_Definition version))) + 2) x })"

definition advance_found ::
  "env \<Rightarrow> wiring \<Rightarrow> uuid \<Rightarrow> uuid \<Rightarrow> uuid \<Rightarrow> WorkflowExecution \<Rightarrow> err option io" where
  "advance_found E W orgID workflowID executionID execution =
     (if execution_terminal (x_Status execution) then State_Monad.return None
      else do {
        v \<leftarrow> GetWorkflowExecutionVersion E orgID workflowID (x_WorkflowVersionID execution);
        case v of
          Inl e \<Rightarrow> State_Monad.return (Some e)
        | Inr version \<Rightarrow> advance_version E W orgID executionID execution version })"

definition AdvanceExecution :: "env \<Rightarrow> wiring \<Rightarrow> uuid \<Rightarrow> uuid \<Rightarrow> uuid \<Rightarrow> err option io" where
  "AdvanceExecution E W orgID workflowID executionID = do {
     found \<leftarrow> GetWorkflowExecution E orgID workflowID executionID;
     case found of
       Inl e \<Rightarrow> State_Monad.return (Some e)
     | Inr execution \<Rightarrow> advance_found E W orgID workflowID executionID execution }"

subsection \<open>Starting, reading and cancelling\<close>

record StartWorkflowExecutionInput =
  si_OrgID :: uuid
  si_WorkflowID :: uuid
  si_Version :: "int option"
  si_Input :: raw
  si_IdempotencyKey :: string

record WorkflowExecutionStartResult =
  sr_ExecutionID :: uuid
  sr_WorkflowID :: uuid
  sr_WorkflowVersion :: int
  sr_Status :: WorkflowExecutionStatus
  sr_CreatedAt :: time

definition selectVersion :: "env \<Rightarrow> uuid \<Rightarrow> uuid \<Rightarrow> int option \<Rightarrow> (err + WorkflowVersion) io" where
  "selectVersion E orgID workflowID requested =
     (let published = (\<lambda>version.
        State_Monad.return
          (if v_Status version \<noteq> WorkflowVersionStatusPublished
           then Inl ErrWorkflowVersionNotFound else Inr version)) in
      case requested of
        Some r \<Rightarrow>
          if r \<le> 0 then State_Monad.return (Inl ErrInvalidInput)
          else bind_ok (GetWorkflowVersion E orgID workflowID r) published
      | None \<Rightarrow> bind_ok (GetLatestWorkflowVersion E orgID workflowID) published)"

fun new_nodes_for ::
  "env \<Rightarrow> uuid \<Rightarrow> uuid \<Rightarrow> time \<Rightarrow> WorkflowNode list \<Rightarrow> WorkflowNodeExecution list io" where
  "new_nodes_for E orgID executionID now [] = State_Monad.return []"
| "new_nodes_for E orgID executionID now (definitionNode # rest) = do {
     i \<leftarrow> uuid_new E;
     ns \<leftarrow> new_nodes_for E orgID executionID now rest;
     State_Monad.return
       (\<lparr>n_ID = i, n_OrgID = orgID, n_WorkflowExecutionID = executionID,
         n_NodeID = dn_ID definitionNode, n_NodeType = dn_Type definitionNode,
         n_Status = WorkflowNodePending, n_Attempt = 0, n_Input = RawNil, n_Output = RawNil,
         n_ErrorCode = [], n_ErrorMessage = [], n_QueueTaskID = None, n_WebhookDeliveryID = None,
         n_AvailableAt = None, n_StartedAt = None, n_CompletedAt = None, n_CreatedAt = now,
         n_UpdatedAt = now\<rparr> # ns) }"

type_synonym start_result = "WorkflowExecutionStartResult option \<times> bool \<times> err option"

definition start_report :: "env \<Rightarrow> WorkflowExecution \<Rightarrow> bool \<Rightarrow> start_result io" where
  "start_report E execution reused = do {
     found \<leftarrow> GetWorkflowExecution E (x_OrgID execution) (x_WorkflowID execution) (x_ID execution);
     State_Monad.return
       (case found of
          Inl e \<Rightarrow> (None, reused, Some e)
        | Inr current \<Rightarrow>
            (Some \<lparr>sr_ExecutionID = x_ID current, sr_WorkflowID = x_WorkflowID current,
                   sr_WorkflowVersion = x_WorkflowVersion current, sr_Status = x_Status current,
                   sr_CreatedAt = x_CreatedAt current\<rparr>, reused, None)) }"

definition create_and_advance ::
  "env \<Rightarrow> wiring \<Rightarrow> StartWorkflowExecutionInput \<Rightarrow> string \<Rightarrow> WorkflowVersion \<Rightarrow> raw \<Rightarrow> start_result io" where
  "create_and_advance E W input idempotencyKey version normalizedInput = do {
     now \<leftarrow> service_now E;
     executionID \<leftarrow> uuid_new E;
     let draft =
       \<lparr>x_ID = executionID, x_OrgID = si_OrgID input, x_WorkflowID = si_WorkflowID input,
        x_WorkflowVersionID = v_ID version, x_WorkflowVersion = v_Version version,
        x_Status = WorkflowExecutionPending, x_Input = normalizedInput, x_Output = RawNil,
        x_ErrorCode = [], x_ErrorMessage = [], x_IdempotencyKey = idempotencyKey,
        x_RequestFingerprint =
          workflowExecutionFingerprint E (si_WorkflowID input) (v_Version version) normalizedInput,
        x_StartedAt = None, x_CompletedAt = None, x_CreatedAt = now, x_UpdatedAt = now\<rparr>;
     nodes \<leftarrow> new_nodes_for E (si_OrgID input) executionID now (elems (d_Nodes (v_Definition version)));
     created \<leftarrow> CreateWorkflowExecution E draft nodes;
     case created of
       Inl e \<Rightarrow> State_Monad.return (None, False, Some e)
     | Inr (execution, reused) \<Rightarrow>
         if x_WorkflowID execution \<noteq> si_WorkflowID input
         then State_Monad.return (None, False, Some ErrWorkflowExecutionIdempotencyConflict)
         else do {
           (if reused then State_Monad.return ()
            else recordExecutionMetric E execution MetricWorkflowExecutionCreated []);
           advanced \<leftarrow> AdvanceExecution E W (x_OrgID execution) (x_WorkflowID execution) (x_ID execution);
           case advanced of
             Some e \<Rightarrow> State_Monad.return (None, reused, Some e)
           | None \<Rightarrow> start_report E execution reused } }"

definition StartExecution :: "env \<Rightarrow> wiring \<Rightarrow> StartWorkflowExecutionInput \<Rightarrow> start_result io" where
  "StartExecution E W input =
     (let idempotencyKey = trim_space (si_IdempotencyKey input);
          fail = (\<lambda>e. State_Monad.return (None, False, Some e)) in
      if idempotencyKey = [] \<or> length idempotencyKey > 255 then fail ErrInvalidInput
      else do {
        found \<leftarrow> GetWorkflowByID E (si_OrgID input) (si_WorkflowID input);
        case found of
          Inl e \<Rightarrow> fail e
        | Inr workflow \<Rightarrow>
            if wf_Status workflow \<noteq> WorkflowStatusPublished then fail ErrWorkflowNotPublished
            else do {
              selected \<leftarrow> selectVersion E (si_OrgID input) (si_WorkflowID input) (si_Version input);
              case selected of
                Inl e \<Rightarrow> fail e
              | Inr version \<Rightarrow>
                  (case normalizeWorkflowExecutionInput (si_Input input) of
                     Inl _ \<Rightarrow> fail ErrInvalidInput
                   | Inr normalizedInput \<Rightarrow>
                       if raw_len normalizedInput > maxWorkflowExecutionInputBytes
                       then fail ErrInvalidInput
                       else create_and_advance E W input idempotencyKey version normalizedInput) } })"

definition GetExecution ::
  "env \<Rightarrow> uuid \<Rightarrow> uuid \<Rightarrow> uuid \<Rightarrow> (err + (WorkflowExecution \<times> WorkflowNodeExecution list)) io" where
  "GetExecution E orgID workflowID executionID =
     bind_ok (GetWorkflowExecution E orgID workflowID executionID) (\<lambda>execution.
       bind_ok (GetWorkflowNodeExecutions E orgID executionID) (\<lambda>nodes.
         State_Monad.return (Inr (execution, sort_by node_before nodes))))"

definition CancelExecution :: "env \<Rightarrow> uuid \<Rightarrow> uuid \<Rightarrow> uuid \<Rightarrow> (err + WorkflowExecution) io" where
  "CancelExecution E orgID workflowID executionID = do {
     now \<leftarrow> service_now E;
     bind_ok (CancelWorkflowExecution E orgID workflowID executionID now) (\<lambda>execution. do {
       recordExecutionMetric E execution MetricWorkflowExecutionCancelled [];
       nodes \<leftarrow> GetWorkflowNodeExecutions E orgID executionID;
       (case nodes of Inl _ \<Rightarrow> State_Monad.return () | Inr ns \<Rightarrow> record_cancelled E ns);
       State_Monad.return (Inr execution) }) }"

subsection \<open>Reconciliation\<close>

text \<open>The errors that \<open>errors.Join\<close> wraps, in order; none is the nil error.\<close>

fun advance_all :: "env \<Rightarrow> wiring \<Rightarrow> WorkflowExecution list \<Rightarrow> err list io" where
  "advance_all E W [] = State_Monad.return []"
| "advance_all E W (x # xs) = do {
     r \<leftarrow> AdvanceExecution E W (x_OrgID x) (x_WorkflowID x) (x_ID x);
     errs \<leftarrow> advance_all E W xs;
     State_Monad.return (case r of None \<Rightarrow> errs | Some e \<Rightarrow> e # errs) }"

definition ReconcileActive :: "env \<Rightarrow> wiring \<Rightarrow> int \<Rightarrow> (nat \<times> err list) io" where
  "ReconcileActive E W limit = do {
     found \<leftarrow> ListWorkflowExecutionsForReconciliation E limit;
     case found of
       Inl e \<Rightarrow> State_Monad.return (0, [e])
     | Inr xs \<Rightarrow> do {
         errs \<leftarrow> advance_all E W xs;
         State_Monad.return (length xs, errs) } }"

end
