(* ===== verification/Side_Effects.thy ===== *)
theory Side_Effects
  imports Task_Service
begin

text \<open>
  Calls that touch neither the task table nor the workflow tables: those of the broker,
  the publication of webhook events and the recording of metrics. A relation on stores
  that holds between two stores with the same tables of these kinds is respected by all
  of them, whatever it says about the tables.
\<close>

definition same_tables :: "store \<Rightarrow> store \<Rightarrow> bool" where
  "same_tables s s' \<longleftrightarrow>
     tasks s' = tasks s \<and> workflows s' = workflows s \<and> versions s' = versions s \<and>
     executions s' = executions s \<and> node_executions s' = node_executions s"

locale side_effects = store_guarantee +
  assumes aside: "same_tables s s' \<Longrightarrow> G s s'"
begin

lemma steps_aside:
  assumes "others_keep E G" and "\<And>s. same_tables s (snd (f s))"
  shows "steps (on_store G) (atomic E what f)"
  using assms(1) by (rule steps_atomic) (rule aside [OF assms(2)])

lemma steps_broker_call: "others_keep E G \<Longrightarrow> steps (on_store G) (broker_call E what orgID queue f)"
  unfolding broker_call_def by (rule steps_aside) (simp_all add: on_queue_def same_tables_def)

lemma steps_Enqueue: "others_keep E G \<Longrightarrow> steps (on_store G) (Enqueue E task)"
  unfolding Enqueue_def by (rule steps_broker_call)

lemma steps_EnqueueDelayed: "others_keep E G \<Longrightarrow> steps (on_store G) (EnqueueDelayed E task delay)"
  unfolding EnqueueDelayed_def by (intro world.steps_syntax steps_time steps_broker_call)

lemma steps_Nack: "others_keep E G \<Longrightarrow> steps (on_store G) (Nack E orgID queue i delay)"
  unfolding Nack_def by (intro world.steps_syntax steps_time steps_broker_call)

lemma steps_Ack: "others_keep E G \<Longrightarrow> steps (on_store G) (Ack E orgID queue i)"
  unfolding Ack_def by (rule steps_broker_call)

lemma steps_Remove: "others_keep E G \<Longrightarrow> steps (on_store G) (Remove E orgID queue i)"
  unfolding Remove_def by (rule steps_broker_call)

lemma steps_broker_MoveToDeadLetter:
  "others_keep E G \<Longrightarrow> steps (on_store G) (broker_MoveToDeadLetter E orgID queue i)"
  unfolding broker_MoveToDeadLetter_def by (rule steps_broker_call)

lemma steps_PromoteDueDelayed: "others_keep E G \<Longrightarrow> steps (on_store G) (PromoteDueDelayed E orgID queue)"
  unfolding PromoteDueDelayed_def
  by (intro world.steps_syntax steps_time steps_aside)
    (simp_all add: on_queue_def same_tables_def split: prod.split)

lemma steps_CreateWebhookDelivery: "others_keep E G \<Longrightarrow> steps (on_store G) (CreateWebhookDelivery E d)"
  unfolding CreateWebhookDelivery_def by (rule steps_aside) (simp_all add: same_tables_def)

lemma steps_publish_to:
  "others_keep E G \<Longrightarrow> steps (on_store G) (publish_to E m eventType payload now task es)"
proof (induction es)
  case Nil
  then show ?case by (simp add: world.steps_return)
next
  case (Cons e es)
  then show ?case
    by (auto simp: delivery_created_metric_def Let_def
        intro!: world.steps_syntax steps_uuid steps_CreateWebhookDelivery steps_metric)
qed

lemma steps_publishTaskEvent: "others_keep E G \<Longrightarrow> steps (on_store G) (publishTaskEvent E W eventType task)"
  unfolding publishTaskEvent_def PublishTaskEvent_def ListActiveWebhookEndpointsForEvent_def
  by (auto simp del: publish_to.simps
      intro!: world.steps_syntax steps_query steps_publish_to steps_time steps_uuid)

lemma steps_task_metric: "steps (on_store G) (task_metric E task eventType t k)"
  unfolding task_metric_def by (rule steps_metric)

lemma steps_FindByIdempotencyKey:
  "others_keep E G \<Longrightarrow> steps (on_store G) (FindByIdempotencyKey E orgID queue key)"
  unfolding FindByIdempotencyKey_def by (rule steps_query)

lemma steps_GetByID: "others_keep E G \<Longrightarrow> steps (on_store G) (GetByID E orgID i)"
  unfolding GetByID_def by (rule steps_query)

end

end
