(* ===== verification/Exec_Safety.thy ===== *)
theory Exec_Safety
  imports Exec_Service Side_Effects
begin

text \<open>
  What the execution service guarantees whatever fails and whatever other processes do in
  between.
\<close>

subsection \<open>Calls that leave the execution tables alone\<close>

locale exec_guarantee = store_guarantee +
  assumes frame:
    "executions s' = executions s \<Longrightarrow> node_executions s' = node_executions s \<Longrightarrow>
       versions s' = versions s \<Longrightarrow> G s s'"
begin

sublocale side_effects G
  by unfold_locales (simp add: same_tables_def frame)

lemma steps_frame:
  assumes "others_keep E G"
    and "\<And>s. executions (snd (f s)) = executions s \<and> node_executions (snd (f s)) = node_executions s \<and>
           versions (snd (f s)) = versions s"
  shows "steps (on_store G) (atomic E what f)"
  using assms(1) by (rule steps_atomic) (simp add: frame assms(2))

lemma steps_update_task: "others_keep E G \<Longrightarrow> steps (on_store G) (atomic E what (update_task e P f))"
  by (rule steps_frame) (simp_all add: update_task_def)

lemma steps_Create: "others_keep E G \<Longrightarrow> steps (on_store G) (Create E task)"
  unfolding Create_def by (rule steps_frame) simp_all

lemma steps_dispatch_task: "others_keep E G \<Longrightarrow> steps (on_store G) (dispatch_task E task)"
  unfolding dispatch_task_def EnqueueDelayed_def Enqueue_def MarkDispatched_def
  by (auto simp: Let_def
      intro!: world.steps_syntax steps_time steps_broker_call steps_update_task)

lemma steps_insert_task: "others_keep E G \<Longrightarrow> steps (on_store G) (insert_task E W input fp payload)"
  unfolding insert_task_def task_metric_def Let_def
  by (auto split: err.split
      intro!: world.steps_syntax steps_time steps_uuid steps_Create steps_FindByIdempotencyKey
        steps_metric steps_publishTaskEvent steps_dispatch_task)

lemma steps_CreateTask: "others_keep E G \<Longrightarrow> steps (on_store G) (CreateTask E W input)"
  unfolding CreateTask_def
  by (auto intro!: world.steps_syntax steps_FindByIdempotencyKey steps_insert_task)

lemma steps_DispatchWorkflowTask:
  "others_keep E G \<Longrightarrow> steps (on_store G) (DispatchWorkflowTask E W orgID executionID nodeID config input)"
  unfolding DispatchWorkflowTask_def by (auto intro!: world.steps_syntax steps_CreateTask)

lemma steps_GetWorkflowTask: "others_keep E G \<Longrightarrow> steps (on_store G) (GetWorkflowTask E orgID taskID)"
  unfolding GetWorkflowTask_def GetTask_def GetByID_def by (rule steps_query)

lemma steps_GetWebhookDelivery: "others_keep E G \<Longrightarrow> steps (on_store G) (GetWebhookDelivery E orgID i)"
  unfolding GetWebhookDelivery_def by (rule steps_query)

lemma steps_DispatchWorkflowWebhook:
  "others_keep E G \<Longrightarrow> steps (on_store G) (DispatchWorkflowWebhook E W execution node input)"
  unfolding DispatchWorkflowWebhook_def create_workflow_delivery_def GetWebhookEndpoint_def
    delivery_created_metric_def Let_def
  by (auto split: raw.split
      intro!: world.steps_syntax steps_query steps_GetWebhookDelivery steps_CreateWebhookDelivery
        steps_time steps_uuid steps_metric)

lemma steps_service_now: "steps (on_store G) (service_now E)"
  unfolding service_now_def by (intro world.steps_syntax steps_time)

lemma steps_recordExecutionMetric: "steps (on_store G) (recordExecutionMetric E x eventType code)"
  unfolding recordExecutionMetric_def by (rule steps_metric)

lemma steps_recordNodeMetric: "steps (on_store G) (recordNodeMetric E n eventType code)"
  unfolding recordNodeMetric_def by (rule steps_metric)

lemma steps_record_cancelled: "steps (on_store G) (record_cancelled E ns)"
  by (induction ns) (auto intro!: world.steps_syntax steps_recordNodeMetric)

lemma steps_GetWorkflowNodeExecutions:
  "others_keep E G \<Longrightarrow> steps (on_store G) (GetWorkflowNodeExecutions E orgID executionID)"
  unfolding GetWorkflowNodeExecutions_def by (rule steps_query)

lemma steps_follow_node: "others_keep E G \<Longrightarrow> steps (on_store G) (follow_node E execution now node)"
  unfolding follow_node_def GetWorkflowWebhook_def
  by (auto intro!: world.steps_syntax steps_GetWorkflowTask steps_GetWebhookDelivery)

end

subsection \<open>The invariant\<close>

definition version_for :: "WorkflowExecution \<Rightarrow> WorkflowVersion \<Rightarrow> bool" where
  "version_for x v \<longleftrightarrow>
     v_OrgID v = x_OrgID x \<and> v_WorkflowID v = x_WorkflowID x \<and> v_ID v = x_WorkflowVersionID x"

definition started :: "WorkflowNodeExecution \<Rightarrow> bool" where
  "started n \<longleftrightarrow> n_Status n \<noteq> WorkflowNodePending \<and> n_Status n \<noteq> WorkflowNodeCancelled"

definition is_entry :: "WorkflowDefinition \<Rightarrow> string \<Rightarrow> bool" where
  "is_entry d i \<longleftrightarrow> (\<exists>a \<in> set (elems (d_Nodes d)). dn_ID a = i \<and> dn_Type a = WorkflowNodeTrigger)"

definition sources_done :: "WorkflowDefinition \<Rightarrow> string \<Rightarrow> WorkflowNodeExecution list \<Rightarrow> bool" where
  "sources_done d i ns \<longleftrightarrow>
     incoming_edges d i \<noteq> [] \<and>
     (\<forall>e \<in> set (incoming_edges d i). \<exists>m \<in> set ns. n_NodeID m = e_From e \<and> node_done m)"

text \<open>The rows of one execution.\<close>

abbreviation rows_of :: "WorkflowExecution \<Rightarrow> store \<Rightarrow> WorkflowNodeExecution list" where
  "rows_of x s \<equiv> nodes_of (x_OrgID x) (x_ID x) s"

definition may_start :: "WorkflowExecution \<Rightarrow> WorkflowVersion \<Rightarrow> string \<Rightarrow> store \<Rightarrow> bool" where
  "may_start x v i s \<longleftrightarrow> is_entry (v_Definition v) i \<or> sources_done (v_Definition v) i (rows_of x s)"

definition closed_executions :: "store \<Rightarrow> bool" where
  "closed_executions s \<longleftrightarrow>
     (\<forall>x \<in> set (executions s). execution_terminal (x_Status x) \<longrightarrow>
        (\<forall>n \<in> set (rows_of x s). node_terminal (n_Status n)))"

definition ordered_nodes :: "store \<Rightarrow> bool" where
  "ordered_nodes s \<longleftrightarrow>
     (\<forall>x \<in> set (executions s). \<forall>v \<in> set (versions s). version_for x v \<longrightarrow>
        (\<forall>n \<in> set (rows_of x s). started n \<longrightarrow> may_start x v (n_NodeID n) s))"

definition idempotency_key :: "WorkflowExecution \<Rightarrow> uuid \<times> string" where
  "idempotency_key x = (x_OrgID x, x_IdempotencyKey x)"

definition exec_keys_ok :: "store \<Rightarrow> bool" where
  "exec_keys_ok s \<longleftrightarrow>
     distinct (map x_ID (executions s)) \<and> distinct (map idempotency_key (executions s)) \<and>
     distinct (map v_ID (versions s)) \<and>
     (\<forall>x \<in> set (executions s). version_exists x (versions s)) \<and>
     (\<forall>n \<in> set (node_executions s). node_key n \<in> execution_keys s)"

definition exec_inv :: "store \<Rightarrow> bool" where
  "exec_inv s \<longleftrightarrow> exec_keys_ok s \<and> closed_executions s \<and> ordered_nodes s"

definition exec_safe :: "store \<Rightarrow> store \<Rightarrow> bool" where
  "exec_safe s s' \<longleftrightarrow> (exec_inv s \<longrightarrow> exec_step s s' \<and> exec_inv s')"

lemma in_nodes_of:
  "n \<in> set (nodes_of orgID i s) \<longleftrightarrow> n \<in> set (node_executions s) \<and> node_key n = (orgID, i)"
  by (auto simp: nodes_of_def node_key_def)

lemma exec_inv_tables:
  assumes "executions s' = executions s" "node_executions s' = node_executions s" "versions s' = versions s"
  shows "exec_inv s' = exec_inv s"
proof -
  have "nodes_of orgID i s' = nodes_of orgID i s" for orgID i using assms(2) by (simp add: nodes_of_def)
  then show ?thesis
    unfolding exec_inv_def exec_keys_ok_def closed_executions_def ordered_nodes_def may_start_def
      execution_keys_def assms by simp
qed

interpretation xg: exec_guarantee exec_safe
proof
  show "exec_safe s s" for s by (simp add: exec_safe_def ex.refl)
  show "exec_safe s u" if "exec_safe s t" "exec_safe t u" for s t u
    using that ex.trans unfolding exec_safe_def by blast
  show "exec_safe s s'"
    if "executions s' = executions s" "node_executions s' = node_executions s" "versions s' = versions s"
    for s s'
    using exec_step_frame [OF that] exec_inv_tables [OF that] by (simp add: exec_safe_def)
qed

subsection \<open>Facts that stay true\<close>

lemma exec_step_nodesD:
  assumes "exec_step s s'" and "n \<in> set (nodes_of orgID i s)"
  obtains n' where "n' \<in> set (nodes_of orgID i s')" "node_step n n'"
proof -
  have "evolves node_step (node_executions s) (node_executions s')" using assms(1) by (simp add: exec_step_def)
  moreover have "n \<in> set (node_executions s)" "node_key n = (orgID, i)" using assms(2) by (simp_all add: in_nodes_of)
  ultimately obtain n' where n': "n' \<in> set (node_executions s')" "node_step n n'" using evolvesD by metis
  with \<open>node_key n = (orgID, i)\<close> have "n' \<in> set (nodes_of orgID i s')" by (simp add: in_nodes_of node_step_key)
  then show thesis using n'(2) by (rule that)
qed

lemma exec_step_nodesE:
  assumes "exec_step s s'" and "(orgID, i) \<in> execution_keys s" and "n' \<in> set (nodes_of orgID i s')"
  obtains n where "n \<in> set (nodes_of orgID i s)" "node_step n n'"
proof -
  have ev: "evolves node_step (node_executions s) (node_executions s')" using assms(1) by (simp add: exec_step_def)
  have n': "n' \<in> set (node_executions s')" "node_key n' = (orgID, i)" using assms(3) by (simp_all add: in_nodes_of)
  from ev n'(1) show thesis
  proof (cases rule: evolves_cases)
    case (1 n)
    then have "n \<in> set (nodes_of orgID i s)" using n'(2) node_step_key [OF 1(2)] by (simp add: in_nodes_of)
    then show thesis using 1(2) by (rule that)
  next
    case 2
    then have "node_key n' \<notin> execution_keys s" using assms(1) by (simp add: exec_step_def new_nodes_def)
    with n'(2) assms(2) show thesis by simp
  qed
qed

lemma node_step_done: "node_step n n' \<Longrightarrow> node_done n \<Longrightarrow> n' = n"
  by (auto simp: node_step_def node_done_def node_terminal_def)

lemma node_step_terminal: "node_step n n' \<Longrightarrow> node_terminal (n_Status n) \<Longrightarrow> n' = n"
  by (auto simp: node_step_def)

lemma sources_done_keep:
  assumes "exec_step s s'" and "sources_done d i (nodes_of orgID j s)"
  shows "sources_done d i (nodes_of orgID j s')"
  unfolding sources_done_def
proof (intro conjI ballI)
  show "incoming_edges d i \<noteq> []" using assms(2) by (simp add: sources_done_def)
  fix e assume "e \<in> set (incoming_edges d i)"
  then obtain m where m: "m \<in> set (nodes_of orgID j s)" "n_NodeID m = e_From e" "node_done m"
    using assms(2) by (auto simp: sources_done_def)
  from exec_step_nodesD [OF assms(1) m(1)] obtain m' where "m' \<in> set (nodes_of orgID j s')" "node_step m m'" .
  with node_step_done [OF _ m(3)] m show "\<exists>m \<in> set (nodes_of orgID j s'). n_NodeID m = e_From e \<and> node_done m"
    by blast
qed

text \<open>
  A list of rows read earlier: the execution has the same rows now, each evolved from the
  one that was read.
\<close>

definition seen :: "uuid \<Rightarrow> uuid \<Rightarrow> WorkflowNodeExecution list \<Rightarrow> store \<Rightarrow> bool" where
  "seen orgID i ns s \<longleftrightarrow>
     (orgID, i) \<in> execution_keys s \<and>
     (\<forall>n \<in> set ns. \<exists>n' \<in> set (nodes_of orgID i s). node_step n n') \<and>
     (\<forall>n' \<in> set (nodes_of orgID i s). \<exists>n \<in> set ns. node_step n n')"

lemma seen_start: "(orgID, i) \<in> execution_keys s \<Longrightarrow> seen orgID i (sort_by node_before (nodes_of orgID i s)) s"
  unfolding seen_def set_sort_by using node_step_refl by blast

lemma seen_keep:
  assumes "seen orgID i ns s" and "exec_step s s'"
  shows "seen orgID i ns s'"
  unfolding seen_def
proof (intro conjI ballI)
  have key: "(orgID, i) \<in> execution_keys s" using assms(1) by (simp add: seen_def)
  then show "(orgID, i) \<in> execution_keys s'" using execution_keys_mono [OF assms(2)] by blast
  show "\<exists>n' \<in> set (nodes_of orgID i s'). node_step n n'" if "n \<in> set ns" for n
  proof -
    obtain m where m: "m \<in> set (nodes_of orgID i s)" "node_step n m" using assms(1) \<open>n \<in> set ns\<close> by (auto simp: seen_def)
    from exec_step_nodesD [OF assms(2) m(1)] obtain n' where "n' \<in> set (nodes_of orgID i s')" "node_step m n'" .
    with m(2) show ?thesis by (blast intro: node_step_trans)
  qed
  show "\<exists>n \<in> set ns. node_step n n'" if "n' \<in> set (nodes_of orgID i s')" for n'
  proof -
    from exec_step_nodesE [OF assms(2) key that] obtain m where m: "m \<in> set (nodes_of orgID i s)" "node_step m n'" .
    with assms(1) obtain n where "n \<in> set ns" "node_step n m" by (auto simp: seen_def)
    with m(2) show ?thesis by (blast intro: node_step_trans)
  qed
qed

lemma seen_done:
  assumes "seen orgID i ns s" and "list_all node_done ns" and "n \<in> set (nodes_of orgID i s)"
  shows "node_terminal (n_Status n)"
proof -
  from assms(1,3) obtain m where "m \<in> set ns" "node_step m n" by (auto simp: seen_def)
  moreover have "node_done m" using assms(2) \<open>m \<in> set ns\<close> by (simp add: list_all_iff)
  ultimately have "node_done m" "n = m" by (simp_all add: node_step_done)
  then show ?thesis by (auto simp: node_done_def node_terminal_def)
qed

subsection \<open>Statements that change rows in place\<close>

definition same_rows :: "store \<Rightarrow> store \<Rightarrow> bool" where
  "same_rows s s' \<longleftrightarrow>
     length (executions s') = length (executions s) \<and>
     length (node_executions s') = length (node_executions s) \<and> versions s' = versions s"

definition closes_well :: "store \<Rightarrow> store \<Rightarrow> bool" where
  "closes_well s s' \<longleftrightarrow>
     (\<forall>k < length (executions s).
        \<not> execution_terminal (x_Status (executions s ! k)) \<longrightarrow>
        execution_terminal (x_Status (executions s' ! k)) \<longrightarrow>
        (\<forall>n \<in> set (rows_of (executions s ! k) s'). node_terminal (n_Status n)))"

definition starts_well :: "store \<Rightarrow> store \<Rightarrow> bool" where
  "starts_well s s' \<longleftrightarrow>
     (\<forall>k < length (node_executions s).
        \<not> started (node_executions s ! k) \<longrightarrow> started (node_executions s' ! k) \<longrightarrow>
        (\<forall>x \<in> set (executions s). \<forall>v \<in> set (versions s).
           node_key (node_executions s ! k) = (x_OrgID x, x_ID x) \<longrightarrow> version_for x v \<longrightarrow>
           may_start x v (n_NodeID (node_executions s ! k)) s))"

lemma execution_step_identity: "execution_step x x' \<Longrightarrow> execution_identity x' = execution_identity x"
  by (simp add: execution_step_def)

lemma version_for_identity:
  "execution_identity x' = execution_identity x \<Longrightarrow> version_for x' = version_for x"
  by (auto simp: version_for_def execution_identity_def fun_eq_iff)

lemma may_start_identity:
  "execution_identity x' = execution_identity x \<Longrightarrow> may_start x' v i s = may_start x v i s"
  by (simp add: may_start_def execution_identity_def)

lemma may_start_keep: "exec_step s s' \<Longrightarrow> may_start x v i s \<Longrightarrow> may_start x v i s'"
  unfolding may_start_def using sources_done_keep by blast

lemma exec_step_nth:
  assumes "exec_step s s'"
  shows "k < length (executions s) \<Longrightarrow> execution_step (executions s ! k) (executions s' ! k)"
    and "k < length (node_executions s) \<Longrightarrow> node_step (node_executions s ! k) (node_executions s' ! k)"
  using assms by (simp_all add: exec_step_def evolves_def)

lemma same_identities:
  assumes "exec_step s s'" and "same_rows s s'"
    and f: "\<And>x x'. execution_identity x' = execution_identity x \<Longrightarrow> f x' = f x"
  shows "map f (executions s') = map f (executions s)"
proof (rule nth_equalityI)
  show "length (map f (executions s')) = length (map f (executions s))"
    using assms(2) by (simp add: same_rows_def)
  fix k assume "k < length (map f (executions s'))"
  then have k: "k < length (executions s)" "k < length (executions s')"
    using assms(2) by (simp_all add: same_rows_def)
  have "f (executions s' ! k) = f (executions s ! k)"
    by (rule f, rule execution_step_identity, rule exec_step_nth(1) [OF assms(1) k(1)])
  then show "map f (executions s') ! k = map f (executions s) ! k" using k by simp
qed

lemma keys_ok_keep:
  assumes "exec_step s s'" and "same_rows s s'" and "exec_keys_ok s"
  shows "exec_keys_ok s'"
proof -
  note st = exec_step_nth [OF assms(1)] and len = assms(2) [unfolded same_rows_def]
  note same = same_identities [OF assms(1,2)]
  have ids: "map x_ID (executions s') = map x_ID (executions s)"
    and keys: "map idempotency_key (executions s') = map idempotency_key (executions s)"
    and ek: "map (\<lambda>x. (x_OrgID x, x_ID x)) (executions s') = map (\<lambda>x. (x_OrgID x, x_ID x)) (executions s)"
    and ve: "map (\<lambda>x. version_exists x (versions s)) (executions s') =
        map (\<lambda>x. version_exists x (versions s)) (executions s)"
    by (rule same, auto simp: execution_identity_def idempotency_key_def version_exists_def)+
  have eks: "execution_keys s' = execution_keys s" unfolding execution_keys_def using ek by (metis set_map)
  have "\<forall>x \<in> set (executions s'). version_exists x (versions s)"
  proof
    fix x' assume "x' \<in> set (executions s')"
    then obtain k where k: "k < length (executions s)" "x' = executions s' ! k" using len by (auto simp: in_set_conv_nth)
    then have "version_exists x' (versions s) = version_exists (executions s ! k) (versions s)"
      using arg_cong [OF ve, of "\<lambda>bs. bs ! k"] len by simp
    moreover have "version_exists (executions s ! k) (versions s)"
      using assms(3) nth_mem [OF k(1)] unfolding exec_keys_ok_def by blast
    ultimately show "version_exists x' (versions s)" by blast
  qed
  moreover have "node_key n' \<in> execution_keys s" if "n' \<in> set (node_executions s')" for n'
  proof -
    from that obtain k where k: "k < length (node_executions s')" "n' = node_executions s' ! k"
      by (auto simp: in_set_conv_nth)
    then have "node_key n' = node_key (node_executions s ! k)" using st(2) len by (simp add: node_step_key)
    moreover have "node_executions s ! k \<in> set (node_executions s)" using k(1) len by simp
    ultimately show ?thesis using assms(3) unfolding exec_keys_ok_def by simp
  qed
  ultimately show ?thesis using assms(3) ids keys eks len unfolding exec_keys_ok_def by simp
qed

lemma closed_keep:
  assumes "exec_step s s'" and "same_rows s s'" and "exec_keys_ok s" and "closed_executions s" and "closes_well s s'"
  shows "closed_executions s'"
  unfolding closed_executions_def
proof (intro ballI impI)
  fix x' n' assume x': "x' \<in> set (executions s')" and t: "execution_terminal (x_Status x')" and n': "n' \<in> set (rows_of x' s')"
  from x' obtain k where k: "k < length (executions s)" "x' = executions s' ! k"
    using assms(2) by (auto simp: in_set_conv_nth same_rows_def)
  let ?x = "executions s ! k"
  have st: "execution_step ?x x'" using exec_step_nth(1) [OF assms(1)] k by simp
  have key: "x_OrgID x' = x_OrgID ?x" "x_ID x' = x_ID ?x" using execution_step_key [OF st] by simp_all
  show "node_terminal (n_Status n')"
  proof (cases "execution_terminal (x_Status ?x)")
    case True
    have "(x_OrgID ?x, x_ID ?x) \<in> execution_keys s" using k(1) by (auto simp: execution_keys_def)
    moreover have "n' \<in> set (rows_of ?x s')" using n' key by simp
    ultimately obtain n where "n \<in> set (rows_of ?x s)" "node_step n n'" using exec_step_nodesE [OF assms(1)] by metis
    moreover have "node_terminal (n_Status n)"
      using assms(4) True nth_mem [OF k(1)] \<open>n \<in> set (rows_of ?x s)\<close> unfolding closed_executions_def by blast
    ultimately show ?thesis using node_step_terminal by metis
  next
    case False
    then show ?thesis using assms(5) k t n' key by (simp add: closes_well_def)
  qed
qed

lemma ordered_keep:
  assumes "exec_step s s'" and "same_rows s s'" and "ordered_nodes s" and "starts_well s s'"
  shows "ordered_nodes s'"
  unfolding ordered_nodes_def
proof (intro ballI impI)
  fix x' v n' assume x': "x' \<in> set (executions s')" and v: "v \<in> set (versions s')" "version_for x' v"
    and n': "n' \<in> set (rows_of x' s')" "started n'"
  from x' obtain k where k: "k < length (executions s)" "x' = executions s' ! k"
    using assms(2) by (auto simp: in_set_conv_nth same_rows_def)
  define x where "x = executions s ! k"
  have x: "x \<in> set (executions s)" using k(1) by (simp add: x_def)
  have ident: "execution_identity x' = execution_identity x"
    using exec_step_nth(1) [OF assms(1) k(1)] k(2) by (simp add: x_def execution_step_identity)
  then have key: "x_OrgID x' = x_OrgID x" "x_ID x' = x_ID x" by (simp_all add: execution_identity_def)
  have "n' \<in> set (node_executions s')" using n'(1) by (simp add: in_nodes_of)
  then obtain j where j: "j < length (node_executions s)" "n' = node_executions s' ! j"
    using assms(2) by (auto simp: in_set_conv_nth same_rows_def)
  define n where "n = node_executions s ! j"
  have st: "node_step n n'" using exec_step_nth(2) [OF assms(1) j(1)] j(2) by (simp add: n_def)
  have nk: "node_key n = (x_OrgID x, x_ID x)" using n'(1) node_step_key [OF st] key by (simp add: in_nodes_of)
  have nid: "n_NodeID n' = n_NodeID n" using st by (simp add: node_step_def node_identity_def)
  have vs: "v \<in> set (versions s)" "version_for x v"
    using v assms(2) version_for_identity [OF ident] by (simp_all add: same_rows_def)
  have "may_start x v (n_NodeID n) s"
  proof (cases "started n")
    case True
    moreover have "n \<in> set (rows_of x s)" using nk j(1) by (simp add: in_nodes_of n_def)
    ultimately show ?thesis using assms(3) x vs by (simp add: ordered_nodes_def)
  next
    case False
    then show ?thesis using assms(4) j n'(2) x vs nk by (simp add: starts_well_def n_def)
  qed
  then show "may_start x' v (n_NodeID n') s'"
    using may_start_keep [OF assms(1)] may_start_identity [OF ident] nid by simp
qed

lemma safe_in_place:
  assumes "exec_inv s \<Longrightarrow> exec_step s s'" and "same_rows s s'"
    and "exec_inv s \<Longrightarrow> closes_well s s'" and "exec_inv s \<Longrightarrow> starts_well s s'"
  shows "exec_safe s s'"
  using assms keys_ok_keep [of s s'] closed_keep [of s s'] ordered_keep [of s s']
  unfolding exec_safe_def exec_inv_def by blast

lemma closes_well_same: "executions s' = executions s \<Longrightarrow> closes_well s s'"
  by (simp add: closes_well_def)

lemma starts_well_update:
  assumes "node_executions s' = update_where P f (node_executions s)"
    and "\<And>n. P n \<Longrightarrow> \<not> started n \<Longrightarrow> \<not> started (f n)"
  shows "starts_well s s'"
  using assms by (auto simp: starts_well_def update_where_def)

lemma not_started_simps [simp]:
  "n_Status n = WorkflowNodeRunning \<Longrightarrow> started n" "n_Status n = WorkflowNodeQueued \<Longrightarrow> started n"
  "n_Status n = WorkflowNodeCancelled \<Longrightarrow> \<not> started n" "n_Status n = WorkflowNodePending \<Longrightarrow> \<not> started n"
  by (simp_all add: started_def)

lemma same_rows_update [simp]:
  "same_rows s (s\<lparr>node_executions := update_where Q g (node_executions s)\<rparr>)"
  "same_rows s (s\<lparr>executions := update_where P f (executions s)\<rparr>)"
  "same_rows s (s\<lparr>executions := update_where P f (executions s),
     node_executions := update_where Q g (node_executions s)\<rparr>)"
  by (simp_all add: same_rows_def)

lemma safe_write_node:
  assumes "expected = WorkflowNodeRunning \<or> expected = WorkflowNodeQueued"
    and "n_Status node \<noteq> WorkflowNodePending"
  shows "exec_safe s (s\<lparr>node_executions :=
      update_where (node_expected node expected) (write_node node) (node_executions s)\<rparr>)"
    (is "exec_safe s ?s")
proof (rule safe_in_place)
  show "exec_step s ?s"
    by (rule exec_step_nodes [of _ _ "node_expected node expected" "write_node node"])
      (use assms in \<open>auto simp: node_terminal_def intro!: step_write_node\<close>)
  show "starts_well s ?s"
    by (rule starts_well_update [of _ "node_expected node expected" "write_node node"])
      (use assms(1) in \<open>auto simp: node_expected_def\<close>)
qed (simp_all add: closes_well_same)

lemma steps_UpdateWorkflowNodeExecution:
  assumes "others_keep E exec_safe" and "expected = WorkflowNodeRunning \<or> expected = WorkflowNodeQueued"
    and "n_Status node \<noteq> WorkflowNodePending"
  shows "steps (on_store exec_safe) (UpdateWorkflowNodeExecution E node expected)"
  unfolding UpdateWorkflowNodeExecution_def using assms(1)
  by (rule xg.steps_atomic) (simp add: safe_write_node assms)

lemma safe_write_execution:
  assumes "\<forall>st \<in> set expected. \<not> execution_terminal st" and "x_Status x = WorkflowExecutionRunning"
  shows "exec_safe s (s\<lparr>executions :=
      update_where (execution_expected x expected) (write_execution x) (executions s)\<rparr>)"
    (is "exec_safe s ?s")
proof (rule safe_in_place)
  show "exec_step s ?s"
    by (rule exec_step_executions [of _ "execution_expected x expected" "write_execution x"])
      (use assms in \<open>auto intro!: step_write_execution\<close>)
  show "closes_well s ?s"
    using assms(2) by (auto simp: closes_well_def update_where_def write_execution_def execution_terminal_def)
  show "starts_well s ?s" by (simp add: starts_well_def)
qed simp

lemma steps_UpdateWorkflowExecution:
  assumes "others_keep E exec_safe" and "\<forall>st \<in> set expected. \<not> execution_terminal st"
    and "x_Status x = WorkflowExecutionRunning"
  shows "steps (on_store exec_safe) (UpdateWorkflowExecution E x expected)"
  unfolding UpdateWorkflowExecution_def using assms(1)
  by (rule xg.steps_atomic) (simp add: safe_write_execution assms)

lemma open_node_terminal: "node_key n = (orgID, i) \<Longrightarrow> \<not> open_node orgID i n \<Longrightarrow> node_terminal (n_Status n)"
  by (cases "n_Status n") (simp_all add: open_node_def node_key_def node_terminal_def)

lemma cancelled_rows_closed:
  assumes "n \<in> set (nodes_of orgID i (s\<lparr>executions := xs,
      node_executions := update_where (open_node orgID i) (cancel_node code msg now) (node_executions s)\<rparr>))"
  shows "node_terminal (n_Status n)"
proof -
  have k: "node_key n = (orgID, i)" using assms by (simp add: in_nodes_of)
  have "n \<in> (\<lambda>m. if open_node orgID i m then cancel_node code msg now m else m) ` set (node_executions s)"
    using assms by (simp add: in_nodes_of set_update_where)
  then obtain m where m: "n = (if open_node orgID i m then cancel_node code msg now m else m)" by blast
  show ?thesis
    using m k open_node_terminal [of m orgID i]
    by (auto simp: cancel_node_def node_terminal_def split: if_splits)
qed

text \<open>Closing an execution together with its open nodes.\<close>

lemma safe_close:
  assumes "\<And>r. r \<in> set (executions s) \<Longrightarrow> P r \<Longrightarrow>
      execution_step r (f r) \<and> x_OrgID r = orgID \<and> x_ID r = i"
  shows "exec_safe s (s\<lparr>executions := update_where P f (executions s),
      node_executions :=
        update_where (open_node orgID i) (cancel_node code msg now) (node_executions s)\<rparr>)"
    (is "exec_safe s ?s")
proof (rule safe_in_place)
  show "exec_step s ?s"
    using assms step_cancel_node [of orgID i]
    by (simp add: exec_step_def evolves_refl evolves_update_where new_nodes_def)
  show "closes_well s ?s"
    unfolding closes_well_def
  proof (intro allI impI ballI)
    fix k n
    assume k: "k < length (executions s)" and "\<not> execution_terminal (x_Status (executions s ! k))"
      and "execution_terminal (x_Status (executions ?s ! k))" and n: "n \<in> set (rows_of (executions s ! k) ?s)"
    then have "P (executions s ! k)" by (simp add: update_where_def split: if_splits)
    with assms k have "x_OrgID (executions s ! k) = orgID" "x_ID (executions s ! k) = i" by simp_all
    with n show "node_terminal (n_Status n)" using cancelled_rows_closed by fastforce
  qed
  show "starts_well s ?s"
    by (rule starts_well_update [of _ "open_node orgID i" "cancel_node code msg now"])
      (simp_all add: cancel_node_def)
qed simp

lemma safe_finalize:
  assumes "\<forall>st \<in> set expected. \<not> execution_terminal st" and "x_Status x \<noteq> WorkflowExecutionPending"
  shows "exec_safe s (s\<lparr>executions := update_where (execution_expected x expected) (write_execution x) (executions s),
      node_executions :=
        update_where (open_node (x_OrgID x) (x_ID x)) (cancel_node code msg now) (node_executions s)\<rparr>)"
  by (rule safe_close) (use assms in \<open>auto intro: step_write_execution simp: execution_expected_def\<close>)

lemma steps_Finalize_closing:
  assumes "others_keep E exec_safe" and "\<forall>st \<in> set expected. \<not> execution_terminal st"
    and "x_Status x \<noteq> WorkflowExecutionPending"
  shows "steps (on_store exec_safe) (FinalizeWorkflowExecution E x expected True)"
  unfolding FinalizeWorkflowExecution_def using assms(1)
  by (rule xg.steps_atomic) (simp add: xg.refl safe_finalize assms(2,3))

lemma moves_Finalize_complete:
  assumes "others_keep E exec_safe" and "\<forall>st \<in> set expected. \<not> execution_terminal st"
    and "x_Status x \<noteq> WorkflowExecutionPending"
    and keep: "\<And>s s'. A s \<Longrightarrow> exec_safe s s' \<Longrightarrow> A s'"
    and rows: "\<And>s n. A s \<Longrightarrow> n \<in> set (rows_of x s) \<Longrightarrow> node_terminal (n_Status n)"
  shows "moves (A \<circ> w_store) (on_store exec_safe) (FinalizeWorkflowExecution E x expected False)
    (\<lambda>_. A \<circ> w_store)"
proof -
  let ?P = "execution_expected x expected"
  have safe: "exec_safe s (s\<lparr>executions := update_where ?P (write_execution x) (executions s)\<rparr>)"
    (is "exec_safe s ?s") if "A s" for s
  proof (rule safe_in_place)
    show "exec_step s ?s"
      by (rule exec_step_executions [of _ ?P "write_execution x"])
        (use assms(2,3) in \<open>auto intro!: step_write_execution\<close>)
    show "closes_well s ?s"
      unfolding closes_well_def
    proof (intro allI impI ballI)
      fix k n
      assume "k < length (executions s)" and "\<not> execution_terminal (x_Status (executions s ! k))"
        and "execution_terminal (x_Status (executions ?s ! k))" and n: "n \<in> set (rows_of (executions s ! k) ?s)"
      then have "?P (executions s ! k)" by (simp add: update_where_def split: if_splits)
      with n have "n \<in> set (rows_of x s)" by (simp add: execution_expected_def nodes_of_def)
      then show "node_terminal (n_Status n)" using rows [OF \<open>A s\<close>] by simp
    qed
    show "starts_well s ?s" by (simp add: starts_well_def)
  qed simp
  show ?thesis
    unfolding FinalizeWorkflowExecution_def
    by (rule xg.moves_atomic [OF assms(1)]) (use safe keep xg.refl in \<open>auto split: if_splits\<close>)
qed

lemma safe_cancel:
  assumes x: "find (\<lambda>x. x_OrgID x = orgID \<and> x_WorkflowID x = workflowID \<and> x_ID x = executionID)
      (executions s) = Some x" "\<not> execution_terminal (x_Status x)"
  shows "exec_safe s (s\<lparr>executions :=
        update_where (\<lambda>r. x_OrgID r = orgID \<and> x_ID r = executionID) (cancel_execution now) (executions s),
      node_executions :=
        update_where (open_node orgID executionID) (cancel_node code msg now) (node_executions s)\<rparr>)"
proof (cases "exec_inv s")
  case True
  have xs: "x \<in> set (executions s)" "x_ID x = executionID" "x_OrgID x = orgID"
    using x(1) by (auto simp: find_Some_iff)
  have "execution_step r (cancel_execution now r) \<and> x_OrgID r = orgID \<and> x_ID r = executionID"
    if r: "r \<in> set (executions s)" "x_OrgID r = orgID \<and> x_ID r = executionID" for r
  proof -
    have "inj_on x_ID (set (executions s))"
      using True unfolding exec_inv_def exec_keys_ok_def distinct_map by blast
    then have "r = x" using r xs by (simp add: inj_onD)
    then show ?thesis
      using r(2) x(2) by (simp add: execution_step_def cancel_execution_def execution_identity_def)
  qed
  then show ?thesis by (rule safe_close)
qed (simp add: exec_safe_def)

lemma steps_CancelWorkflowExecution:
  assumes "others_keep E exec_safe"
  shows "steps (on_store exec_safe) (CancelWorkflowExecution E orgID workflowID executionID now)"
  unfolding CancelWorkflowExecution_def using assms
  by (rule xg.steps_atomic) (simp add: xg.refl safe_cancel split: option.split)

subsection \<open>Claiming a node\<close>

text \<open>An execution the service holds, with the definition its version has in the store.\<close>

definition fits :: "WorkflowExecution \<Rightarrow> WorkflowDefinition \<Rightarrow> store \<Rightarrow> bool" where
  "fits x d s \<longleftrightarrow>
     exec_inv s \<and> (\<exists>r \<in> set (executions s). execution_identity r = execution_identity x) \<and>
     (\<exists>v \<in> set (versions s). version_for x v \<and> v_Definition v = d)"

lemma fits_identity:
  assumes "execution_identity x' = execution_identity x"
  shows "fits x' d s = fits x d s"
  unfolding fits_def assms version_for_identity [OF assms] ..

lemma fits_keep:
  assumes "fits x d s" and "exec_safe s s'"
  shows "fits x d s'"
proof -
  have st: "exec_step s s'" "exec_inv s'" using assms by (simp_all add: fits_def exec_safe_def)
  obtain r where r: "r \<in> set (executions s)" "execution_identity r = execution_identity x"
    using assms(1) by (auto simp: fits_def)
  obtain v where v: "v \<in> set (versions s)" "version_for x v" "v_Definition v = d"
    using assms(1) by (auto simp: fits_def)
  have ev: "evolves execution_step (executions s) (executions s')" "evolves version_step (versions s) (versions s')"
    using st(1) by (simp_all add: exec_step_def)
  from evolvesD [OF ev(1) r(1)] obtain r' where r': "r' \<in> set (executions s')" "execution_step r r'" by blast
  from evolvesD [OF ev(2) v(1)] obtain v' where v': "v' \<in> set (versions s')" "version_step v v'" by blast
  have "execution_identity r' = execution_identity x"
    using r(2) execution_step_identity [OF r'(2)] by simp
  moreover have "version_for x v'" "v_Definition v' = d"
    using v(2,3) v'(2) by (simp_all add: version_step_def version_identity_def version_for_def)
  ultimately show ?thesis using st(2) r'(1) v'(1) unfolding fits_def by blast
qed

lemma fits_key:
  assumes "fits x d s"
  shows "(x_OrgID x, x_ID x) \<in> execution_keys s"
proof -
  obtain r where "r \<in> set (executions s)" "execution_identity r = execution_identity x"
    using assms unfolding fits_def by blast
  then show ?thesis
    unfolding execution_keys_def execution_identity_def by (intro image_eqI [of _ _ r]) simp_all
qed

lemma fits_unique:
  assumes "fits x d s" and "r \<in> set (executions s)" and "(x_OrgID x, x_ID x) = (x_OrgID r, x_ID r)"
    and "v \<in> set (versions s)" and "version_for r v"
  shows "v_Definition v = d"
proof -
  obtain q where q: "q \<in> set (executions s)" "execution_identity q = execution_identity x"
    using assms(1) by (auto simp: fits_def)
  obtain u where u: "u \<in> set (versions s)" "version_for x u" "v_Definition u = d"
    using assms(1) by (auto simp: fits_def)
  have inj: "inj_on x_ID (set (executions s))" "inj_on v_ID (set (versions s))"
    using assms(1) unfolding fits_def exec_inv_def exec_keys_ok_def distinct_map by blast+
  have "x_ID q = x_ID r" using q(2) assms(3) by (simp add: execution_identity_def)
  then have "q = r" using inj(1) q(1) assms(2) by (simp add: inj_onD)
  then have "version_for x v" using assms(5) version_for_identity [OF q(2)] by simp
  then have "v_ID v = v_ID u" using u(2) by (simp add: version_for_def)
  then have "v = u" using inj(2) assms(4) u(1) by (simp add: inj_onD)
  then show ?thesis using u(3) by simp
qed

definition startable :: "WorkflowExecution \<Rightarrow> WorkflowDefinition \<Rightarrow> string \<Rightarrow> store \<Rightarrow> bool" where
  "startable x d i s \<longleftrightarrow> fits x d s \<and> (is_entry d i \<or> sources_done d i (rows_of x s))"

lemma startable_keep: "startable x d i s \<Longrightarrow> exec_safe s s' \<Longrightarrow> startable x d i s'"
  unfolding startable_def
proof (elim conjE, intro conjI)
  assume *: "fits x d s" "exec_safe s s'" "is_entry d i \<or> sources_done d i (rows_of x s)"
  show "fits x d s'" using *(1,2) by (rule fits_keep)
  have "exec_step s s'" using *(1,2) by (simp add: exec_safe_def fits_def)
  then show "is_entry d i \<or> sources_done d i (rows_of x s')" using *(3) sources_done_keep by blast
qed

lemma safe_claim:
  assumes "startable x d i s"
  shows "exec_safe s (s\<lparr>node_executions :=
      update_where (claimable (x_OrgID x) (x_ID x) i) (claimed now) (node_executions s)\<rparr>)"
    (is "exec_safe s ?s")
proof (rule safe_in_place)
  let ?P = "claimable (x_OrgID x) (x_ID x) i"
  show "exec_step s ?s"
    by (rule exec_step_nodes [of _ _ ?P "claimed now"]) (auto intro: step_claimed)
  show "starts_well s ?s"
    unfolding starts_well_def
  proof (intro allI impI ballI)
    fix k r v
    assume k: "k < length (node_executions s)" "\<not> started (node_executions s ! k)" "started (node_executions ?s ! k)"
      and r: "r \<in> set (executions s)" "v \<in> set (versions s)"
        "node_key (node_executions s ! k) = (x_OrgID r, x_ID r)" "version_for r v"
    from k have "?P (node_executions s ! k)" by (simp add: update_where_def split: if_splits)
    then have n: "n_NodeID (node_executions s ! k) = i" "(x_OrgID x, x_ID x) = (x_OrgID r, x_ID r)"
      using r(3) by (simp_all add: claimable_def node_key_def)
    have "fits x d s" using assms by (simp add: startable_def)
    then have "v_Definition v = d" using r(1) n(2) r(2,4) by (rule fits_unique)
    then show "may_start r v (n_NodeID (node_executions s ! k)) s"
      using assms n by (auto simp: may_start_def startable_def)
  qed
qed (simp_all add: closes_well_same)

lemma moves_ClaimWorkflowNode:
  assumes "others_keep E exec_safe"
    and keep: "\<And>s s'. A s \<Longrightarrow> exec_safe s s' \<Longrightarrow> A s'"
    and start: "\<And>s. A s \<Longrightarrow> startable x d i s"
  shows "moves (A \<circ> w_store) (on_store exec_safe) (ClaimWorkflowNode E (x_OrgID x) (x_ID x) i now)
    (\<lambda>_. A \<circ> w_store)"
  unfolding ClaimWorkflowNode_def
proof (rule xg.moves_atomic [OF assms(1)])
  fix s assume "A s"
  then show "exec_safe s (snd (case find (claimable (x_OrgID x) (x_ID x) i) (node_executions s) of
         None \<Rightarrow> (Inr None, s)
       | Some n \<Rightarrow>
           (Inr (Some (claimed now n)) :: err + WorkflowNodeExecution option,
            s\<lparr>node_executions :=
                update_where (claimable (x_OrgID x) (x_ID x) i) (claimed now) (node_executions s)\<rparr>))) \<and>
      A (snd (case find (claimable (x_OrgID x) (x_ID x) i) (node_executions s) of
         None \<Rightarrow> (Inr None, s)
       | Some n \<Rightarrow>
           (Inr (Some (claimed now n)) :: err + WorkflowNodeExecution option,
            s\<lparr>node_executions :=
                update_where (claimable (x_OrgID x) (x_ID x) i) (claimed now) (node_executions s)\<rparr>)))"
    using safe_claim [OF start] keep xg.refl by (auto split: option.split)
qed (rule keep)

subsection \<open>New executions\<close>

definition fresh_rows :: "WorkflowExecution \<Rightarrow> WorkflowNodeExecution list \<Rightarrow> bool" where
  "fresh_rows x ns \<longleftrightarrow>
     x_Status x = WorkflowExecutionPending \<and>
     (\<forall>n \<in> set ns. node_key n = (x_OrgID x, x_ID x) \<and> n_Status n = WorkflowNodePending)"

lemma inserted_rows:
  assumes "\<forall>n \<in> set ns. node_key n = (x_OrgID x, x_ID x)" and "x_ID r \<noteq> x_ID x"
  shows "rows_of r (s\<lparr>executions := xs, node_executions := node_executions s @ ns\<rparr>) = rows_of r s"
  using assms by (auto simp: nodes_of_def node_key_def filter_empty_conv)

lemma inserted_inv:
  assumes inv: "exec_inv s" and new: "fresh_rows x ns"
    and ids: "x_ID x \<notin> x_ID ` set (executions s)" "idempotency_key x \<notin> idempotency_key ` set (executions s)"
    and v: "version_exists x (versions s)"
    and st: "exec_step s s'" and s': "s' = s\<lparr>executions := executions s @ [x], node_executions := node_executions s @ ns\<rparr>"
  shows "exec_inv s'"
proof -
  have keys: "exec_keys_ok s" and cl: "closed_executions s" and ord: "ordered_nodes s"
    using inv by (simp_all add: exec_inv_def)
  have ks: "execution_keys s' = insert (x_OrgID x, x_ID x) (execution_keys s)"
    by (auto simp: s' execution_keys_def)
  have nk: "\<forall>n \<in> set ns. node_key n = (x_OrgID x, x_ID x)" using new by (simp add: fresh_rows_def)
  have old: "rows_of r s' = rows_of r s" if "r \<in> set (executions s)" for r
  proof -
    have "x_ID r \<noteq> x_ID x" using imageI [OF that, of x_ID] ids(1) by auto
    then show ?thesis unfolding s' using nk by (intro inserted_rows)
  qed
  have none: "node_key n \<noteq> (x_OrgID x, x_ID x)" if "n \<in> set (node_executions s)" for n
  proof
    assume "node_key n = (x_OrgID x, x_ID x)"
    then have "(x_OrgID x, x_ID x) \<in> execution_keys s" using that keys by (auto simp: exec_keys_ok_def)
    then show False using ids(1) by (auto simp: execution_keys_def)
  qed
  have mine: "n \<in> set ns" if "n \<in> set (rows_of x s')" for n
    using that none by (auto simp: in_nodes_of s')
  have "exec_keys_ok s'"
    using keys ids v nk unfolding exec_keys_ok_def ks by (auto simp: s')
  moreover have "closed_executions s'"
    unfolding closed_executions_def
  proof (intro ballI impI)
    fix r n assume r: "r \<in> set (executions s')" "execution_terminal (x_Status r)" "n \<in> set (rows_of r s')"
    then have "r \<in> set (executions s)" using new by (auto simp: s' fresh_rows_def execution_terminal_def)
    then show "node_terminal (n_Status n)" using r cl old unfolding closed_executions_def by metis
  qed
  moreover have "ordered_nodes s'"
    unfolding ordered_nodes_def
  proof (intro ballI impI)
    fix r u n assume r: "r \<in> set (executions s')" "u \<in> set (versions s')" "version_for r u"
      "n \<in> set (rows_of r s')" "started n"
    show "may_start r u (n_NodeID n) s'"
    proof (cases "r \<in> set (executions s)")
      case True
      have "u \<in> set (versions s)" using r(2) by (simp add: s')
      then have "may_start r u (n_NodeID n) s"
        using ord True r(3,4,5) old [OF True] unfolding ordered_nodes_def by simp
      then show ?thesis by (rule may_start_keep [OF st])
    next
      case False
      then have "r = x" using r(1) by (simp add: s')
      then have "n \<in> set ns" using mine r(4) by simp
      then show ?thesis using new r(5) by (simp add: fresh_rows_def)
    qed
  qed
  ultimately show ?thesis by (simp add: exec_inv_def)
qed

lemma safe_insert_execution:
  assumes new: "fresh_rows x ns"
  shows "exec_safe s (snd (insert_execution x ns s))"
  unfolding exec_safe_def
proof (intro impI conjI)
  assume inv: "exec_inv s"
  show st: "exec_step s (snd (insert_execution x ns s))"
    by (rule step_insert_execution) (use new in \<open>simp add: fresh_rows_def\<close>)
  show "exec_inv (snd (insert_execution x ns s))"
  proof (cases "snd (insert_execution x ns s) = s")
    case False
    then obtain rows where ids: "x_ID x \<notin> x_ID ` set (executions s)"
        "\<forall>r \<in> set (executions s). \<not> (x_OrgID r = x_OrgID x \<and> x_IdempotencyKey r = x_IdempotencyKey x)"
        "version_exists x (versions s)"
      and rows: "insert_nodes (executions s @ [x]) ns (node_executions s) = Some rows"
      by (auto simp: insert_execution_def split: if_splits option.splits)
    have s': "snd (insert_execution x ns s) =
        s\<lparr>executions := executions s @ [x], node_executions := node_executions s @ ns\<rparr>"
      using ids rows insert_nodes_rows [OF rows] by (auto simp: insert_execution_def)
    have "idempotency_key x \<notin> idempotency_key ` set (executions s)"
      using ids(2) by (auto simp: idempotency_key_def)
    then show ?thesis using inserted_inv [OF inv new ids(1) _ ids(3) st s'] by blast
  qed (simp add: inv)
qed

end
