(* ===== verification/Exec_Runs.thy ===== *)
theory Exec_Runs
  imports Exec_Safety
begin

text \<open>
  Every function of the execution service keeps \<open>exec_safe\<close>.
\<close>

subsection \<open>The execution a function returns is the one it was given\<close>

definition same_execution :: "WorkflowExecution \<Rightarrow> WorkflowExecution \<times> 'a \<Rightarrow> bool" where
  "same_execution x r \<longleftrightarrow> execution_identity (fst r) = execution_identity x"

lemma same_execution_refl [simp]: "same_execution x (x, r)"
  by (simp add: same_execution_def)

lemma returns_failExecution: "returns (failExecution E x code msg) (same_execution x)"
  unfolding failExecution_def Let_def
  by (auto simp: same_execution_def execution_identity_def split: bool.split
      intro!: returns_syntax)

lemma returns_failClaimedNode: "returns (failClaimedNode E x n code msg) (same_execution x)"
  unfolding failClaimedNode_def Let_def
  by (auto simp: same_execution_def intro!: returns_syntax returns_failExecution)

lemma returns_touchRunningExecution: "returns (touchRunningExecution E x) (same_execution x)"
  unfolding touchRunningExecution_def Let_def
  by (auto simp: same_execution_def execution_identity_def intro!: returns_syntax)

lemma returns_finalize: "returns (finalizeExecutionIfComplete E x d ns) (same_execution x)"
  unfolding finalizeExecutionIfComplete_def Let_def
  by (auto simp: same_execution_def execution_identity_def split: bool.split
      intro!: returns_syntax returns_touchRunningExecution)

lemma returns_settle_node: "returns (settle_node E x now n) (same_execution x)"
  unfolding settle_node_def by (auto simp: same_execution_def intro!: returns_syntax)

lemma returns_executeClaimedNode: "returns (executeClaimedNode E W x a n) (same_execution x)"
  unfolding executeClaimedNode_def Let_def
  by (auto split: WorkflowNodeType.split intro!: returns_syntax returns_settle_node returns_failClaimedNode)

lemma returns_skip_node: "returns (skip_node E x n) (same_execution x)"
  unfolding skip_node_def by (auto simp: same_execution_def intro!: returns_syntax)

lemma returns_run_claimed: "returns (run_claimed E W x a skip n) (same_execution x)"
proof -
  have "returns (if skip then skip_node E x n else executeClaimedNode E W x a n) (same_execution x)"
    by (simp add: returns_skip_node returns_executeClaimedNode)
  from returns_via [OF this] show ?thesis
    unfolding run_claimed_def
    by (rule returns_bind) (auto simp: same_execution_def intro!: returns_syntax)
qed

lemma returns_schedule_nodes: "returns (schedule_nodes E W x d ns as) (same_execution x)"
proof (induction as)
  case Nil
  then show ?case by (simp add: returns_return same_execution_def)
next
  case (Cons a as)
  then show ?case
    by (auto simp: Let_def simp del: not_None_eq
        intro!: returns_syntax returns_run_claimed)
qed

lemma returns_reconcile_nodes: "returns (reconcile_nodes E W x d ns changed) (same_execution x)"
proof (induction ns arbitrary: x changed)
  case Nil
  then show ?case by (simp add: returns_return same_execution_def)
next
  case (Cons n ns)
  have rec: "returns (do {
        r \<leftarrow> executeClaimedNode E W x a n;
        case r of
          (x, Some e) \<Rightarrow> State_Monad.return (x, True, Some e)
        | (x, None) \<Rightarrow> reconcile_nodes E W x d ns True }) (same_execution x)" for a
    by (rule returns_via [OF returns_executeClaimedNode])
      (auto simp: same_execution_def split: option.split
        intro!: returns_syntax returns_post [OF Cons.IH])
  have "returns (case last_of dn_ID (elems (d_Nodes d)) (n_NodeID n) of
               None \<Rightarrow> State_Monad.return (x, changed, Some ErrInvalidInput)
             | Some definitionNode \<Rightarrow> do {
                 r \<leftarrow> executeClaimedNode E W x definitionNode n;
                 case r of
                   (x, Some e) \<Rightarrow> State_Monad.return (x, True, Some e)
                 | (x, None) \<Rightarrow> reconcile_nodes E W x d ns True }) (same_execution x)"
    using rec by (simp add: returns_return split: option.split)
  then show ?case
    by (auto simp: Let_def Cons.IH split: followed.split
        intro!: returns_return returns_bind [of _ _ "service_now E"] returns_bind [of _ _ "follow_node E x _ n"]
          returns_bind [of _ _ "updateNode E _ _"] returns_sum)
qed

subsection \<open>Functions that are safe in every state\<close>

lemma steps_updateNode:
  assumes "others_keep E exec_safe" and "expected = WorkflowNodeRunning \<or> expected = WorkflowNodeQueued"
    and "n_Status n \<noteq> WorkflowNodePending"
  shows "steps (on_store exec_safe) (updateNode E n expected)"
  unfolding updateNode_def
  by (auto split: WorkflowNodeExecutionStatus.split
      intro!: xg.world.steps_syntax steps_UpdateWorkflowNodeExecution assms xg.steps_recordNodeMetric)

lemma steps_failExecution:
  "others_keep E exec_safe \<Longrightarrow> steps (on_store exec_safe) (failExecution E x code msg)"
  unfolding failExecution_def Let_def
  by (auto simp: execution_terminal_def split: bool.split
      intro!: xg.world.steps_syntax xg.steps_service_now steps_Finalize_closing xg.steps_recordExecutionMetric
        xg.steps_GetWorkflowNodeExecutions xg.steps_record_cancelled)

lemma steps_failClaimedNode:
  "others_keep E exec_safe \<Longrightarrow> steps (on_store exec_safe) (failClaimedNode E x n code msg)"
  unfolding failClaimedNode_def Let_def
  by (auto intro!: xg.world.steps_syntax xg.steps_service_now steps_updateNode steps_failExecution)

lemma steps_touchRunningExecution:
  "others_keep E exec_safe \<Longrightarrow> steps (on_store exec_safe) (touchRunningExecution E x)"
  unfolding touchRunningExecution_def Let_def
  by (auto simp: execution_terminal_def
      intro!: xg.world.steps_syntax xg.steps_service_now steps_UpdateWorkflowExecution)

lemma steps_settle_node:
  "others_keep E exec_safe \<Longrightarrow> n_Status n \<noteq> WorkflowNodePending \<Longrightarrow>
     steps (on_store exec_safe) (settle_node E x now n)"
  unfolding settle_node_def by (auto intro!: xg.world.steps_syntax steps_updateNode)

lemma steps_executeClaimedNode:
  "others_keep E exec_safe \<Longrightarrow> steps (on_store exec_safe) (executeClaimedNode E W x a n)"
  unfolding executeClaimedNode_def Let_def
  by (auto split: WorkflowNodeType.split
      intro!: xg.world.steps_syntax xg.steps_service_now steps_settle_node steps_failClaimedNode
        xg.steps_DispatchWorkflowTask xg.steps_DispatchWorkflowWebhook)

lemma steps_skip_node: "others_keep E exec_safe \<Longrightarrow> steps (on_store exec_safe) (skip_node E x n)"
  unfolding skip_node_def by (auto intro!: xg.world.steps_syntax xg.steps_service_now steps_updateNode)

lemma steps_run_claimed:
  "others_keep E exec_safe \<Longrightarrow> steps (on_store exec_safe) (run_claimed E W x a skip n)"
  unfolding run_claimed_def
  by (auto intro!: xg.world.steps_syntax xg.steps_recordNodeMetric steps_skip_node steps_executeClaimedNode)

lemma returns_follow_node:
  assumes "n_Status n = WorkflowNodeQueued \<or> n_Status n = WorkflowNodeRunning"
  shows "returns (follow_node E x now n) (\<lambda>f. \<forall>n'. f = Changed n' \<longrightarrow> n_Status n' \<noteq> WorkflowNodePending)"
  unfolding follow_node_def
  by (intro returns_option returns_bind returns_return;
      use assms in \<open>auto simp: task_outcome_def delivery_outcome_def delay_outcome_def Let_def
        split: sum.split TaskStatus.split WebhookDeliveryStatus.split WorkflowNodeType.split option.split\<close>)

lemma steps_reconcile_nodes:
  assumes "others_keep E exec_safe"
  shows "steps (on_store exec_safe) (reconcile_nodes E W x d ns changed)"
proof (induction ns arbitrary: x changed)
  case Nil
  show ?case by (simp add: xg.world.steps_return)
next
  case (Cons n ns)
  show ?case
  proof (cases "n_Status n \<noteq> WorkflowNodeQueued \<and> n_Status n \<noteq> WorkflowNodeRunning")
    case True
    then show ?thesis using Cons.IH by simp
  next
    case False
    then have open_: "n_Status n = WorkflowNodeQueued \<or> n_Status n = WorkflowNodeRunning" by simp
    have "steps (on_store exec_safe)
        (case f of
          Leave \<Rightarrow> reconcile_nodes E W x d ns changed
        | Abort e \<Rightarrow> State_Monad.return (x, changed, Some e)
        | Recover \<Rightarrow>
            (case last_of dn_ID (elems (d_Nodes d)) (n_NodeID n) of
               None \<Rightarrow> State_Monad.return (x, changed, Some ErrInvalidInput)
             | Some definitionNode \<Rightarrow> do {
                 r \<leftarrow> executeClaimedNode E W x definitionNode n;
                 case r of
                   (x, Some e) \<Rightarrow> State_Monad.return (x, True, Some e)
                 | (x, None) \<Rightarrow> reconcile_nodes E W x d ns True })
        | Changed n' \<Rightarrow>
            if needs_write n n' then do {
              r \<leftarrow> updateNode E (n'\<lparr>n_UpdatedAt := now\<rparr>) (n_Status n);
              case r of
                Inl e \<Rightarrow> State_Monad.return (x, changed, Some e)
              | Inr updated \<Rightarrow> reconcile_nodes E W x d ns (changed \<or> updated) }
            else reconcile_nodes E W x d ns changed)"
      if "\<forall>n'. f = Changed n' \<longrightarrow> n_Status n' \<noteq> WorkflowNodePending" for f now
      using that open_
      by (cases f) (auto intro!: xg.world.steps_syntax Cons.IH steps_executeClaimedNode steps_updateNode assms)
    then show ?thesis
      using False
      by (auto simp del: followed.case intro!: xg.world.steps_bind [OF xg.steps_service_now]
          xg.world.steps_via [OF xg.steps_follow_node [OF assms] returns_follow_node [OF open_]])
  qed
qed

subsection \<open>Functions that rely on the rows they have read\<close>

definition held ::
  "WorkflowExecution \<Rightarrow> WorkflowDefinition \<Rightarrow> WorkflowNodeExecution list \<Rightarrow> store \<Rightarrow> bool" where
  "held x d ns s \<longleftrightarrow> fits x d s \<and> seen (x_OrgID x) (x_ID x) ns s"

lemma held_keep: "held x d ns s \<Longrightarrow> exec_safe s s' \<Longrightarrow> held x d ns s'"
  unfolding held_def using fits_keep seen_keep exec_safe_def fits_def by blast

lemma held_identity:
  assumes "execution_identity x' = execution_identity x"
  shows "held x' d ns s = held x d ns s"
proof -
  have "x_OrgID x' = x_OrgID x" "x_ID x' = x_ID x" using assms by (simp_all add: execution_identity_def)
  then show ?thesis unfolding held_def using fits_identity [OF assms] by simp
qed

lemma last_of_Some: "last_of f xs k = Some x \<Longrightarrow> x \<in> set xs \<and> f x = k"
  unfolding last_of_def by (auto simp: find_Some_iff intro: nth_mem) (metis length_rev nth_mem set_rev)

lemma count_active_done:
  "count_active defs states es k = Inr (Some m) \<Longrightarrow> e \<in> set es \<Longrightarrow>
     \<exists>n. states (e_From e) = Some n \<and> node_done n"
proof (induction es arbitrary: k)
  case (Cons e' es)
  from Cons.prems(1) obtain n k' where n: "states (e_From e') = Some n" "node_terminal (n_Status n)"
      "n_Status n \<noteq> WorkflowNodeFailed" "n_Status n \<noteq> WorkflowNodeCancelled"
    and rest: "count_active defs states es k' = Inr (Some m)"
    by (auto split: option.splits if_splits sum.splits)
  have "node_done n" using n by (cases "n_Status n") (simp_all add: node_done_def node_terminal_def)
  then show ?case using n(1) Cons.IH [OF rest] Cons.prems(2) by auto
qed simp

lemma ready_startable:
  assumes "workflowNodeReadiness a (incoming_edges d (dn_ID a)) defs (last_of n_NodeID ns) = Inr (runnable, skip)"
    and "runnable \<or> skip" and "a \<in> set (elems (d_Nodes d))" and "held x d ns s"
  shows "startable x d (dn_ID a) s"
proof (cases "dn_Type a = WorkflowNodeTrigger")
  case True
  then show ?thesis using assms(3,4) by (auto simp: startable_def is_entry_def held_def)
next
  case False
  with assms(1,2) obtain m where ne: "incoming_edges d (dn_ID a) \<noteq> []"
    and m: "count_active defs (last_of n_NodeID ns) (incoming_edges d (dn_ID a)) 0 = Inr (Some m)"
    by (auto simp: workflowNodeReadiness_def split: if_splits sum.splits option.splits)
  have "\<exists>m \<in> set (rows_of x s). n_NodeID m = e_From e \<and> node_done m"
    if e: "e \<in> set (incoming_edges d (dn_ID a))" for e
  proof -
    from count_active_done [OF m e] obtain n where n: "last_of n_NodeID ns (e_From e) = Some n" "node_done n" by blast
    from last_of_Some [OF n(1)] have "n \<in> set ns" "n_NodeID n = e_From e" by simp_all
    with assms(4) obtain n' where "n' \<in> set (rows_of x s)" "node_step n n'" by (auto simp: held_def seen_def)
    then show ?thesis using node_step_done n(2) \<open>n_NodeID n = e_From e\<close> by blast
  qed
  then show ?thesis using ne assms(4) by (auto simp: startable_def sources_done_def held_def)
qed

lemma keep_held: "steps (on_store exec_safe) m \<Longrightarrow>
    moves (held x d ns \<circ> w_store) (on_store exec_safe) m (\<lambda>_. held x d ns \<circ> w_store)"
  by (erule xg.steps_keep) (rule held_keep)

lemma moves_claim_ready:
  assumes "others_keep E exec_safe"
    and "workflowNodeReadiness a (incoming_edges d (dn_ID a)) defs (last_of n_NodeID ns) = Inr (runnable, skip)"
    and "runnable \<or> skip" and "a \<in> set (elems (d_Nodes d))"
  shows "moves (held x d ns \<circ> w_store) (on_store exec_safe)
    (ClaimWorkflowNode E (x_OrgID x) (x_ID x) (dn_ID a) now) (\<lambda>_. held x d ns \<circ> w_store)"
  using assms(1)
proof (rule moves_ClaimWorkflowNode)
  show "held x d ns s'" if "held x d ns s" "exec_safe s s'" for s s' using that by (rule held_keep)
  show "startable x d (dn_ID a) s" if "held x d ns s" for s using assms(2-4) that by (rule ready_startable)
qed

lemma moves_schedule_nodes:
  assumes "others_keep E exec_safe" and "set as \<subseteq> set (elems (d_Nodes d))"
  shows "moves (held x d ns \<circ> w_store) (on_store exec_safe) (schedule_nodes E W x d ns as)
    (\<lambda>_. held x d ns \<circ> w_store)"
  using assms(2)
proof (induction as)
  case Nil
  show ?case unfolding schedule_nodes.simps by (rule keep_held [OF xg.world.steps_return])
next
  case (Cons a as)
  have a: "a \<in> set (elems (d_Nodes d))" and as: "set as \<subseteq> set (elems (d_Nodes d))"
    using Cons.prems by simp_all
  note IH = Cons.IH [OF as]
  have claim: "moves (held x d ns \<circ> w_store) (on_store exec_safe) (do {
        now \<leftarrow> service_now E;
        won \<leftarrow> ClaimWorkflowNode E (x_OrgID x) (x_ID x) (dn_ID a) now;
        case won of
          Inl e \<Rightarrow> State_Monad.return (x, False, Some e)
        | Inr None \<Rightarrow> schedule_nodes E W x d ns as
        | Inr (Some node) \<Rightarrow> run_claimed E W x a skip node }) (\<lambda>_. held x d ns \<circ> w_store)"
    if "\<not> (\<not> runnable \<and> \<not> skip)" "workflowNodeReadiness a (incoming_edges d (dn_ID a))
          (last_of dn_ID (elems (d_Nodes d))) (last_of n_NodeID ns) = Inr p" "p = (runnable, skip)"
    for runnable skip p
    by (rule xg.world.moves_bind [OF keep_held [OF xg.steps_service_now]],
        rule xg.world.moves_bind [OF moves_claim_ready [OF assms(1) that(2) [unfolded that(3)] _ a]], use that(1) in blast,
        intro xg.world.moves_sum xg.world.moves_option IH keep_held [OF xg.world.steps_return]
        keep_held [OF steps_run_claimed [OF assms(1)]])
  show ?case
    unfolding schedule_nodes.simps Let_def
    by (intro xg.world.moves_option xg.world.moves_if xg.world.moves_sum xg.world.moves_prod IH
        keep_held [OF xg.world.steps_return] claim; assumption)
qed

lemma moves_finalize:
  assumes "others_keep E exec_safe"
  shows "moves (held x d ns \<circ> w_store) (on_store exec_safe) (finalizeExecutionIfComplete E x d ns)
    (\<lambda>_. held x d ns \<circ> w_store)"
proof -
  have fin: "moves (held x d ns \<circ> w_store) (on_store exec_safe)
      (FinalizeWorkflowExecution E y [WorkflowExecutionPending, WorkflowExecutionRunning] False)
      (\<lambda>_. held x d ns \<circ> w_store)"
    if "list_all node_done ns" "x_OrgID y = x_OrgID x" "x_ID y = x_ID x" "x_Status y = WorkflowExecutionSucceeded" for y
    using assms
  proof (rule moves_Finalize_complete)
    show "held x d ns s'" if "held x d ns s" "exec_safe s s'" for s s' using that by (rule held_keep)
    show "node_terminal (n_Status n)" if "held x d ns s" "n \<in> set (rows_of y s)" for s n
      using that seen_done [of "x_OrgID x" "x_ID x" ns s n] \<open>list_all node_done ns\<close>
        \<open>x_OrgID y = x_OrgID x\<close> \<open>x_ID y = x_ID x\<close> by (simp add: held_def)
  qed (use that in \<open>simp_all add: execution_terminal_def\<close>)
  have tail: "steps (on_store exec_safe)
      (case u of
         Inl e \<Rightarrow> State_Monad.return (y, Some e)
       | Inr False \<Rightarrow> State_Monad.return (y, None)
       | Inr True \<Rightarrow> do {
           recordExecutionMetric E y MetricWorkflowExecutionSucceeded [];
           State_Monad.return (y, None) })" for u y
    by (auto split: sum.split bool.split intro!: xg.world.steps_syntax xg.steps_recordExecutionMetric)
  show ?thesis
    unfolding finalizeExecutionIfComplete_def Let_def
    by (intro xg.world.moves_if xg.world.moves_option keep_held [OF steps_touchRunningExecution [OF assms]]
        keep_held [OF xg.world.steps_return] xg.world.moves_bind [OF keep_held [OF xg.steps_service_now]]
        xg.world.moves_bind [OF fin keep_held [OF tail]])
      simp_all
qed

definition round_post :: "WorkflowExecution \<Rightarrow> WorkflowDefinition \<Rightarrow> WorkflowExecution + 'e \<Rightarrow> store \<Rightarrow> bool" where
  "round_post x d r s \<longleftrightarrow>
     fits x d s \<and> (case r of Inl x' \<Rightarrow> execution_identity x' = execution_identity x | Inr _ \<Rightarrow> True)"

lemma keep_fits: "steps (on_store exec_safe) m \<Longrightarrow>
    moves (fits x d \<circ> w_store) (on_store exec_safe) m (\<lambda>_. fits x d \<circ> w_store)"
  by (erule xg.steps_keep) (rule fits_keep)

lemma moves_read_nodes:
  assumes "others_keep E exec_safe"
  shows "moves (fits x d \<circ> w_store) (on_store exec_safe) (GetWorkflowNodeExecutions E (x_OrgID x) (x_ID x))
    (\<lambda>r. (\<lambda>s. case r of Inl _ \<Rightarrow> fits x d s | Inr ns \<Rightarrow> held x d ns s) \<circ> w_store)"
  unfolding GetWorkflowNodeExecutions_def
  by (rule xg.moves_query [OF assms]) (auto simp: held_def fits_key intro: fits_keep seen_start)

lemma moves_from_fact:
  "(\<And>s. P' s \<Longrightarrow> b \<and> P s) \<Longrightarrow> (b \<Longrightarrow> moves P G m Q) \<Longrightarrow> moves P' G m Q"
  by (auto simp: moves_def)

lemma moves_returns: "moves P G m Q \<Longrightarrow> returns m R \<Longrightarrow> moves P G m (\<lambda>r s. R r \<and> Q r s)"
  by (simp add: moves_def returns_def)

lemma moves_scheduled:
  assumes "others_keep E exec_safe" and "same_execution x s"
  shows "moves (held x d ns \<circ> w_store) (on_store exec_safe)
    (case s of
       (_, _, Some e) \<Rightarrow> State_Monad.return (Inr (Some e))
     | (x', True, None) \<Rightarrow> State_Monad.return (Inl x')
     | (x', False, None) \<Rightarrow> do {
         f \<leftarrow> finalizeExecutionIfComplete E x' d ns;
         State_Monad.return (Inr (snd f)) }) (\<lambda>r. round_post x d r \<circ> w_store)"
proof -
  obtain y b e where s: "s = (y, b, e)" by (cases s) auto
  have id: "execution_identity y = execution_identity x" using assms(2) by (simp add: same_execution_def s)
  have held: "held y d ns = held x d ns" using held_identity [OF id] by (simp add: fun_eq_iff)
  have ret: "moves (held x d ns \<circ> w_store) (on_store exec_safe) (State_Monad.return r)
      (\<lambda>r. round_post x d r \<circ> w_store)"
    if "case r of Inl x' \<Rightarrow> execution_identity x' = execution_identity x | Inr (_ :: err option) \<Rightarrow> True" for r
    by (rule xg.world.moves_return) (use that in \<open>simp add: round_post_def held_def\<close>)
  have fin: "moves (held x d ns \<circ> w_store) (on_store exec_safe)
      (do { f \<leftarrow> finalizeExecutionIfComplete E y d ns; State_Monad.return (Inr (snd f)) })
      (\<lambda>r. round_post x d r \<circ> w_store)"
    by (rule xg.world.moves_bind [OF moves_finalize [OF assms(1), of y d ns, unfolded held]]) (simp add: ret)
  show ?thesis
    unfolding s using fin ret id by (simp split: option.split bool.split)
qed

lemma moves_advance_tail:
  assumes "others_keep E exec_safe" and id: "execution_identity y = execution_identity x"
  shows "moves (fits x d \<circ> w_store) (on_store exec_safe) (advance_tail E W (x_OrgID x) (x_ID x) d y)
    (\<lambda>r. round_post x d r \<circ> w_store)"
proof -
  have held: "held y d ns = held x d ns" for ns using held_identity [OF id] by (simp add: fun_eq_iff)
  have same: "same_execution y = same_execution x" using id by (auto simp: same_execution_def fun_eq_iff)
  have ret: "moves (fits x d \<circ> w_store) (on_store exec_safe) (State_Monad.return (Inr e))
      (\<lambda>r. round_post x d r \<circ> w_store)" for e :: "err option"
    by (rule xg.world.moves_return) (simp add: round_post_def)
  have sched: "moves (held x d ns \<circ> w_store) (on_store exec_safe) (scheduleRunnableNodes E W y d ns)
      (\<lambda>r w. same_execution x r \<and> (held x d ns \<circ> w_store) w)" for ns
    unfolding scheduleRunnableNodes_def
    using moves_returns [OF moves_schedule_nodes [OF assms(1), of _ d y ns] returns_schedule_nodes]
    unfolding held same by simp
  have failing: "moves (held x d ns \<circ> w_store) (on_store exec_safe)
      (do { f \<leftarrow> failExecution E y code msg; State_Monad.return (Inr (snd f)) })
      (\<lambda>r. round_post x d r \<circ> w_store)" for ns code msg
    by (rule xg.world.moves_bind [OF keep_held [OF steps_failExecution [OF assms(1)]]])
      (rule xg.world.moves_return, simp add: round_post_def held_def)
  show ?thesis
    unfolding advance_tail_def
  proof (rule xg.world.moves_bind [OF moves_read_nodes [OF assms(1)]])
    fix r
    show "moves ((\<lambda>s. case r of Inl _ \<Rightarrow> fits x d s | Inr ns \<Rightarrow> held x d ns s) \<circ> w_store) (on_store exec_safe)
      (case r of
         Inl e \<Rightarrow> State_Monad.return (Inr (Some e))
       | Inr nodes \<Rightarrow>
           (case firstFailedWorkflowNode nodes of
              Some failed \<Rightarrow> do {
                f \<leftarrow> failExecution E y (n_ErrorCode failed) (n_ErrorMessage failed);
                State_Monad.return (Inr (snd f)) }
            | None \<Rightarrow> do {
                p \<leftarrow> scheduleRunnableNodes E W y d nodes;
                case p of
                  (_, _, Some e) \<Rightarrow> State_Monad.return (Inr (Some e))
                | (x, True, None) \<Rightarrow> State_Monad.return (Inl x)
                | (x, False, None) \<Rightarrow> do {
                    f \<leftarrow> finalizeExecutionIfComplete E x d nodes;
                    State_Monad.return (Inr (snd f)) } }))
      (\<lambda>r. round_post x d r \<circ> w_store)"
    proof (cases r)
      case (Inl e)
      then show ?thesis using ret by simp
    next
      case (Inr ns)
      have "moves (\<lambda>w. same_execution x p \<and> (held x d ns \<circ> w_store) w) (on_store exec_safe)
          (case p of
             (_, _, Some e) \<Rightarrow> State_Monad.return (Inr (Some e))
           | (x, True, None) \<Rightarrow> State_Monad.return (Inl x)
           | (x, False, None) \<Rightarrow> do {
               f \<leftarrow> finalizeExecutionIfComplete E x d ns;
               State_Monad.return (Inr (snd f)) }) (\<lambda>r. round_post x d r \<circ> w_store)" for p
        using moves_scheduled [OF assms(1), of x p d ns] by (cases "same_execution x p") (simp_all add: moves_def)
      from xg.world.moves_bind [OF sched this] show ?thesis
        unfolding Inr using failing by (simp split: option.split)
    qed
  qed
qed

lemma moves_advance_round:
  assumes "others_keep E exec_safe" and id: "execution_identity y = execution_identity x"
  shows "moves (fits x d \<circ> w_store) (on_store exec_safe) (advance_round E W (x_OrgID x) (x_ID x) d y)
    (\<lambda>r. round_post x d r \<circ> w_store)"
proof -
  have same: "same_execution y = same_execution x" using id by (auto simp: same_execution_def fun_eq_iff)
  have ret: "moves (fits x d \<circ> w_store) (on_store exec_safe) (State_Monad.return (Inr e))
      (\<lambda>r. round_post x d r \<circ> w_store)" for e :: "err option"
    by (rule xg.world.moves_return) (simp add: round_post_def)
  have rec: "moves (fits x d \<circ> w_store) (on_store exec_safe) (reconcileExternalNodes E W y d ns)
      (\<lambda>p w. same_execution x p \<and> fits x d (w_store w))" for ns
    unfolding reconcileExternalNodes_def same [symmetric]
    by (rule xg.steps_keep_result [OF steps_reconcile_nodes [OF assms(1)] returns_reconcile_nodes fits_keep])
  have split: "moves (\<lambda>w. same_execution x p \<and> fits x d (w_store w)) (on_store exec_safe)
      (case p of
         (_, _, Some e) \<Rightarrow> State_Monad.return (Inr (Some e))
       | (z, True, None) \<Rightarrow> State_Monad.return (Inl z)
       | (z, False, None) \<Rightarrow> advance_tail E W (x_OrgID x) (x_ID x) d z)
      (\<lambda>r. round_post x d r \<circ> w_store)" for p
  proof (cases "same_execution x p")
    case True
    obtain z b e where p: "p = (z, b, e)" by (cases p) auto
    have z: "execution_identity z = execution_identity x" using True by (simp add: same_execution_def p)
    have "moves (fits x d \<circ> w_store) (on_store exec_safe) (State_Monad.return (Inl z :: WorkflowExecution + err option))
        (\<lambda>r. round_post x d r \<circ> w_store)"
      by (rule xg.world.moves_return) (simp add: round_post_def z)
    then show ?thesis
      using True ret moves_advance_tail [OF assms(1) z, of d W] unfolding p
      by (simp add: comp_def split: option.split bool.split)
  qed (simp add: moves_def)
  show ?thesis
    unfolding advance_round_def
  proof (rule xg.world.moves_bind [OF keep_fits [OF xg.steps_GetWorkflowNodeExecutions [OF assms(1)]]])
    fix r
    show "moves (fits x d \<circ> w_store) (on_store exec_safe)
      (case r of
         Inl e \<Rightarrow> State_Monad.return (Inr (Some e))
       | Inr nodes \<Rightarrow> do {
           p \<leftarrow> reconcileExternalNodes E W y d nodes;
           case p of
             (_, _, Some e) \<Rightarrow> State_Monad.return (Inr (Some e))
           | (x, True, None) \<Rightarrow> State_Monad.return (Inl x)
           | (z, False, None) \<Rightarrow> advance_tail E W (x_OrgID x) (x_ID x) d z })
      (\<lambda>r. round_post x d r \<circ> w_store)"
      using ret xg.world.moves_bind [OF rec split] by (cases r) simp_all
  qed
qed

lemma moves_advance_loop:
  assumes "others_keep E exec_safe"
  shows "execution_identity y = execution_identity x \<Longrightarrow>
    moves (fits x d \<circ> w_store) (on_store exec_safe) (advance_loop E W (x_OrgID x) (x_ID x) d k y)
      (\<lambda>_. fits x d \<circ> w_store)"
proof (induction k arbitrary: y)
  case 0
  show ?case unfolding advance_loop.simps by (rule keep_fits [OF xg.world.steps_return])
next
  case (Suc k)
  show ?case
    unfolding advance_loop.simps
  proof (rule xg.world.moves_bind [OF moves_advance_round [OF assms Suc.prems]])
    fix r
    have "moves (fits x d \<circ> w_store) (on_store exec_safe) (State_Monad.return e) (\<lambda>_. fits x d \<circ> w_store)"
      for e :: "err option"
      by (rule keep_fits [OF xg.world.steps_return])
    moreover have "moves (fits x d \<circ> w_store) (on_store exec_safe) (advance_loop E W (x_OrgID x) (x_ID x) d k z)
        (\<lambda>_. fits x d \<circ> w_store)" if "execution_identity z = execution_identity x" for z
      using that by (rule Suc.IH)
    ultimately show "moves (round_post x d r \<circ> w_store) (on_store exec_safe)
        (case r of Inl z \<Rightarrow> advance_loop E W (x_OrgID x) (x_ID x) d k z | Inr e \<Rightarrow> State_Monad.return e)
        (\<lambda>_. fits x d \<circ> w_store)"
      by (cases r) (simp_all add: round_post_def moves_def)
  qed
qed

lemma steps_start_running:
  "others_keep E exec_safe \<Longrightarrow> steps (on_store exec_safe) (start_running E x)"
  unfolding start_running_def Let_def
  by (auto simp: execution_terminal_def
      intro!: xg.world.steps_syntax xg.steps_service_now steps_UpdateWorkflowExecution
        xg.steps_recordExecutionMetric)

lemma returns_start_running:
  "returns (start_running E x) (\<lambda>r. \<forall>y. r = Inr y \<longrightarrow> execution_identity y = execution_identity x)"
  unfolding start_running_def Let_def
  by (auto simp: execution_identity_def intro!: returns_syntax)

lemma steps_from_inv:
  "moves (exec_inv \<circ> w_store) (on_store exec_safe) m Q \<Longrightarrow> steps (on_store exec_safe) m"
  by (auto simp: moves_def steps_def on_store_def exec_safe_def)

definition known :: "WorkflowExecution \<Rightarrow> store \<Rightarrow> bool" where
  "known x s \<longleftrightarrow> exec_inv s \<and> (\<exists>r \<in> set (executions s). execution_identity r = execution_identity x)"

lemma known_keep:
  assumes "known x s" and "exec_safe s s'"
  shows "known x s'"
proof -
  have st: "exec_step s s'" "exec_inv s'" using assms by (simp_all add: known_def exec_safe_def)
  obtain r where r: "r \<in> set (executions s)" "execution_identity r = execution_identity x"
    using assms(1) by (auto simp: known_def)
  have "evolves execution_step (executions s) (executions s')" using st(1) by (simp add: exec_step_def)
  from evolvesD [OF this r(1)] obtain r' where r': "r' \<in> set (executions s')" "execution_step r r'" by blast
  have "execution_identity r' = execution_identity x" using r(2) execution_step_identity [OF r'(2)] by simp
  then show ?thesis using st(2) r'(1) by (auto simp: known_def)
qed

lemma moves_read_execution:
  assumes "others_keep E exec_safe"
  shows "moves (exec_inv \<circ> w_store) (on_store exec_safe) (GetWorkflowExecution E orgID workflowID executionID)
    (\<lambda>r. (\<lambda>s. exec_inv s \<and> (\<forall>x. r = Inr x \<longrightarrow>
        known x s \<and> x_OrgID x = orgID \<and> x_WorkflowID x = workflowID \<and> x_ID x = executionID)) \<circ> w_store)"
  unfolding GetWorkflowExecution_def
proof (rule xg.moves_query [OF assms])
  show "exec_inv s'" if "exec_inv s" "exec_safe s s'" for s s' using that by (simp add: exec_safe_def)
qed (auto simp: known_def find_Some_iff split: option.split)

lemma moves_read_version:
  assumes "others_keep E exec_safe" and "x_OrgID x = orgID" and "x_WorkflowID x = workflowID"
  shows "moves (known x \<circ> w_store) (on_store exec_safe)
    (GetWorkflowExecutionVersion E orgID workflowID (x_WorkflowVersionID x))
    (\<lambda>r. (\<lambda>s. known x s \<and> (\<forall>v. r = Inr v \<longrightarrow> fits x (v_Definition v) s)) \<circ> w_store)"
  unfolding GetWorkflowExecutionVersion_def
proof (rule xg.moves_query [OF assms(1)])
  show "known x s'" if "known x s" "exec_safe s s'" for s s' using that by (rule known_keep)
qed (use assms(2,3) in \<open>auto simp: known_def fits_def version_for_def find_Some_iff split: option.split\<close>)

abbreviation finished :: "'a \<Rightarrow> world \<Rightarrow> bool" where
  "finished \<equiv> \<lambda>_ _. True"

lemma moves_stop: "moves P (on_store exec_safe) (State_Monad.return e) finished"
  by (rule xg.world.moves_return) simp

lemma moves_advance_version:
  assumes "others_keep E exec_safe" and x: "x_OrgID x = orgID" "x_ID x = executionID"
  shows "moves (fits x (v_Definition v) \<circ> w_store) (on_store exec_safe)
    (advance_version E W orgID executionID x v) finished"
  unfolding advance_version_def
proof (rule xg.world.moves_if [OF moves_stop xg.world.moves_bind [OF xg.steps_keep_result
        [OF steps_start_running [OF assms(1)] returns_start_running fits_keep]]])
  fix r :: "err + WorkflowExecution"
  let ?d = "v_Definition v" and ?k = "length (elems (d_Nodes (v_Definition v))) + 2"
  show "moves (\<lambda>w. (\<forall>y. r = Inr y \<longrightarrow> execution_identity y = execution_identity x) \<and> fits x ?d (w_store w))
      (on_store exec_safe)
      (case r of Inl e \<Rightarrow> State_Monad.return (Some e) | Inr y \<Rightarrow> advance_loop E W orgID executionID ?d ?k y)
      finished"
  proof (cases r)
    case (Inr y)
    have "moves (fits x ?d \<circ> w_store) (on_store exec_safe) (advance_loop E W orgID executionID ?d ?k y) finished"
      if "execution_identity y = execution_identity x"
      using moves_post [OF moves_advance_loop [OF assms(1) that, of ?d W ?k], of finished] unfolding x by simp
    then show ?thesis unfolding Inr by (auto simp: moves_def)
  qed (simp add: moves_stop)
qed

lemma moves_advance_found:
  assumes "others_keep E exec_safe"
    and x: "x_OrgID x = orgID" "x_WorkflowID x = workflowID" "x_ID x = executionID"
  shows "moves (known x \<circ> w_store) (on_store exec_safe)
    (advance_found E W orgID workflowID executionID x) finished"
  unfolding advance_found_def
proof (rule xg.world.moves_if [OF moves_stop xg.world.moves_bind [OF moves_read_version [OF assms(1) x(1,2)]]])
  fix r :: "err + WorkflowVersion"
  show "moves ((\<lambda>s. known x s \<and> (\<forall>v. r = Inr v \<longrightarrow> fits x (v_Definition v) s)) \<circ> w_store)
      (on_store exec_safe)
      (case r of Inl e \<Rightarrow> State_Monad.return (Some e) | Inr v \<Rightarrow> advance_version E W orgID executionID x v)
      finished"
  proof (cases r)
    case (Inr v)
    show ?thesis
      unfolding Inr sum.case by (rule moves_pre [OF moves_advance_version [OF assms(1) x(1,3)]]) simp
  qed (simp add: moves_stop)
qed

lemma steps_AdvanceExecution:
  assumes "others_keep E exec_safe"
  shows "steps (on_store exec_safe) (AdvanceExecution E W orgID workflowID executionID)"
  unfolding AdvanceExecution_def
proof (rule steps_from_inv, rule xg.world.moves_bind [OF moves_read_execution [OF assms]])
  fix r :: "err + WorkflowExecution"
  show "moves ((\<lambda>s. exec_inv s \<and> (\<forall>x. r = Inr x \<longrightarrow> known x s \<and> x_OrgID x = orgID \<and>
        x_WorkflowID x = workflowID \<and> x_ID x = executionID)) \<circ> w_store) (on_store exec_safe)
      (case r of
         Inl e \<Rightarrow> State_Monad.return (Some e)
       | Inr x \<Rightarrow> advance_found E W orgID workflowID executionID x) finished"
  proof (cases r)
    case (Inr x)
    show ?thesis
      unfolding Inr sum.case
      by (rule moves_from_fact [of _ "x_OrgID x = orgID \<and> x_WorkflowID x = workflowID \<and> x_ID x = executionID"
            "known x \<circ> w_store"])
        (simp, blast intro: moves_advance_found [OF assms])
  qed (simp add: moves_stop)
qed

lemma returns_new_nodes_for:
  "returns (new_nodes_for E orgID executionID now as)
     (\<lambda>ns. \<forall>n \<in> set ns. node_key n = (orgID, executionID) \<and> n_Status n = WorkflowNodePending)"
proof (induction as)
  case Nil
  show ?case by (simp add: returns_return)
next
  case (Cons a as)
  show ?case
    unfolding new_nodes_for.simps
    by (rule returns_bind, rule returns_via [OF Cons.IH]) (simp add: returns_return node_key_def)
qed

lemma steps_new_nodes_for: "steps (on_store exec_safe) (new_nodes_for E orgID executionID now as)"
  by (induction as) (auto intro!: xg.world.steps_syntax xg.steps_uuid)

lemma steps_CreateWorkflowExecution:
  assumes "others_keep E exec_safe" and "fresh_rows x ns"
  shows "steps (on_store exec_safe) (CreateWorkflowExecution E x ns)"
  unfolding CreateWorkflowExecution_def getWorkflowExecutionByIdempotency_def
  by (intro xg.world.steps_syntax xg.steps_query xg.steps_atomic assms safe_insert_execution)

lemma steps_create_and_advance:
  assumes "others_keep E exec_safe"
  shows "steps (on_store exec_safe) (create_and_advance E W input key version normalizedInput)"
  unfolding create_and_advance_def Let_def start_report_def GetWorkflowExecution_def
  by (rule xg.world.steps_bind [OF xg.steps_service_now], rule xg.world.steps_bind [OF xg.steps_uuid],
      rule xg.world.steps_via [OF steps_new_nodes_for returns_new_nodes_for])
    (auto simp: fresh_rows_def intro!: xg.world.steps_syntax steps_CreateWorkflowExecution assms
      xg.steps_recordExecutionMetric steps_AdvanceExecution xg.steps_query)

lemma steps_StartExecution:
  "others_keep E exec_safe \<Longrightarrow> steps (on_store exec_safe) (StartExecution E W input)"
  unfolding StartExecution_def Let_def selectVersion_def GetWorkflowByID_def GetWorkflowVersion_def
    GetLatestWorkflowVersion_def
  by (auto intro!: xg.world.steps_syntax xg.steps_query steps_create_and_advance)

lemma steps_CancelExecution:
  "others_keep E exec_safe \<Longrightarrow> steps (on_store exec_safe) (CancelExecution E orgID workflowID executionID)"
  unfolding CancelExecution_def
  by (auto intro!: xg.world.steps_syntax xg.steps_service_now steps_CancelWorkflowExecution
      xg.steps_recordExecutionMetric xg.steps_GetWorkflowNodeExecutions xg.steps_record_cancelled)

lemma steps_ReconcileActive:
  assumes "others_keep E exec_safe"
  shows "steps (on_store exec_safe) (ReconcileActive E W limit)"
proof -
  have "steps (on_store exec_safe) (advance_all E W xs)" for xs
    by (induction xs) (auto intro!: xg.world.steps_syntax steps_AdvanceExecution assms)
  then show ?thesis
    unfolding ReconcileActive_def ListWorkflowExecutionsForReconciliation_def Let_def
    by (auto intro!: xg.world.steps_syntax xg.steps_query assms)
qed

end
