(* ===== verification/Exec_Claims.thy ===== *)
theory Exec_Claims
  imports Exec_Runs
begin

text \<open>
  The properties of the execution service, over every sequence of its calls.
\<close>

subsection \<open>Publishing a version\<close>

lemma safe_publish: "exec_safe s (snd (publish_tx i expected publishedAt s))"
  unfolding exec_safe_def
proof (intro impI conjI)
  let ?s = "snd (publish_tx i expected publishedAt s)"
  assume inv: "exec_inv s"
  show st: "exec_step s ?s"
    by (auto simp: publish_tx_def Let_def ex.refl exec_step_def evolves_refl evolves_append new_nodes_def
        split: option.split)
  show "exec_inv ?s"
  proof (cases "?s = s")
    case False
    then obtain v where v: "versions ?s = versions s @ [v]" "v_ID v \<notin> v_ID ` set (versions s)"
      and same: "executions ?s = executions s" "node_executions ?s = node_executions s"
      by (auto simp: publish_tx_def Let_def version_insertable_def split: option.splits if_splits)
    have keys: "exec_keys_ok s" and cl: "closed_executions s" and ord: "ordered_nodes s"
      using inv by (simp_all add: exec_inv_def)
    have rows: "nodes_of orgID j ?s = nodes_of orgID j s" for orgID j by (simp add: nodes_of_def same)
    have "exec_keys_ok ?s"
      using keys v(2) unfolding exec_keys_ok_def v(1) same execution_keys_def
      by (auto simp: version_exists_def)
    moreover have "closed_executions ?s" using cl unfolding closed_executions_def same rows .
    moreover have "ordered_nodes ?s"
      unfolding ordered_nodes_def
    proof (intro ballI impI)
      fix x u n assume x: "x \<in> set (executions ?s)" "u \<in> set (versions ?s)" "version_for x u"
        "n \<in> set (rows_of x ?s)" "started n"
      have xs: "x \<in> set (executions s)" using x(1) by (simp add: same)
      have "u \<noteq> v"
      proof
        assume "u = v"
        have "version_exists x (versions s)" using keys xs by (simp add: exec_keys_ok_def)
        then have "x_WorkflowVersionID x \<in> v_ID ` set (versions s)"
          unfolding version_exists_def by (metis imageI)
        then show False using v(2) x(3) \<open>u = v\<close> by (simp add: version_for_def)
      qed
      then have "u \<in> set (versions s)" using x(2) v(1) by simp
      moreover have "n \<in> set (rows_of x s)" using x(4) rows by simp
      ultimately have "may_start x u (n_NodeID n) s"
        using ord xs x(3,5) unfolding ordered_nodes_def by blast
      then show "may_start x u (n_NodeID n) ?s" by (rule may_start_keep [OF st])
    qed
    ultimately show ?thesis by (simp add: exec_inv_def)
  qed (simp add: inv)
qed

lemma steps_PublishWorkflow:
  "others_keep E exec_safe \<Longrightarrow> steps (on_store exec_safe) (repository_PublishWorkflow E expected publishedAt)"
  unfolding repository_PublishWorkflow_def
  by (intro xg.world.steps_syntax xg.steps_uuid xg.steps_atomic safe_publish)

subsection \<open>Sequences of calls\<close>

datatype exec_call =
    Start StartWorkflowExecutionInput
  | Advance uuid uuid uuid
  | CancelCall uuid uuid uuid
  | Reconcile int
  | Publish Workflow time

fun serve_one :: "env \<Rightarrow> wiring \<Rightarrow> exec_call \<Rightarrow> unit io" where
  "serve_one E W (Start input) = do { _ \<leftarrow> StartExecution E W input; State_Monad.return () }"
| "serve_one E W (Advance orgID w x) = do { _ \<leftarrow> AdvanceExecution E W orgID w x; State_Monad.return () }"
| "serve_one E W (CancelCall orgID w x) = do { _ \<leftarrow> CancelExecution E orgID w x; State_Monad.return () }"
| "serve_one E W (Reconcile n) = do { _ \<leftarrow> ReconcileActive E W n; State_Monad.return () }"
| "serve_one E W (Publish w t) = do { _ \<leftarrow> repository_PublishWorkflow E w t; State_Monad.return () }"

fun serve :: "env \<Rightarrow> wiring \<Rightarrow> exec_call list \<Rightarrow> unit io" where
  "serve E W [] = State_Monad.return ()"
| "serve E W (c # cs) = do { serve_one E W c; serve E W cs }"

lemma steps_serve:
  assumes "others_keep E exec_safe"
  shows "steps (on_store exec_safe) (serve E W cs)"
proof (induction cs)
  case Nil
  show ?case by (simp add: xg.world.steps_return)
next
  case (Cons c cs)
  have "steps (on_store exec_safe) (serve_one E W c)"
    by (cases c) (auto intro!: xg.world.steps_syntax steps_StartExecution steps_AdvanceExecution
        steps_CancelExecution steps_ReconcileActive steps_PublishWorkflow assms)
  then show ?case using Cons.IH by (auto intro!: xg.world.steps_bind)
qed

lemma serve_safe:
  assumes "others_keep E exec_safe" and "exec_inv (w_store w)" and "w' = snd (run_state (serve E W cs) w)"
  shows "exec_step (w_store w) (w_store w')" and "exec_inv (w_store w')"
  using steps_serve [OF assms(1), of W cs] assms(2,3)
  by (simp_all add: steps_def on_store_def exec_safe_def)

subsection \<open>A small store\<close>

text \<open>
  A published workflow, a trigger and a delay, with one execution that has succeeded and
  one that is running.
\<close>

definition demo_definition :: WorkflowDefinition where
  "demo_definition =
     \<lparr>d_Nodes = Some
        [\<lparr>dn_ID = ''t'', dn_Type = WorkflowNodeTrigger, dn_Name = ''start'', dn_Position = None,
          dn_Config = Some []\<rparr>,
         \<lparr>dn_ID = ''d'', dn_Type = WorkflowNodeDelay, dn_Name = ''wait'', dn_Position = None,
          dn_Config = Some [(''duration_seconds'', JNum 5)]\<rparr>],
      d_Edges = Some [\<lparr>e_ID = ''e'', e_From = ''t'', e_To = ''d'', e_Condition = RawDoc JNull\<rparr>]\<rparr>"

definition demo_version :: WorkflowVersion where
  "demo_version =
     \<lparr>v_ID = 3, v_OrgID = 1, v_WorkflowID = 2, v_Version = 1, v_Name = ''demo'', v_Slug = ''demo'',
      v_Description = None, v_Definition = demo_definition, v_Status = WorkflowVersionStatusPublished,
      v_PublishedAt = 1, v_CreatedAt = 1\<rparr>"

definition demo_execution :: "uuid \<Rightarrow> string \<Rightarrow> WorkflowExecutionStatus \<Rightarrow> WorkflowExecution" where
  "demo_execution i key st =
     \<lparr>x_ID = i, x_OrgID = 1, x_WorkflowID = 2, x_WorkflowVersionID = 3, x_WorkflowVersion = 1,
      x_Status = st, x_Input = RawNil, x_Output = RawNil, x_ErrorCode = [], x_ErrorMessage = [],
      x_IdempotencyKey = key, x_RequestFingerprint = [], x_StartedAt = Some 2, x_CompletedAt = None,
      x_CreatedAt = 1, x_UpdatedAt = 2\<rparr>"

definition demo_node ::
  "uuid \<Rightarrow> uuid \<Rightarrow> string \<Rightarrow> WorkflowNodeType \<Rightarrow> WorkflowNodeExecutionStatus \<Rightarrow> WorkflowNodeExecution" where
  "demo_node i x nodeID ty st =
     \<lparr>n_ID = i, n_OrgID = 1, n_WorkflowExecutionID = x, n_NodeID = nodeID, n_NodeType = ty,
      n_Status = st, n_Attempt = 0, n_Input = RawNil, n_Output = RawNil, n_ErrorCode = [],
      n_ErrorMessage = [], n_QueueTaskID = None, n_WebhookDeliveryID = None, n_AvailableAt = None,
      n_StartedAt = None, n_CompletedAt = None, n_CreatedAt = 1, n_UpdatedAt = 2\<rparr>"

definition demo_store :: store where
  "demo_store = empty_store
     \<lparr>versions := [demo_version],
      executions := [demo_execution 4 ''a'' WorkflowExecutionSucceeded, demo_execution 5 ''b'' WorkflowExecutionRunning],
      node_executions :=
        [demo_node 6 4 ''t'' WorkflowNodeTrigger WorkflowNodeSucceeded,
         demo_node 7 4 ''d'' WorkflowNodeDelay WorkflowNodeSucceeded,
         demo_node 8 5 ''t'' WorkflowNodeTrigger WorkflowNodeSucceeded,
         demo_node 9 5 ''d'' WorkflowNodeDelay WorkflowNodePending]\<rparr>"

definition demo_world :: world where
  "demo_world = \<lparr>w_store = demo_store, w_metrics = [], w_tick = 0\<rparr>"

definition demo_wiring :: wiring where
  "demo_wiring = \<lparr>wr_events = False, wr_maxAttempts = 5\<rparr>"

lemma quiet_keeps: "others_keep quiet exec_safe"
  by (simp add: others_keep_def quiet_def xg.refl)

text \<open>
  In \<open>busy\<close> another process cancels execution 5 while this one is between its second and
  its third step.
\<close>

definition busy :: env where
  "busy = quiet\<lparr>interfere := (\<lambda>t s. if t = 2
     then w_store (snd (run_state (serve quiet demo_wiring [CancelCall 1 2 5]) \<lparr>w_store = s, w_metrics = [], w_tick = 0\<rparr>))
     else s)\<rparr>"

lemma busy_keeps: "others_keep busy exec_safe"
proof -
  have "exec_safe s (w_store (snd (run_state (serve quiet demo_wiring [CancelCall 1 2 5])
      \<lparr>w_store = s, w_metrics = [], w_tick = 0\<rparr>)))" for s
    using steps_serve [OF quiet_keeps, unfolded steps_def on_store_def, rule_format,
        of "\<lparr>w_store = s, w_metrics = [], w_tick = 0\<rparr>"]
    by (simp del: serve.simps)
  then show ?thesis by (simp add: others_keep_def busy_def xg.refl del: serve.simps)
qed

lemmas demo_defs = demo_world_def demo_store_def demo_version_def demo_definition_def demo_execution_def
  demo_node_def

lemma demo_inv: "exec_inv (w_store demo_world)"
proof -
  have "exec_keys_ok demo_store"
    by (simp add: demo_defs exec_keys_ok_def idempotency_key_def version_exists_def node_key_def execution_keys_def)
  moreover have "closed_executions demo_store"
    by (simp add: demo_defs closed_executions_def nodes_of_def execution_terminal_def node_terminal_def)
  moreover have "ordered_nodes demo_store"
    by (simp add: demo_defs ordered_nodes_def nodes_of_def version_for_def started_def may_start_def is_entry_def
        sources_done_def incoming_edges_def node_done_def)
  ultimately show ?thesis by (simp add: exec_inv_def demo_world_def)
qed

subsection \<open>Rows only move forward\<close>

text \<open>
  C2. Whatever sequence of calls a process serves, whichever of its statements fail or
  are not acknowledged, and whatever other processes do in between, no execution and no
  node execution is lost or changes its identity, none goes back to \<open>pending\<close>, and none
  changes at all once its status is terminal.
\<close>

theorem rows_never_regress:
  assumes "others_keep E exec_safe" and "exec_inv (w_store w)" and "w' = snd (run_state (serve E W cs) w)"
  shows "(\<forall>x \<in> set (executions (w_store w)). \<exists>x' \<in> set (executions (w_store w')).
            execution_identity x' = execution_identity x \<and>
            (execution_terminal (x_Status x) \<longrightarrow> x' = x) \<and>
            (x_Status x' = WorkflowExecutionPending \<longrightarrow> x_Status x = WorkflowExecutionPending)) \<and>
         (\<forall>n \<in> set (node_executions (w_store w)). \<exists>n' \<in> set (node_executions (w_store w')).
            node_identity n' = node_identity n \<and>
            (node_terminal (n_Status n) \<longrightarrow> n' = n) \<and>
            (n_Status n' = WorkflowNodePending \<longrightarrow> n_Status n = WorkflowNodePending))"
proof -
  have ev: "evolves execution_step (executions (w_store w)) (executions (w_store w'))"
    "evolves node_step (node_executions (w_store w)) (node_executions (w_store w'))"
    using serve_safe(1) [OF assms] by (simp_all add: exec_step_def)
  have x: "execution_identity x' = execution_identity x \<and> (execution_terminal (x_Status x) \<longrightarrow> x' = x) \<and>
      (x_Status x' = WorkflowExecutionPending \<longrightarrow> x_Status x = WorkflowExecutionPending)"
    if "execution_step x x'" for x x'
    using that by (auto simp: execution_step_def)
  have n: "node_identity n' = node_identity n \<and> (node_terminal (n_Status n) \<longrightarrow> n' = n) \<and>
      (n_Status n' = WorkflowNodePending \<longrightarrow> n_Status n = WorkflowNodePending)"
    if "node_step n n'" for n n'
    using that by (auto simp: node_step_def)
  show ?thesis
    using evolvesD [OF ev(1)] evolvesD [OF ev(2)] x n by blast
qed

theorem rows_never_regress_witness:
  "\<exists>x' \<in> set (executions (w_store (snd (run_state (serve quiet demo_wiring [CancelCall 1 2 4, Advance 1 2 5])
       demo_world)))). x' = demo_execution 4 ''a'' WorkflowExecutionSucceeded"
proof -
  have "demo_execution 4 ''a'' WorkflowExecutionSucceeded \<in> set (executions (w_store demo_world))"
    "execution_terminal (x_Status (demo_execution 4 ''a'' WorkflowExecutionSucceeded))"
    by (simp_all add: demo_world_def demo_store_def demo_execution_def execution_terminal_def)
  with rows_never_regress [OF quiet_keeps demo_inv refl, of demo_wiring "[CancelCall 1 2 4, Advance 1 2 5]"]
  show ?thesis by blast
qed

text \<open>
  C3. An execution whose status is terminal has no node that is pending, queued or
  running: failing and cancelling an execution also cancel its open nodes, and an
  execution succeeds only when every node has succeeded or was skipped.
\<close>

theorem finished_executions_closed:
  assumes "others_keep E exec_safe" and "exec_inv (w_store w)" and "w' = snd (run_state (serve E W cs) w)"
    and "x \<in> set (executions (w_store w'))" and "execution_terminal (x_Status x)"
    and "n \<in> set (nodes_of (x_OrgID x) (x_ID x) (w_store w'))"
  shows "node_terminal (n_Status n)"
  using serve_safe(2) [OF assms(1-3)] assms(4-6)
  unfolding exec_inv_def closed_executions_def by blast

theorem finished_executions_closed_witness:
  "let s = w_store (snd (run_state (serve busy demo_wiring [Advance 1 2 5]) demo_world)) in
     list_ex (\<lambda>x. x_OrgID x = 1 \<and> x_ID x = 5 \<and> execution_terminal (x_Status x)) (executions s) \<and>
     list_all (\<lambda>n. node_terminal (n_Status n)) (nodes_of 1 5 s)"
proof -
  let ?s = "w_store (snd (run_state (serve busy demo_wiring [Advance 1 2 5]) demo_world))"
  have found: "list_ex (\<lambda>x. x_OrgID x = 1 \<and> x_ID x = 5 \<and> execution_terminal (x_Status x)) (executions ?s)"
    by code_simp
  then obtain x where x: "x \<in> set (executions ?s)" "x_OrgID x = 1" "x_ID x = 5" "execution_terminal (x_Status x)"
    by (auto simp: list_ex_iff)
  have "node_terminal (n_Status n)" if "n \<in> set (nodes_of 1 5 ?s)" for n
    using finished_executions_closed [OF busy_keeps demo_inv refl x(1,4), of n] that x(2,3) by simp
  then show ?thesis using found by (simp add: list_all_iff)
qed



subsection \<open>Idempotency and exclusive claims\<close>






text \<open>
  C6. A node is claimed at most once: after one process has won a node, a claim of the
  same node by any process, at any later state, does not win it.
\<close>

theorem claim_is_exclusive:
  assumes "exec_inv (interfere E (w_tick w) (w_store w))"
    and "run_state (ClaimWorkflowNode E orgID executionID nodeID now) w = (Inr (Some n), w1)"
    and "exec_step (w_store w1) (interfere E' (w_tick w2) (w_store w2))"
  shows "fst (run_state (ClaimWorkflowNode E' orgID executionID nodeID now') w2) \<noteq> Inr (Some n')"
proof -
  define s where "s = interfere E (w_tick w) (w_store w)"
  let ?P = "claimable orgID executionID nodeID"
  define s2 where "s2 = interfere E' (w_tick w2) (w_store w2)"
  from assms(2) obtain m where m: "find ?P (node_executions s) = Some m"
    and s1: "w_store w1 = s\<lparr>node_executions := update_where ?P (claimed now) (node_executions s)\<rparr>"
    by (auto simp: ClaimWorkflowNode_def run_atomic s_def Let_def split: outcome.splits option.splits)
  have "m \<in> set (node_executions s)" "node_key m = (orgID, executionID)"
    using m by (auto simp: find_Some_iff claimable_def node_key_def)
  moreover have "exec_keys_ok s" using assms(1) by (simp add: s_def exec_inv_def)
  ultimately have "(orgID, executionID) \<in> execution_keys s" unfolding exec_keys_ok_def by metis
  then have key: "(orgID, executionID) \<in> execution_keys (w_store w1)" by (simp add: s1 execution_keys_def)
  have claimed: "\<not> ?P (claimed now k)" for k by (simp add: claimable_def claimed_def)
  have none: "\<not> ?P k" if "k \<in> set (node_executions (w_store w1))" for k
  proof -
    have "k \<in> (\<lambda>r. if ?P r then claimed now r else r) ` set (node_executions s)"
      using that by (simp add: s1 set_update_where)
    then obtain r where "k = (if ?P r then claimed now r else r)" by blast
    then show ?thesis using claimed by simp
  qed
  have "\<not> ?P k" if k: "k \<in> set (node_executions s2)" for k
  proof
    assume P: "?P k"
    then have "k \<in> set (nodes_of orgID executionID s2)" using k by (simp add: nodes_of_def claimable_def)
    then obtain k1 where k1: "k1 \<in> set (nodes_of orgID executionID (w_store w1))" "node_step k1 k"
      using exec_step_nodesE [OF assms(3) key] unfolding s2_def by blast
    have "?P k1"
      using P k1 by (auto simp: claimable_def node_step_def node_identity_def nodes_of_def)
    then show False using none k1(1) by (simp add: nodes_of_def)
  qed
  then have "find ?P (node_executions s2) = None" by (simp add: find_None_iff)
  then show ?thesis
    by (auto simp: ClaimWorkflowNode_def run_atomic Let_def s2_def split: outcome.split)
qed

theorem claim_is_exclusive_witness:
  "\<exists>n w1. run_state (ClaimWorkflowNode quiet 1 5 ''d'' 7) demo_world = (Inr (Some n), w1) \<and>
     fst (run_state (ClaimWorkflowNode quiet 1 5 ''d'' 8) w1) \<noteq> Inr (Some n)"
proof -
  let ?run = "run_state (ClaimWorkflowNode quiet 1 5 ''d'' 7) demo_world"
  have "case fst ?run of Inr (Some _) \<Rightarrow> True | _ \<Rightarrow> False"
    by code_simp
  then have "\<exists>n. fst ?run = Inr (Some n)" by (simp split: sum.splits option.splits)
  then obtain n where n: "?run = (Inr (Some n), snd ?run)" by (metis prod.collapse)
  have same: "interfere quiet t s = s" for t s by (simp add: quiet_def)
  have "exec_inv (interfere quiet (w_tick demo_world) (w_store demo_world))" using demo_inv by (simp add: same)
  from claim_is_exclusive [OF this n, of quiet "snd ?run" 8 n] n show ?thesis
    by (auto simp: same ex.refl)
qed

end
