(* ===== verification/Graph.thy ===== *)
theory Graph
  imports Prelude
begin

text \<open>
  The two graph searches of \<^verbatim>\<open>ValidateWorkflowDefinition\<close>
  (\<^verbatim>\<open>internal/usecase/workflow_validation.go\<close>): the breadth-first marking of the nodes that
  can be reached from a trigger, and the three-colour depth-first search that sets
  \<^verbatim>\<open>hasCycle\<close>. The Go map \<^verbatim>\<open>adjacency\<close> is filled by appending to the list of
  an edge's source, so it is represented by the list of accepted edges in that order and
  \<open>adjacency\<close> reads the successors of a node off it.

  \<open>bfs_reaches\<close> shows that the marking is exactly reachability; \<open>dfs_detects_cycles\<close> shows that
  \<^verbatim>\<open>hasCycle\<close> is set exactly when the edge relation has a cycle.
\<close>

section \<open>Adjacency\<close>

type_synonym edges = "(string \<times> string) list"

definition adjacency :: "edges \<Rightarrow> string \<Rightarrow> string list" where
  "adjacency es n = map snd (filter (\<lambda>e. fst e = n) es)"

lemma set_adjacency [simp]: "y \<in> set (adjacency es x) \<longleftrightarrow> (x, y) \<in> set es"
  by (force simp: adjacency_def)

definition targets :: "edges \<Rightarrow> string set" where
  "targets es = snd ` set es"

lemma finite_targets [simp]: "finite (targets es)"
  by (simp add: targets_def)

lemma adjacency_targets: "y \<in> set (adjacency es x) \<Longrightarrow> y \<in> targets es"
  by (force simp: targets_def)

section \<open>Breadth-first marking\<close>

text \<open>The inner loop over \<^verbatim>\<open>adjacency[current]\<close>: mark and enqueue what is not marked yet.\<close>

fun bfs_push :: "string list \<Rightarrow> string list \<Rightarrow> string list \<Rightarrow> string list \<times> string list" where
  "bfs_push [] reachable queue = (reachable, queue)"
| "bfs_push (x # xs) reachable queue =
     (if x \<in> set reachable then bfs_push xs reachable queue
      else bfs_push xs (reachable @ [x]) (queue @ [x]))"

lemma bfs_push_spec:
  assumes "bfs_push xs r q = (r', q')"
  shows "set r' = set r \<union> set xs" and "set q' = set q \<union> (set xs - set r)"
  using assms by (induction xs r q rule: bfs_push.induct) (auto split: if_splits)

lemma bfs_push_queue:
  "bfs_push xs r q = (r', q') \<Longrightarrow> set xs \<subseteq> set r \<Longrightarrow> r' = r \<and> q' = q"
  by (induction xs r q rule: bfs_push.induct) auto

function bfs :: "edges \<Rightarrow> string list \<Rightarrow> string list \<Rightarrow> string list" where
  "bfs es reachable [] = reachable"
| "bfs es reachable (current # queue) =
     (case bfs_push (adjacency es current) reachable queue of
        (reachable', queue') \<Rightarrow> bfs es reachable' queue')"
  by pat_completeness auto
termination
proof (relation "inv_image (finite_psubset <*lex*> less_than)
    (\<lambda>(es, r, q). (targets es - set r, length q))", goal_cases)
  case 1
  show ?case by auto
next
  case (2 es r c q r' q')
  then have p: "bfs_push (adjacency es c) r q = (r', q')" by simp
  show ?case
  proof (cases "set (adjacency es c) \<subseteq> set r")
    case True
    with bfs_push_queue [OF p] show ?thesis by simp
  next
    case False
    then obtain y where "y \<in> set (adjacency es c)" "y \<notin> set r" by blast
    moreover from this have "y \<in> targets es" by (simp only: adjacency_targets)
    ultimately have "targets es - set r' \<subset> targets es - set r"
      using bfs_push_spec(1) [OF p] by auto
    then show ?thesis by (simp add: finite_psubset_def)
  qed
qed

text \<open>The marked set is closed under edges except for what is still queued.\<close>

lemma bfs_closed:
  assumes "\<And>x y. x \<in> set r \<Longrightarrow> (x, y) \<in> set es \<Longrightarrow> x \<notin> set q \<Longrightarrow> y \<in> set r"
  shows "set r \<subseteq> set (bfs es r q) \<and>
    (\<forall>x y. x \<in> set (bfs es r q) \<longrightarrow> (x, y) \<in> set es \<longrightarrow> y \<in> set (bfs es r q))"
  using assms
proof (induction es r q rule: bfs.induct)
  case (1 es r)
  then show ?case by auto
next
  case (2 es r c q)
  obtain r' q' where p: "bfs_push (adjacency es c) r q = (r', q')" by fastforce
  note spec = bfs_push_spec [OF p]
  have "y \<in> set r'" if "x \<in> set r'" "(x, y) \<in> set es" "x \<notin> set q'" for x y
    using that "2.prems" [of x y] spec by auto
  from "2.IH" [OF p [symmetric] this] show ?case
    using p spec by auto
qed

lemma bfs_sound:
  assumes "\<And>x. x \<in> set r \<Longrightarrow> \<exists>t \<in> T. (t, x) \<in> (set es)\<^sup>*" and "set q \<subseteq> set r"
    and "x \<in> set (bfs es r q)"
  shows "\<exists>t \<in> T. (t, x) \<in> (set es)\<^sup>*"
  using assms
proof (induction es r q rule: bfs.induct)
  case (1 es r)
  then show ?case by simp
next
  case (2 es r c q)
  obtain r' q' where p: "bfs_push (adjacency es c) r q = (r', q')" by fastforce
  note spec = bfs_push_spec [OF p]
  from "2.prems"(1,2) obtain t where t: "t \<in> T" "(t, c) \<in> (set es)\<^sup>*" by auto
  have new: "\<exists>t \<in> T. (t, y) \<in> (set es)\<^sup>*" if "y \<in> set r'" for y
  proof (cases "y \<in> set r")
    case True
    then show ?thesis by (rule "2.prems"(1))
  next
    case False
    with that spec(1) have "(c, y) \<in> set es" by auto
    with t show ?thesis by (blast intro: rtrancl_into_rtrancl)
  qed
  have "set q' \<subseteq> set r'" using spec "2.prems"(2) by auto
  with "2.IH" [OF p [symmetric] new] "2.prems"(3) p show ?case by simp
qed

theorem bfs_reaches:
  "set (bfs es ts ts) = {y. \<exists>t \<in> set ts. (t, y) \<in> (set es)\<^sup>*}"
proof -
  have closed: "set ts \<subseteq> set (bfs es ts ts)"
    "\<And>x y. x \<in> set (bfs es ts ts) \<Longrightarrow> (x, y) \<in> set es \<Longrightarrow> y \<in> set (bfs es ts ts)"
    using bfs_closed [of ts es ts] by blast+
  have "y \<in> set (bfs es ts ts)" if "(t, y) \<in> (set es)\<^sup>*" "t \<in> set ts" for t y
    using that by (induction rule: rtrancl_induct) (use closed in auto)
  moreover have "\<exists>t \<in> set ts. (t, x) \<in> (set es)\<^sup>*" if "x \<in> set (bfs es ts ts)" for x
    using bfs_sound [of ts "set ts" es ts x] that by blast
  ultimately show ?thesis by blast
qed

section \<open>Depth-first cycle search\<close>

datatype colour = unvisited | visiting | visited

record dfs_state =
  colour :: "string \<Rightarrow> colour"
  hasCycle :: bool

abbreviation paint :: "string \<Rightarrow> colour \<Rightarrow> dfs_state \<Rightarrow> dfs_state" where
  "paint n c s \<equiv> s\<lparr>colour := (colour s)(n := c)\<rparr>"

text \<open>
  \<open>visit_edges\<close> is the loop over \<^verbatim>\<open>adjacency[nodeID]\<close> inside the closure
  \<^verbatim>\<open>visit\<close>; its second result says that the loop left through \<^verbatim>\<open>return\<close>. The recursive
  call \<^verbatim>\<open>visit(next)\<close> is unfolded in it, so that one function carries the nested recursion;
  \<open>visit\<close> is the closure itself and \<open>visit_edges_visit\<close> folds the call back.
\<close>

definition open_targets :: "edges \<Rightarrow> string list \<Rightarrow> dfs_state \<Rightarrow> string set" where
  "open_targets es xs s = {y \<in> targets es \<union> set xs. colour s y = unvisited}"

lemma finite_open_targets [simp]: "finite (open_targets es xs s)"
  by (simp add: open_targets_def)

function visit_edges :: "edges \<Rightarrow> string list \<Rightarrow> dfs_state \<Rightarrow> dfs_state \<times> bool" where
  "visit_edges es [] s = (s, False)"
| "visit_edges es (x # xs) s =
     (if colour s x = visiting then (s\<lparr>hasCycle := True\<rparr>, True)
      else if colour s x = unvisited then
        (if hasCycle s then visit_edges es xs s
         else (case visit_edges es (adjacency es x) (paint x visiting s) of
                 (s', returned) \<Rightarrow>
                   visit_edges es xs (if returned then s' else paint x visited s')))
      else visit_edges es xs s)"
  by pat_completeness auto

lemma visit_edges_unvisited_dom:
  assumes "visit_edges_dom (es, xs, s)" and "colour (fst (visit_edges es xs s)) y = unvisited"
  shows "colour s y = unvisited"
  using assms
proof (induction es xs s rule: visit_edges.pinduct)
  case (1 es s)
  then show ?case by (simp add: visit_edges.psimps)
next
  case (2 es x xs s)
  then show ?case
    by (auto simp: visit_edges.psimps split: if_splits prod.splits)
qed

termination visit_edges
proof (relation "inv_image (finite_psubset <*lex*> less_than)
    (\<lambda>(es, xs, s). (open_targets es xs s, length xs))", goal_cases)
  case 1
  show ?case by auto
next
  case (2 es x xs s)
  have "open_targets es xs s \<subseteq> open_targets es (x # xs) s"
    by (auto simp: open_targets_def)
  then show ?case by (auto simp: finite_psubset_def)
next
  case (3 es x xs s)
  have "open_targets es (adjacency es x) (paint x visiting s) \<subseteq> open_targets es (x # xs) s"
    by (auto simp: open_targets_def targets_def intro: rev_image_eqI)
  moreover have "x \<in> open_targets es (x # xs) s"
    and "x \<notin> open_targets es (adjacency es x) (paint x visiting s)"
    using 3 by (simp_all add: open_targets_def)
  ultimately have
    "open_targets es (adjacency es x) (paint x visiting s) \<subset> open_targets es (x # xs) s"
    by blast
  then show ?case by (simp add: finite_psubset_def)
next
  case (4 es x xs s s' returned)
  have "colour s y = unvisited" if "colour s' y = unvisited" for y
    using visit_edges_unvisited_dom [OF 4(5), of y] that 4(4)
    by (metis fst_conv colour.distinct(1) fun_upd_apply dfs_state.select_convs(1)
        dfs_state.simps(1,3) dfs_state.surjective dfs_state.update_convs(1))
  then have "open_targets es xs (if returned then s' else paint x visited s')
      \<subseteq> open_targets es (x # xs) s"
    by (auto simp: open_targets_def split: if_splits)
  then show ?case by (auto simp: finite_psubset_def)
next
  case (5 es x xs s)
  have "open_targets es xs s \<subseteq> open_targets es (x # xs) s"
    by (auto simp: open_targets_def)
  then show ?case by (auto simp: finite_psubset_def)
qed

definition visit :: "edges \<Rightarrow> string \<Rightarrow> dfs_state \<Rightarrow> dfs_state" where
  "visit es n s =
     (if hasCycle s then s
      else (case visit_edges es (adjacency es n) (paint n visiting s) of
              (s', returned) \<Rightarrow> if returned then s' else paint n visited s'))"

lemma visit_edges_visit:
  "visit_edges es (x # xs) s =
     (if colour s x = visiting then (s\<lparr>hasCycle := True\<rparr>, True)
      else if colour s x = unvisited then visit_edges es xs (visit es x s)
      else visit_edges es xs s)"
  by (auto simp: visit_def split: prod.splits)

text \<open>The closing loop over the definition's nodes.\<close>

fun visit_nodes :: "edges \<Rightarrow> string list \<Rightarrow> dfs_state \<Rightarrow> dfs_state" where
  "visit_nodes es [] s = s"
| "visit_nodes es (n # ns) s =
     visit_nodes es ns (if colour s n = unvisited then visit es n s else s)"

definition has_cycle :: "edges \<Rightarrow> string list \<Rightarrow> bool" where
  "has_cycle es ns = hasCycle (visit_nodes es ns \<lparr>colour = (\<lambda>_. unvisited), hasCycle = False\<rparr>)"

subsection \<open>The flag is set exactly on a cycle\<close>

definition grey :: "dfs_state \<Rightarrow> string set" where
  "grey s = {y. colour s y = visiting}"

definition black :: "dfs_state \<Rightarrow> string set" where
  "black s = {y. colour s y = visited}"

lemma mem_grey [simp]: "y \<in> grey s \<longleftrightarrow> colour s y = visiting"
  by (simp add: grey_def)

lemma mem_black [simp]: "y \<in> black s \<longleftrightarrow> colour s y = visited"
  by (simp add: black_def)

lemma paint_visiting [simp]:
  "grey (paint x visiting s) = insert x (grey s)" "black (paint x visiting s) = black s - {x}"
  by (auto simp: grey_def black_def)

lemma paint_visited [simp]:
  "grey (paint x visited s) = grey s - {x}" "black (paint x visited s) = insert x (black s)"
  by (auto simp: grey_def black_def)

lemma grey_flag [simp]: "grey (s\<lparr>hasCycle := b\<rparr>) = grey s" "black (s\<lparr>hasCycle := b\<rparr>) = black s"
  by (auto simp: grey_def black_def)

lemma visit_edges_keeps_flag:
  "visit_edges es xs s = (s', r) \<Longrightarrow> hasCycle s \<Longrightarrow> hasCycle s'"
proof (induction es xs s arbitrary: s' r rule: visit_edges.induct)
  case (1 es s)
  then show ?case by simp
next
  case (2 es x xs s)
  show ?case
  proof (cases "colour s x")
    case unvisited
    with "2.prems" have "visit_edges es xs s = (s', r)" by simp
    with "2.IH"(1) unvisited "2.prems"(2) show ?thesis by simp
  next
    case visiting
    with "2.prems" show ?thesis by auto
  next
    case visited
    with "2.prems" have "visit_edges es xs s = (s', r)" by simp
    with "2.IH"(4) visited "2.prems"(2) show ?thesis by simp
  qed
qed

lemma visit_edges_grey:
  assumes "visit_edges es xs s = (s', r)" and "\<not> hasCycle s'"
  shows "grey s' = grey s \<and> \<not> r \<and> \<not> hasCycle s"
  using assms
proof (induction es xs s arbitrary: s' r rule: visit_edges.induct)
  case (1 es s)
  then show ?case by simp
next
  case (2 es x xs s)
  have flag: "\<not> hasCycle s" using visit_edges_keeps_flag "2.prems" by blast
  show ?case
  proof (cases "colour s x")
    case unvisited
    obtain s2 r2 where v: "visit_edges es (adjacency es x) (paint x visiting s) = (s2, r2)"
      by fastforce
    let ?s3 = "if r2 then s2 else paint x visited s2"
    from "2.prems"(1) unvisited flag v have rest: "visit_edges es xs ?s3 = (s', r)" by simp
    with visit_edges_keeps_flag "2.prems"(2) have "\<not> hasCycle ?s3" by blast
    then have "\<not> hasCycle s2" by (simp split: if_splits)
    with "2.IH"(2) [OF _ unvisited flag v] unvisited
    have g2: "grey s2 = insert x (grey s)" and r2: "\<not> r2" by auto
    from "2.IH"(3) [OF _ unvisited flag v [symmetric] rest "2.prems"(2)] unvisited
    have "grey s' = grey ?s3" and "\<not> r" by auto
    moreover have "x \<notin> grey s" using unvisited by simp
    ultimately show ?thesis using g2 r2 flag by simp
  next
    case visiting
    with "2.prems" show ?thesis by auto
  next
    case visited
    with "2.prems" have "visit_edges es xs s = (s', r)" by simp
    with "2.IH"(4) visited "2.prems"(2) show ?thesis by simp
  qed
qed

lemma visit_edges_sound:
  assumes "visit_edges es xs s = (s', r)" and "hasCycle s'" and "\<not> hasCycle s"
    and "\<And>y. y \<in> grey s \<Longrightarrow> (y, u) \<in> (set es)\<^sup>*" and "\<And>x. x \<in> set xs \<Longrightarrow> (u, x) \<in> set es"
  shows "\<not> acyclic (set es)"
  using assms
proof (induction es xs s arbitrary: s' r u rule: visit_edges.induct)
  case (1 es s)
  then show ?case by simp
next
  case (2 es x xs s)
  have ux: "(u, x) \<in> set es" by (rule "2.prems"(5)) simp
  show ?case
  proof (cases "colour s x")
    case visiting
    with "2.prems"(4) ux have "(x, x) \<in> (set es)\<^sup>+" by (auto intro: rtrancl_into_trancl1)
    then show ?thesis by (auto simp: acyclic_def)
  next
    case visited
    with "2.prems" have "visit_edges es xs s = (s', r)" by simp
    moreover have "colour s x \<noteq> visiting" "colour s x \<noteq> unvisited" using visited by simp_all
    ultimately show ?thesis using "2.IH"(4) [of s' r u] "2.prems"(2-5)
      by (metis list.set_intros(2))
  next
    case unvisited
    note flag = "2.prems"(3)
    obtain s2 r2 where v: "visit_edges es (adjacency es x) (paint x visiting s) = (s2, r2)"
      by fastforce
    let ?s3 = "if r2 then s2 else paint x visited s2"
    from "2.prems"(1) unvisited flag v have rest: "visit_edges es xs ?s3 = (s', r)" by simp
    show ?thesis
    proof (cases "hasCycle s2")
      case True
      have "(y, x) \<in> (set es)\<^sup>*" if "y \<in> grey (paint x visiting s)" for y
        using that "2.prems"(4) [of y] ux
        by (cases "y = x") (auto intro: rtrancl_into_rtrancl)
      moreover have "(x, z) \<in> set es" if "z \<in> set (adjacency es x)" for z
        using that by simp
      ultimately show ?thesis
        using "2.IH"(2) [OF _ unvisited flag v True, of x] unvisited flag by (simp del: mem_grey)
    next
      case False
      from visit_edges_grey [OF v False] unvisited
      have "grey s2 = insert x (grey s)" and "\<not> r2" by auto
      moreover have "x \<notin> grey s" using unvisited by simp
      ultimately have "grey ?s3 = grey s" by simp
      moreover have "\<not> hasCycle ?s3" using False by simp
      moreover have "colour s x \<noteq> visiting" using unvisited by simp
      ultimately show ?thesis
        using "2.IH"(3) [OF _ unvisited flag v [symmetric] rest "2.prems"(2), of u]
          "2.prems"(4,5) by (simp del: mem_grey)
    qed
  qed
qed

definition dfs_done :: "edges \<Rightarrow> dfs_state \<Rightarrow> bool" where
  "dfs_done es s \<longleftrightarrow>
     (\<forall>b c. b \<in> black s \<longrightarrow> (b, c) \<in> set es \<longrightarrow> c \<in> black s) \<and>
     acyclic (set es \<inter> black s \<times> black s)"

lemma acyclic_source:
  assumes "acyclic S" and "S \<subseteq> B \<times> B" and "x \<notin> B"
  shows "acyclic (S \<union> {x} \<times> B)"
proof (rule acyclicI, intro allI notI)
  fix z
  let ?T = "S \<union> {x} \<times> B"
  have stay: "(a, b) \<in> S\<^sup>+ \<and> b \<in> B" if "(a, b) \<in> ?T\<^sup>+" "a \<in> B" for a b
    using that
  proof (induction rule: trancl_induct)
    case (base b)
    with assms(2,3) show ?case by blast
  next
    case (step b c)
    then have "(b, c) \<in> S" using assms(3) by blast
    with step assms(2) show ?case by (blast intro: trancl_into_trancl)
  qed
  assume z: "(z, z) \<in> ?T\<^sup>+"
  then obtain y where "(y, z) \<in> ?T" by (blast elim: tranclE)
  then have "z \<in> B" using assms(2) by blast
  from stay [OF z this] assms(1) show False by (simp add: acyclic_def)
qed

lemma visit_edges_complete:
  assumes "visit_edges es xs s = (s', r)" and "\<not> hasCycle s'" and "dfs_done es s"
  shows "set xs \<union> black s \<subseteq> black s' \<and> dfs_done es s'"
  using assms
proof (induction es xs s arbitrary: s' r rule: visit_edges.induct)
  case (1 es s)
  then show ?case by simp
next
  case (2 es x xs s)
  have flag: "\<not> hasCycle s" using visit_edges_keeps_flag "2.prems" by blast
  show ?case
  proof (cases "colour s x")
    case visiting
    with "2.prems" show ?thesis by auto
  next
    case visited
    with "2.prems" have "visit_edges es xs s = (s', r)" by simp
    with "2.IH"(4) visited "2.prems" have "set xs \<union> black s \<subseteq> black s' \<and> dfs_done es s'" by simp
    moreover have "x \<in> black s" using visited by simp
    ultimately show ?thesis by (simp del: mem_black) blast
  next
    case unvisited
    obtain s2 r2 where v: "visit_edges es (adjacency es x) (paint x visiting s) = (s2, r2)"
      by fastforce
    let ?s3 = "if r2 then s2 else paint x visited s2"
    from "2.prems"(1) unvisited flag v have rest: "visit_edges es xs ?s3 = (s', r)" by simp
    with visit_edges_keeps_flag "2.prems"(2) have "\<not> hasCycle ?s3" by blast
    then have f2: "\<not> hasCycle s2" by (simp split: if_splits)
    have start: "black (paint x visiting s) = black s" using unvisited by auto
    then have "dfs_done es (paint x visiting s)"
      using "2.prems"(3) unfolding dfs_done_def by metis
    with "2.IH"(2) [OF _ unvisited flag v f2] unvisited
    have sub: "set (adjacency es x) \<subseteq> black s2" "black s \<subseteq> black s2" and done2: "dfs_done es s2"
      unfolding start by simp_all
    from visit_edges_grey [OF v f2] have "x \<in> grey s2" and r2: "\<not> r2" by auto
    then have grey2: "x \<notin> black s2" by simp
    have black3: "black ?s3 = insert x (black s2)" using r2 by simp
    have "set es \<inter> black ?s3 \<times> black ?s3 \<subseteq>
        (set es \<inter> black s2 \<times> black s2) \<union> {x} \<times> black s2"
      using sub(1) grey2 done2 unfolding black3 dfs_done_def by fastforce
    moreover have "acyclic ((set es \<inter> black s2 \<times> black s2) \<union> {x} \<times> black s2)"
      using done2 grey2 by (intro acyclic_source) (auto simp: dfs_done_def)
    ultimately have "acyclic (set es \<inter> black ?s3 \<times> black ?s3)" by (rule acyclic_subset [rotated])
    then have "dfs_done es ?s3"
      using sub(1) done2 unfolding dfs_done_def black3 by fastforce
    with "2.IH"(3) [OF _ unvisited flag v [symmetric] rest "2.prems"(2)] unvisited
    have "set xs \<union> black ?s3 \<subseteq> black s' \<and> dfs_done es s'" by simp
    with sub(2) black3 show ?thesis by (metis (no_types, lifting) Un_least Un_subset_iff
        insert_subset list.simps(15) subset_trans)
  qed
qed

text \<open>The same three facts for \<open>visit\<close> and for the loop over all nodes.\<close>

definition dfs_ok :: "edges \<Rightarrow> dfs_state \<Rightarrow> bool" where
  "dfs_ok es s \<longleftrightarrow> (if hasCycle s then \<not> acyclic (set es) else grey s = {} \<and> dfs_done es s)"

lemma visit_ok:
  assumes "dfs_ok es s" and "colour s n = unvisited"
  shows "dfs_ok es (visit es n s) \<and>
    (\<not> hasCycle (visit es n s) \<longrightarrow> insert n (black s) \<subseteq> black (visit es n s))"
proof (cases "hasCycle s")
  case True
  with assms show ?thesis by (simp add: visit_def)
next
  case False
  obtain s2 r2 where v: "visit_edges es (adjacency es n) (paint n visiting s) = (s2, r2)"
    by fastforce
  let ?s3 = "if r2 then s2 else paint n visited s2"
  have vis: "visit es n s = ?s3" using False v by (simp add: visit_def)
  have start: "grey (paint n visiting s) = {n}" "black (paint n visiting s) = black s"
    using assms False by (auto simp: dfs_ok_def)
  show ?thesis
  proof (cases "hasCycle s2")
    case True
    have "\<not> acyclic (set es)"
      by (rule visit_edges_sound [OF v True, of n]) (use False start in auto)
    with True show ?thesis unfolding vis by (auto simp: dfs_ok_def)
  next
    case nocycle: False
    have one: "visit_edges es [n] s = (?s3, False)"
      using assms(2) False v by simp
    have "\<not> hasCycle ?s3" using nocycle by simp
    moreover have "grey s = {}" and "dfs_done es s" using assms(1) False by (simp_all add: dfs_ok_def)
    ultimately show ?thesis
      using visit_edges_complete [OF one] visit_edges_grey [OF one]
      unfolding vis dfs_ok_def by simp
  qed
qed

lemma visit_nodes_ok:
  assumes "dfs_ok es s"
  shows "dfs_ok es (visit_nodes es ns s) \<and> (\<not> hasCycle (visit_nodes es ns s) \<longrightarrow>
    set ns \<union> black s \<subseteq> black (visit_nodes es ns s))"
  using assms
proof (induction ns arbitrary: s)
  case Nil
  then show ?case by simp
next
  case (Cons n ns)
  show ?case
  proof (cases "colour s n")
    case unvisited
    have keep: "hasCycle (visit_nodes es ns t)" if "hasCycle t" for t
      using that by (induction ns arbitrary: t) (auto simp: visit_def)
    from visit_ok [OF Cons.prems unvisited] Cons.IH [of "visit es n s"] keep [of "visit es n s"]
      unvisited show ?thesis by auto
  next
    case visited
    then have "n \<in> black s" by simp
    moreover have "visit_nodes es (n # ns) s = visit_nodes es ns s" using visited by simp
    moreover note Cons.IH [OF Cons.prems]
    ultimately show ?thesis by (metis Un_subset_iff insert_subset list.simps(15) subsetD)
  next
    case visiting
    have keep: "hasCycle (visit_nodes es ns t)" if "hasCycle t" for t
      using that by (induction ns arbitrary: t) (auto simp: visit_def)
    from visiting Cons.prems have "hasCycle s" by (auto simp: dfs_ok_def split: if_splits)
    with visiting Cons.IH [OF Cons.prems] keep show ?thesis by simp
  qed
qed

theorem dfs_detects_cycles:
  assumes "\<And>a b. (a, b) \<in> set es \<Longrightarrow> a \<in> set ns \<and> b \<in> set ns"
  shows "has_cycle es ns \<longleftrightarrow> \<not> acyclic (set es)"
proof -
  define init where "init = \<lparr>colour = (\<lambda>_. unvisited), hasCycle = False\<rparr>"
  define fin where "fin = visit_nodes es ns init"
  have "dfs_ok es init" by (auto simp: init_def dfs_ok_def dfs_done_def grey_def black_def wf_acyclic)
  from visit_nodes_ok [OF this, of ns]
  have ok: "dfs_ok es fin" and all: "\<not> hasCycle fin \<longrightarrow> set ns \<subseteq> black fin"
    unfolding fin_def by blast+
  have "acyclic (set es)" if "\<not> hasCycle fin"
  proof -
    have "a \<in> black fin \<and> b \<in> black fin" if "(a, b) \<in> set es" for a b
      using assms [OF that] all \<open>\<not> hasCycle fin\<close> by blast
    then have "set es \<inter> black fin \<times> black fin = set es" by auto
    with ok that show ?thesis by (simp add: dfs_ok_def dfs_done_def)
  qed
  moreover have "\<not> acyclic (set es)" if "hasCycle fin" using ok that by (simp add: dfs_ok_def)
  moreover have "has_cycle es ns = hasCycle fin" by (simp add: has_cycle_def fin_def init_def)
  ultimately show ?thesis by blast
qed

end
