(* ===== verification/Validation.thy ===== *)
theory Validation
  imports Node_Config Graph
begin

text \<open>
  \<open>ValidateWorkflowDefinition\<close> (workflow_validation.go): the passes over the nodes and
  the edges of a definition, the searches of \<open>Graph\<close>, and the list of errors they
  collect in order. \<open>publishable\<close> says without reference to the passes what a
  definition must satisfy, and the two agree. \<open>uuid.Parse\<close> of the package google/uuid
  is the parameter \<open>parse_uuid\<close>.
\<close>

subsection \<open>The passes\<close>

definition verr :: "string \<Rightarrow> string \<Rightarrow> string \<Rightarrow> WorkflowValidationError" where
  "verr code msg path = \<lparr>ve_Code = code, ve_Message = msg, ve_Path = path\<rparr>"

definition at_index :: "string \<Rightarrow> nat \<Rightarrow> string" where
  "at_index what index = what @ ''['' @ itoa (int index) @ '']''"

text \<open>Go maps: a missing key of \<open>nodeIndexes\<close>, \<open>incoming\<close> or \<open>degree\<close> reads as zero.\<close>

record node_pass =
  np_nodes :: "string \<Rightarrow> WorkflowNode option"
  np_indexes :: "string \<Rightarrow> nat"
  np_triggers :: nat
  np_actions :: nat
  np_errors :: "WorkflowValidationError list"

definition is_trigger :: "WorkflowNode \<Rightarrow> bool" where
  "is_trigger n \<longleftrightarrow> dn_Type n = WorkflowNodeTrigger"

definition is_action :: "WorkflowNode \<Rightarrow> bool" where
  "is_action n \<longleftrightarrow>
     (case dn_Type n of
        WorkflowNodeTask \<Rightarrow> True | WorkflowNodeWebhook \<Rightarrow> True | WorkflowNodeDelay \<Rightarrow> True
      | WorkflowNodeCondition \<Rightarrow> True | _ \<Rightarrow> False)"

definition config_error :: "(string \<Rightarrow> uuid option) \<Rightarrow> WorkflowNode \<Rightarrow> string option" where
  "config_error parse_uuid node =
     (case dn_Type node of
        WorkflowNodeTask \<Rightarrow>
          (case parseWorkflowTaskConfig (dn_Config node) of Inl e \<Rightarrow> Some e | Inr _ \<Rightarrow> None)
      | WorkflowNodeWebhook \<Rightarrow>
          (case parseWorkflowWebhookConfig (dn_Config node) of
             Inl e \<Rightarrow> Some e
           | Inr config \<Rightarrow>
               if parse_uuid (hc_EndpointID config) = None then Some ''endpoint_id must be a UUID''
               else None)
      | WorkflowNodeDelay \<Rightarrow>
          (case parseWorkflowDelayConfig (dn_Config node) of Inl e \<Rightarrow> Some e | Inr _ \<Rightarrow> None)
      | WorkflowNodeCondition \<Rightarrow>
          (case parseWorkflowConditionConfig (dn_Config node) of Inl e \<Rightarrow> Some e | Inr _ \<Rightarrow> None)
      | _ \<Rightarrow> None)"

definition node_id_errors :: "nat \<Rightarrow> WorkflowNode \<Rightarrow> node_pass \<Rightarrow> WorkflowValidationError list" where
  "node_id_errors index node st =
     (if dn_ID node = [] then
        [verr ''node_id_required'' ''node id is required'' (at_index ''nodes'' index @ ''.id'')]
      else if np_nodes st (dn_ID node) \<noteq> None then
        [verr ''duplicate_node_id'' ''node id must be unique'' (at_index ''nodes'' index @ ''.id'')]
      else [])"

definition node_type_errors ::
  "(string \<Rightarrow> uuid option) \<Rightarrow> nat \<Rightarrow> WorkflowNode \<Rightarrow> WorkflowValidationError list" where
  "node_type_errors parse_uuid index node =
     (if node_type_valid (dn_Type node) then []
      else [verr ''unsupported_node_type'' ''node type is not supported''
              (at_index ''nodes'' index @ ''.type'')]) @
     (if dn_Config node = None then
        [verr ''unsupported_config_shape'' ''node config must be an object''
           (at_index ''nodes'' index @ ''.config'')]
      else
        case config_error parse_uuid node of
          None \<Rightarrow> []
        | Some e \<Rightarrow> [verr ''invalid_node_config'' e (at_index ''nodes'' index @ ''.config'')])"

definition check_node ::
  "(string \<Rightarrow> uuid option) \<Rightarrow> nat \<Rightarrow> WorkflowNode \<Rightarrow> node_pass \<Rightarrow> node_pass" where
  "check_node parse_uuid index node st =
     (let fresh = dn_ID node \<noteq> [] \<and> np_nodes st (dn_ID node) = None in
      \<lparr>np_nodes = (if fresh then (np_nodes st)(dn_ID node := Some node) else np_nodes st),
       np_indexes = (if fresh then (np_indexes st)(dn_ID node := index) else np_indexes st),
       np_triggers = (if is_trigger node then np_triggers st + 1 else np_triggers st),
       np_actions = (if is_action node then np_actions st + 1 else np_actions st),
       np_errors =
         np_errors st @ node_id_errors index node st @ node_type_errors parse_uuid index node\<rparr>)"

fun check_nodes ::
  "(string \<Rightarrow> uuid option) \<Rightarrow> nat \<Rightarrow> WorkflowNode list \<Rightarrow> node_pass \<Rightarrow> node_pass" where
  "check_nodes parse_uuid index [] st = st"
| "check_nodes parse_uuid index (node # nodes) st =
     check_nodes parse_uuid (index + 1) nodes (check_node parse_uuid index node st)"

record edge_pass =
  ep_ids :: "string list"
  ep_pairs :: "string list"
  ep_accepted :: edges
  ep_incoming :: "string \<Rightarrow> nat"
  ep_degree :: "string \<Rightarrow> nat"
  ep_errors :: "WorkflowValidationError list"

definition edge_pair :: "WorkflowEdge \<Rightarrow> string" where
  "edge_pair edge = e_From edge @ [CHR 0x00] @ e_To edge"

definition object_or_null :: "raw \<Rightarrow> bool" where
  "object_or_null c \<longleftrightarrow>
     (case c of RawNil \<Rightarrow> True | RawDoc JNull \<Rightarrow> True | RawDoc (JObj _) \<Rightarrow> True | _ \<Rightarrow> False)"

definition from_condition :: "(string \<Rightarrow> WorkflowNode option) \<Rightarrow> WorkflowEdge \<Rightarrow> bool" where
  "from_condition nodes edge \<longleftrightarrow>
     (case nodes (e_From edge) of
        None \<Rightarrow> False
      | Some source \<Rightarrow> dn_Type source = WorkflowNodeCondition)"

definition edge_errors ::
  "(string \<Rightarrow> WorkflowNode option) \<Rightarrow> nat \<Rightarrow> WorkflowEdge \<Rightarrow> edge_pass \<Rightarrow> WorkflowValidationError list" where
  "edge_errors nodes index edge st =
     (let path = at_index ''edges'' index in
      (if e_ID edge = [] then [verr ''edge_id_required'' ''edge id is required'' (path @ ''.id'')]
       else if e_ID edge \<in> set (ep_ids st)
       then [verr ''duplicate_edge_id'' ''edge id must be unique'' (path @ ''.id'')]
       else []) @
      (if nodes (e_From edge) = None
       then [verr ''invalid_edge_reference'' ''edge source must reference an existing node'' (path @ ''.from'')]
       else []) @
      (if nodes (e_To edge) = None
       then [verr ''invalid_edge_reference'' ''edge target must reference an existing node'' (path @ ''.to'')]
       else []) @
      (if e_From edge \<noteq> [] \<and> e_From edge = e_To edge
       then [verr ''self_loop'' ''self-loop edges are not allowed'' (path @ ''.to'')]
       else []) @
      (if edge_pair edge \<in> set (ep_pairs st)
       then [verr ''duplicate_edge'' ''duplicate edges between the same nodes are not allowed'' path]
       else []) @
      (if object_or_null (e_Condition edge) then []
       else [verr ''unsupported_config_shape'' ''edge condition must be an object or null''
               (path @ ''.condition'')]) @
      (if from_condition nodes edge then
         (case parseWorkflowBranch (e_Condition edge) of
            Inl e \<Rightarrow> [verr ''invalid_condition_branch'' e (path @ ''.condition'')]
          | Inr _ \<Rightarrow> [])
       else []))"

definition check_edge ::
  "(string \<Rightarrow> WorkflowNode option) \<Rightarrow> nat \<Rightarrow> WorkflowEdge \<Rightarrow> edge_pass \<Rightarrow> edge_pass" where
  "check_edge nodes index edge st =
     (let from = e_From edge; to = e_To edge;
          accepted = nodes from \<noteq> None \<and> nodes to \<noteq> None;
          incoming = ep_incoming st; degree = ep_degree st;
          degree' = degree(from := degree from + 1) in
      \<lparr>ep_ids = (if e_ID edge = [] \<or> e_ID edge \<in> set (ep_ids st) then ep_ids st
                 else ep_ids st @ [e_ID edge]),
       ep_pairs = (if edge_pair edge \<in> set (ep_pairs st) then ep_pairs st
                   else ep_pairs st @ [edge_pair edge]),
       ep_accepted = (if accepted then ep_accepted st @ [(from, to)] else ep_accepted st),
       ep_incoming = (if accepted then incoming(to := incoming to + 1) else incoming),
       ep_degree = (if accepted then degree'(to := degree' to + 1) else degree),
       ep_errors = ep_errors st @ edge_errors nodes index edge st\<rparr>)"

fun check_edges ::
  "(string \<Rightarrow> WorkflowNode option) \<Rightarrow> nat \<Rightarrow> WorkflowEdge list \<Rightarrow> edge_pass \<Rightarrow> edge_pass" where
  "check_edges nodes index [] st = st"
| "check_edges nodes index (edge # edges) st =
     check_edges nodes (index + 1) edges (check_edge nodes index edge st)"

text \<open>
  The later passes visit a node only at the index \<open>nodeIndexes\<close> holds for its id. An
  id the first pass did not record reads as index zero.
\<close>

fun indexed_nodes :: "(string \<Rightarrow> nat) \<Rightarrow> nat \<Rightarrow> WorkflowNode list \<Rightarrow> (nat \<times> WorkflowNode) list" where
  "indexed_nodes indexes index [] = []"
| "indexed_nodes indexes index (node # nodes) =
     (if indexes (dn_ID node) \<noteq> index then indexed_nodes indexes (index + 1) nodes
      else (index, node) # indexed_nodes indexes (index + 1) nodes)"

definition degree_errors ::
  "(string \<Rightarrow> nat) \<Rightarrow> (string \<Rightarrow> nat) \<Rightarrow> nat \<times> WorkflowNode \<Rightarrow> WorkflowValidationError list" where
  "degree_errors incoming degree indexed =
     (case indexed of (index, node) \<Rightarrow>
        (if is_trigger node \<and> 0 < incoming (dn_ID node)
         then [verr ''trigger_has_incoming_edge'' ''trigger nodes cannot have incoming edges''
                 (at_index ''nodes'' index)]
         else []) @
        (if degree (dn_ID node) = 0
         then [verr ''orphan_node'' ''publishable workflows cannot contain isolated nodes''
                 (at_index ''nodes'' index)]
         else []))"

definition reach_errors :: "string list \<Rightarrow> nat \<times> WorkflowNode \<Rightarrow> WorkflowValidationError list" where
  "reach_errors reachable indexed =
     (case indexed of (index, node) \<Rightarrow>
        if \<not> is_trigger node \<and> dn_ID node \<notin> set reachable
        then [verr ''unreachable_node'' ''non-trigger nodes must be reachable from a trigger''
                (at_index ''nodes'' index)]
        else [])"

definition ValidateWorkflowDefinition ::
  "(string \<Rightarrow> uuid option) \<Rightarrow> WorkflowDefinition \<Rightarrow> WorkflowValidationResult" where
  "ValidateWorkflowDefinition parse_uuid definition =
     (let missing =
            (if d_Nodes definition = None
             then [verr ''nodes_required'' ''definition must include a nodes array'' ''nodes''] else []) @
            (if d_Edges definition = None
             then [verr ''edges_required'' ''definition must include an edges array'' ''edges''] else []);
          nodes = elems (d_Nodes definition);
          np = check_nodes parse_uuid 0 nodes
                 \<lparr>np_nodes = (\<lambda>_. None), np_indexes = (\<lambda>_. 0), np_triggers = 0, np_actions = 0,
                  np_errors = missing\<rparr>;
          counts =
            (if np_triggers np = 0
             then [verr ''missing_trigger'' ''workflow must contain at least one trigger node'' ''nodes'']
             else []) @
            (if np_actions np = 0
             then [verr ''missing_action'' ''workflow must contain at least one executable or action node''
                     ''nodes'']
             else []);
          ep = check_edges (np_nodes np) 0 (elems (d_Edges definition))
                 \<lparr>ep_ids = [], ep_pairs = [], ep_accepted = [], ep_incoming = (\<lambda>_. 0), ep_degree = (\<lambda>_. 0),
                  ep_errors = np_errors np @ counts\<rparr>;
          indexed = indexed_nodes (np_indexes np) 0 nodes;
          triggers = map (dn_ID \<circ> snd) (filter (is_trigger \<circ> snd) indexed);
          reachable = bfs (ep_accepted ep) triggers triggers;
          errors =
            ep_errors ep @
            concat (map (degree_errors (ep_incoming ep) (ep_degree ep)) indexed) @
            concat (map (reach_errors reachable) indexed) @
            (if has_cycle (ep_accepted ep) (map dn_ID nodes)
             then [verr ''cycle_detected'' ''workflow graph must be acyclic'' ''edges''] else [])
      in \<lparr>vr_Valid = (errors = []), vr_Errors = errors\<rparr>)"

subsection \<open>What a publishable definition is\<close>

definition node_ok :: "(string \<Rightarrow> uuid option) \<Rightarrow> WorkflowNode \<Rightarrow> bool" where
  "node_ok parse_uuid n \<longleftrightarrow>
     dn_ID n \<noteq> [] \<and> node_type_valid (dn_Type n) \<and> dn_Config n \<noteq> None \<and> config_error parse_uuid n = None"

definition edge_ok :: "WorkflowNode list \<Rightarrow> WorkflowEdge \<Rightarrow> bool" where
  "edge_ok nodes e \<longleftrightarrow>
     e_ID e \<noteq> [] \<and> e_From e \<in> dn_ID ` set nodes \<and> e_To e \<in> dn_ID ` set nodes \<and>
     e_From e \<noteq> e_To e \<and> object_or_null (e_Condition e) \<and>
     (\<forall>n \<in> set nodes. dn_ID n = e_From e \<longrightarrow> dn_Type n = WorkflowNodeCondition \<longrightarrow>
        (\<exists>b. parseWorkflowBranch (e_Condition e) = Inr b))"

definition flow :: "WorkflowEdge list \<Rightarrow> (string \<times> string) set" where
  "flow edges = (\<lambda>e. (e_From e, e_To e)) ` set edges"

text \<open>
  Every node and every edge is well formed, ids are distinct, no two edges join the
  same pair of nodes, triggers start the flow and everything else is reached from
  one, and the flow has no cycle.
\<close>

definition publishable :: "(string \<Rightarrow> uuid option) \<Rightarrow> WorkflowNode list \<Rightarrow> WorkflowEdge list \<Rightarrow> bool" where
  "publishable parse_uuid nodes edges \<longleftrightarrow>
     (\<forall>n \<in> set nodes. node_ok parse_uuid n) \<and> distinct (map dn_ID nodes) \<and>
     (\<exists>n \<in> set nodes. is_trigger n) \<and> (\<exists>n \<in> set nodes. is_action n) \<and>
     (\<forall>e \<in> set edges. edge_ok nodes e) \<and> distinct (map e_ID edges) \<and>
     distinct (map edge_pair edges) \<and>
     (\<forall>n \<in> set nodes. is_trigger n \<longrightarrow> dn_ID n \<notin> Range (flow edges)) \<and>
     (\<forall>n \<in> set nodes. dn_ID n \<in> Field (flow edges)) \<and>
     (\<forall>n \<in> set nodes. \<not> is_trigger n \<longrightarrow>
        (\<exists>t \<in> set nodes. is_trigger t \<and> (dn_ID t, dn_ID n) \<in> (flow edges)\<^sup>*)) \<and>
     acyclic (flow edges)"

subsection \<open>The node pass\<close>

lemma node_type_errors_empty [simp]:
  "node_type_errors p i n = [] \<longleftrightarrow>
     node_type_valid (dn_Type n) \<and> dn_Config n \<noteq> None \<and> config_error p n = None"
  by (auto simp: node_type_errors_def split: option.splits)

lemma node_id_errors_empty [simp]:
  "node_id_errors i n st = [] \<longleftrightarrow> dn_ID n \<noteq> [] \<and> np_nodes st (dn_ID n) = None"
  by (auto simp: node_id_errors_def)

lemma check_nodes_errors:
  "np_errors (check_nodes p i ns st) = [] \<longleftrightarrow>
     np_errors st = [] \<and> (\<forall>n \<in> set ns. node_ok p n) \<and> distinct (map dn_ID ns) \<and>
     (\<forall>n \<in> set ns. np_nodes st (dn_ID n) = None)"
proof (induction ns arbitrary: i st)
  case Nil
  then show ?case by simp
next
  case (Cons n ns)
  show ?case
    by (simp add: Cons.IH) (auto simp: check_node_def node_ok_def Let_def, (metis image_eqI)+)
qed

lemma check_nodes_counts:
  "np_triggers (check_nodes p i ns st) = np_triggers st + length (filter is_trigger ns)"
  "np_actions (check_nodes p i ns st) = np_actions st + length (filter is_action ns)"
  by (induction ns arbitrary: i st) (simp_all add: check_node_def Let_def)

lemma check_nodes_other:
  "x \<notin> dn_ID ` set ns \<Longrightarrow>
     np_nodes (check_nodes p i ns st) x = np_nodes st x \<and>
     np_indexes (check_nodes p i ns st) x = np_indexes st x"
  by (induction ns arbitrary: i st) (auto simp: check_node_def Let_def)

lemma check_nodes_recorded:
  assumes "distinct (map dn_ID ns)" and "\<forall>n \<in> set ns. dn_ID n \<noteq> [] \<and> np_nodes st (dn_ID n) = None"
    and "k < length ns"
  shows "np_nodes (check_nodes p i ns st) (dn_ID (ns ! k)) = Some (ns ! k) \<and>
    np_indexes (check_nodes p i ns st) (dn_ID (ns ! k)) = i + k"
  using assms
proof (induction ns arbitrary: i st k)
  case Nil
  then show ?case by simp
next
  case (Cons n ns)
  let ?st = "check_node p i n st"
  show ?case
  proof (cases k)
    case 0
    have "dn_ID n \<notin> dn_ID ` set ns" using Cons.prems(1) by simp
    from check_nodes_other [OF this, of p "i + 1" ?st] show ?thesis
      using Cons.prems(2) 0 by (simp add: check_node_def Let_def)
  next
    case (Suc j)
    have "\<forall>n' \<in> set ns. dn_ID n' \<noteq> [] \<and> np_nodes ?st (dn_ID n') = None"
      using Cons.prems(1,2) by (auto simp: check_node_def Let_def) (metis image_eqI)
    from Cons.IH [OF _ this, of j "i + 1"] Cons.prems(1,3) Suc show ?thesis by simp
  qed
qed

lemma indexed_nodes_all:
  "(\<And>k. k < length ns \<Longrightarrow> indexes (dn_ID (ns ! k)) = i + k) \<Longrightarrow> map snd (indexed_nodes indexes i ns) = ns"
proof (induction ns arbitrary: i)
  case Nil
  then show ?case by simp
next
  case (Cons n ns)
  have "indexes (dn_ID n) = i" using Cons.prems [of 0] by simp
  moreover have "indexes (dn_ID (ns ! k)) = i + 1 + k" if "k < length ns" for k
    using Cons.prems [of "Suc k"] that by simp
  ultimately show ?case using Cons.IH [of "i + 1"] by simp
qed

subsection \<open>The edge pass\<close>

text \<open>An edge as the pass sees it, with the recorded nodes \<open>N\<close>.\<close>

definition edge_ok_in :: "(string \<Rightarrow> WorkflowNode option) \<Rightarrow> WorkflowEdge \<Rightarrow> bool" where
  "edge_ok_in N e \<longleftrightarrow>
     e_ID e \<noteq> [] \<and> N (e_From e) \<noteq> None \<and> N (e_To e) \<noteq> None \<and>
     (e_From e = [] \<or> e_From e \<noteq> e_To e) \<and> object_or_null (e_Condition e) \<and>
     (from_condition N e \<longrightarrow> (\<exists>b. parseWorkflowBranch (e_Condition e) = Inr b))"

lemma edge_errors_empty:
  "edge_errors N i e st = [] \<longleftrightarrow>
     edge_ok_in N e \<and> e_ID e \<notin> set (ep_ids st) \<and> edge_pair e \<notin> set (ep_pairs st)"
  unfolding edge_errors_def edge_ok_in_def Let_def
  by (auto split: sum.split_asm if_splits)

lemma check_edges_errors:
  "ep_errors (check_edges N i es st) = [] \<longleftrightarrow>
     ep_errors st = [] \<and> (\<forall>e \<in> set es. edge_ok_in N e) \<and>
     distinct (map e_ID es) \<and> (\<forall>e \<in> set es. e_ID e \<notin> set (ep_ids st)) \<and>
     distinct (map edge_pair es) \<and> (\<forall>e \<in> set es. edge_pair e \<notin> set (ep_pairs st))"
proof (induction es arbitrary: i st)
  case Nil
  then show ?case by simp
next
  case (Cons e es)
  have "ep_errors (check_edge N i e st) = [] \<longleftrightarrow> ep_errors st = [] \<and> edge_errors N i e st = []"
    by (simp add: check_edge_def Let_def)
  moreover have "ep_ids (check_edge N i e st) = ep_ids st @ [e_ID e] \<and>
      ep_pairs (check_edge N i e st) = ep_pairs st @ [edge_pair e]" if "edge_errors N i e st = []"
    using that by (auto simp: check_edge_def Let_def edge_errors_empty edge_ok_in_def)
  ultimately show ?case
    by (simp add: Cons.IH) (auto simp: edge_errors_empty, (metis image_eqI)+)
qed

lemma check_edges_accepted:
  assumes "\<forall>e \<in> set es. N (e_From e) \<noteq> None \<and> N (e_To e) \<noteq> None"
  shows "ep_accepted (check_edges N i es st) = ep_accepted st @ map (\<lambda>e. (e_From e, e_To e)) es"
    and "ep_incoming (check_edges N i es st) x =
      ep_incoming st x + length (filter (\<lambda>e. e_To e = x) es)"
    and "ep_degree (check_edges N i es st) x =
      ep_degree st x + length (filter (\<lambda>e. e_From e = x) es) + length (filter (\<lambda>e. e_To e = x) es)"
  using assms by (induction es arbitrary: i st) (auto simp: check_edge_def Let_def)

subsection \<open>The passes decide publishability\<close>

text \<open>What the node pass leaves behind when it found no error.\<close>

abbreviation node_pass_start :: "WorkflowValidationError list \<Rightarrow> node_pass" where
  "node_pass_start es \<equiv>
     \<lparr>np_nodes = (\<lambda>_. None), np_indexes = (\<lambda>_. 0), np_triggers = 0, np_actions = 0, np_errors = es\<rparr>"

abbreviation edge_pass_start :: "WorkflowValidationError list \<Rightarrow> edge_pass" where
  "edge_pass_start es \<equiv>
     \<lparr>ep_ids = [], ep_pairs = [], ep_accepted = [], ep_incoming = (\<lambda>_. 0), ep_degree = (\<lambda>_. 0), ep_errors = es\<rparr>"

lemma node_pass_nodes:
  fixes es :: "WorkflowValidationError list"
  assumes "\<forall>n \<in> set ns. node_ok p n" and "distinct (map dn_ID ns)"
  defines "np \<equiv> check_nodes p 0 ns (node_pass_start es)"
  shows "n \<in> set ns \<Longrightarrow> np_nodes np (dn_ID n) = Some n"
    and "np_nodes np x \<noteq> None \<longleftrightarrow> x \<in> dn_ID ` set ns"
    and "map snd (indexed_nodes (np_indexes np) 0 ns) = ns"
proof -
  have fresh: "\<forall>n \<in> set ns. dn_ID n \<noteq> [] \<and> np_nodes (node_pass_start es) (dn_ID n) = None"
    using assms(1) by (simp add: node_ok_def)
  note rec = check_nodes_recorded [OF assms(2) fresh, of _ p 0, folded np_def]
  show some: "np_nodes np (dn_ID n) = Some n" if "n \<in> set ns" for n
    using rec that by (metis in_set_conv_nth)
  have "np_nodes np x = None" if "x \<notin> dn_ID ` set ns"
    using check_nodes_other [OF that, of p 0 "node_pass_start es"] by (simp add: np_def)
  with some show "np_nodes np x \<noteq> None \<longleftrightarrow> x \<in> dn_ID ` set ns" by fastforce
  show "map snd (indexed_nodes (np_indexes np) 0 ns) = ns"
    by (rule indexed_nodes_all) (use rec in simp)
qed

lemma edge_ok_in_iff:
  assumes "\<forall>n \<in> set ns. node_ok p n" and "distinct (map dn_ID ns)"
  shows "edge_ok_in (np_nodes (check_nodes p 0 ns (node_pass_start es))) e \<longleftrightarrow> edge_ok ns e"
    (is "edge_ok_in ?N e \<longleftrightarrow> _")
proof -
  note N = node_pass_nodes [OF assms, where es = es]
  have "from_condition ?N e \<longleftrightarrow> (\<exists>n \<in> set ns. dn_ID n = e_From e \<and> dn_Type n = WorkflowNodeCondition)"
  proof (cases "e_From e \<in> dn_ID ` set ns")
    case True
    then obtain n where n: "n \<in> set ns" "dn_ID n = e_From e" by auto
    have some: "?N (e_From e) = Some n" using N(1) [OF n(1)] n(2) by simp
    then have same: "m = n" if "m \<in> set ns" "dn_ID m = e_From e" for m
      using N(1) [OF that(1)] that(2) by simp
    have "from_condition ?N e \<longleftrightarrow> dn_Type n = WorkflowNodeCondition"
      by (simp add: from_condition_def some)
    also have "\<dots> \<longleftrightarrow> (\<exists>n \<in> set ns. dn_ID n = e_From e \<and> dn_Type n = WorkflowNodeCondition)"
      using n same by blast
    finally show ?thesis .
  next
    case False
    with N(2) have "?N (e_From e) = None" by blast
    with False show ?thesis by (simp add: from_condition_def) (metis image_eqI)
  qed
  moreover have "e_From e \<noteq> []" if "e_From e \<in> dn_ID ` set ns"
    using that assms(1) by (auto simp: node_ok_def)
  ultimately show ?thesis
    unfolding edge_ok_in_def edge_ok_def N(2) by blast
qed

lemma degree_errors_empty:
  "degree_errors inc deg x = [] \<longleftrightarrow>
     (is_trigger (snd x) \<longrightarrow> inc (dn_ID (snd x)) = 0) \<and> 0 < deg (dn_ID (snd x))"
  by (cases x) (auto simp: degree_errors_def)

lemma reach_errors_empty:
  "reach_errors rs x = [] \<longleftrightarrow> is_trigger (snd x) \<or> dn_ID (snd x) \<in> set rs"
  by (cases x) (auto simp: reach_errors_def)

lemma filter_count_pos: "0 < length (filter P xs) \<longleftrightarrow> (\<exists>x \<in> set xs. P x)"
  by (induction xs) auto

text \<open>The last three groups of errors, once nodes and edges are well formed.\<close>

lemma graph_errors_empty:
  fixes errs errs' :: "WorkflowValidationError list"
  assumes nodes: "\<forall>n \<in> set ns. node_ok p n" "distinct (map dn_ID ns)"
    and edges: "\<forall>e \<in> set es. edge_ok ns e"
  defines "np \<equiv> check_nodes p 0 ns (node_pass_start errs)"
  defines "ep \<equiv> check_edges (np_nodes np) 0 es (edge_pass_start errs')"
  defines "indexed \<equiv> indexed_nodes (np_indexes np) 0 ns"
  defines "triggers \<equiv> map (dn_ID \<circ> snd) (filter (is_trigger \<circ> snd) indexed)"
  shows "(\<forall>x \<in> set indexed. degree_errors (ep_incoming ep) (ep_degree ep) x = []) \<longleftrightarrow>
      (\<forall>n \<in> set ns. is_trigger n \<longrightarrow> dn_ID n \<notin> Range (flow es)) \<and>
      (\<forall>n \<in> set ns. dn_ID n \<in> Field (flow es))"
    and "(\<forall>x \<in> set indexed. reach_errors (bfs (ep_accepted ep) triggers triggers) x = []) \<longleftrightarrow>
      (\<forall>n \<in> set ns. \<not> is_trigger n \<longrightarrow>
        (\<exists>t \<in> set ns. is_trigger t \<and> (dn_ID t, dn_ID n) \<in> (flow es)\<^sup>*))"
    and "has_cycle (ep_accepted ep) (map dn_ID ns) \<longleftrightarrow> \<not> acyclic (flow es)"
proof -
  note N = node_pass_nodes [OF nodes, where es = errs, folded np_def]
  have ix: "map snd indexed = ns" using N(3) by (simp add: indexed_def)
  have "\<forall>e \<in> set es. np_nodes np (e_From e) \<noteq> None \<and> np_nodes np (e_To e) \<noteq> None"
    using edges N(2) by (auto simp: edge_ok_def)
  note acc = check_edges_accepted [OF this, of 0 "edge_pass_start errs'", folded ep_def]
  have fl: "set (ep_accepted ep) = flow es" using acc(1) by (simp add: flow_def)
  have all: "set ns = snd ` set indexed" using ix by (metis set_map)
  have inc: "ep_incoming ep x = 0 \<longleftrightarrow> x \<notin> Range (flow es)" for x
    using acc(2) [of x] filter_count_pos [of "\<lambda>e. e_To e = x" es]
    by (auto simp: flow_def Range_iff filter_empty_conv)
  have deg: "0 < ep_degree ep x \<longleftrightarrow> x \<in> Field (flow es)" for x
    using acc(3) [of x] filter_count_pos [of "\<lambda>e. e_From e = x" es]
      filter_count_pos [of "\<lambda>e. e_To e = x" es]
    by (auto simp: flow_def Field_def Range_iff Domain_iff)
  show "(\<forall>x \<in> set indexed. degree_errors (ep_incoming ep) (ep_degree ep) x = []) \<longleftrightarrow>
      (\<forall>n \<in> set ns. is_trigger n \<longrightarrow> dn_ID n \<notin> Range (flow es)) \<and>
      (\<forall>n \<in> set ns. dn_ID n \<in> Field (flow es))"
    unfolding degree_errors_empty inc deg all ball_simps by blast
  have "triggers = map dn_ID (filter is_trigger (map snd indexed))"
    by (simp add: triggers_def filter_map)
  then have trig: "set triggers = dn_ID ` {t \<in> set ns. is_trigger t}" by (simp add: ix)
  show "(\<forall>x \<in> set indexed. reach_errors (bfs (ep_accepted ep) triggers triggers) x = []) \<longleftrightarrow>
      (\<forall>n \<in> set ns. \<not> is_trigger n \<longrightarrow>
        (\<exists>t \<in> set ns. is_trigger t \<and> (dn_ID t, dn_ID n) \<in> (flow es)\<^sup>*))"
    unfolding reach_errors_empty bfs_reaches fl trig unfolding all ball_simps bex_simps by blast
  have "a \<in> set (map dn_ID ns) \<and> b \<in> set (map dn_ID ns)" if "(a, b) \<in> set (ep_accepted ep)" for a b
    using that edges by (auto simp: fl flow_def edge_ok_def)
  from dfs_detects_cycles [of "ep_accepted ep" "map dn_ID ns", OF this] show "has_cycle (ep_accepted ep) (map dn_ID ns) \<longleftrightarrow> \<not> acyclic (flow es)"
    by (simp add: fl)
qed

lemma concat_map_empty: "concat (map f xs) = [] \<longleftrightarrow> (\<forall>x \<in> set xs. f x = [])"
  by auto

lemma valid_publishable:
  "vr_Valid (ValidateWorkflowDefinition p d) \<longleftrightarrow>
     (\<exists>nodes edges. d_Nodes d = Some nodes \<and> d_Edges d = Some edges \<and> publishable p nodes edges)"
proof (cases "d_Nodes d = None \<or> d_Edges d = None")
  case True
  then show ?thesis
    by (auto simp: ValidateWorkflowDefinition_def Let_def check_nodes_errors check_edges_errors)
next
  case False
  then obtain ns es where d: "d_Nodes d = Some ns" "d_Edges d = Some es" by auto
  let ?np = "check_nodes p 0 ns (node_pass_start [])"
  define counts where "counts =
    (if np_triggers ?np = 0
     then [verr ''missing_trigger'' ''workflow must contain at least one trigger node'' ''nodes''] else []) @
    (if np_actions ?np = 0
     then [verr ''missing_action'' ''workflow must contain at least one executable or action node'' ''nodes'']
     else [])"
  let ?ep = "check_edges (np_nodes ?np) 0 es (edge_pass_start (np_errors ?np @ counts))"
  define indexed where "indexed = indexed_nodes (np_indexes ?np) 0 ns"
  define triggers where "triggers = map (dn_ID \<circ> snd) (filter (is_trigger \<circ> snd) indexed)"
  have valid: "vr_Valid (ValidateWorkflowDefinition p d) \<longleftrightarrow> ep_errors ?ep = [] \<and>
      (\<forall>x \<in> set indexed. degree_errors (ep_incoming ?ep) (ep_degree ?ep) x = []) \<and>
      (\<forall>x \<in> set indexed. reach_errors (bfs (ep_accepted ?ep) triggers triggers) x = []) \<and>
      \<not> has_cycle (ep_accepted ?ep) (map dn_ID ns)"
    unfolding ValidateWorkflowDefinition_def Let_def d counts_def indexed_def triggers_def
    by (simp add: concat_map_empty)
  have "counts = [] \<longleftrightarrow> (\<exists>n \<in> set ns. is_trigger n) \<and> (\<exists>n \<in> set ns. is_action n)"
    by (auto simp: counts_def check_nodes_counts filter_empty_conv)
  then have errs: "ep_errors ?ep = [] \<longleftrightarrow>
      (\<forall>n \<in> set ns. node_ok p n) \<and> distinct (map dn_ID ns) \<and>
      (\<exists>n \<in> set ns. is_trigger n) \<and> (\<exists>n \<in> set ns. is_action n) \<and>
      (\<forall>e \<in> set es. edge_ok_in (np_nodes ?np) e) \<and> distinct (map e_ID es) \<and> distinct (map edge_pair es)"
    by (auto simp: check_edges_errors check_nodes_errors)
  show ?thesis
  proof (cases "(\<forall>n \<in> set ns. node_ok p n) \<and> distinct (map dn_ID ns) \<and> (\<forall>e \<in> set es. edge_ok ns e)")
    case True
    then have ok: "\<forall>n \<in> set ns. node_ok p n" "distinct (map dn_ID ns)" "\<forall>e \<in> set es. edge_ok ns e"
      by blast+
    show ?thesis
      using graph_errors_empty [OF ok, of "[]" "np_errors ?np @ counts", folded indexed_def, folded triggers_def]
      unfolding valid errs edge_ok_in_iff [OF ok(1,2)] by (simp add: d publishable_def ok)
  next
    case False
    then have "\<not> publishable p ns es" unfolding publishable_def by blast
    moreover have "ep_errors ?ep \<noteq> []"
      using False edge_ok_in_iff [of ns p "[]"] unfolding errs by blast
    ultimately show ?thesis unfolding valid by (simp add: d)
  qed
qed

text \<open>
  C1. A definition is reported valid exactly when it has a nodes and an edges array
  and these are publishable: unique non-empty ids, supported node types with accepted
  configurations, a trigger and an action, edges between existing distinct nodes with
  distinct pairs and readable conditions, no edge into a trigger, no isolated node,
  everything reachable from a trigger, and no cycle.
\<close>

theorem validate_iff_publishable:
  "vr_Valid (ValidateWorkflowDefinition p d) \<longleftrightarrow>
     (\<exists>nodes edges. d_Nodes d = Some nodes \<and> d_Edges d = Some edges \<and> publishable p nodes edges)"
  by (rule valid_publishable)

end
