(* ===== verification/Exec_Progress.thy ===== *)
theory Exec_Progress
  imports Exec_Claims Validation
begin




lemma last_of_found: "a \<in> set as \<Longrightarrow> \<exists>b. last_of f as (f a) = Some b"
  unfolding last_of_def by (cases "find (\<lambda>x. f x = f a) (rev as)") (auto simp: find_None_iff)

lemma condition_output_result [simp]: "workflowConditionResult (condition_output b) = Inr b"
  by (simp add: workflowConditionResult_def condition_output_def)








end
