(* ===== verification/Engine.thy ===== *)
theory Engine
  imports Task_Service
begin

text \<open>
  The engine that runs the handler of a claimed task and applies the retry policy
  (engine.go), the body of each of its background loops, and the part of a worker pool
  that claims and processes one message (pool.go). A handler is code of the user: what a
  run of it does is a parameter.
\<close>

subsection \<open>Handlers\<close>

text \<open>
  A run returns nil or an error, does not return before its context is done, or panics.
  \<open>runHandler\<close> calls the handler in a goroutine of its own, so the deferred \<open>recover\<close>
  of \<open>runHandler\<close> does not see a panic of the handler: the process ends, which is \<open>None\<close>.
\<close>

datatype handler_run = Returned "string option" | ContextDone string | Panicked string

fun runHandler :: "handler_run \<Rightarrow> string option option" where
  "runHandler (Returned e) = Some e"
| "runHandler (ContextDone e) = Some (Some (''task execution timeout: '' @ e))"
| "runHandler (Panicked _) = None"

text \<open>What a run does may depend on its deadline, the payload and the moment it starts.\<close>

type_synonym handler = "int \<Rightarrow> raw \<Rightarrow> nat \<Rightarrow> handler_run"

record engine =
  en_retryPolicy :: RetryPolicy
  en_taskTimeout :: int
  en_wiring :: wiring

record engine_result =
  er_TaskID :: uuid
  er_Outcome :: string
  er_Err :: "err option"

subsection \<open>Metrics and events\<close>

definition metric_duration :: "MetricEventType \<Rightarrow> time \<Rightarrow> time \<Rightarrow> int option" where
  "metric_duration eventType now updatedAt =
     (if eventType = MetricTaskSucceeded \<or> eventType = MetricTaskFailed
      then Some (max 0 (milliseconds (now - updatedAt)))
      else None)"

definition recordTaskMetric :: "env \<Rightarrow> Task \<Rightarrow> MetricEventType \<Rightarrow> time \<Rightarrow> string \<Rightarrow> unit io" where
  "recordTaskMetric E task eventType now errorCode =
     Record E
       \<lparr>mi_OrganizationID = t_OrgID task, mi_Source = MetricSourceQueueFlow,
        mi_EventType = eventType, mi_ResourceType = MetricResourceTask,
        mi_ResourceID = uuid_text E (t_ID task), mi_Queue = t_Queue task,
        mi_Status = task_status_text (t_Status task),
        mi_DurationMS = metric_duration eventType now (t_UpdatedAt task), mi_OccurredAt = now,
        mi_Metadata = no_metadata\<lparr>mm_Attempt := Some (t_Attempts task),
                                  mm_MaxAttempts := Some (t_MaxAttempts task),
                                  mm_ErrorCode := errorCode\<rparr>,
        mi_TransitionKey = MetricTransitionKey (t_Attempts task) eventType\<rparr>"

definition PublishProcessingEvent :: "env \<Rightarrow> engine \<Rightarrow> Task \<Rightarrow> unit io" where
  "PublishProcessingEvent E e task = do {
     now \<leftarrow> time_now E;
     recordTaskMetric E task MetricTaskStarted now [];
     publishTaskEvent E (en_wiring e) WebhookEventTaskProcessing task }"

subsection \<open>Backoff\<close>

definition nextBackoff :: "engine \<Rightarrow> Task \<Rightarrow> int" where
  "nextBackoff e task =
     (let p = en_retryPolicy e in
      if t_BackoffStrategy task = ''fixed'' then rp_InitialBackoff p
      else if t_BackoffStrategy task = ''linear'' then
        (let backoff = i64 (t_Attempts task * rp_InitialBackoff p) in
         if backoff > rp_MaxBackoff p then rp_MaxBackoff p else backoff)
      else NextBackoff p (t_Attempts task))"

subsection \<open>Execution\<close>

definition dead_letter :: "env \<Rightarrow> engine \<Rightarrow> Task \<Rightarrow> string \<Rightarrow> time \<Rightarrow> engine_result io" where
  "dead_letter E e task execErr now = do {
     r \<leftarrow> MoveToDeadLetter E (t_OrgID task) (t_ID task) execErr now;
     case r of
       Inl err \<Rightarrow>
         State_Monad.return
           \<lparr>er_TaskID = t_ID task, er_Outcome = ''dead_letter'', er_Err = Some err\<rparr>
     | Inr _ \<Rightarrow> do {
         let task = task\<lparr>t_Status := StatusDeadLetter\<rparr>;
         recordTaskMetric E task MetricTaskFailed now ''handler_error'';
         recordTaskMetric E task MetricTaskDeadLettered now ''handler_error'';
         let task = task\<lparr>t_UpdatedAt := now\<rparr>;
         publishTaskEvent E (en_wiring e) WebhookEventTaskDeadLetter task;
         _ \<leftarrow> broker_MoveToDeadLetter E (t_OrgID task) (t_Queue task) (t_ID task);
         State_Monad.return
           \<lparr>er_TaskID = t_ID task, er_Outcome = ''dead_letter'', er_Err = Some (ErrInfra execErr)\<rparr> } }"

definition schedule_retry :: "env \<Rightarrow> engine \<Rightarrow> Task \<Rightarrow> string \<Rightarrow> time \<Rightarrow> engine_result io" where
  "schedule_retry E e task execErr now = do {
     let backoff = nextBackoff e task;
     let visibleAt = now + backoff;
     r \<leftarrow> Fail E (t_OrgID task) (t_ID task) execErr StatusPending visibleAt now;
     case r of
       Inl err \<Rightarrow>
         State_Monad.return
           \<lparr>er_TaskID = t_ID task, er_Outcome = ''retried'', er_Err = Some err\<rparr>
     | Inr _ \<Rightarrow> do {
         let task = task\<lparr>t_Status := StatusPending, t_VisibleAt := visibleAt\<rparr>;
         recordTaskMetric E task MetricTaskFailed now ''handler_error'';
         recordTaskMetric E task MetricTaskRetryScheduled now ''handler_error'';
         let task = task\<lparr>t_UpdatedAt := now\<rparr>;
         publishTaskEvent E (en_wiring e) WebhookEventTaskFailed task;
         n \<leftarrow> Nack E (t_OrgID task) (t_Queue task) (t_ID task) backoff;
         (case n of
            Inl _ \<Rightarrow> State_Monad.return (Inr ())
          | Inr _ \<Rightarrow> MarkDispatched E (t_OrgID task) (t_ID task) now);
         State_Monad.return
           \<lparr>er_TaskID = t_ID task, er_Outcome = ''retried'', er_Err = Some (ErrInfra execErr)\<rparr> } }"

definition handleFailure :: "env \<Rightarrow> engine \<Rightarrow> Task \<Rightarrow> string \<Rightarrow> time \<Rightarrow> engine_result io" where
  "handleFailure E e task execErr now =
     (let task = task\<lparr>t_LastError := execErr\<rparr> in
      if IsExhausted task then dead_letter E e task execErr now
      else schedule_retry E e task execErr now)"

definition complete_task :: "env \<Rightarrow> engine \<Rightarrow> Task \<Rightarrow> time \<Rightarrow> engine_result io" where
  "complete_task E e task now = do {
     r \<leftarrow> Complete E (t_OrgID task) (t_ID task) now;
     case r of
       Inl err \<Rightarrow>
         State_Monad.return
           \<lparr>er_TaskID = t_ID task, er_Outcome = ''completed'', er_Err = Some err\<rparr>
     | Inr _ \<Rightarrow> do {
         let task = task\<lparr>t_Status := StatusCompleted, t_CompletedAt := Some now\<rparr>;
         recordTaskMetric E task MetricTaskSucceeded now [];
         let task = task\<lparr>t_UpdatedAt := now\<rparr>;
         publishTaskEvent E (en_wiring e) WebhookEventTaskCompleted task;
         _ \<leftarrow> Ack E (t_OrgID task) (t_Queue task) (t_ID task);
         State_Monad.return \<lparr>er_TaskID = t_ID task, er_Outcome = ''completed'', er_Err = None\<rparr> } }"

text \<open>\<open>None\<close> is the end of the process in a panic of the handler.\<close>

definition Execute :: "env \<Rightarrow> engine \<Rightarrow> handler \<Rightarrow> Task \<Rightarrow> engine_result option io" where
  "Execute E e handler task = do {
     let timeout = (if t_TaskTimeout task > 0 then t_TaskTimeout task else en_taskTimeout e);
     t \<leftarrow> tick;
     case runHandler (handler timeout (t_Payload task) t) of
       None \<Rightarrow> State_Monad.return None
     | Some err \<Rightarrow> do {
         now \<leftarrow> time_now E;
         r \<leftarrow> (case err of
                 None \<Rightarrow> complete_task E e task now
               | Some execErr \<Rightarrow> handleFailure E e task execErr now);
         State_Monad.return (Some r) } }"

subsection \<open>Background loops\<close>

text \<open>One round of each loop; an error is logged and the next round goes on.\<close>

fun redispatch :: "env \<Rightarrow> Task list \<Rightarrow> unit io" where
  "redispatch E [] = State_Monad.return ()"
| "redispatch E (t # ts) = do {
     r \<leftarrow> Enqueue E t;
     (case r of
        Inl _ \<Rightarrow> State_Monad.return ()
      | Inr _ \<Rightarrow> do {
          now \<leftarrow> time_now E;
          _ \<leftarrow> MarkDispatched E (t_OrgID t) (t_ID t) now;
          State_Monad.return () });
     redispatch E ts }"

definition ReclaimLoop :: "env \<Rightarrow> uuid \<Rightarrow> string \<Rightarrow> unit io" where
  "ReclaimLoop E orgID queue = do {
     now \<leftarrow> time_now E;
     r \<leftarrow> ReclaimExpired E orgID queue now 100;
     case r of
       Inl _ \<Rightarrow> State_Monad.return ()
     | Inr reclaimed \<Rightarrow> redispatch E reclaimed }"

definition DelayedPromotionLoop :: "env \<Rightarrow> uuid \<Rightarrow> string \<Rightarrow> unit io" where
  "DelayedPromotionLoop E orgID queue = do {
     _ \<leftarrow> PromoteDueDelayed E orgID queue;
     State_Monad.return () }"

definition ReconciliationLoop :: "env \<Rightarrow> uuid \<Rightarrow> string \<Rightarrow> unit io" where
  "ReconciliationLoop E orgID queue = do {
     r \<leftarrow> ListUndispatchedPending E orgID queue 100;
     case r of
       Inl _ \<Rightarrow> State_Monad.return ()
     | Inr ts \<Rightarrow> redispatch E ts }"

subsection \<open>The pool\<close>

definition process ::
  "env \<Rightarrow> engine \<Rightarrow> handler \<Rightarrow> WorkerConfig \<Rightarrow> string \<Rightarrow> uuid \<Rightarrow> engine_result option io" where
  "process E e handler cfg queue taskID = do {
     now \<leftarrow> time_now E;
     r \<leftarrow> ClaimForProcessing E (wc_OrgID cfg) taskID (wc_WorkerID cfg) now;
     case r of
       Inl _ \<Rightarrow> do {
         _ \<leftarrow> Ack E (wc_OrgID cfg) queue taskID;
         State_Monad.return None }
     | Inr task \<Rightarrow> do {
         PublishProcessingEvent E e task;
         Execute E e handler task } }"

text \<open>One tick of the heartbeat loop; \<open>True\<close> when it cancels the execution and ends.\<close>

definition heartbeatLoop :: "env \<Rightarrow> WorkerConfig \<Rightarrow> Task \<Rightarrow> bool io" where
  "heartbeatLoop E cfg task = do {
     now \<leftarrow> time_now E;
     r \<leftarrow> Heartbeat E (t_OrgID task) (t_ID task) (wc_WorkerID cfg) (t_VisibilityTimeout task) now;
     State_Monad.return (case r of Inl _ \<Rightarrow> True | Inr _ \<Rightarrow> False) }"

end
