(* ===== verification/Task_Safety.thy ===== *)
theory Task_Safety
  imports Engine Side_Effects
begin

text \<open>
  The life of a task row under everything the services, the engine, the worker pool and
  the background loops do to it, whatever fails and whatever other processes do in
  between.
\<close>

subsection \<open>Rows\<close>

text \<open>What a row never changes.\<close>

definition task_identity where
  "task_identity t =
     ((t_ID t, t_OrgID t, t_Queue t, t_Payload t, t_IdempotencyKey t, t_RequestFingerprint t),
      (t_Priority t, t_BackoffStrategy t, t_TraceID t, t_MaxAttempts t, t_TaskTimeout t,
       t_VisibilityTimeout t, t_CreatedAt t, t_ScheduledAt t))"

text \<open>
  A row is well formed when only a task that is being processed is locked, exactly the
  completed tasks have a completion time, and only finished tasks are deleted. The
  status \<open>failed\<close> is not reachable.
\<close>

definition task_ok :: "Task \<Rightarrow> bool" where
  "task_ok t \<longleftrightarrow>
     t_Status t \<noteq> StatusFailed \<and>
     (t_CompletedAt t \<noteq> None \<longleftrightarrow> t_Status t = StatusCompleted) \<and>
     (t_LockedBy t \<noteq> [] \<or> t_LastHeartbeatAt t \<noteq> None \<longrightarrow> t_Status t = StatusProcessing) \<and>
     (t_DeletedAt t \<noteq> None \<longrightarrow> task_status_terminal (t_Status t)) \<and>
     0 \<le> t_Attempts t"

definition task_step :: "Task \<Rightarrow> Task \<Rightarrow> bool" where
  "task_step t t' \<longleftrightarrow>
     task_identity t' = task_identity t \<and>
     (t_DeletedAt t \<noteq> None \<longrightarrow> t' = t) \<and>
     (t_Status t = StatusCompleted \<longrightarrow>
        t_Status t' = StatusCompleted \<and> t_CompletedAt t' = t_CompletedAt t \<and> t_Attempts t' = t_Attempts t)"

definition task_key :: "Task \<Rightarrow> uuid \<times> string \<times> string" where
  "task_key t = (t_OrgID t, t_Queue t, t_IdempotencyKey t)"

definition task_keys :: "Task list \<Rightarrow> (uuid \<times> string \<times> string) list" where
  "task_keys ts = map task_key (filter (\<lambda>t. t_IdempotencyKey t \<noteq> []) ts)"

definition task_inv :: "store \<Rightarrow> bool" where
  "task_inv s \<longleftrightarrow> list_all task_ok (tasks s) \<and> distinct (map t_ID (tasks s)) \<and> distinct (task_keys (tasks s))"

definition task_safe :: "store \<Rightarrow> store \<Rightarrow> bool" where
  "task_safe s s' \<longleftrightarrow> (task_inv s \<longrightarrow> evolves task_step (tasks s) (tasks s') \<and> task_inv s')"

lemma task_step_refl: "task_step t t"
  by (simp add: task_step_def)

lemma task_stepD:
  assumes "task_step t t'"
  shows "task_identity t' = task_identity t" and "t_DeletedAt t = None \<or> t' = t"
    and "t_Status t = StatusCompleted \<Longrightarrow>
      t_Status t' = StatusCompleted \<and> t_CompletedAt t' = t_CompletedAt t \<and> t_Attempts t' = t_Attempts t"
  using assms by (auto simp: task_step_def)

lemma task_step_trans: "task_step t u \<Longrightarrow> task_step u v \<Longrightarrow> task_step t v"
  by (auto simp: task_step_def)

lemma tasks_trans: "evolves task_step a b \<Longrightarrow> evolves task_step b c \<Longrightarrow> evolves task_step a c"
  by (rule evolves_trans) (erule (1) task_step_trans, assumption+)

interpretation tg: side_effects task_safe
proof
  show "task_safe s s" for s by (simp add: task_safe_def evolves_refl task_step_refl)
  show "task_safe s u" if "task_safe s t" "task_safe t u" for s t u
    using that unfolding task_safe_def by (blast intro: tasks_trans)
  show "task_safe s s'" if "same_tables s s'" for s s'
    using that by (simp add: task_safe_def task_inv_def same_tables_def evolves_refl task_step_refl)
qed

subsection \<open>Updates\<close>

lemma identity_key: "task_identity t' = task_identity t \<Longrightarrow> task_key t' = task_key t \<and> t_ID t' = t_ID t \<and>
    t_IdempotencyKey t' = t_IdempotencyKey t"
  by (simp add: task_identity_def task_key_def)

lemma keys_update:
  assumes "\<And>t. t \<in> set ts \<Longrightarrow> P t \<Longrightarrow> task_identity (f t) = task_identity t"
  shows "task_keys (update_where P f ts) = task_keys ts" "map t_ID (update_where P f ts) = map t_ID ts"
proof -
  have same: "task_key (f t) = task_key t" "t_ID (f t) = t_ID t" "t_IdempotencyKey (f t) = t_IdempotencyKey t"
    if "t \<in> set ts" "P t" for t
    using identity_key [OF assms [OF that]] by simp_all
  show "map t_ID (update_where P f ts) = map t_ID ts" by (simp add: update_where_def same)
  show "task_keys (update_where P f ts) = task_keys ts"
    using same by (induction ts) (simp_all add: task_keys_def update_where_def)
qed

text \<open>One statement that changes rows in place.\<close>

lemma safe_update:
  assumes "\<And>t. task_inv s \<Longrightarrow> t \<in> set (tasks s) \<Longrightarrow> task_ok t \<Longrightarrow> P t \<Longrightarrow> task_step t (f t) \<and> task_ok (f t)"
  shows "task_safe s (s\<lparr>tasks := update_where P f (tasks s)\<rparr>)"
  unfolding task_safe_def
proof (intro impI conjI)
  assume inv: "task_inv s"
  have ok: "task_ok t" if "t \<in> set (tasks s)" for t using inv that by (simp add: task_inv_def list_all_iff)
  have step: "task_step t (f t)" "task_ok (f t)" if "t \<in> set (tasks s)" "P t" for t
    using assms [OF inv that(1) ok [OF that(1)] that(2)] by simp_all
  show "evolves task_step (tasks s) (tasks (s\<lparr>tasks := update_where P f (tasks s)\<rparr>))"
    using step(1) by (auto intro: evolves_update_where task_step_refl)
  have "task_identity (f t) = task_identity t" if "t \<in> set (tasks s)" "P t" for t
    using step(1) [OF that] by (simp add: task_step_def)
  note keys = keys_update [of "tasks s" P f, OF this]
  have "task_ok r" if "r \<in> set (update_where P f (tasks s))" for r
    using that ok step(2) unfolding set_update_where by (elim imageE) (simp split: if_splits)
  then show "task_inv (s\<lparr>tasks := update_where P f (tasks s)\<rparr>)"
    using inv unfolding task_inv_def by (simp add: keys list_all_iff)
qed

lemma steps_task_update:
  assumes "others_keep E task_safe" and "\<And>t. task_ok t \<Longrightarrow> P t \<Longrightarrow> task_step t (f t) \<and> task_ok (f t)"
  shows "steps (on_store task_safe) (atomic E what (update_task e P f))"
  using assms(1) by (rule tg.steps_atomic) (simp add: update_task_def safe_update assms(2))

text \<open>The facts every single statement is checked with.\<close>

lemmas task_row_defs = task_ok_def task_step_def task_identity_def task_status_terminal_def is_task_def

lemma steps_Heartbeat:
  "others_keep E task_safe \<Longrightarrow> steps (on_store task_safe) (Heartbeat E orgID i workerID v now)"
  unfolding Heartbeat_def by (rule steps_task_update) (auto simp: task_row_defs)

lemma steps_Complete: "others_keep E task_safe \<Longrightarrow> steps (on_store task_safe) (Complete E orgID i now)"
  unfolding Complete_def by (rule steps_task_update) (auto simp: task_row_defs)

lemma steps_Fail:
  "others_keep E task_safe \<Longrightarrow> steps (on_store task_safe) (Fail E orgID i msg StatusPending visibleAt now)"
  unfolding Fail_def by (rule steps_task_update) (auto simp: task_row_defs)

lemma steps_MoveToDeadLetter:
  "others_keep E task_safe \<Longrightarrow> steps (on_store task_safe) (MoveToDeadLetter E orgID i msg now)"
  unfolding MoveToDeadLetter_def by (rule steps_task_update) (auto simp: task_row_defs)

lemma steps_Requeue: "others_keep E task_safe \<Longrightarrow> steps (on_store task_safe) (Requeue E orgID i now)"
  unfolding Requeue_def by (rule steps_task_update) (auto simp: task_row_defs)

lemma steps_SoftDelete: "others_keep E task_safe \<Longrightarrow> steps (on_store task_safe) (SoftDelete E orgID i now)"
  unfolding SoftDelete_def by (rule steps_task_update) (auto simp: task_row_defs)

lemma steps_MarkDispatched:
  "others_keep E task_safe \<Longrightarrow> steps (on_store task_safe) (MarkDispatched E orgID i now)"
  unfolding MarkDispatched_def by (rule steps_task_update) (auto simp: task_row_defs)

lemma steps_Cancel: "others_keep E task_safe \<Longrightarrow> steps (on_store task_safe) (Cancel E orgID i now)"
  unfolding Cancel_def
proof (erule tg.steps_atomic)
  fix s :: store
  let ?P = "\<lambda>t. is_task orgID i t \<and> t_Status t = StatusPending \<and> t_DeletedAt t = None"
  have "task_safe s (s\<lparr>tasks := update_where ?P (cancelled_task now) (tasks s)\<rparr>)"
    by (rule safe_update) (auto simp: cancelled_task_def task_row_defs)
  then show "task_safe s (snd (let P = ?P in case find P (tasks s) of
      None \<Rightarrow> (Inl ErrInvalidStateTransition, s)
    | Some t \<Rightarrow> (Inr (cancelled_task now t), s\<lparr>tasks := update_where P (cancelled_task now) (tasks s)\<rparr>)))"
    by (simp add: Let_def tg.refl split: option.split)
qed

lemma one_row:
  assumes "task_inv s" and "t \<in> set (tasks s)" "r \<in> set (tasks s)" and "t_ID r = t_ID t"
  shows "r = t"
  using assms unfolding task_inv_def distinct_map by (blast dest: inj_onD)

lemma steps_ClaimForProcessing:
  assumes "others_keep E task_safe"
  shows "steps (on_store task_safe) (ClaimForProcessing E orgID i workerID now)"
  unfolding ClaimForProcessing_def
proof (rule tg.steps_atomic [OF assms])
  fix s :: store
  let ?claim = "\<lambda>t r. r\<lparr>t_Status := t_Status t, t_LockedBy := t_LockedBy t, t_Attempts := t_Attempts t,
    t_VisibleAt := t_VisibleAt t, t_LastHeartbeatAt := t_LastHeartbeatAt t, t_UpdatedAt := now\<rparr>"
  show "task_safe s (snd (case find (claim_visible orgID i now) (tasks s) of
      None \<Rightarrow> (Inl ErrTaskAlreadyLocked, s)
    | Some t \<Rightarrow> let t' = MarkProcessing workerID now t in
        (Inr t', s\<lparr>tasks := update_where (is_task orgID i) (?claim t') (tasks s)\<rparr>)))"
  proof (cases "find (claim_visible orgID i now) (tasks s)")
    case (Some t)
    then have t: "t \<in> set (tasks s)" "claim_visible orgID i now t" by (auto simp: find_Some_iff)
    have "task_safe s (s\<lparr>tasks := update_where (is_task orgID i) (?claim (MarkProcessing workerID now t)) (tasks s)\<rparr>)"
    proof (rule safe_update)
      fix r assume r: "task_inv s" "r \<in> set (tasks s)" "task_ok r" "is_task orgID i r"
      have "r = t" using one_row [OF r(1) t(1) r(2)] t(2) r(4) by (simp add: claim_visible_def is_task_def)
      then show "task_step r (?claim (MarkProcessing workerID now t) r) \<and> task_ok (?claim (MarkProcessing workerID now t) r)"
        using t(2) r(3) by (auto simp: task_row_defs MarkProcessing_def claim_visible_def)
    qed
    then show ?thesis using Some by (simp add: Let_def)
  qed (simp add: tg.refl)
qed

lemma steps_ReclaimExpired:
  assumes "others_keep E task_safe"
  shows "steps (on_store task_safe) (ReclaimExpired E orgID queue now limit)"
  unfolding ReclaimExpired_def Let_def
proof (rule tg.steps_atomic [OF assms])
  fix s :: store
  let ?rows = "take (nat limit) (sort_by (\<lambda>a b. t_VisibleAt a < t_VisibleAt b) (filter (expired orgID queue now) (tasks s)))"
  let ?reset = "\<lambda>t. t\<lparr>t_Status := StatusPending, t_LockedBy := [], t_LastHeartbeatAt := None,
    t_VisibleAt := now, t_DispatchedAt := None, t_UpdatedAt := now\<rparr>"
  have "task_safe s (s\<lparr>tasks := update_where (\<lambda>t. t_OrgID t = orgID \<and> t_ID t \<in> set (map t_ID ?rows)) ?reset (tasks s)\<rparr>)"
  proof (rule safe_update)
    fix r assume r: "task_inv s" "r \<in> set (tasks s)" "task_ok r" "t_OrgID r = orgID \<and> t_ID r \<in> set (map t_ID ?rows)"
    then obtain t where t: "t \<in> set ?rows" "t_ID r = t_ID t" by auto
    then have "t \<in> set (tasks s)" "expired orgID queue now t" using in_set_takeD by fastforce+
    then have "expired orgID queue now r" using one_row [OF r(1) _ r(2) t(2)] by simp
    then show "task_step r (?reset r) \<and> task_ok (?reset r)"
      using r(3) by (auto simp: task_row_defs expired_def)
  qed
  then show "task_safe s (snd (Inr ?rows, s\<lparr>tasks := update_where
      (\<lambda>t. t_OrgID t = orgID \<and> t_ID t \<in> set (map t_ID ?rows)) ?reset (tasks s)\<rparr>))" by simp
qed

lemma safe_insert:
  assumes "task_ok t" and "t_ID t \<notin> t_ID ` set (tasks s)"
    and "t_IdempotencyKey t \<noteq> [] \<Longrightarrow> task_key t \<notin> task_key ` set (tasks s)"
  shows "task_safe s (s\<lparr>tasks := tasks s @ [t]\<rparr>)"
  unfolding task_safe_def
proof (intro impI conjI)
  assume inv: "task_inv s"
  show "evolves task_step (tasks s) (tasks (s\<lparr>tasks := tasks s @ [t]\<rparr>))"
    by (simp add: evolves_append task_step_refl)
  have "distinct (task_keys (tasks s @ [t]))"
    using inv assms(3) by (auto simp: task_inv_def task_keys_def)
  then show "task_inv (s\<lparr>tasks := tasks s @ [t]\<rparr>)"
    using inv assms(1,2) by (simp add: task_inv_def)
qed

lemma steps_task_Create:
  assumes "others_keep E task_safe" and "task_ok (stored_task t)"
  shows "steps (on_store task_safe) (Create E t)"
  unfolding Create_def
proof (rule tg.steps_atomic [OF assms(1)])
  fix s :: store
  have "task_safe s (s\<lparr>tasks := tasks s @ [stored_task t]\<rparr>)"
    if "t_ID t \<notin> t_ID ` set (tasks s)" "\<not> (t_IdempotencyKey t \<noteq> [] \<and>
          (\<exists>r \<in> set (tasks s). t_OrgID r = t_OrgID t \<and> t_Queue r = t_Queue t \<and> t_IdempotencyKey r = t_IdempotencyKey t))"
    by (rule safe_insert [OF assms(2)]) (use that in \<open>auto simp: stored_task_def task_key_def\<close>)
  then show "task_safe s (snd (if t_ID t \<in> t_ID ` set (tasks s) \<or> t_IdempotencyKey t \<noteq> [] \<and>
          (\<exists>r \<in> set (tasks s). t_OrgID r = t_OrgID t \<and> t_Queue r = t_Queue t \<and> t_IdempotencyKey r = t_IdempotencyKey t)
       then (Inl ErrDuplicateIdempotencyKey, s) else (Inr (), s\<lparr>tasks := tasks s @ [stored_task t]\<rparr>)))"
    by (simp add: tg.refl del: de_Morgan_conj)
qed

subsection \<open>The services\<close>

lemma build_task_ok: "task_ok (stored_task (build_task input i now payload fp))"
  by (simp add: task_ok_def stored_task_def build_task_def NewTask_def Let_def split: option.split)

lemmas steps_task_calls = tg.world.steps_syntax tg.steps_time tg.steps_uuid tg.steps_metric tg.steps_query
  tg.steps_Enqueue tg.steps_EnqueueDelayed tg.steps_Nack tg.steps_Ack tg.steps_Remove
  tg.steps_broker_MoveToDeadLetter tg.steps_PromoteDueDelayed tg.steps_publishTaskEvent
  tg.steps_task_metric tg.steps_FindByIdempotencyKey tg.steps_GetByID
  steps_Heartbeat steps_Complete steps_Fail steps_MoveToDeadLetter steps_Requeue steps_SoftDelete
  steps_MarkDispatched steps_Cancel steps_ClaimForProcessing steps_ReclaimExpired

lemma steps_task_CreateTask: "others_keep E task_safe \<Longrightarrow> steps (on_store task_safe) (CreateTask E W input)"
  unfolding CreateTask_def insert_task_def dispatch_task_def Let_def
  by (auto split: err.split intro!: steps_task_calls steps_task_Create build_task_ok)

lemma steps_RetryTask: "others_keep E task_safe \<Longrightarrow> steps (on_store task_safe) (RetryTask E orgID i)"
  unfolding RetryTask_def retry_dispatch_def by (intro steps_task_calls)

lemma steps_CancelTask: "others_keep E task_safe \<Longrightarrow> steps (on_store task_safe) (CancelTask E W orgID i)"
  unfolding CancelTask_def by (intro steps_task_calls)

lemma steps_SoftDeleteTask: "others_keep E task_safe \<Longrightarrow> steps (on_store task_safe) (SoftDeleteTask E orgID i)"
  unfolding SoftDeleteTask_def by (intro steps_task_calls)

lemma steps_tick: "steps (on_store task_safe) tick"
  by (simp add: steps_def on_store_def tg.refl)

lemma steps_Execute: "others_keep E task_safe \<Longrightarrow> steps (on_store task_safe) (Execute E e h task)"
  unfolding Execute_def handleFailure_def dead_letter_def schedule_retry_def complete_task_def
    recordTaskMetric_def Let_def
  by (intro steps_task_calls steps_tick)

lemma steps_process: "others_keep E task_safe \<Longrightarrow> steps (on_store task_safe) (process E e h cfg queue i)"
  unfolding process_def PublishProcessingEvent_def recordTaskMetric_def
  by (intro steps_task_calls steps_Execute)

lemma steps_heartbeatLoop: "others_keep E task_safe \<Longrightarrow> steps (on_store task_safe) (heartbeatLoop E cfg task)"
  unfolding heartbeatLoop_def by (intro steps_task_calls)

lemma steps_redispatch: "others_keep E task_safe \<Longrightarrow> steps (on_store task_safe) (redispatch E ts)"
proof (induction ts)
  case (Cons t ts)
  then show ?case unfolding redispatch.simps by (intro steps_task_calls)
qed (simp add: tg.world.steps_return)

lemma steps_ReclaimLoop: "others_keep E task_safe \<Longrightarrow> steps (on_store task_safe) (ReclaimLoop E orgID queue)"
  unfolding ReclaimLoop_def by (intro steps_task_calls steps_redispatch)

lemma steps_DelayedPromotionLoop:
  "others_keep E task_safe \<Longrightarrow> steps (on_store task_safe) (DelayedPromotionLoop E orgID queue)"
  unfolding DelayedPromotionLoop_def by (intro steps_task_calls)

lemma steps_ReconciliationLoop:
  "others_keep E task_safe \<Longrightarrow> steps (on_store task_safe) (ReconciliationLoop E orgID queue)"
  unfolding ReconciliationLoop_def ListUndispatchedPending_def by (intro steps_task_calls steps_redispatch)

end
