(* ===== verification/Task_Claims.thy ===== *)
theory Task_Claims
  imports Task_Safety
begin

text \<open>
  The properties of tasks: over every sequence of calls, and of the outcome of one run.
\<close>

subsection \<open>Sequences of calls\<close>

datatype task_call =
    CallCreate CreateTaskInput
  | CallRetry uuid uuid
  | CallCancel uuid uuid
  | CallDelete uuid uuid
  | CallProcess WorkerConfig string uuid
  | CallHeartbeat WorkerConfig Task
  | CallReclaim uuid string
  | CallPromote uuid string
  | CallReconcile uuid string

fun task_serve_one :: "env \<Rightarrow> engine \<Rightarrow> handler \<Rightarrow> task_call \<Rightarrow> unit io" where
  "task_serve_one E e h (CallCreate input) = do { _ \<leftarrow> CreateTask E (en_wiring e) input; State_Monad.return () }"
| "task_serve_one E e h (CallRetry orgID i) = do { _ \<leftarrow> RetryTask E orgID i; State_Monad.return () }"
| "task_serve_one E e h (CallCancel orgID i) = do { _ \<leftarrow> CancelTask E (en_wiring e) orgID i; State_Monad.return () }"
| "task_serve_one E e h (CallDelete orgID i) = do { _ \<leftarrow> SoftDeleteTask E orgID i; State_Monad.return () }"
| "task_serve_one E e h (CallProcess cfg queue i) = do { _ \<leftarrow> process E e h cfg queue i; State_Monad.return () }"
| "task_serve_one E e h (CallHeartbeat cfg task) = do { _ \<leftarrow> heartbeatLoop E cfg task; State_Monad.return () }"
| "task_serve_one E e h (CallReclaim orgID queue) = ReclaimLoop E orgID queue"
| "task_serve_one E e h (CallPromote orgID queue) = DelayedPromotionLoop E orgID queue"
| "task_serve_one E e h (CallReconcile orgID queue) = ReconciliationLoop E orgID queue"

fun task_serve :: "env \<Rightarrow> engine \<Rightarrow> handler \<Rightarrow> task_call list \<Rightarrow> unit io" where
  "task_serve E e h [] = State_Monad.return ()"
| "task_serve E e h (c # cs) = do { task_serve_one E e h c; task_serve E e h cs }"

lemma steps_task_serve:
  assumes "others_keep E task_safe"
  shows "steps (on_store task_safe) (task_serve E e h cs)"
proof (induction cs)
  case Nil
  show ?case by (simp add: tg.world.steps_return)
next
  case (Cons c cs)
  have "steps (on_store task_safe) (task_serve_one E e h c)"
    by (cases c) (auto intro!: tg.world.steps_syntax steps_task_CreateTask steps_RetryTask steps_CancelTask
        steps_SoftDeleteTask steps_process steps_heartbeatLoop steps_ReclaimLoop
        steps_DelayedPromotionLoop steps_ReconciliationLoop assms)
  then show ?case using Cons.IH by (auto intro!: tg.world.steps_bind)
qed

lemma task_serve_safe:
  assumes "others_keep E task_safe" and "task_inv (w_store w)" and "w' = snd (run_state (task_serve E e h cs) w)"
  shows "evolves task_step (tasks (w_store w)) (tasks (w_store w'))" and "task_inv (w_store w')"
  using steps_task_serve [OF assms(1), of e h cs] assms(2,3)
  by (simp_all add: steps_def on_store_def task_safe_def)

subsection \<open>Examples\<close>

definition demo_input :: "string \<Rightarrow> CreateTaskInput" where
  "demo_input key =
     \<lparr>ci_OrgID = 1, ci_IdempotencyKey = key, ci_Queue = ''mail'', ci_Payload = RawDoc JNull, ci_Priority = 3,
      ci_MaxRetries = 0, ci_Timeout = 0, ci_VisibilityTimeout = 30000000000, ci_ScheduledAt = None,
      ci_BackoffStrategy = ''fixed'', ci_TraceID = []\<rparr>"

definition demo_engine :: engine where
  "demo_engine =
     \<lparr>en_retryPolicy = DefaultRetryPolicy, en_taskTimeout = 1000,
      en_wiring = \<lparr>wr_events = False, wr_maxAttempts = 5\<rparr>\<rparr>"

definition demo_config :: WorkerConfig where
  "demo_config =
     \<lparr>wc_WorkerID = ''w1'', wc_OrgID = 1, wc_Concurrency = 1, wc_RateLimitPerSec = 0,
      wc_HeartbeatInterval = 1, wc_ShutdownTimeout = 1\<rparr>"

definition empty_world :: world where
  "empty_world = \<lparr>w_store = empty_store, w_metrics = [], w_tick = 0\<rparr>"

text \<open>A table with one task in the given status.\<close>

definition demo_task :: "TaskStatus \<Rightarrow> Task" where
  "demo_task st =
     (NewTask 7 5 1 ''mail'' (RawDoc JNull) ''key'' ''fp'' 1 30000000000)
       \<lparr>t_Status := st, t_CompletedAt := (if st = StatusCompleted then Some 6 else None)\<rparr>"

definition task_world :: "TaskStatus \<Rightarrow> world" where
  "task_world st = \<lparr>w_store = empty_store\<lparr>tasks := [demo_task st]\<rparr>, w_metrics = [], w_tick = 0\<rparr>"

lemma quiet_tasks: "others_keep quiet task_safe"
  by (simp add: others_keep_def quiet_def tg.refl)

lemma empty_tasks: "task_inv (w_store empty_world)"
  by (simp add: empty_world_def task_inv_def task_keys_def)

lemma demo_task_inv: "st \<noteq> StatusFailed \<Longrightarrow> task_inv (w_store (task_world st))"
  by (simp add: task_world_def demo_task_def task_inv_def task_keys_def task_ok_def NewTask_def)

subsection \<open>The life of a row\<close>

text \<open>
  C12. Whatever a process is asked to do, whichever of its statements fail or are not
  acknowledged, and whatever other processes do in between: no task is lost or changes
  its identity, a deleted task never changes again, and a completed task stays completed,
  with the completion time and the number of attempts it had.
\<close>

theorem task_lifecycle:
  assumes "others_keep E task_safe" and "task_inv (w_store w)" and "w' = snd (run_state (task_serve E e h cs) w)"
    and "t \<in> set (tasks (w_store w))"
  shows "\<exists>t' \<in> set (tasks (w_store w')).
    task_identity t' = task_identity t \<and> (t_DeletedAt t = None \<or> t' = t) \<and>
    (if t_Status t = StatusCompleted
     then t_Status t' = StatusCompleted \<and> t_CompletedAt t' = t_CompletedAt t \<and> t_Attempts t' = t_Attempts t
     else True)"
proof -
  obtain t' where t': "t' \<in> set (tasks (w_store w'))" "task_step t t'"
    using evolvesD [OF task_serve_safe(1) [OF assms(1-3)] assms(4)] by blast
  show ?thesis
  proof (rule bexI [OF _ t'(1)], intro conjI)
    show "task_identity t' = task_identity t" "t_DeletedAt t = None \<or> t' = t"
      using task_stepD [OF t'(2)] by simp_all
    show "if t_Status t = StatusCompleted then t_Status t' = StatusCompleted \<and> t_CompletedAt t' = t_CompletedAt t \<and>
        t_Attempts t' = t_Attempts t else True"
      using task_stepD(3) [OF t'(2)] by (simp only: simp_thms split: if_split) blast
  qed
qed

theorem task_lifecycle_witness:
  "list_ex (\<lambda>t. t_Status t = StatusCompleted \<and> t_CompletedAt t = Some 6)
     (tasks (w_store (snd (run_state (task_serve quiet demo_engine (\<lambda>_ _ _. Returned None)
       [CallCancel 1 7, CallRetry 1 7, CallReclaim 1 ''mail'', CallProcess demo_config ''mail'' 7])
       (task_world StatusCompleted)))))"
proof -
  have inv: "task_inv (w_store (task_world StatusCompleted))" by (rule demo_task_inv) simp
  have "demo_task StatusCompleted \<in> set (tasks (w_store (task_world StatusCompleted)))"
    by (simp add: task_world_def)
  from task_lifecycle [OF quiet_tasks inv refl this, of demo_engine]
  show ?thesis unfolding list_ex_iff by (simp add: demo_task_def del: task_serve.simps) blast
qed

text \<open>
  C13. The rows of the task table stay well formed through every sequence of calls: only a
  task that is being processed is locked or has a heartbeat, exactly the completed tasks
  have a completion time, only finished tasks are deleted, no task has the status
  \<open>failed\<close>, identifiers are unique and so are the non-empty idempotency keys of a queue.
\<close>

theorem task_rows_well_formed:
  assumes "others_keep E task_safe" and "task_inv (w_store w)" and "w' = snd (run_state (task_serve E e h cs) w)"
  shows "list_all (\<lambda>t. t_Status t \<noteq> StatusFailed \<and>
            (t_CompletedAt t \<noteq> None \<longleftrightarrow> t_Status t = StatusCompleted) \<and>
            (t_LockedBy t = [] \<and> t_LastHeartbeatAt t = None \<or> t_Status t = StatusProcessing) \<and>
            (t_DeletedAt t = None \<or> IsTerminal t) \<and> 0 \<le> t_Attempts t) (tasks (w_store w')) \<and>
         distinct (map t_ID (tasks (w_store w'))) \<and>
         distinct (map (\<lambda>t. (t_OrgID t, t_Queue t, t_IdempotencyKey t))
           (filter (\<lambda>t. t_IdempotencyKey t \<noteq> []) (tasks (w_store w'))))"
proof -
  have inv: "task_inv (w_store w')" by (rule task_serve_safe(2) [OF assms])
  have key: "task_key = (\<lambda>t. (t_OrgID t, t_Queue t, t_IdempotencyKey t))" by (simp add: task_key_def fun_eq_iff)
  have row: "t_Status t \<noteq> StatusFailed \<and> (t_CompletedAt t \<noteq> None \<longleftrightarrow> t_Status t = StatusCompleted) \<and>
      (t_LockedBy t = [] \<and> t_LastHeartbeatAt t = None \<or> t_Status t = StatusProcessing) \<and>
      (t_DeletedAt t = None \<or> IsTerminal t) \<and> 0 \<le> t_Attempts t" if "task_ok t" for t
    using that unfolding task_ok_def IsTerminal_def by blast
  have ok: "list_all task_ok (tasks (w_store w'))" using inv unfolding task_inv_def by (elim conjE)
  show ?thesis
  proof (intro conjI)
    show "distinct (map t_ID (tasks (w_store w')))" using inv unfolding task_inv_def by (elim conjE)
    show "distinct (map (\<lambda>t. (t_OrgID t, t_Queue t, t_IdempotencyKey t))
        (filter (\<lambda>t. t_IdempotencyKey t \<noteq> []) (tasks (w_store w'))))"
      using inv unfolding task_inv_def task_keys_def key by (elim conjE)
  qed (rule list.pred_mono_strong [OF ok], rule row)
qed

theorem task_rows_well_formed_witness:
  "list_all (\<lambda>t. t_Status t \<noteq> StatusFailed)
     (tasks (w_store (snd (run_state (task_serve quiet demo_engine (\<lambda>_ _ _. Returned (Some ''boom''))
       [CallCreate (demo_input ''key''), CallProcess demo_config ''mail'' 1002]) empty_world))))"
  using task_rows_well_formed [OF quiet_tasks empty_tasks refl, of demo_engine "\<lambda>_ _ _. Returned (Some ''boom'')"
      "[CallCreate (demo_input ''key''), CallProcess demo_config ''mail'' 1002]"]
  unfolding list_all_iff by blast

subsection \<open>Idempotent creation\<close>




subsection \<open>Claims and their outcomes\<close>



subsection \<open>The outcome of one run\<close>


definition same_tasks :: "store \<Rightarrow> store \<Rightarrow> bool" where
  "same_tasks s s' \<longleftrightarrow> tasks s' = tasks s"

interpretation st: side_effects same_tasks
  by unfold_locales (simp_all add: same_tasks_def same_tables_def)





















end
