(* ===== verification/Broker_Queue.thy ===== *)
theory Broker_Queue
  imports Broker "HOL-Library.Multiset" "HOL-Library.Product_Lexorder"
begin

text \<open>
  What the broker promises: a queue hands out its messages by priority and, within a
  priority, in the order of their arrival; its sorted sets, scores and sequence counter
  implement an abstract queue in which none of them appears; no message is lost until it
  is acknowledged, removed or dead-lettered; and two queues never share a Redis key.
\<close>

subsection \<open>The line of waiting messages\<close>

text \<open>The priority a score of the pending set stands for.\<close>

definition score_priority :: "int \<Rightarrow> int" where
  "score_priority score = 9 - (score - 1) div priorityBucketSize"

definition line :: "queue_data \<Rightarrow> (brokerMessage \<times> int) list" where
  "line q = map (map_prod id score_priority) (zsorted (q_pending q))"

text \<open>A message joins the line behind every message of its own priority or a higher one.\<close>

definition join_line :: "'m \<Rightarrow> int \<Rightarrow> ('m \<times> int) list \<Rightarrow> ('m \<times> int) list" where
  "join_line m p l =
     takeWhile (\<lambda>x. p \<le> snd x) l @ (m, p) # dropWhile (\<lambda>x. p \<le> snd x) l"

definition leave_line :: "'m \<Rightarrow> ('m \<times> int) list \<Rightarrow> ('m \<times> int) list" where
  "leave_line m l = filter (\<lambda>x. fst x \<noteq> m) l"

text \<open>
  The invariant of a queue with room for \<open>k\<close> more messages: every score is that of a
  priority from 0 to 9 and of a sequence number that was handed out once, and the
  counter stays below the size of a priority's bucket.
\<close>

definition score_ok :: "int \<Rightarrow> int \<Rightarrow> bool" where
  "score_ok sequence score \<longleftrightarrow> (\<exists>p n. 0 \<le> p \<and> p \<le> 9 \<and> 1 \<le> n \<and> n \<le> sequence \<and> score = pending_score p n)"

definition queue_ok :: "nat \<Rightarrow> queue_data \<Rightarrow> bool" where
  "queue_ok k q \<longleftrightarrow>
     distinct (map fst (q_pending q)) \<and> distinct (map snd (q_pending q)) \<and>
     list_all (score_ok (q_sequence q) \<circ> snd) (q_pending q) \<and>
     list_all (\<lambda>x. 0 \<le> snd x \<and> snd x \<le> 9) (q_priorities q) \<and>
     0 \<le> q_sequence q \<and> q_sequence q + int k < priorityBucketSize"

lemma score_priority_pending: "1 \<le> n \<Longrightarrow> n \<le> priorityBucketSize \<Longrightarrow> score_priority (pending_score p n) = p"
proof -
  assume "1 \<le> n" "n \<le> priorityBucketSize"
  moreover have "(9 - p) * priorityBucketSize + n - 1 = (n - 1) + (9 - p) * priorityBucketSize" by simp
  ultimately have "((9 - p) * priorityBucketSize + n - 1) div priorityBucketSize = 9 - p"
    by (simp add: priorityBucketSize_def)
  then show ?thesis by (simp add: score_priority_def pending_score_def)
qed

lemma score_okD:
  assumes "score_ok sequence score" and "sequence < priorityBucketSize" and "sequence < n" "n \<le> priorityBucketSize" "1 \<le> n"
  shows "score < pending_score p n \<longleftrightarrow> p \<le> score_priority score"
    and "score \<noteq> pending_score p n"
proof -
  obtain p' n' where s: "1 \<le> n'" "n' \<le> sequence" "score = pending_score p' n'"
    using assms(1) by (auto simp: score_ok_def)
  then have p': "score_priority score = p'" using assms(2) by (simp add: score_priority_pending)
  have eq: "pending_score p n - score = (p' - p) * priorityBucketSize + (n - n')"
    by (simp add: s(3) pending_score_def algebra_simps)
  have n: "0 < n - n'" "n - n' < priorityBucketSize" using s assms by auto
  consider "p' - p = 0" | "1 \<le> p' - p" | "p' - p \<le> -1" by linarith
  then have "(0 < pending_score p n - score \<longleftrightarrow> p \<le> p') \<and> pending_score p n - score \<noteq> 0"
  proof cases
    case 2
    then have "priorityBucketSize \<le> (p' - p) * priorityBucketSize" by (simp add: priorityBucketSize_def)
    then show ?thesis using n 2 unfolding eq by linarith
  next
    case 3
    then have "(p' - p) * priorityBucketSize \<le> - priorityBucketSize" by (simp add: priorityBucketSize_def)
    then show ?thesis using n 3 unfolding eq by linarith
  qed (use n in \<open>simp add: eq\<close>)
  then show "score < pending_score p n \<longleftrightarrow> p \<le> score_priority score" "score \<noteq> pending_score p n"
    using p' by auto
qed

lemma score_ok_mono: "score_ok a s \<Longrightarrow> a \<le> b \<Longrightarrow> score_ok b s"
  unfolding score_ok_def by (elim exE, intro exI) auto

lemma score_ok_new: "0 \<le> p \<Longrightarrow> p \<le> 9 \<Longrightarrow> 0 \<le> n \<Longrightarrow> score_ok (n + 1) (pending_score p (n + 1))"
  unfolding score_ok_def by (intro exI [of _ p] exI [of _ "n + 1"]) simp

subsection \<open>Sorted sets with distinct scores\<close>

lemma mset_insert_by [simp]: "mset (insert_by before x ys) = add_mset x (mset ys)"
  by (induction ys) auto

lemma mset_sort_by [simp]: "mset (sort_by before xs) = mset xs"
  by (induction xs) (auto simp: sort_by_def)

lemma sorted_insert_by_z: "sorted (map snd ys) \<Longrightarrow> sorted (map snd (insert_by z_before x ys))"
  by (induction ys) (auto simp: z_before_def)

lemma zsorted_sort_key:
  assumes "distinct (map snd z)"
  shows "zsorted z = sort_key snd z"
proof -
  have "sorted (map snd (sort_by z_before z))"
    by (induction z) (auto simp: sort_by_def intro!: sorted_insert_by_z [unfolded sort_by_def])
  moreover have "inj_on snd (set z)" using assms by (simp add: distinct_map)
  ultimately show ?thesis
    using sort_key_inj_key_eq [of z "sort_by z_before z" snd] by (simp add: zsorted_def)
qed

lemma distinct_fst_zrem: "distinct (map fst z) \<Longrightarrow> distinct (map fst (zrem m z))"
  and distinct_snd_zrem: "distinct (map snd z) \<Longrightarrow> distinct (map snd (zrem m z))"
  by (simp_all add: zrem_def distinct_map_filter)

lemma set_zrem: "x \<in> set (zrem m z) \<longleftrightarrow> x \<in> set z \<and> fst x \<noteq> m"
  by (auto simp: zrem_def)

lemma zsorted_zrem:
  "distinct (map snd z) \<Longrightarrow> zsorted (zrem m z) = filter (\<lambda>x. fst x \<noteq> m) (zsorted z)"
  by (simp add: zsorted_sort_key distinct_snd_zrem) (simp add: zrem_def filter_sort)

lemma sorted_split:
  assumes "sorted (map f ys)" and "f x \<notin> f ` set ys"
  shows "sorted (map f (takeWhile (\<lambda>y. f y < f x) ys @ x # dropWhile (\<lambda>y. f y < f x) ys))"
  using assms
proof (induction ys)
  case (Cons y ys)
  then show ?case by (force dest: set_takeWhileD set_dropWhileD)
qed simp

lemma mset_split: "mset (takeWhile P ys) + mset (dropWhile P ys) = mset ys"
  by (induction ys) auto

lemma zsorted_zadd:
  assumes "distinct (map snd z)" and "score \<notin> snd ` set z"
  shows "zsorted (zadd m score z) =
    takeWhile (\<lambda>x. snd x < score) (zsorted (zrem m z)) @ (m, score) #
    dropWhile (\<lambda>x. snd x < score) (zsorted (zrem m z))"
proof -
  let ?ys = "zsorted (zrem m z)"
  let ?l = "takeWhile (\<lambda>x. snd x < snd (m, score)) ?ys @ (m, score) # dropWhile (\<lambda>x. snd x < snd (m, score)) ?ys"
  have d: "distinct (map snd (zrem m z))" using assms(1) by (rule distinct_snd_zrem)
  have new: "score \<notin> snd ` set (zrem m z)" using assms(2) by (auto simp: set_zrem)
  have d': "distinct (map snd (zadd m score z))" using d new by (simp add: zadd_def)
  have "sorted (map snd ?ys)" by (simp add: zsorted_sort_key [OF d])
  then have sorted: "sorted (map snd ?l)" by (rule sorted_split) (use new in \<open>simp add: zsorted_def\<close>)
  have same: "mset (zadd m score z) = mset ?l"
    by (simp add: mset_split zadd_def zsorted_def)
  have "inj_on snd (set (zadd m score z))" using d' by (simp add: distinct_map)
  from sort_key_inj_key_eq [OF same this sorted] have "sort_key snd (zadd m score z) = ?l" .
  then show ?thesis using zsorted_sort_key [OF d'] by simp
qed


subsection \<open>The scripts on the line\<close>

lemma queue_ok_score: "queue_ok k q \<Longrightarrow> x \<in> set (q_pending q) \<Longrightarrow> score_ok (q_sequence q) (snd x)"
  by (simp add: queue_ok_def list_all_iff)

lemma queue_ok_new_score:
  assumes "queue_ok (Suc k) q" and "x \<in> set (q_pending q)"
  shows "snd x < pending_score p (q_sequence q + 1) \<longleftrightarrow> p \<le> score_priority (snd x)"
    and "snd x \<noteq> pending_score p (q_sequence q + 1)"
  using score_okD [OF queue_ok_score [OF assms], of "q_sequence q + 1" p] assms(1)
  by (simp_all add: queue_ok_def)

lemma line_zrem:
  "queue_ok k q \<Longrightarrow> q_pending q' = zrem m (q_pending q) \<Longrightarrow> line q' = leave_line m (line q)"
  by (simp add: line_def zsorted_zrem queue_ok_def leave_line_def filter_map comp_def)

lemma line_zadd:
  assumes ok: "queue_ok (Suc k) q" and q': "q_pending q' = zadd m (pending_score p (q_sequence q + 1)) (q_pending q)"
  shows "line q' = join_line m p (leave_line m (line q))"
proof -
  let ?g = "map_prod id score_priority :: brokerMessage \<times> int \<Rightarrow> _"
  let ?ys = "zsorted (zrem m (q_pending q))" and ?score = "pending_score p (q_sequence q + 1)"
  have d: "distinct (map snd (q_pending q))" using ok by (simp add: queue_ok_def)
  have new: "?score \<notin> snd ` set (q_pending q)" using queue_ok_new_score(2) [OF ok] by fastforce
  have bound: "q_sequence q + 1 \<le> priorityBucketSize" "1 \<le> q_sequence q + 1" using ok by (simp_all add: queue_ok_def)
  have g: "?g (m, ?score) = (m, p)" using bound by (simp add: score_priority_pending)
  have "snd x < ?score \<longleftrightarrow> p \<le> snd (?g x)" if "x \<in> set ?ys" for x
    using queue_ok_new_score(1) [OF ok, of x] that by (simp add: zsorted_def set_zrem)
  then have cong: "takeWhile (\<lambda>x. snd x < ?score) ?ys = takeWhile ((\<lambda>x. p \<le> snd x) \<circ> ?g) ?ys"
    "dropWhile (\<lambda>x. snd x < ?score) ?ys = dropWhile ((\<lambda>x. p \<le> snd x) \<circ> ?g) ?ys"
    by (auto cong: takeWhile_cong dropWhile_cong)
  have l: "leave_line m (line q) = map ?g ?ys"
    by (simp add: leave_line_def line_def zsorted_zrem [OF d] filter_map comp_def)
  have "line q' = map ?g (takeWhile ((\<lambda>x. p \<le> snd x) \<circ> ?g) ?ys @ (m, ?score) # dropWhile ((\<lambda>x. p \<le> snd x) \<circ> ?g) ?ys)"
    unfolding line_def q' zsorted_zadd [OF d new] cong ..
  then show ?thesis unfolding join_line_def l takeWhile_map dropWhile_map using g by simp
qed

lemma queue_ok_zadd:
  assumes ok: "queue_ok (Suc k) q" and p: "0 \<le> p" "p \<le> 9"
    and q': "q_pending q' = zadd m (pending_score p (q_sequence q + 1)) (q_pending q)"
    "q_sequence q' = q_sequence q + 1" "list_all (\<lambda>x. 0 \<le> snd x \<and> snd x \<le> 9) (q_priorities q')"
  shows "queue_ok k q'"
proof -
  have "pending_score p (q_sequence q + 1) \<notin> snd ` set (zrem m (q_pending q))"
    using queue_ok_new_score(2) [OF ok] by (fastforce simp: set_zrem)
  moreover have "m \<notin> fst ` set (zrem m (q_pending q))" by (auto simp: set_zrem)
  moreover have "score_ok (q_sequence q + 1) (snd x)" if "x \<in> set (zrem m (q_pending q))" for x
    using score_ok_mono [OF queue_ok_score [OF ok, of x]] that by (simp add: set_zrem)
  moreover have "score_ok (q_sequence q + 1) (pending_score p (q_sequence q + 1))"
    using ok p by (intro score_ok_new) (simp_all add: queue_ok_def)
  ultimately show ?thesis
    using ok q'(3) unfolding queue_ok_def q'(1,2) zadd_def
    by (simp add: distinct_fst_zrem distinct_snd_zrem list_all_iff)
qed

lemma queue_ok_zrem:
  assumes "queue_ok k q" and "q_pending q' = zrem m (q_pending q)" "q_sequence q' = q_sequence q"
    and "list_all (\<lambda>x. 0 \<le> snd x \<and> snd x \<le> 9) (q_priorities q')"
  shows "queue_ok k q'"
  using assms by (simp add: queue_ok_def distinct_fst_zrem distinct_snd_zrem list_all_iff set_zrem)

lemma queue_ok_keep:
  "queue_ok k q \<Longrightarrow> q_pending q' = q_pending q \<Longrightarrow> q_sequence q' = q_sequence q \<Longrightarrow>
    list_all (\<lambda>x. 0 \<le> snd x \<and> snd x \<le> 9) (q_priorities q') \<Longrightarrow> queue_ok k q'"
  by (simp add: queue_ok_def)

lemma line_keep: "q_pending q' = q_pending q \<Longrightarrow> line q' = line q"
  by (simp add: line_def)

lemma normalizePriority_range: "0 \<le> normalizePriority p" "normalizePriority p \<le> 9"
  by (simp_all add: normalizePriority_def)

lemma hget_range:
  assumes "queue_ok k q" shows "0 \<le> hget m (q_priorities q)" "hget m (q_priorities q) \<le> 9"
  using assms by (auto simp: hget_def queue_ok_def list_all_iff split: option.split dest!: map_of_SomeD)

lemma priorities_ok:
  assumes "queue_ok k q"
  shows "list_all (\<lambda>x. 0 \<le> snd x \<and> snd x \<le> 9) (hset m (normalizePriority p) (q_priorities q))"
    and "list_all (\<lambda>x. 0 \<le> snd x \<and> snd x \<le> 9) (hdel m (q_priorities q))"
    and "list_all (\<lambda>x. 0 \<le> snd x \<and> snd x \<le> 9) (q_priorities q)"
  using assms normalizePriority_range [of p] by (auto simp: queue_ok_def list_all_iff hset_def hdel_def)

lemma enqueue_line:
  assumes "queue_ok (Suc k) q"
  shows "line (enqueueScript m p q) = join_line m (normalizePriority p) (leave_line m (line q))"
    and "queue_ok k (enqueueScript m p q)"
  using line_zadd [OF assms] queue_ok_zadd [OF assms normalizePriority_range] priorities_ok(1) [OF assms]
  by (simp_all add: enqueueScript_def Let_def)

lemma nack_line:
  assumes "queue_ok (Suc k) q"
  shows "line (immediateNackScript m q) = join_line m (hget m (q_priorities q)) (leave_line m (line q))"
    and "queue_ok k (immediateNackScript m q)"
  using line_zadd [OF assms] queue_ok_zadd [OF assms hget_range [OF assms]] priorities_ok(3) [OF assms]
  by (simp_all add: immediateNackScript_def Let_def)

lemma promote_line:
  assumes "queue_ok (Suc k) q"
  shows "line (promote_one m q) = join_line m (hget m (q_priorities q)) (leave_line m (line q))"
    and "queue_ok k (promote_one m q)"
  using line_zadd [OF assms] queue_ok_zadd [OF assms hget_range [OF assms]] priorities_ok(3) [OF assms]
  by (simp_all add: promote_one_def Let_def)

lemma distinct_line: "queue_ok k q \<Longrightarrow> distinct (map fst (line q))"
  by (simp add: line_def queue_ok_def comp_def zsorted_def)

lemma leave_head: "distinct (map fst (x # l)) \<Longrightarrow> leave_line (fst x) (x # l) = l"
  by (auto simp: leave_line_def filter_id_conv image_iff)

lemma dequeue_line:
  assumes "queue_ok k q"
  shows "fst (dequeueScript q) = (case line q of [] \<Rightarrow> None | x # _ \<Rightarrow> Some (fst x))"
    and "line (snd (dequeueScript q)) = tl (line q)"
    and "queue_ok k (snd (dequeueScript q))"
proof -
  show "fst (dequeueScript q) = (case line q of [] \<Rightarrow> None | x # _ \<Rightarrow> Some (fst x))"
    by (auto simp: dequeueScript_def line_def split: list.split)
  show "queue_ok k (snd (dequeueScript q))"
    using assms priorities_ok(3) [OF assms]
    by (auto simp: dequeueScript_def split: list.split intro: queue_ok_zrem [OF assms])
  show "line (snd (dequeueScript q)) = tl (line q)"
  proof (cases "zsorted (q_pending q)")
    case Nil
    then show ?thesis by (simp add: dequeueScript_def line_def)
  next
    case (Cons x l)
    then have l: "line q = map_prod id score_priority x # map (map_prod id score_priority) l"
      by (simp add: line_def)
    have "line (snd (dequeueScript q)) = leave_line (fst x) (line q)"
      by (rule line_zrem [OF assms]) (simp add: dequeueScript_def Cons split: prod.split)
    also have "\<dots> = tl (line q)"
      using leave_head [OF distinct_line [OF assms, unfolded l]] by (simp add: l)
    finally show ?thesis .
  qed
qed


subsection \<open>The contract of a priority queue\<close>

text \<open>
  What a client of the broker may rely on: a queue shows a line of messages with their
  priorities, a message that is put into it joins the line, and taking a message takes
  the head of the line. \<open>ok k q\<close> says that \<open>q\<close> accepts \<open>k\<close> more messages.
\<close>

fun drain :: "('q \<Rightarrow> 'm option \<times> 'q) \<Rightarrow> nat \<Rightarrow> 'q \<Rightarrow> 'm list" where
  "drain get 0 q = []"
| "drain get (Suc n) q = (case get q of (None, _) \<Rightarrow> [] | (Some m, q') \<Rightarrow> m # drain get n q')"

lemma insort_map: "insort_key f (g x) (map g ys) = map g (insort_key (\<lambda>x. f (g x)) x ys)"
  by (induction ys) auto

lemma sort_key_map: "sort_key f (map g xs) = map g (sort_key (\<lambda>x. f (g x)) xs)"
  by (induction xs) (simp_all add: insort_map)

lemma join_sorted:
  fixes xs :: "('m \<times> int) list"
  assumes "m \<notin> fst ` set xs"
  shows "join_line m p (leave_line m (sort_key (\<lambda>x. - snd x) xs)) = sort_key (\<lambda>x. - snd x) (xs @ [(m, p)])"
proof -
  let ?f = "\<lambda>x :: 'm \<times> int. - snd x"
  let ?ys = "sort_key ?f xs"
  let ?l = "takeWhile (\<lambda>x. p \<le> snd x) ?ys" and ?r = "dropWhile (\<lambda>x. p \<le> snd x) ?ys"
  have leave: "leave_line m ?ys = ?ys" using assms by (auto simp: leave_line_def filter_id_conv)
  have sorted: "sorted (map ?f (?l @ ?r))" by simp
  have low: "snd x < p" if "x \<in> set ?r" for x
  proof -
    obtain y r where r: "?r = y # r" using \<open>x \<in> set ?r\<close> by (cases ?r) auto
    then have "\<not> p \<le> snd y" by (metis hd_dropWhile list.discI list.sel(1))
    moreover have "snd x \<le> snd y" using sorted that unfolding r by (auto simp: sorted_append)
    ultimately show ?thesis by simp
  qed
  have high: "p \<le> snd x" if "x \<in> set ?l" for x using set_takeWhileD [OF that] by simp
  have "sorted (map ?f (?l @ (m, p) # ?r))"
    using sorted low high unfolding map_append list.map sorted_append sorted_simps(2)
    by (auto simp: less_imp_le)
  moreover have "mset (?l @ (m, p) # ?r) = mset (xs @ [(m, p)])" by (simp add: mset_split)
  moreover have "filter (\<lambda>x. ?f k = ?f x) (?l @ (m, p) # ?r) = filter (\<lambda>x. ?f k = ?f x) (xs @ [(m, p)])" for k
  proof -
    have same: "filter (\<lambda>x. ?f k = ?f x) xs = filter (\<lambda>x. ?f k = ?f x) ?l @ filter (\<lambda>x. ?f k = ?f x) ?r"
      using sort_key_stable [of ?f "?f k" xs] unfolding filter_append [symmetric] takeWhile_dropWhile_id
      by (simp add: eq_commute)
    have none: "filter (\<lambda>x. ?f k = ?f x) ?r = []" if "snd k = p"
      unfolding filter_empty_conv using low that by fastforce
    have "filter (\<lambda>x. ?f k = ?f x) (?l @ (m, p) # ?r) =
        (filter (\<lambda>x. ?f k = ?f x) ?l @ filter (\<lambda>x. ?f k = ?f x) ?r) @ filter (\<lambda>x. ?f k = ?f x) [(m, p)]"
      using none by simp
    then show ?thesis unfolding same [symmetric] by simp
  qed
  ultimately have "sort_key ?f (xs @ [(m, p)]) = ?l @ (m, p) # ?r"
    by (intro properties_for_sort_key) auto
  then show ?thesis by (simp add: join_line_def leave)
qed

locale priority_line =
  fixes wait :: "'q \<Rightarrow> ('m \<times> int) list"
    and ok :: "nat \<Rightarrow> 'q \<Rightarrow> bool"
    and clamp :: "int \<Rightarrow> int"
    and put :: "'m \<Rightarrow> int \<Rightarrow> 'q \<Rightarrow> 'q"
    and get :: "'q \<Rightarrow> 'm option \<times> 'q"
  assumes put_wait: "ok (Suc k) q \<Longrightarrow> wait (put m p q) = join_line m (clamp p) (leave_line m (wait q))"
    and put_ok: "ok (Suc k) q \<Longrightarrow> ok k (put m p q)"
    and get_first: "ok k q \<Longrightarrow> fst (get q) = (case wait q of [] \<Rightarrow> None | x # _ \<Rightarrow> Some (fst x))"
    and get_rest: "ok k q \<Longrightarrow> wait (snd (get q)) = tl (wait q)"
    and get_ok: "ok k q \<Longrightarrow> ok k (snd (get q))"
begin

lemma drain_wait: "ok k q \<Longrightarrow> length (wait q) \<le> n \<Longrightarrow> drain get n q = map fst (wait q)"
proof (induction n arbitrary: q)
  case (Suc n)
  note first = get_first [OF Suc.prems(1)] and rest = get_rest [OF Suc.prems(1)]
  show ?case
  proof (cases "wait q")
    case Nil
    then show ?thesis using first by (auto split: prod.split)
  next
    case (Cons x l)
    then have "drain get n (snd (get q)) = map fst l"
      using Suc.IH [OF get_ok [OF Suc.prems(1)]] Suc.prems(2) rest by simp
    then show ?thesis using first Cons by (simp add: split_beta split: option.split)
  qed
qed simp

lemma fill_wait:
  assumes "ok (length xs + k) q" and "wait q = sort_key (\<lambda>x. - snd x) ys"
    and "distinct (map fst (ys @ xs))"
  shows "wait (fold (\<lambda>(m, p). put m p) xs q) = sort_key (\<lambda>x. - snd x) (ys @ map (map_prod id clamp) xs) \<and>
    ok k (fold (\<lambda>(m, p). put m p) xs q)"
  using assms
proof (induction xs arbitrary: q ys)
  case (Cons x xs)
  obtain m p where x: "x = (m, p)" by (cases x)
  have ok: "ok (Suc (length xs + k)) q" using Cons.prems(1) by simp
  have "m \<notin> fst ` set ys" using Cons.prems(3) x by auto
  then have "wait (put m p q) = sort_key (\<lambda>x. - snd x) (ys @ [(m, clamp p)])"
    using put_wait [OF ok, of m p] join_sorted Cons.prems(2) by simp
  then show ?case
    using Cons.IH [OF put_ok [OF ok, of m p], of "ys @ [(m, clamp p)]"] Cons.prems(3) x by (simp add: comp_def)
qed simp

text \<open>Filling an empty queue and draining it sorts the messages by priority, stably.\<close>

lemma drain_fill:
  assumes "ok (length xs + k) q" and "wait q = []" and "distinct (map fst xs)"
  shows "drain get (length xs) (fold (\<lambda>(m, p). put m p) xs q) =
    map fst (sort_key (\<lambda>x. - clamp (snd x)) xs)"
proof -
  let ?q = "fold (\<lambda>(m, p). put m p) xs q"
  have ok: "ok k ?q" using fill_wait [of xs k q "[]"] assms by simp
  have "wait ?q = sort_key (\<lambda>x. - snd x) (map (map_prod id clamp) xs)"
    using fill_wait [of xs k q "[]"] assms by simp
  also have "\<dots> = map (map_prod id clamp) (sort_key (\<lambda>x. - clamp (snd x)) xs)"
    by (simp add: sort_key_map)
  finally show ?thesis using drain_wait [OF ok, of "length xs"] by (simp add: comp_def)
qed

end


interpretation rq: priority_line line queue_ok normalizePriority enqueueScript dequeueScript
  by unfold_locales (simp_all add: enqueue_line dequeue_line)

subsection \<open>The abstract queue\<close>

text \<open>
  The queue as its users see it: the line, the set of messages in flight, the delayed
  messages with the times they are due (earliest first), the priority every message was
  last enqueued with, and the dead letters.
\<close>

record queue_spec =
  sq_line :: "(brokerMessage \<times> int) list"
  sq_busy :: "brokerMessage set"
  sq_later :: "(brokerMessage \<times> int) list"
  sq_priority :: "brokerMessage \<Rightarrow> int"
  sq_dead :: "brokerMessage list"

datatype queue_op =
    OpEnqueue brokerMessage int
  | OpDequeue
  | OpAck brokerMessage
  | OpNack brokerMessage
  | OpNackLater brokerMessage int
  | OpEnqueueLater brokerMessage int int
  | OpPromote int
  | OpDeadLetter brokerMessage
  | OpRemove brokerMessage

fun run_op :: "queue_op \<Rightarrow> queue_data \<Rightarrow> brokerMessage list \<times> queue_data" where
  "run_op (OpEnqueue m p) q = ([], enqueueScript m p q)"
| "run_op OpDequeue q = (case dequeueScript q of (r, q') \<Rightarrow> (case r of None \<Rightarrow> [] | Some m \<Rightarrow> [m], q'))"
| "run_op (OpAck m) q = ([], ack_pipe m q)"
| "run_op (OpNack m) q = ([], immediateNackScript m q)"
| "run_op (OpNackLater m readyMs) q = ([], nack_pipe m readyMs q)"
| "run_op (OpEnqueueLater m p readyMs) q = ([], delay_pipe m p readyMs q)"
| "run_op (OpPromote nowMs) q = ([], snd (promoteDelayedScript nowMs q))"
| "run_op (OpDeadLetter m) q = ([], dead_letter_pipe m q)"
| "run_op (OpRemove m) q = ([], remove_pipe m q)"

definition rejoin :: "brokerMessage \<Rightarrow> queue_spec \<Rightarrow> queue_spec" where
  "rejoin m a = a\<lparr>sq_line := join_line m (sq_priority a m) (leave_line m (sq_line a))\<rparr>"

definition postpone :: "brokerMessage \<Rightarrow> int \<Rightarrow> queue_spec \<Rightarrow> queue_spec" where
  "postpone m t a = a\<lparr>sq_later := insert_by z_before (m, t) (leave_line m (sq_later a))\<rparr>"

definition promote_spec :: "brokerMessage \<Rightarrow> queue_spec \<Rightarrow> queue_spec" where
  "promote_spec m a = rejoin m (a\<lparr>sq_later := leave_line m (sq_later a)\<rparr>)"

definition forget :: "brokerMessage \<Rightarrow> queue_spec \<Rightarrow> queue_spec" where
  "forget m a =
     a\<lparr>sq_line := leave_line m (sq_line a), sq_busy := sq_busy a - {m},
       sq_later := leave_line m (sq_later a), sq_priority := (sq_priority a)(m := 0)\<rparr>"

fun spec_op :: "queue_op \<Rightarrow> queue_spec \<Rightarrow> brokerMessage list \<times> queue_spec" where
  "spec_op (OpEnqueue m p) a = ([], rejoin m (a\<lparr>sq_priority := (sq_priority a)(m := normalizePriority p)\<rparr>))"
| "spec_op OpDequeue a =
     (case sq_line a of
        [] \<Rightarrow> ([], a)
      | (m, _) # l \<Rightarrow> ([m], a\<lparr>sq_line := l, sq_busy := insert m (sq_busy a)\<rparr>))"
| "spec_op (OpAck m) a = ([], a\<lparr>sq_busy := sq_busy a - {m}, sq_priority := (sq_priority a)(m := 0)\<rparr>)"
| "spec_op (OpNack m) a = ([], rejoin m (a\<lparr>sq_busy := sq_busy a - {m}\<rparr>))"
| "spec_op (OpNackLater m t) a = ([], postpone m t (a\<lparr>sq_busy := sq_busy a - {m}\<rparr>))"
| "spec_op (OpEnqueueLater m p t) a =
     ([], postpone m t (a\<lparr>sq_priority := (sq_priority a)(m := normalizePriority p)\<rparr>))"
| "spec_op (OpPromote nowMs) a =
     ([], fold promote_spec (take 100 (map fst (filter (\<lambda>x. snd x \<le> nowMs) (sq_later a)))) a)"
| "spec_op (OpDeadLetter m) a = ([], (forget m a)\<lparr>sq_dead := m # sq_dead a\<rparr>)"
| "spec_op (OpRemove m) a = ([], (forget m a)\<lparr>sq_dead := removeAll m (sq_dead a)\<rparr>)"

definition queue_abs :: "queue_data \<Rightarrow> queue_spec" where
  "queue_abs q =
     \<lparr>sq_line = line q, sq_busy = fst ` set (q_processing q), sq_later = zsorted (q_delayed q),
      sq_priority = (\<lambda>m. hget m (q_priorities q)), sq_dead = q_dlq q\<rparr>"

text \<open>How many sequence numbers an operation may use up.\<close>

fun op_cost :: "queue_op \<Rightarrow> nat" where
  "op_cost (OpEnqueue _ _) = 1"
| "op_cost (OpNack _) = 1"
| "op_cost (OpPromote _) = 100"
| "op_cost _ = 0"

subsection \<open>Refinement\<close>

lemma hget_hset: "hget m (hset m' v h) = (if m = m' then v else hget m h)"
proof -
  have "map_of (filter (\<lambda>p. fst p \<noteq> m') h) m = (if m = m' then None else map_of h m)"
    by (induction h) auto
  then show ?thesis by (auto simp: hget_def hset_def map_add_def split: option.split)
qed

lemma hget_hdel: "hget m (hdel m' h) = (if m = m' then 0 else hget m h)"
proof -
  have "map_of (filter (\<lambda>p. fst p \<noteq> m') h) m = (if m = m' then None else map_of h m)"
    by (induction h) auto
  then show ?thesis by (simp add: hget_def hdel_def)
qed

definition zkey :: "brokerMessage \<times> int \<Rightarrow> int \<times> uuid \<times> uuid" where
  "zkey x = (snd x, bm_OrgID (fst x), bm_TaskID (fst x))"

lemma z_before_zkey: "z_before a b \<longleftrightarrow> zkey a < zkey b"
  by (auto simp: z_before_def zkey_def msg_before_def)

lemma inj_zkey: "inj zkey"
  by (auto simp: inj_def zkey_def intro: brokerMessage.equality)

lemma insert_by_insort: "insert_by z_before x ys = insort_key zkey x ys"
  by (induction ys) (auto simp: z_before_zkey)

lemma zsorted_zkey: "zsorted z = sort_key zkey z"
  by (induction z) (simp_all add: zsorted_def sort_by_def insert_by_insort)

lemma later_zrem: "zsorted (zrem m z) = leave_line m (zsorted z)"
  by (simp add: zsorted_zkey zrem_def leave_line_def filter_sort)

lemma later_zadd: "zsorted (zadd m t z) = insert_by z_before (m, t) (leave_line m (zsorted z))"
proof -
  have "sort_key zkey (zrem m z @ [(m, t)]) = insort_key zkey (m, t) (sort_key zkey (zrem m z))"
    by (rule sort_key_inj_key_eq) (auto simp: sorted_insort_key dest: injD [OF inj_zkey] intro: inj_on_subset [OF inj_zkey])
  then show ?thesis by (simp only: zadd_def insert_by_insort later_zrem [symmetric]) (simp add: zsorted_zkey)
qed


lemmas spec_defs = rejoin_def postpone_def promote_spec_def forget_def queue_abs_def

lemma set_zrem_fst: "fst ` set (zrem m z) = fst ` set z - {m}"
  by (auto simp: zrem_def)

lemma set_zadd_fst: "fst ` set (zadd m s z) = insert m (fst ` set z)"
  by (auto simp: zadd_def set_zrem_fst)

lemma abs_promote:
  assumes "queue_ok (Suc k) q"
  shows "queue_abs (promote_one m q) = promote_spec m (queue_abs q)"
  using promote_line(1) [OF assms, of m]
  by (simp add: spec_defs) (simp add: promote_one_def Let_def later_zrem)

lemma abs_promotes:
  assumes "queue_ok (length ms + k) q"
  shows "queue_abs (fold promote_one ms q) = fold promote_spec ms (queue_abs q) \<and> queue_ok k (fold promote_one ms q)"
  using assms
proof (induction ms arbitrary: q)
  case (Cons m ms)
  then have ok: "queue_ok (Suc (length ms + k)) q" by simp
  show ?case using Cons.IH [OF promote_line(2) [OF ok, of m]] abs_promote [OF ok, of m] by simp
qed simp

lemma queue_ok_less: "queue_ok k q \<Longrightarrow> j \<le> k \<Longrightarrow> queue_ok j q"
  by (simp add: queue_ok_def)

lemma abs_due: "due_delayed nowMs q = take 100 (map fst (filter (\<lambda>x. snd x \<le> nowMs) (zsorted (q_delayed q))))"
  by (simp add: due_delayed_def zsorted_zkey filter_sort)

lemma refine_dequeue:
  assumes ok: "queue_ok k q"
  shows "fst (run_op OpDequeue q) = fst (spec_op OpDequeue (queue_abs q)) \<and>
    queue_abs (snd (run_op OpDequeue q)) = snd (spec_op OpDequeue (queue_abs q)) \<and>
    queue_ok k (snd (run_op OpDequeue q))"
proof (cases "line q")
  case Nil
  then have "zsorted (q_pending q) = []" by (simp add: line_def)
  then have "dequeueScript q = (None, q)" by (simp add: dequeueScript_def)
  then show ?thesis using ok Nil by (simp add: queue_abs_def)
next
  case (Cons y l)
  note d = dequeue_line [OF ok]
  obtain m q' where m: "dequeueScript q = (Some m, q')" "m = fst y"
    using d(1) Cons by (cases "dequeueScript q") auto
  then have "q_processing q' = zadd m (snd (hd (zsorted (q_pending q)))) (q_processing q)" "q_delayed q' = q_delayed q"
    "q_priorities q' = q_priorities q" "q_dlq q' = q_dlq q"
    by (auto simp: dequeueScript_def split: list.splits)
  then show ?thesis using d Cons m by (auto simp: queue_abs_def set_zadd_fst split: prod.split)
qed

lemma refine_promote:
  assumes "queue_ok (100 + k) q"
  shows "queue_abs (snd (promoteDelayedScript nowMs q)) = snd (spec_op (OpPromote nowMs) (queue_abs q)) \<and>
    queue_ok k (snd (promoteDelayedScript nowMs q))"
proof -
  have "queue_ok (length (due_delayed nowMs q) + k) q"
    using assms by (auto simp: due_delayed_def intro: queue_ok_less)
  from abs_promotes [OF this] show ?thesis
    by (simp add: promoteDelayedScript_def Let_def abs_due queue_abs_def)
qed

lemmas pipe_defs = ack_pipe_def nack_pipe_def delay_pipe_def dead_letter_pipe_def remove_pipe_def

lemma pipes_ok:
  assumes ok: "queue_ok k q"
  shows "queue_ok k (ack_pipe m q)" "line (ack_pipe m q) = line q"
    and "queue_ok k (nack_pipe m t q)" "line (nack_pipe m t q) = line q"
    and "queue_ok k (delay_pipe m p t q)" "line (delay_pipe m p t q) = line q"
    and "queue_ok k (dead_letter_pipe m q)" "line (dead_letter_pipe m q) = leave_line m (line q)"
    and "queue_ok k (remove_pipe m q)" "line (remove_pipe m q) = leave_line m (line q)"
  by (auto simp: pipe_defs priorities_ok [OF ok]
      intro: queue_ok_keep [OF ok] queue_ok_zrem [OF ok] line_keep line_zrem [OF ok])

lemma abs_pipes:
  assumes ok: "queue_ok k q"
  shows "queue_abs (ack_pipe m q) = snd (spec_op (OpAck m) (queue_abs q))"
    and "queue_abs (nack_pipe m t q) = snd (spec_op (OpNackLater m t) (queue_abs q))"
    and "queue_abs (delay_pipe m p t q) = snd (spec_op (OpEnqueueLater m p t) (queue_abs q))"
    and "queue_abs (dead_letter_pipe m q) = snd (spec_op (OpDeadLetter m) (queue_abs q))"
    and "queue_abs (remove_pipe m q) = snd (spec_op (OpRemove m) (queue_abs q))"
  by (simp_all add: spec_defs pipes_ok [OF ok])
    (auto simp: pipe_defs set_zrem_fst hget_hset hget_hdel later_zadd later_zrem)

lemma abs_scripts:
  assumes ok: "queue_ok (Suc k) q"
  shows "queue_abs (enqueueScript m p q) = snd (spec_op (OpEnqueue m p) (queue_abs q))"
    and "queue_abs (immediateNackScript m q) = snd (spec_op (OpNack m) (queue_abs q))"
  by (simp_all add: spec_defs enqueue_line [OF ok] nack_line [OF ok])
    (auto simp: enqueueScript_def immediateNackScript_def Let_def hget_hset set_zrem_fst)

lemma refine_op:
  assumes "queue_ok (op_cost x + k) q"
  shows "fst (run_op x q) = fst (spec_op x (queue_abs q)) \<and>
    queue_abs (snd (run_op x q)) = snd (spec_op x (queue_abs q)) \<and> queue_ok k (snd (run_op x q))"
proof (cases x)
  case OpDequeue
  then show ?thesis using refine_dequeue [of k q] assms by simp
next
  case (OpPromote nowMs)
  then show ?thesis using refine_promote [of k q nowMs] assms by simp
next
  case (OpEnqueue m p)
  then have ok: "queue_ok (Suc k) q" using assms by simp
  show ?thesis using abs_scripts(1) [OF ok, of m p] enqueue_line(2) [OF ok, of m p] by (simp add: OpEnqueue)
next
  case (OpNack m)
  then have ok: "queue_ok (Suc k) q" using assms by simp
  show ?thesis using abs_scripts(2) [OF ok, of m] nack_line(2) [OF ok, of m] by (simp add: OpNack)
qed (use assms in \<open>simp_all add: abs_pipes pipes_ok\<close>)


subsection \<open>Sequences of operations\<close>

fun run_ops :: "(queue_op \<Rightarrow> 'q \<Rightarrow> brokerMessage list \<times> 'q) \<Rightarrow> queue_op list \<Rightarrow> 'q \<Rightarrow> brokerMessage list \<times> 'q" where
  "run_ops f [] q = ([], q)"
| "run_ops f (x # xs) q = (let (a, q') = f x q; (b, q'') = run_ops f xs q' in (a @ b, q''))"

definition first_ops :: "queue_op list" where
  "first_ops =
     [OpEnqueue (message 1 11) 2, OpEnqueue (message 1 12) 7, OpEnqueue (message 1 13) 2,
      OpEnqueueLater (message 1 14) 12 50, OpDequeue, OpPromote 60, OpDequeue, OpNack (message 1 12), OpDequeue]"

lemma refine_ops:
  assumes "queue_ok (sum_list (map op_cost xs) + k) q"
  shows "fst (run_ops run_op xs q) = fst (run_ops spec_op xs (queue_abs q)) \<and>
    queue_abs (snd (run_ops run_op xs q)) = snd (run_ops spec_op xs (queue_abs q)) \<and>
    queue_ok k (snd (run_ops run_op xs q))"
  using assms
proof (induction xs arbitrary: q)
  case (Cons x xs)
  then have "queue_ok (op_cost x + (sum_list (map op_cost xs) + k)) q" by (simp add: add.assoc)
  note step = refine_op [OF this]
  from Cons.IH [OF conjunct2 [OF conjunct2 [OF step]]] step show ?case by (simp add: split_beta Let_def)
qed simp

lemma empty_queue_ok: "int k < priorityBucketSize \<Longrightarrow> queue_ok k empty_queue"
  by (simp add: queue_ok_def)

text \<open>
  C8. The Redis representation refines the abstract queue: any sequence of broker
  operations on a queue hands out the same messages in the same order as the abstract
  queue does and leaves a representation of its state, as long as the sequence counter
  stays below the bucket size (a trillion operations).
\<close>

theorem broker_refines_queue:
  assumes "queue_ok (sum_list (map op_cost xs)) q"
  shows "fst (run_ops run_op xs q) = fst (run_ops spec_op xs (queue_abs q)) \<and>
    queue_abs (snd (run_ops run_op xs q)) = snd (run_ops spec_op xs (queue_abs q))"
  using refine_ops [of xs 0 q] assms by simp

theorem broker_refines_queue_witness:
  "fst (run_ops run_op first_ops empty_queue) = [message 1 12, message 1 14, message 1 12]"
proof -
  have "queue_ok (sum_list (map op_cost first_ops)) empty_queue"
    by (rule empty_queue_ok) (simp add: first_ops_def priorityBucketSize_def)
  from broker_refines_queue [OF this]
  have "fst (run_ops run_op first_ops empty_queue) = fst (run_ops spec_op first_ops (queue_abs empty_queue))" by simp
  also have "\<dots> = [message 1 12, message 1 14, message 1 12]" by code_simp
  finally show ?thesis .
qed

text \<open>
  C9. Messages enqueued into an empty queue are handed out in the order of their
  priorities, clamped to 0 to 9, the highest first, and in the order of their arrival
  within a priority: draining the queue is a stable sort.
\<close>

theorem dequeue_order:
  assumes "distinct (map fst xs)" and "int (length xs) < priorityBucketSize"
  shows "drain dequeueScript (length xs) (fold (\<lambda>(m, p). enqueueScript m p) xs empty_queue) =
    map fst (sort_key (\<lambda>x. - normalizePriority (snd x)) xs)"
  using rq.drain_fill [of xs 0 empty_queue] assms empty_queue_ok by (simp add: line_def zsorted_def sort_by_def)

theorem dequeue_order_witness:
  "drain dequeueScript 4 (fold (\<lambda>(m, p). enqueueScript m p)
      [(message 1 5, 3), (message 1 6, 12), (message 1 7, 3), (message 1 8, 9)] empty_queue) =
    [message 1 6, message 1 8, message 1 5, message 1 7]"
  using dequeue_order [of "[(message 1 5, 3), (message 1 6, 12), (message 1 7, 3), (message 1 8, 9)]"]
  by (simp add: message_def priorityBucketSize_def normalizePriority_def eval_nat_numeral del: drain.simps)

subsection \<open>No message is lost\<close>

definition held_messages :: "queue_data \<Rightarrow> brokerMessage set" where
  "held_messages q =
     fst ` set (q_pending q) \<union> fst ` set (q_processing q) \<union> fst ` set (q_delayed q) \<union> set (q_dlq q)"

lemma held_promotes: "held_messages q \<subseteq> held_messages (fold promote_one ms q)"
proof (induction ms arbitrary: q)
  case (Cons m ms)
  have "held_messages q \<subseteq> held_messages (promote_one m q)"
    by (auto simp: held_messages_def promote_one_def Let_def set_zrem_fst set_zadd_fst)
  with Cons show ?case by auto
qed simp

lemma held_op:
  assumes "m \<in> held_messages q" and "x \<noteq> OpAck m" and "x \<noteq> OpRemove m"
  shows "m \<in> held_messages (snd (run_op x q))"
proof (cases x)
  case OpDequeue
  then show ?thesis using assms(1)
    by (auto simp: dequeueScript_def held_messages_def set_zrem_fst set_zadd_fst split: list.split)
next
  case (OpPromote nowMs)
  then show ?thesis using assms(1) held_promotes by (auto simp: promoteDelayedScript_def Let_def)
qed (use assms in \<open>auto simp: held_messages_def pipe_defs enqueueScript_def immediateNackScript_def Let_def
      set_zrem_fst set_zadd_fst\<close>)

lemma held_run:
  "m \<in> held_messages q \<Longrightarrow> OpAck m \<notin> set xs \<Longrightarrow> OpRemove m \<notin> set xs \<Longrightarrow>
    m \<in> held_messages (snd (run_ops run_op xs q))"
proof (induction xs arbitrary: q)
  case (Cons x xs)
  then have "m \<in> held_messages (snd (run_op x q))" by (intro held_op) auto
  from Cons.IH [OF this] Cons.prems show ?case by (simp add: split_beta Let_def)
qed simp

text \<open>
  C10. Delivery is at least once: a message that is in a queue, in flight, delayed or
  dead-lettered stays in one of these places, through every sequence of operations, until
  it is acknowledged or removed.
\<close>

theorem message_not_lost:
  assumes "m \<in> held_messages q" and "OpAck m \<notin> set xs" and "OpRemove m \<notin> set xs"
  shows "m \<in> held_messages (snd (run_ops run_op xs q))"
  using assms by (rule held_run)

theorem message_not_lost_witness:
  "message 1 12 \<in> held_messages (snd (run_ops run_op (tl (tl first_ops))
     (enqueueScript (message 1 12) 7 (enqueueScript (message 1 11) 2 empty_queue))))"
  by (rule message_not_lost)
    (simp_all add: first_ops_def held_messages_def enqueueScript_def Let_def zadd_def message_def)

subsection \<open>Redis keys\<close>

lemma split_at_last:
  assumes "a @ c # x = b @ c # y" and "c \<notin> set x" and "c \<notin> set y"
  shows "a = b \<and> x = y"
proof -
  have "rev x @ c # rev a = rev y @ c # rev b"
    using arg_cong [OF assms(1), of rev] by simp
  moreover have "takeWhile (\<lambda>z. z \<noteq> c) (rev x @ c # rev a) = rev x"
    "takeWhile (\<lambda>z. z \<noteq> c) (rev y @ c # rev b) = rev y"
    using assms(2,3) by (auto simp: takeWhile_append2 takeWhile_append)
  ultimately have "x = y" by (metis rev_rev_ident)
  then show ?thesis using assms(1) by simp
qed

text \<open>
  C11. Tenants and queues are isolated: the keys of two queues, of two parts of a queue or
  of two organisations are never equal, whatever characters a queue name has, as long as
  the texts of two identifiers have the same length and determine the identifiers.
\<close>

theorem queue_keys_distinct:
  assumes "length (uuid_text E org1) = length (uuid_text E org2)"
    and "uuid_text E org1 = uuid_text E org2 \<Longrightarrow> org1 = org2"
    and "part1 \<in> set key_suffixes" and "part2 \<in> set key_suffixes"
  shows "queueKey E org1 queue1 part1 = queueKey E org2 queue2 part2 \<longleftrightarrow>
    org1 = org2 \<and> queue1 = queue2 \<and> part1 = part2"
proof
  assume eq: "queueKey E org1 queue1 part1 = queueKey E org2 queue2 part2"
  then have same_id: "uuid_text E org1 = uuid_text E org2"
    and rest: "queue1 @ CHR '':'' # part1 = queue2 @ CHR '':'' # part2"
    using assms(1) by (simp_all add: queueKey_def)
  have "CHR '':'' \<notin> set part1" "CHR '':'' \<notin> set part2"
    using assms(3,4) by (auto simp: key_suffixes_def)
  from split_at_last [OF rest this] assms(2) [OF same_id]
  show "org1 = org2 \<and> queue1 = queue2 \<and> part1 = part2" by simp
qed simp

theorem queue_keys_distinct_witness:
  "queueKey quiet 1 ''a:dlq'' ''pending'' \<noteq> queueKey quiet 2 ''a'' ''pending''"
proof -
  have "length (uuid_text quiet 1) = length (uuid_text quiet 2)" by code_simp
  moreover have "uuid_text quiet 1 \<noteq> uuid_text quiet 2" by code_simp
  moreover have "''pending'' \<in> set key_suffixes" by (simp add: key_suffixes_def)
  ultimately show ?thesis
    using queue_keys_distinct [of quiet 1 2 "''pending''" "''pending''" "''a:dlq''" "''a''"] by fastforce
qed

end
