(* ===== verification/Delivery_Worker.thy ===== *)
theory Delivery_Worker
  imports Webhook_Events
begin

text \<open>
  The worker that sends due webhook deliveries (webhook_delivery_worker.go) and the
  signature of a request (crypto.go). The cipher, the message authentication code and
  the receiver of the requests are parameters.
\<close>

record WebhookHTTPRequest =
  rq_URL :: string
  rq_Headers :: "(string \<times> string) list"
  rq_Body :: raw

record WebhookHTTPResponse =
  rs_StatusCode :: int
  rs_Body :: string

text \<open>\<open>dw_hmac\<close> is the hexadecimal HMAC-SHA256 of a message under a key.\<close>

record delivery_worker =
  dw_decrypt :: "string \<Rightarrow> string + string"
  dw_hmac :: "string \<Rightarrow> string \<Rightarrow> string"
  dw_send :: "nat \<Rightarrow> WebhookHTTPRequest \<Rightarrow> string + WebhookHTTPResponse"
  dw_batchSize :: int
  dw_initialBackoff :: int
  dw_maxBackoff :: int

definition NewWebhookDeliveryWorker :: "delivery_worker \<Rightarrow> delivery_worker" where
  "NewWebhookDeliveryWorker w =
     w\<lparr>dw_batchSize := (if dw_batchSize w \<le> 0 then 50 else dw_batchSize w),
       dw_initialBackoff := (if dw_initialBackoff w \<le> 0 then 5 * Second else dw_initialBackoff w),
       dw_maxBackoff := (if dw_maxBackoff w \<le> 0 then 60 * Minute else dw_maxBackoff w)\<rparr>"

definition raw_text :: "raw \<Rightarrow> string" where
  "raw_text r = (case r of RawNil \<Rightarrow> [] | RawBad s \<Rightarrow> s | RawDoc j \<Rightarrow> json_text j)"

definition Sign :: "delivery_worker \<Rightarrow> string \<Rightarrow> string \<Rightarrow> string \<Rightarrow> string" where
  "Sign w secret timestamp payload = ''v1='' @ dw_hmac w secret (timestamp @ ''.'' @ payload)"

definition Verify :: "delivery_worker \<Rightarrow> string \<Rightarrow> string \<Rightarrow> string \<Rightarrow> string \<Rightarrow> bool" where
  "Verify w secret timestamp payload signature \<longleftrightarrow> Sign w secret timestamp payload = signature"

definition unix_seconds :: "time \<Rightarrow> int" where
  "unix_seconds t = t div Second - 62135596800"

subsection \<open>Backoff\<close>

text \<open>\<open>n\<close> rounds of the loop are left; \<open>Inl\<close> is the return inside it.\<close>

fun backoff_rounds :: "int \<Rightarrow> nat \<Rightarrow> int \<Rightarrow> int + int" where
  "backoff_rounds maxBackoff 0 b = Inr b"
| "backoff_rounds maxBackoff (Suc n) b =
     (if \<not> b < maxBackoff then Inr b
      else if b > maxBackoff div 2 then Inl maxBackoff
      else backoff_rounds maxBackoff n (i64 (b * 2)))"

definition backoff :: "delivery_worker \<Rightarrow> int \<Rightarrow> int" where
  "backoff w attempt =
     (case backoff_rounds (dw_maxBackoff w) (nat (attempt - 1)) (dw_initialBackoff w) of
        Inl b \<Rightarrow> b
      | Inr b \<Rightarrow> if b > dw_maxBackoff w then dw_maxBackoff w else b)"

subsection \<open>Processing\<close>

definition delivery_status_text :: "WebhookDeliveryStatus \<Rightarrow> string" where
  "delivery_status_text st =
     (case st of
        WebhookDeliveryPending \<Rightarrow> ''pending'' | WebhookDeliveryDelivering \<Rightarrow> ''delivering''
      | WebhookDeliveryDelivered \<Rightarrow> ''delivered'' | WebhookDeliveryRetrying \<Rightarrow> ''retrying''
      | WebhookDeliveryFailed \<Rightarrow> ''failed'')"

definition delivery_metric ::
  "env \<Rightarrow> WebhookDelivery \<Rightarrow> MetricEventType \<Rightarrow> time \<Rightarrow> string \<Rightarrow> unit io" where
  "delivery_metric E delivery eventType now errorCode =
     Record E
       \<lparr>mi_OrganizationID = wd_OrgID delivery, mi_Source = MetricSourceEventForge,
        mi_EventType = eventType, mi_ResourceType = MetricResourceWebhookDelivery,
        mi_ResourceID = uuid_text E (wd_ID delivery), mi_Queue = [],
        mi_Status = delivery_status_text (wd_Status delivery), mi_DurationMS = None,
        mi_OccurredAt = now,
        mi_Metadata = no_metadata\<lparr>mm_Attempt := Some (wd_AttemptCount delivery),
                                  mm_MaxAttempts := Some (wd_MaxAttempts delivery),
                                  mm_ErrorCode := errorCode\<rparr>,
        mi_TransitionKey = MetricTransitionKey (wd_AttemptCount delivery) eventType\<rparr>"

definition failed_attempt ::
  "delivery_worker \<Rightarrow> WebhookDelivery \<Rightarrow> WebhookHTTPResponse option \<Rightarrow> string \<Rightarrow> time \<Rightarrow> WebhookDelivery" where
  "failed_attempt w delivery response msg now =
     (let d = delivery\<lparr>wd_LastError := Some msg, wd_UpdatedAt := now,
                       wd_ResponseStatus := map_option rs_StatusCode response,
                       wd_ResponseBody := map_option rs_Body response\<rparr> in
      if wd_AttemptCount d \<ge> wd_MaxAttempts d
      then d\<lparr>wd_Status := WebhookDeliveryFailed, wd_NextAttemptAt := None\<rparr>
      else d\<lparr>wd_Status := WebhookDeliveryRetrying,
             wd_NextAttemptAt := Some (now + backoff w (wd_AttemptCount d))\<rparr>)"

text \<open>The result is the list of the errors that are joined; none is the nil error.\<close>

definition recordFailure ::
  "env \<Rightarrow> delivery_worker \<Rightarrow> WebhookDelivery \<Rightarrow> WebhookHTTPResponse option \<Rightarrow> string \<Rightarrow> time \<Rightarrow> err list io" where
  "recordFailure E w delivery response msg now = do {
     let d = failed_attempt w delivery response msg now;
     r \<leftarrow> UpdateWebhookDelivery E d;
     case r of
       Inl e \<Rightarrow> State_Monad.return [ErrInfra msg, e]
     | Inr _ \<Rightarrow> do {
         delivery_metric E d MetricDeliveryFailed now ''delivery_error'';
         delivery_metric E d
           (if wd_Status d = WebhookDeliveryFailed then MetricDeliveryExhausted
            else MetricDeliveryRetryScheduled) now ''delivery_error'';
         State_Monad.return [] } }"

definition delivered :: "WebhookDelivery \<Rightarrow> WebhookHTTPResponse \<Rightarrow> time \<Rightarrow> WebhookDelivery" where
  "delivered delivery response now =
     delivery\<lparr>wd_Status := WebhookDeliveryDelivered, wd_NextAttemptAt := None,
              wd_ResponseStatus := Some (rs_StatusCode response),
              wd_ResponseBody := Some (rs_Body response), wd_LastError := None, wd_UpdatedAt := now\<rparr>"

definition webhook_request ::
  "env \<Rightarrow> delivery_worker \<Rightarrow> WebhookDelivery \<Rightarrow> WebhookEndpoint \<Rightarrow> string \<Rightarrow> time \<Rightarrow> WebhookHTTPRequest" where
  "webhook_request E w delivery endpoint secret now =
     (let timestamp = itoa (unix_seconds now) in
      \<lparr>rq_URL = we_URL endpoint,
       rq_Headers =
         [(''X-Windylane-Event'', webhook_event_text (wd_EventType delivery)),
          (''X-Windylane-Delivery'', uuid_text E (wd_ID delivery)),
          (''X-Windylane-Timestamp'', timestamp),
          (''X-Windylane-Signature'', Sign w secret timestamp (raw_text (wd_Payload delivery)))],
       rq_Body = wd_Payload delivery\<rparr>)"

definition process_delivery ::
  "env \<Rightarrow> delivery_worker \<Rightarrow> WebhookDelivery \<Rightarrow> time \<Rightarrow> err list io" where
  "process_delivery E w delivery now = do {
     found \<leftarrow> GetWebhookEndpoint E (wd_OrgID delivery) (wd_EndpointID delivery);
     case found of
       Inl e \<Rightarrow> recordFailure E w delivery None (error_text e) now
     | Inr endpoint \<Rightarrow>
         if \<not> we_IsActive endpoint
         then recordFailure E w delivery None ''webhook endpoint is inactive'' now
         else
           (case dw_decrypt w (we_SecretCiphertext endpoint) of
              Inl e \<Rightarrow> recordFailure E w delivery None e now
            | Inr secret \<Rightarrow> do {
                t \<leftarrow> tick;
                case dw_send w t (webhook_request E w delivery endpoint secret now) of
                  Inl e \<Rightarrow> recordFailure E w delivery None e now
                | Inr response \<Rightarrow>
                    if rs_StatusCode response < 200 \<or> rs_StatusCode response \<ge> 300
                    then recordFailure E w delivery (Some response)
                           (''webhook returned HTTP '' @ itoa (rs_StatusCode response)) now
                    else do {
                      r \<leftarrow> UpdateWebhookDelivery E (delivered delivery response now);
                      case r of
                        Inl e \<Rightarrow> State_Monad.return [e]
                      | Inr _ \<Rightarrow> do {
                          delivery_metric E (delivered delivery response now) MetricDeliverySucceeded now [];
                          State_Monad.return [] } } }) }"

fun process_all :: "env \<Rightarrow> delivery_worker \<Rightarrow> time \<Rightarrow> WebhookDelivery list \<Rightarrow> err list io" where
  "process_all E w now [] = State_Monad.return []"
| "process_all E w now (d # ds) = do {
     delivery_metric E d MetricDeliveryStarted now [];
     es \<leftarrow> process_delivery E w d now;
     es' \<leftarrow> process_all E w now ds;
     State_Monad.return (es @ es') }"

definition ProcessDue :: "env \<Rightarrow> delivery_worker \<Rightarrow> time \<Rightarrow> (nat \<times> err list) io" where
  "ProcessDue E w now = do {
     r \<leftarrow> ClaimDueWebhookDeliveries E now (dw_batchSize w);
     case r of
       Inl e \<Rightarrow> State_Monad.return (0, [e])
     | Inr ds \<Rightarrow> do {
         es \<leftarrow> process_all E w now ds;
         State_Monad.return (length ds, es) } }"

end
