(* ===== verification/Delivery_Claims.thy ===== *)
theory Delivery_Claims
  imports Delivery_Worker
begin

text \<open>
  What one round of the delivery worker does to the table of deliveries.
\<close>

subsection \<open>Rows of the table\<close>







subsection \<open>One attempt\<close>






subsection \<open>One round\<close>













end
