(* ===== verification/Workflow_Json.thy ===== *)
theory Workflow_Json
  imports Workflow_Store
begin

text \<open>
  A workflow definition as a JSON document: what \<open>json.Marshal\<close> writes for the structs of
  domain/workflow.go and what decoding into them reads, with unknown fields refused. The
  keys of an object are visited in increasing order; the strings are those of a decoded
  document, valid UTF-8.
\<close>

subsection \<open>Node types\<close>

definition node_type_text :: "WorkflowNodeType \<Rightarrow> string" where
  "node_type_text t =
     (case t of
        WorkflowNodeTrigger \<Rightarrow> ''trigger'' | WorkflowNodeTask \<Rightarrow> ''task'' | WorkflowNodeWebhook \<Rightarrow> ''webhook''
      | WorkflowNodeCondition \<Rightarrow> ''condition'' | WorkflowNodeDelay \<Rightarrow> ''delay'' | WorkflowNodeOther s \<Rightarrow> s)"

definition node_type_of :: "string \<Rightarrow> WorkflowNodeType" where
  "node_type_of s =
     (if s = ''trigger'' then WorkflowNodeTrigger else if s = ''task'' then WorkflowNodeTask
      else if s = ''webhook'' then WorkflowNodeWebhook else if s = ''condition'' then WorkflowNodeCondition
      else if s = ''delay'' then WorkflowNodeDelay else WorkflowNodeOther s)"

subsection \<open>Encoding\<close>

definition position_json :: "rat \<times> rat \<Rightarrow> json" where
  "position_json p = JObj [(''x'', JNum (fst p)), (''y'', JNum (snd p))]"

text \<open>A nil position is omitted.\<close>

definition node_json :: "WorkflowNode \<Rightarrow> json" where
  "node_json n = JObj
     ([(''config'', case dn_Config n of None \<Rightarrow> JNull | Some ms \<Rightarrow> JObj ms),
       (''id'', JStr (dn_ID n)), (''name'', JStr (dn_Name n))] @
      (case dn_Position n of None \<Rightarrow> [] | Some p \<Rightarrow> [(''position'', position_json p)]) @
      [(''type'', JStr (node_type_text (dn_Type n)))])"

definition raw_json :: "raw \<Rightarrow> json" where
  "raw_json r = (case r of RawDoc j \<Rightarrow> j | _ \<Rightarrow> JNull)"

definition edge_json :: "WorkflowEdge \<Rightarrow> json" where
  "edge_json e = JObj
     [(''condition'', raw_json (e_Condition e)), (''from'', JStr (e_From e)), (''id'', JStr (e_ID e)),
      (''to'', JStr (e_To e))]"

definition slice_json :: "('a \<Rightarrow> json) \<Rightarrow> 'a list option \<Rightarrow> json" where
  "slice_json f xs = (case xs of None \<Rightarrow> JNull | Some ys \<Rightarrow> JArr (map f ys))"

definition definition_json :: "WorkflowDefinition \<Rightarrow> json" where
  "definition_json d =
     JObj [(''edges'', slice_json edge_json (d_Edges d)), (''nodes'', slice_json node_json (d_Nodes d))]"

subsection \<open>Decoding\<close>

definition decode_struct :: "'r field list \<Rightarrow> 'r \<Rightarrow> json \<Rightarrow> string + 'r" where
  "decode_struct fs zero j =
     (case j of
        JNull \<Rightarrow> Inr zero
      | JObj ms \<Rightarrow> (case decode_members fs ms None zero of (Some e, _) \<Rightarrow> Inl e | (None, r) \<Rightarrow> Inr r)
      | _ \<Rightarrow> Inl (type_error (json_kind j) [] ''struct''))"

fun decode_list :: "(json \<Rightarrow> string + 'a) \<Rightarrow> json list \<Rightarrow> string + 'a list" where
  "decode_list f [] = Inr []"
| "decode_list f (j # js) =
     (case f j of
        Inl e \<Rightarrow> Inl e
      | Inr x \<Rightarrow> (case decode_list f js of Inl e \<Rightarrow> Inl e | Inr xs \<Rightarrow> Inr (x # xs)))"

definition slice_field ::
  "string \<Rightarrow> (json \<Rightarrow> string + 'a) \<Rightarrow> ('a list option \<Rightarrow> 'r \<Rightarrow> 'r) \<Rightarrow> json \<Rightarrow> 'r \<Rightarrow> string + 'r" where
  "slice_field target f upd j r =
     (case j of
        JNull \<Rightarrow> Inr (upd None r)
      | JArr js \<Rightarrow> (case decode_list f js of Inl e \<Rightarrow> Inl e | Inr xs \<Rightarrow> Inr (upd (Some xs) r))
      | _ \<Rightarrow> Inl (type_error (json_kind j) target ''slice''))"

definition float_field :: "string \<Rightarrow> (rat \<Rightarrow> 'r \<Rightarrow> 'r) \<Rightarrow> json \<Rightarrow> 'r \<Rightarrow> string + 'r" where
  "float_field target upd j r =
     (case j of
        JNum x \<Rightarrow> Inr (upd x r)
      | JNull \<Rightarrow> Inr r
      | _ \<Rightarrow> Inl (type_error (json_kind j) target ''float64''))"

definition map_field :: "string \<Rightarrow> (config \<Rightarrow> 'r \<Rightarrow> 'r) \<Rightarrow> json \<Rightarrow> 'r \<Rightarrow> string + 'r" where
  "map_field target upd j r =
     (case j of
        JNull \<Rightarrow> Inr (upd None r)
      | JObj ms \<Rightarrow> Inr (upd (Some ms) r)
      | _ \<Rightarrow> Inl (type_error (json_kind j) target ''map[string]interface {}''))"

definition position_fields :: "(rat \<times> rat) field list" where
  "position_fields =
     [(''x'', float_field ''WorkflowNodePosition.x'' (\<lambda>v p. (v, snd p))),
      (''y'', float_field ''WorkflowNodePosition.y'' (\<lambda>v p. (fst p, v)))]"

definition position_field :: "json \<Rightarrow> WorkflowNode \<Rightarrow> string + WorkflowNode" where
  "position_field j n =
     (case j of
        JNull \<Rightarrow> Inr (n\<lparr>dn_Position := None\<rparr>)
      | _ \<Rightarrow>
          (case decode_struct position_fields (case dn_Position n of None \<Rightarrow> (0, 0) | Some p \<Rightarrow> p) j of
             Inl e \<Rightarrow> Inl e
           | Inr p \<Rightarrow> Inr (n\<lparr>dn_Position := Some p\<rparr>)))"

definition node_fields :: "WorkflowNode field list" where
  "node_fields =
     [(''id'', string_field ''WorkflowNode.id'' (\<lambda>v r. r\<lparr>dn_ID := v\<rparr>)),
      (''type'', string_field ''WorkflowNode.type'' (\<lambda>v r. r\<lparr>dn_Type := node_type_of v\<rparr>)),
      (''name'', string_field ''WorkflowNode.name'' (\<lambda>v r. r\<lparr>dn_Name := v\<rparr>)),
      (''position'', position_field),
      (''config'', map_field ''WorkflowNode.config'' (\<lambda>v r. r\<lparr>dn_Config := v\<rparr>))]"

definition zero_node :: WorkflowNode where
  "zero_node =
     \<lparr>dn_ID = [], dn_Type = WorkflowNodeOther [], dn_Name = [], dn_Position = None, dn_Config = None\<rparr>"

definition edge_fields :: "WorkflowEdge field list" where
  "edge_fields =
     [(''id'', string_field ''WorkflowEdge.id'' (\<lambda>v r. r\<lparr>e_ID := v\<rparr>)),
      (''from'', string_field ''WorkflowEdge.from'' (\<lambda>v r. r\<lparr>e_From := v\<rparr>)),
      (''to'', string_field ''WorkflowEdge.to'' (\<lambda>v r. r\<lparr>e_To := v\<rparr>)),
      (''condition'', raw_field (\<lambda>v r. r\<lparr>e_Condition := v\<rparr>))]"

definition zero_edge :: WorkflowEdge where
  "zero_edge = \<lparr>e_ID = [], e_From = [], e_To = [], e_Condition = RawNil\<rparr>"

definition definition_fields :: "WorkflowDefinition field list" where
  "definition_fields =
     [(''nodes'', slice_field ''WorkflowDefinition.nodes'' (decode_struct node_fields zero_node)
         (\<lambda>v r. r\<lparr>d_Nodes := v\<rparr>)),
      (''edges'', slice_field ''WorkflowDefinition.edges'' (decode_struct edge_fields zero_edge)
         (\<lambda>v r. r\<lparr>d_Edges := v\<rparr>))]"

definition decode_definition :: "json \<Rightarrow> string + WorkflowDefinition" where
  "decode_definition j = decode_struct definition_fields \<lparr>d_Nodes = None, d_Edges = None\<rparr> j"

subsection \<open>Round trip\<close>

definition known_type :: "WorkflowNodeType \<Rightarrow> bool" where
  "known_type t \<longleftrightarrow> node_type_of (node_type_text t) = t"

lemma decode_list_map: "(\<And>x. x \<in> set xs \<Longrightarrow> f (g x) = Inr (h x)) \<Longrightarrow> decode_list f (map g xs) = Inr (map h xs)"
  by (induction xs) simp_all

lemma decode_node:
  "known_type (dn_Type n) \<Longrightarrow> decode_struct node_fields zero_node (node_json n) = Inr n"
  by (cases n) (auto simp: decode_struct_def node_json_def node_fields_def zero_node_def find_field_def
      string_field_def map_field_def position_field_def position_json_def position_fields_def float_field_def
      known_type_def split: option.split)

lemma decode_edge:
  "raw_empty (e_Condition e) \<or> raw_valid (e_Condition e) \<Longrightarrow>
     decode_struct edge_fields zero_edge (edge_json e) = Inr (stored_edge e)"
  by (cases e) (auto simp: decode_struct_def edge_json_def edge_fields_def zero_edge_def find_field_def
      string_field_def raw_field_def raw_json_def stored_edge_def raw_empty_def raw_valid_def split: raw.splits)

text \<open>
  C20. Storing a definition as JSON and reading it back changes nothing but an empty edge
  condition, which comes back as \<open>null\<close>: the row the repository model keeps
  (\<open>stored_definition\<close>) is what decoding the encoded definition gives.
\<close>

theorem definition_round_trip:
  assumes "marshals d" and "list_all (known_type \<circ> dn_Type) (elems (d_Nodes d))"
  shows "decode_definition (definition_json d) = Inr (stored_definition d)"
proof -
  have edges: "decode_list (decode_struct edge_fields zero_edge) (map edge_json es) = Inr (map stored_edge es)"
    if "d_Edges d = Some es" for es
    using assms(1) that by (intro decode_list_map decode_edge) (auto simp: marshals_def list_all_iff)
  have nodes: "decode_list (decode_struct node_fields zero_node) (map node_json ns) = Inr (map (\<lambda>n. n) ns)"
    if "d_Nodes d = Some ns" for ns
    using assms(2) that by (intro decode_list_map decode_node) (auto simp: list_all_iff)
  show ?thesis
    using edges nodes
    by (cases d, cases "d_Nodes d"; cases "d_Edges d")
      (simp_all add: decode_definition_def definition_json_def decode_struct_def definition_fields_def
        find_field_def slice_field_def slice_json_def stored_definition_def)
qed

theorem definition_round_trip_witness:
  "decode_definition (definition_json
     \<lparr>d_Nodes = Some [\<lparr>dn_ID = ''a'', dn_Type = WorkflowNodeTask, dn_Name = ''n'', dn_Position = Some (1, 2), dn_Config = Some []\<rparr>],
      d_Edges = Some [\<lparr>e_ID = ''e'', e_From = ''a'', e_To = ''a'', e_Condition = RawNil\<rparr>]\<rparr>) =
   Inr \<lparr>d_Nodes = Some [\<lparr>dn_ID = ''a'', dn_Type = WorkflowNodeTask, dn_Name = ''n'', dn_Position = Some (1, 2), dn_Config = Some []\<rparr>],
      d_Edges = Some [\<lparr>e_ID = ''e'', e_From = ''a'', e_To = ''a'', e_Condition = RawDoc JNull\<rparr>]\<rparr>"
proof -
  let ?d = "\<lparr>d_Nodes = Some [\<lparr>dn_ID = ''a'', dn_Type = WorkflowNodeTask, dn_Name = ''n'', dn_Position = Some (1, 2), dn_Config = Some []\<rparr>],
      d_Edges = Some [\<lparr>e_ID = ''e'', e_From = ''a'', e_To = ''a'', e_Condition = RawNil\<rparr>]\<rparr> :: WorkflowDefinition"
  have "marshals ?d" "list_all (known_type \<circ> dn_Type) (elems (d_Nodes ?d))"
    by (simp_all add: marshals_def raw_empty_def known_type_def node_type_of_def node_type_text_def)
  from definition_round_trip [OF this] show ?thesis by (simp add: stored_definition_def stored_edge_def raw_empty_def)
qed

end
