(* ===== verification/Workflow_Service.thy ===== *)
theory Workflow_Service
  imports Workflow_Json Validation
begin

text \<open>
  The workflow service (workflow_service.go): normalisation of names, slugs and
  descriptions, parsing of a definition, and the operations on workflows. The tables of
  the package unicode for characters outside ASCII are a parameter.
\<close>

definition workflowNameMax :: nat where "workflowNameMax = 255"
definition workflowSlugMax :: nat where "workflowSlugMax = 120"
definition workflowDescriptionMax :: nat where "workflowDescriptionMax = 2000"
definition workflowElementIDMax :: nat where "workflowElementIDMax = 255"

subsection \<open>Slugs\<close>

text \<open>The runes of a string, as \<open>range\<close> visits them.\<close>

function runes :: "string \<Rightarrow> int list" where
  "runes s = (if s = [] then [] else fst (decode_rune s) # runes (drop (snd (decode_rune s)) s))"
  by pat_completeness auto
termination by (relation "measure length") (auto simp: decode_rune_width)

declare runes.simps [simp del]

record unicode_tables =
  ut_lower :: "int \<Rightarrow> int"
  ut_alnum :: "int \<Rightarrow> bool"

definition ToLower :: "unicode_tables \<Rightarrow> int \<Rightarrow> int" where
  "ToLower u r = (if r < 128 then (if 65 \<le> r \<and> r \<le> 90 then r + 32 else r) else ut_lower u r)"

text \<open>\<open>unicode.IsLetter(r) || unicode.IsDigit(r)\<close>\<close>

definition letter_or_digit :: "unicode_tables \<Rightarrow> int \<Rightarrow> bool" where
  "letter_or_digit u r =
     (if r < 128 then 48 \<le> r \<and> r \<le> 57 \<or> 65 \<le> r \<and> r \<le> 90 \<or> 97 \<le> r \<and> r \<le> 122 else ut_alnum u r)"

text \<open>The loop of \<open>generateWorkflowSlug\<close>; \<open>out\<close> is what the builder holds.\<close>

fun slug_loop :: "unicode_tables \<Rightarrow> int list \<Rightarrow> bool \<Rightarrow> string \<Rightarrow> string" where
  "slug_loop u [] separator out = out"
| "slug_loop u (r # rs) separator out =
     (if letter_or_digit u r then
        (if r \<le> 127
         then slug_loop u rs False
                ((if separator \<and> out \<noteq> [] then out @ ''-'' else out) @ [char_of (nat r)])
         else slug_loop u rs separator out)
      else slug_loop u rs True out)"

definition trim_dashes :: "string \<Rightarrow> string" where
  "trim_dashes s = rev (dropWhile ((=) CHR ''-'') (rev (dropWhile ((=) CHR ''-'') s)))"

definition generateWorkflowSlug :: "unicode_tables \<Rightarrow> string \<Rightarrow> string" where
  "generateWorkflowSlug u name = trim_dashes (slug_loop u (map (ToLower u) (runes name)) False [])"

definition slug_char :: "char \<Rightarrow> bool" where
  "slug_char c \<longleftrightarrow> c \<in> set ''abcdefghijklmnopqrstuvwxyz0123456789''"

text \<open>\<open>^[a-z0-9]+(?:-[a-z0-9]+)*$\<close>: non-empty words separated by single dashes.\<close>

definition workflowSlugPattern :: "string \<Rightarrow> bool" where
  "workflowSlugPattern s \<longleftrightarrow> list_all (\<lambda>w. w \<noteq> [] \<and> list_all slug_char w) (split_on CHR ''-'' s)"

definition validateWorkflowSlug :: "string \<Rightarrow> err option" where
  "validateWorkflowSlug value =
     (if value = [] \<or> length value > workflowSlugMax \<or> \<not> workflowSlugPattern value
      then Some ErrInvalidInput else None)"

subsection \<open>Names and descriptions\<close>

definition normalizeWorkflowName :: "string \<Rightarrow> err + string" where
  "normalizeWorkflowName value =
     (let value = trim_space value in
      if value = [] \<or> length value > workflowNameMax then Inl ErrInvalidInput else Inr value)"

definition normalizeWorkflowDescription :: "string option \<Rightarrow> err + string option" where
  "normalizeWorkflowDescription value =
     (case value of
        None \<Rightarrow> Inr None
      | Some v \<Rightarrow>
          let normalized = trim_space v in
          if length normalized > workflowDescriptionMax then Inl ErrInvalidInput else Inr (Some normalized))"

subsection \<open>Definitions\<close>

definition trim_node :: "WorkflowNode \<Rightarrow> WorkflowNode" where
  "trim_node n = n\<lparr>dn_ID := trim_space (dn_ID n), dn_Name := trim_space (dn_Name n)\<rparr>"

definition node_acceptable :: "WorkflowNode \<Rightarrow> bool" where
  "node_acceptable n \<longleftrightarrow>
     \<not> (dn_ID n = [] \<or> length (dn_ID n) > workflowElementIDMax \<or> dn_Name n = [] \<or>
        length (dn_Name n) > workflowNameMax \<or> \<not> node_type_valid (dn_Type n) \<or> dn_Config n = None)"

text \<open>\<open>seen\<close> are the identifiers of the nodes before.\<close>

fun parse_nodes :: "WorkflowNode list \<Rightarrow> string list \<Rightarrow> (WorkflowNode list \<times> string list) option" where
  "parse_nodes [] seen = Some ([], seen)"
| "parse_nodes (n # ns) seen =
     (let node = trim_node n in
      if \<not> node_acceptable node then None
      else if dn_ID node \<in> set seen then None
      else map_option (\<lambda>(rest, ids). (node # rest, ids)) (parse_nodes ns (dn_ID node # seen)))"

definition trim_edge :: "WorkflowEdge \<Rightarrow> WorkflowEdge" where
  "trim_edge e = e\<lparr>e_ID := trim_space (e_ID e), e_From := trim_space (e_From e), e_To := trim_space (e_To e)\<rparr>"

fun parse_edges :: "string list \<Rightarrow> WorkflowEdge list \<Rightarrow> string list \<Rightarrow> WorkflowEdge list option" where
  "parse_edges nodes [] seen = Some []"
| "parse_edges nodes (e # es) seen =
     (let edge = trim_edge e in
      if e_ID edge = [] \<or> length (e_ID edge) > workflowElementIDMax \<or> e_From edge = [] \<or> e_To edge = [] then None
      else if e_ID edge \<in> set seen then None
      else if e_From edge \<notin> set nodes then None
      else if e_To edge \<notin> set nodes then None
      else
        let edge = (if raw_empty (e_Condition edge) then edge\<lparr>e_Condition := RawDoc JNull\<rparr> else edge) in
        map_option ((#) edge) (parse_edges nodes es (e_ID edge # seen)))"

definition parseWorkflowDefinition :: "raw \<Rightarrow> err + WorkflowDefinition" where
  "parseWorkflowDefinition raw =
     (if raw_empty raw \<or> raw_null raw then Inl ErrInvalidInput
      else case unmarshal_any raw of
        Inl _ \<Rightarrow> Inl ErrInvalidInput
      | Inr doc \<Rightarrow>
          (case decode_definition doc of
             Inl _ \<Rightarrow> Inl ErrInvalidInput
           | Inr d \<Rightarrow>
               (case (d_Nodes d, d_Edges d) of
                  (Some nodes, Some edges) \<Rightarrow>
                    (case parse_nodes nodes [] of
                       None \<Rightarrow> Inl ErrInvalidInput
                     | Some (nodes', ids) \<Rightarrow>
                         (case parse_edges ids edges [] of
                            None \<Rightarrow> Inl ErrInvalidInput
                          | Some edges' \<Rightarrow> Inr \<lparr>d_Nodes = Some nodes', d_Edges = Some edges'\<rparr>))
                | _ \<Rightarrow> Inl ErrInvalidInput)))"

subsection \<open>Operations\<close>

record CreateWorkflowInput =
  cw_OrgID :: uuid
  cw_Name :: string
  cw_Slug :: string
  cw_Description :: "string option"
  cw_Definition :: raw

record UpdateWorkflowInput =
  uw_Name :: "string option"
  uw_Slug :: "string option"
  uw_DescriptionSet :: bool
  uw_Description :: "string option"
  uw_Definition :: raw

text \<open>What \<open>CreateWorkflow\<close> stores, before an identifier and the time are added.\<close>

definition draft_of ::
  "unicode_tables \<Rightarrow> CreateWorkflowInput \<Rightarrow> err + (string \<times> string \<times> string option \<times> WorkflowDefinition)" where
  "draft_of u input =
     (case normalizeWorkflowName (cw_Name input) of
        Inl e \<Rightarrow> Inl e
      | Inr name \<Rightarrow>
          let slug = trim_space (cw_Slug input);
              slug = (if slug = [] then generateWorkflowSlug u name else slug) in
          case validateWorkflowSlug slug of
            Some e \<Rightarrow> Inl e
          | None \<Rightarrow>
              (case normalizeWorkflowDescription (cw_Description input) of
                 Inl e \<Rightarrow> Inl e
               | Inr description \<Rightarrow>
                   (case parseWorkflowDefinition (cw_Definition input) of
                      Inl e \<Rightarrow> Inl e
                    | Inr d \<Rightarrow> Inr (name, slug, description, d))))"

definition service_CreateWorkflow ::
  "env \<Rightarrow> unicode_tables \<Rightarrow> CreateWorkflowInput \<Rightarrow> (err + Workflow) io" where
  "service_CreateWorkflow E u input =
     (case draft_of u input of
        Inl e \<Rightarrow> State_Monad.return (Inl e)
      | Inr (name, slug, description, d) \<Rightarrow> do {
          now \<leftarrow> time_now E;
          i \<leftarrow> uuid_new E;
          let workflow =
            \<lparr>wf_ID = i, wf_OrgID = cw_OrgID input, wf_Name = name, wf_Slug = slug,
             wf_Description = description, wf_Status = WorkflowStatusDraft, wf_Definition = d,
             wf_CreatedAt = now, wf_UpdatedAt = now, wf_DeletedAt = None\<rparr>;
          bind_ok (CreateWorkflow E workflow) (\<lambda>_. State_Monad.return (Inr workflow)) })"

definition GetWorkflow :: "env \<Rightarrow> uuid \<Rightarrow> uuid \<Rightarrow> (err + Workflow) io" where
  "GetWorkflow E orgID i = GetWorkflowByID E orgID i"

definition set_name :: "UpdateWorkflowInput \<Rightarrow> Workflow \<Rightarrow> err + Workflow" where
  "set_name input w =
     (case uw_Name input of
        None \<Rightarrow> Inr w
      | Some v \<Rightarrow>
          (case normalizeWorkflowName v of Inl e \<Rightarrow> Inl e | Inr name \<Rightarrow> Inr (w\<lparr>wf_Name := name\<rparr>)))"

definition set_slug :: "UpdateWorkflowInput \<Rightarrow> Workflow \<Rightarrow> err + Workflow" where
  "set_slug input w =
     (case uw_Slug input of
        None \<Rightarrow> Inr w
      | Some v \<Rightarrow>
          let slug = trim_space v in
          case validateWorkflowSlug slug of Some e \<Rightarrow> Inl e | None \<Rightarrow> Inr (w\<lparr>wf_Slug := slug\<rparr>))"

definition set_description :: "UpdateWorkflowInput \<Rightarrow> Workflow \<Rightarrow> err + Workflow" where
  "set_description input w =
     (if \<not> uw_DescriptionSet input then Inr w
      else case normalizeWorkflowDescription (uw_Description input) of
        Inl e \<Rightarrow> Inl e
      | Inr d \<Rightarrow> Inr (w\<lparr>wf_Description := d\<rparr>))"

definition set_definition :: "UpdateWorkflowInput \<Rightarrow> Workflow \<Rightarrow> err + Workflow" where
  "set_definition input w =
     (if raw_empty (uw_Definition input) then Inr w
      else case parseWorkflowDefinition (uw_Definition input) of
        Inl e \<Rightarrow> Inl e
      | Inr d \<Rightarrow> Inr (w\<lparr>wf_Definition := d\<rparr>))"

definition and_then :: "err + 'a \<Rightarrow> ('a \<Rightarrow> err + 'b) \<Rightarrow> err + 'b" where
  "and_then r f = (case r of Inl e \<Rightarrow> Inl e | Inr x \<Rightarrow> f x)"

definition updated_workflow :: "UpdateWorkflowInput \<Rightarrow> Workflow \<Rightarrow> err + Workflow" where
  "updated_workflow input w =
     and_then (set_name input w) (\<lambda>w. and_then (set_slug input w) (\<lambda>w.
       and_then (set_description input w) (set_definition input)))"

definition service_UpdateWorkflow ::
  "env \<Rightarrow> uuid \<Rightarrow> uuid \<Rightarrow> UpdateWorkflowInput \<Rightarrow> (err + Workflow) io" where
  "service_UpdateWorkflow E orgID i input =
     (if uw_Name input = None \<and> uw_Slug input = None \<and> \<not> uw_DescriptionSet input \<and> raw_empty (uw_Definition input)
      then State_Monad.return (Inl ErrInvalidInput)
      else bind_ok (GetWorkflowByID E orgID i) (\<lambda>workflow.
        if wf_Status workflow = WorkflowStatusArchived then State_Monad.return (Inl ErrInvalidStateTransition)
        else case updated_workflow input workflow of
          Inl e \<Rightarrow> State_Monad.return (Inl e)
        | Inr w \<Rightarrow> do {
            now \<leftarrow> time_now E;
            let w = w\<lparr>wf_Status := WorkflowStatusDraft, wf_UpdatedAt := now\<rparr>;
            bind_ok (UpdateWorkflow E w) (\<lambda>_. State_Monad.return (Inr w)) }))"

definition DeleteWorkflow :: "env \<Rightarrow> uuid \<Rightarrow> uuid \<Rightarrow> (err + unit) io" where
  "DeleteWorkflow E orgID i = do { now \<leftarrow> time_now E; SoftDeleteWorkflow E orgID i now }"

definition ValidateWorkflow :: "env \<Rightarrow> uuid \<Rightarrow> uuid \<Rightarrow> (err + WorkflowValidationResult) io" where
  "ValidateWorkflow E orgID i =
     bind_ok (GetWorkflowByID E orgID i) (\<lambda>workflow.
       State_Monad.return (Inr (ValidateWorkflowDefinition (parse_uuid E) (wf_Definition workflow))))"

text \<open>The error of \<open>PublishWorkflow\<close>: one of the domain, or the report of the validator.\<close>

datatype publish_error = PublishError err | WorkflowValidationFailure WorkflowValidationResult

record WorkflowPublishResult =
  wp_WorkflowID :: uuid
  wp_Version :: int
  wp_VersionID :: uuid
  wp_Status :: WorkflowVersionStatus
  wp_PublishedAt :: time

definition service_PublishWorkflow ::
  "env \<Rightarrow> uuid \<Rightarrow> uuid \<Rightarrow> (publish_error + WorkflowPublishResult) io" where
  "service_PublishWorkflow E orgID i = do {
     found \<leftarrow> GetWorkflowByID E orgID i;
     case found of
       Inl e \<Rightarrow> State_Monad.return (Inl (PublishError e))
     | Inr workflow \<Rightarrow>
         let validation = ValidateWorkflowDefinition (parse_uuid E) (wf_Definition workflow) in
         if \<not> vr_Valid validation then State_Monad.return (Inl (WorkflowValidationFailure validation))
         else do {
           now \<leftarrow> time_now E;
           published \<leftarrow> repository_PublishWorkflow E workflow (truncate_us now);
           case published of
             Inl e \<Rightarrow> State_Monad.return (Inl (PublishError e))
           | Inr v \<Rightarrow>
               State_Monad.return (Inr
                 \<lparr>wp_WorkflowID = v_WorkflowID v, wp_Version = v_Version v, wp_VersionID = v_ID v,
                  wp_Status = v_Status v, wp_PublishedAt = v_PublishedAt v\<rparr>) } }"

definition service_ListWorkflowVersions ::
  "env \<Rightarrow> uuid \<Rightarrow> uuid \<Rightarrow> (err + WorkflowVersionSummary list) io" where
  "service_ListWorkflowVersions E orgID workflowID = ListWorkflowVersions E orgID workflowID"

definition service_GetWorkflowVersion :: "env \<Rightarrow> uuid \<Rightarrow> uuid \<Rightarrow> int \<Rightarrow> (err + WorkflowVersion) io" where
  "service_GetWorkflowVersion E orgID workflowID version =
     (if version \<le> 0 then State_Monad.return (Inl ErrInvalidInput)
      else GetWorkflowVersion E orgID workflowID version)"

end
