(* ===== verification/Workflow_Claims.thy ===== *)
theory Workflow_Claims
  imports Workflow_Service
begin

text \<open>
  The properties of the workflow service: generated slugs, the rows of the workflow table,
  the numbering of published versions, and that only validated definitions are published.
\<close>

subsection \<open>Slugs\<close>
















end
