(* ===== verification/Workflow_Rows.thy ===== *)
theory Workflow_Rows
  imports Workflow_Service
begin

text \<open>
  The tables of workflows and versions under every sequence of calls of the workflow
  service: well-formed rows, unique slugs, frozen deletions, and versions numbered in the
  order of their publication.
\<close>

subsection \<open>Parsed definitions\<close>

definition definition_ok :: "WorkflowDefinition \<Rightarrow> bool" where
  "definition_ok d \<longleftrightarrow>
     (\<exists>ns es. d_Nodes d = Some ns \<and> d_Edges d = Some es \<and> list_all node_acceptable ns \<and>
        distinct (map dn_ID ns) \<and> distinct (map e_ID es) \<and>
        list_all (\<lambda>e. e_ID e \<noteq> [] \<and> e_From e \<in> dn_ID ` set ns \<and> e_To e \<in> dn_ID ` set ns \<and>
           \<not> raw_empty (e_Condition e)) es)"

lemma parse_nodes_ok:
  "parse_nodes ns seen = Some (ns', ids) \<Longrightarrow>
     list_all node_acceptable ns' \<and> distinct (map dn_ID ns') \<and> set seen \<inter> dn_ID ` set ns' = {} \<and>
     set ids = set seen \<union> dn_ID ` set ns'"
proof (induction ns seen arbitrary: ns' ids rule: parse_nodes.induct)
  case (2 n ns seen)
  from "2.prems" obtain rest where rest: "parse_nodes ns (dn_ID (trim_node n) # seen) = Some (rest, ids)"
    "ns' = trim_node n # rest" "node_acceptable (trim_node n)" "dn_ID (trim_node n) \<notin> set seen"
    by (auto simp: Let_def split: if_splits)
  from "2.IH" [OF refl _ _ rest(1)] rest(2-4) show ?case by auto
qed simp

lemma parse_edges_ok:
  "parse_edges nodes es seen = Some es' \<Longrightarrow>
     distinct (map e_ID es') \<and> set seen \<inter> e_ID ` set es' = {} \<and>
     list_all (\<lambda>e. e_ID e \<noteq> [] \<and> e_From e \<in> set nodes \<and> e_To e \<in> set nodes \<and> \<not> raw_empty (e_Condition e)) es'"
proof (induction nodes es seen arbitrary: es' rule: parse_edges.induct)
  case (2 nodes e es seen)
  let ?e = "if raw_empty (e_Condition (trim_edge e)) then (trim_edge e)\<lparr>e_Condition := RawDoc JNull\<rparr> else trim_edge e"
  from "2.prems" obtain rest where rest: "parse_edges nodes es (e_ID ?e # seen) = Some rest" "es' = ?e # rest"
    and ok: "e_ID ?e \<noteq> []" "e_From ?e \<in> set nodes" "e_To ?e \<in> set nodes" "e_ID ?e \<notin> set seen" "\<not> raw_empty (e_Condition ?e)"
    by (auto simp: Let_def raw_empty_def split: if_splits)
  have "distinct (map e_ID rest) \<and> set (e_ID ?e # seen) \<inter> e_ID ` set rest = {} \<and>
      list_all (\<lambda>e. e_ID e \<noteq> [] \<and> e_From e \<in> set nodes \<and> e_To e \<in> set nodes \<and> \<not> raw_empty (e_Condition e)) rest"
    by (rule "2.IH") (use ok rest(1) "2.prems" in \<open>auto simp: Let_def split: if_splits\<close>)
  then show ?case unfolding rest(2) using ok by auto
qed simp

lemma parse_ok: "parseWorkflowDefinition raw = Inr d \<Longrightarrow> definition_ok d"
proof -
  assume "parseWorkflowDefinition raw = Inr d"
  then obtain ns es ns' ids es' where p: "parse_nodes ns [] = Some (ns', ids)" "parse_edges ids es [] = Some es'"
    and d: "d = \<lparr>d_Nodes = Some ns', d_Edges = Some es'\<rparr>"
    by (auto simp: parseWorkflowDefinition_def split: if_splits sum.splits option.splits)
  have "set ids = dn_ID ` set ns'" using parse_nodes_ok [OF p(1)] by simp
  then show ?thesis
    using parse_nodes_ok [OF p(1)] parse_edges_ok [OF p(2)] unfolding definition_ok_def d by auto
qed

lemma stored_ok: "definition_ok d \<Longrightarrow> stored_definition d = d"
  unfolding definition_ok_def stored_definition_def
  by (cases d) (auto simp: stored_edge_def list_all_iff map_idI)

subsection \<open>Rows\<close>

definition wf_ok :: "Workflow \<Rightarrow> bool" where
  "wf_ok w \<longleftrightarrow>
     wf_Name w \<noteq> [] \<and> length (wf_Name w) \<le> workflowNameMax \<and> trim_space (wf_Name w) = wf_Name w \<and>
     validateWorkflowSlug (wf_Slug w) = None \<and>
     (case wf_Description w of None \<Rightarrow> True | Some t \<Rightarrow> length t \<le> workflowDescriptionMax) \<and>
     definition_ok (wf_Definition w) \<and> wf_Status w \<noteq> WorkflowStatusArchived"

definition wf_step :: "Workflow \<Rightarrow> Workflow \<Rightarrow> bool" where
  "wf_step w w' \<longleftrightarrow>
     wf_ID w' = wf_ID w \<and> wf_OrgID w' = wf_OrgID w \<and> wf_CreatedAt w' = wf_CreatedAt w \<and>
     (wf_DeletedAt w = None \<or> w' = w)"

definition slugs_unique :: "Workflow list \<Rightarrow> bool" where
  "slugs_unique ws \<longleftrightarrow>
     (\<forall>a \<in> set ws. \<forall>b \<in> set ws. wf_DeletedAt a = None \<and> wf_DeletedAt b = None \<and>
        wf_OrgID a = wf_OrgID b \<and> wf_Slug a = wf_Slug b \<longrightarrow> wf_ID a = wf_ID b)"

text \<open>The versions of a workflow are numbered from one in the order of publication.\<close>

definition numbers :: "uuid \<Rightarrow> uuid \<Rightarrow> WorkflowVersion list \<Rightarrow> int list" where
  "numbers orgID i vs = map v_Version (filter (is_version_of orgID i) vs)"

definition numbered :: "WorkflowVersion list \<Rightarrow> bool" where
  "numbered vs \<longleftrightarrow> (\<forall>orgID i. numbers orgID i vs = map int [1..<Suc (length (numbers orgID i vs))])"

definition wf_inv :: "store \<Rightarrow> bool" where
  "wf_inv s \<longleftrightarrow>
     list_all wf_ok (workflows s) \<and> distinct (map wf_ID (workflows s)) \<and> slugs_unique (workflows s) \<and>
     numbered (versions s)"

definition wf_safe :: "store \<Rightarrow> store \<Rightarrow> bool" where
  "wf_safe s s' \<longleftrightarrow>
     (wf_inv s \<longrightarrow> evolves wf_step (workflows s) (workflows s') \<and>
        take (length (versions s)) (versions s') = versions s \<and> wf_inv s')"

lemma wf_step_refl: "wf_step w w"
  by (simp add: wf_step_def)

lemma wf_step_trans: "wf_step a b \<Longrightarrow> wf_step b c \<Longrightarrow> wf_step a c"
  by (auto simp: wf_step_def)

lemma wf_trans: "evolves wf_step a b \<Longrightarrow> evolves wf_step b c \<Longrightarrow> evolves wf_step a c"
  by (rule evolves_trans) (erule (1) wf_step_trans, assumption+)

lemma take_trans:
  "take (length a) b = a \<Longrightarrow> take (length b) c = b \<Longrightarrow> take (length a) c = a"
  by (metis append_take_drop_id length_take min.cobounded1 min.absorb1 take_take)

interpretation wg: store_guarantee wf_safe
proof
  show "wf_safe s s" for s by (simp add: wf_safe_def evolves_refl wf_step_refl)
  show "wf_safe s u" if "wf_safe s t" "wf_safe t u" for s t u
    using that unfolding wf_safe_def by (blast intro: wf_trans take_trans)
qed

subsection \<open>Statements\<close>

lemma safe_rows:
  assumes "\<And>w. wf_inv s \<Longrightarrow> w \<in> set (workflows s) \<Longrightarrow> wf_ok w \<Longrightarrow> P w \<Longrightarrow> wf_step w (f w) \<and> wf_ok (f w)"
    and "wf_inv s \<Longrightarrow> slugs_unique (update_where P f (workflows s))"
    and "wf_inv s \<Longrightarrow> numbered (versions s @ vs)"
  shows "wf_safe s (s\<lparr>versions := versions s @ vs, workflows := update_where P f (workflows s)\<rparr>)"
  unfolding wf_safe_def
proof (intro impI conjI)
  assume inv: "wf_inv s"
  have ok: "wf_ok w" if "w \<in> set (workflows s)" for w using inv that by (simp add: wf_inv_def list_all_iff)
  have step: "wf_step w (f w)" "wf_ok (f w)" if "w \<in> set (workflows s)" "P w" for w
    using assms(1) [OF inv that(1) ok [OF that(1)] that(2)] by simp_all
  show "evolves wf_step (workflows s)
      (workflows (s\<lparr>versions := versions s @ vs, workflows := update_where P f (workflows s)\<rparr>))"
    using step(1) by (auto intro: evolves_update_where wf_step_refl)
  have "wf_ID (f w) = wf_ID w" if "w \<in> set (workflows s)" "P w" for w using step(1) [OF that] by (simp add: wf_step_def)
  then have "map wf_ID (update_where P f (workflows s)) = map wf_ID (workflows s)" by (simp add: update_where_def)
  moreover have "wf_ok r" if "r \<in> set (update_where P f (workflows s))" for r
    using that ok step(2) unfolding set_update_where by (elim imageE) (simp split: if_splits)
  ultimately show "wf_inv (s\<lparr>versions := versions s @ vs, workflows := update_where P f (workflows s)\<rparr>)"
    using inv assms(2,3) [OF inv] unfolding wf_inv_def by (simp add: list_all_iff)
qed simp

lemma safe_update_rows:
  assumes "\<And>w. wf_inv s \<Longrightarrow> w \<in> set (workflows s) \<Longrightarrow> wf_ok w \<Longrightarrow> P w \<Longrightarrow> wf_step w (f w) \<and> wf_ok (f w)"
    and "wf_inv s \<Longrightarrow> slugs_unique (update_where P f (workflows s))"
  shows "wf_safe s (s\<lparr>workflows := update_where P f (workflows s)\<rparr>)"
  using safe_rows [of s P f "[]"] assms by (simp add: wf_inv_def)

lemma slugs_kept:
  assumes "slugs_unique ws" and "\<And>w. P w \<Longrightarrow> wf_ID (f w) = wf_ID w \<and> wf_OrgID (f w) = wf_OrgID w \<and> wf_Slug (f w) = wf_Slug w"
    and "\<And>w. P w \<Longrightarrow> wf_DeletedAt w = None"
  shows "slugs_unique (update_where P f ws)"
  unfolding slugs_unique_def
proof (intro ballI impI, elim conjE)
  fix a b assume "a \<in> set (update_where P f ws)" "b \<in> set (update_where P f ws)"
    and live: "wf_DeletedAt a = None" "wf_DeletedAt b = None" and same: "wf_OrgID a = wf_OrgID b" "wf_Slug a = wf_Slug b"
  then obtain x y where x: "x \<in> set ws" "a = (if P x then f x else x)" and y: "y \<in> set ws" "b = (if P y then f y else y)"
    by (auto simp: set_update_where)
  have "wf_DeletedAt x = None" "wf_DeletedAt y = None" using x(2) y(2) live assms(3) by (auto split: if_splits)
  moreover have "wf_OrgID x = wf_OrgID y" "wf_Slug x = wf_Slug y"
    using x(2) y(2) same assms(2) [of x] assms(2) [of y] by (simp_all split: if_splits)
  ultimately have "wf_ID x = wf_ID y" using assms(1) x(1) y(1) unfolding slugs_unique_def by blast
  then show "wf_ID a = wf_ID b" using x(2) y(2) assms(2) [of x] assms(2) [of y] by (simp split: if_splits)
qed

lemma steps_SoftDeleteWorkflow:
  assumes "others_keep E wf_safe"
  shows "steps (on_store wf_safe) (SoftDeleteWorkflow E orgID i now)"
  unfolding SoftDeleteWorkflow_def
proof (rule wg.steps_atomic [OF assms])
  fix s :: store
  let ?f = "\<lambda>w :: Workflow. w\<lparr>wf_DeletedAt := Some now, wf_UpdatedAt := now\<rparr>"
  have "wf_safe s (s\<lparr>workflows := update_where (live_workflow orgID i) ?f (workflows s)\<rparr>)"
    by (rule safe_update_rows)
      (auto simp: wf_step_def live_workflow_def wf_ok_def wf_inv_def intro!: slugs_kept)
  then show "wf_safe s (snd (if affected (live_workflow orgID i) (workflows s) = 0 then (Inl ErrWorkflowNotFound, s)
      else (Inr (), s\<lparr>workflows := update_where (live_workflow orgID i) ?f (workflows s)\<rparr>)))"
    by (simp add: wg.refl)
qed

lemma wf_ok_stored: "wf_ok w \<Longrightarrow> stored_definition (wf_Definition w) = wf_Definition w"
  by (simp add: wf_ok_def stored_ok)

lemma slugs_new:
  assumes "slugs_unique ws" and "\<not> slug_taken w ws" and "\<And>r. r \<in> set ws \<Longrightarrow> wf_ID r \<noteq> wf_ID w"
  shows "slugs_unique (ws @ [w])"
proof -
  have clash: "\<not> (wf_OrgID r = wf_OrgID w \<and> wf_Slug r = wf_Slug w \<and> wf_DeletedAt r = None)" if "r \<in> set ws" for r
    using assms(2) assms(3) [OF that] that unfolding slug_taken_def by blast
  show ?thesis
    unfolding slugs_unique_def
  proof (intro ballI impI, elim conjE)
    fix a b assume in_ws: "a \<in> set (ws @ [w])" "b \<in> set (ws @ [w])"
      and live: "wf_DeletedAt a = None" "wf_DeletedAt b = None"
      and same: "wf_OrgID a = wf_OrgID b" "wf_Slug a = wf_Slug b"
    consider "a \<in> set ws" "b \<in> set ws" | "a = w" "b = w" | "a \<in> set ws" "b = w" | "a = w" "b \<in> set ws"
      using in_ws by auto
    then show "wf_ID a = wf_ID b"
    proof cases
      case 1 then show ?thesis using assms(1) live same unfolding slugs_unique_def by blast
    next
      case 3 then show ?thesis using clash [of a] live same by simp
    next
      case 4 then show ?thesis using clash [of b] live same by simp
    qed simp
  qed
qed

lemma slugs_renamed:
  assumes "slugs_unique ws" and "\<not> slug_taken u ws" and P: "P = live_workflow (wf_OrgID u) (wf_ID u)"
    and f: "\<And>w. wf_ID (f w) = wf_ID w \<and> wf_OrgID (f w) = wf_OrgID w \<and> wf_Slug (f w) = wf_Slug u"
  shows "slugs_unique (update_where P f ws)"
proof -
  have clash: "wf_ID r = wf_ID u" if "r \<in> set ws" "wf_OrgID r = wf_OrgID u" "wf_Slug r = wf_Slug u" "wf_DeletedAt r = None" for r
    using assms(2) that unfolding slug_taken_def by blast
  have own: "wf_ID r = wf_ID u" "wf_OrgID r = wf_OrgID u" if "P r" for r using that by (simp_all add: P live_workflow_def)
  show ?thesis
    unfolding slugs_unique_def
  proof (intro ballI impI, elim conjE)
    fix a b assume "a \<in> set (update_where P f ws)" "b \<in> set (update_where P f ws)"
      and live: "wf_DeletedAt a = None" "wf_DeletedAt b = None" and same: "wf_OrgID a = wf_OrgID b" "wf_Slug a = wf_Slug b"
    then obtain x y where x: "x \<in> set ws" "a = (if P x then f x else x)" and y: "y \<in> set ws" "b = (if P y then f y else y)"
      by (auto simp: set_update_where)
    consider "P x" "P y" | "P x" "\<not> P y" | "\<not> P x" "P y" | "\<not> P x" "\<not> P y" by blast
    then show "wf_ID a = wf_ID b"
    proof cases
      case 1
      then have "a = f x" "b = f y" using x(2) y(2) by simp_all
      then show ?thesis using f [of x] f [of y] own(1) [OF 1(1)] own(1) [OF 1(2)] by simp
    next
      case 2
      then have ab: "a = f x" "b = y" using x(2) y(2) by simp_all
      have "wf_ID y = wf_ID u"
        by (rule clash [OF y(1)]) (use ab same f [of x] own(2) [OF 2(1)] live(2) in simp_all)
      then show ?thesis using ab f [of x] own(1) [OF 2(1)] by simp
    next
      case 3
      then have ab: "a = x" "b = f y" using x(2) y(2) by simp_all
      have "wf_ID x = wf_ID u"
        by (rule clash [OF x(1)]) (use ab same f [of y] own(2) [OF 3(2)] live(1) in simp_all)
      then show ?thesis using ab f [of y] own(1) [OF 3(2)] by simp
    next
      case 4
      then have "a = x" "b = y" using x(2) y(2) by simp_all
      then show ?thesis using x(1) y(1) assms(1) live same unfolding slugs_unique_def by blast
    qed
  qed
qed

lemma steps_CreateWorkflow:
  assumes "others_keep E wf_safe" and "wf_ok w" and "wf_DeletedAt w = None"
  shows "steps (on_store wf_safe) (CreateWorkflow E w)"
proof -
  have "wf_safe s (s\<lparr>workflows := workflows s @ [w]\<rparr>)"
    if new: "wf_ID w \<notin> wf_ID ` set (workflows s)" and free: "\<not> slug_taken w (workflows s)" for s
    unfolding wf_safe_def
  proof (intro impI conjI)
    assume inv: "wf_inv s"
    show "evolves wf_step (workflows s) (workflows (s\<lparr>workflows := workflows s @ [w]\<rparr>))"
      by (simp add: evolves_append wf_step_refl)
    have other: "wf_ID r \<noteq> wf_ID w" if "r \<in> set (workflows s)" for r
      using imageI [OF that, of wf_ID] new by metis
    have "slugs_unique (workflows s @ [w])"
      using inv free other by (intro slugs_new) (simp_all add: wf_inv_def)
    then show "wf_inv (s\<lparr>workflows := workflows s @ [w]\<rparr>)" using inv assms(2) new by (simp add: wf_inv_def)
  qed simp
  moreover have "w\<lparr>wf_DeletedAt := None\<rparr> = w" using assms(3) by (cases w) simp
  ultimately show ?thesis
    unfolding CreateWorkflow_def wf_ok_stored [OF assms(2)]
    by (intro wg.world.steps_syntax wg.steps_atomic [OF assms(1)]) (simp add: wg.refl)
qed

lemma steps_UpdateWorkflow:
  assumes "others_keep E wf_safe" and "wf_ok u"
  shows "steps (on_store wf_safe) (UpdateWorkflow E u)"
proof -
  let ?P = "live_workflow (wf_OrgID u) (wf_ID u)"
  let ?f = "\<lambda>w. w\<lparr>wf_Name := wf_Name u, wf_Slug := wf_Slug u, wf_Description := wf_Description u,
      wf_Definition := wf_Definition u, wf_Status := wf_Status u, wf_UpdatedAt := wf_UpdatedAt u\<rparr>"
  have "wf_safe s (s\<lparr>workflows := update_where ?P ?f (workflows s)\<rparr>)" if "\<not> slug_taken u (workflows s)" for s
  proof (rule safe_update_rows)
    show "wf_step w (?f w) \<and> wf_ok (?f w)" if "?P w" for w
      using assms(2) that by (simp add: wf_step_def wf_ok_def live_workflow_def)
    show "slugs_unique (update_where ?P ?f (workflows s))" if "wf_inv s"
      using that \<open>\<not> slug_taken u (workflows s)\<close> by (intro slugs_renamed [of _ u]) (simp_all add: wf_inv_def)
  qed
  then show ?thesis
    unfolding UpdateWorkflow_def wf_ok_stored [OF assms(2)] Let_def
    by (intro wg.world.steps_syntax wg.steps_atomic [OF assms(1)]) (simp add: wg.refl)
qed

lemma max_numbers: "fold max (map int [1..<Suc n]) 0 = int n"
proof (induction n)
  case (Suc n)
  have "map int [1..<Suc (Suc n)] = map int [1..<Suc n] @ [int (Suc n)]" by simp
  then show ?case unfolding fold_append by (simp only: fold_append Suc comp_def) simp
qed simp

lemma next_version_numbers: "next_version orgID i vs = fold max (numbers orgID i vs) 0 + 1"
  unfolding next_version_def numbers_def is_version_of_def by (rule refl)

lemma next_version_numbered:
  assumes "numbered vs"
  shows "next_version orgID i vs = int (length (numbers orgID i vs)) + 1"
proof -
  have "fold max (numbers orgID i vs) 0 = fold max (map int [1..<Suc (length (numbers orgID i vs))]) 0"
    using assms unfolding numbered_def by (intro arg_cong [where f = "\<lambda>l. fold max l 0"]) blast
  then show ?thesis unfolding next_version_numbers max_numbers by simp
qed

lemma upto_snoc:
  "xs = map int [1..<Suc (length xs)] \<Longrightarrow> ys = xs @ [int (length xs) + 1] \<Longrightarrow> ys = map int [1..<Suc (length ys)]"
  by (drule arg_cong [where f = "\<lambda>l. l @ [int (length xs) + 1]"]) simp

lemma numbered_snoc:
  assumes "numbered vs" and "v_Version v = next_version (v_OrgID v) (v_WorkflowID v) vs"
  shows "numbered (vs @ [v])"
  unfolding numbered_def
proof (intro allI)
  fix orgID i
  have old: "numbers orgID i vs = map int [1..<Suc (length (numbers orgID i vs))]" using assms(1) unfolding numbered_def by blast
  show "numbers orgID i (vs @ [v]) = map int [1..<Suc (length (numbers orgID i (vs @ [v])))]"
  proof (cases "is_version_of orgID i v")
    case False
    then have same: "numbers orgID i (vs @ [v]) = numbers orgID i vs" by (simp add: numbers_def)
    show ?thesis unfolding same by (rule old)
  next
    case True
    then have "numbers orgID i (vs @ [v]) = numbers orgID i vs @ [int (length (numbers orgID i vs)) + 1]"
      using next_version_numbered [OF assms(1)] assms(2) by (simp add: numbers_def is_version_of_def)
    then show ?thesis by (rule upto_snoc [OF old])
  qed
qed

lemma steps_repository_PublishWorkflow:
  assumes "others_keep E wf_safe"
  shows "steps (on_store wf_safe) (repository_PublishWorkflow E expected t)"
proof -
  let ?P = "live_workflow (wf_OrgID expected) (wf_ID expected)"
  let ?f = "\<lambda>w. w\<lparr>wf_Status := WorkflowStatusPublished, wf_UpdatedAt := t\<rparr>"
  have "wf_safe s (s\<lparr>versions := versions s @ [v], workflows := update_where ?P ?f (workflows s)\<rparr>)"
    if "v_Version v = next_version (v_OrgID v) (v_WorkflowID v) (versions s)" for s v
    by (rule safe_rows) (auto simp: wf_step_def wf_ok_def wf_inv_def live_workflow_def intro!: slugs_kept numbered_snoc that)
  then have "wf_safe s (snd (publish_tx i expected t s))" for s i
    by (simp add: publish_tx_def wg.refl version_of_def Let_def split: option.split)
  then show ?thesis
    unfolding repository_PublishWorkflow_def by (intro wg.steps_world wg.steps_atomic [OF assms])
qed

subsection \<open>Operations of the service\<close>

lemma draft_ok:
  assumes "draft_of u input = Inr (name, slug, description, d)"
  shows "wf_ok \<lparr>wf_ID = i, wf_OrgID = orgID, wf_Name = name, wf_Slug = slug, wf_Description = description,
    wf_Status = WorkflowStatusDraft, wf_Definition = d, wf_CreatedAt = t, wf_UpdatedAt = t, wf_DeletedAt = None\<rparr>"
proof -
  have "normalizeWorkflowName (cw_Name input) = Inr name" "validateWorkflowSlug slug = None"
    "normalizeWorkflowDescription (cw_Description input) = Inr description" "parseWorkflowDefinition (cw_Definition input) = Inr d"
    using assms by (auto simp: draft_of_def Let_def split: sum.splits option.splits)
  then show ?thesis
    using parse_ok unfolding wf_ok_def
    by (auto simp: normalizeWorkflowName_def normalizeWorkflowDescription_def Let_def split: if_splits option.splits)
qed

lemma set_name_ok: "set_name input w = Inr w' \<Longrightarrow> wf_ok w \<Longrightarrow> wf_ok w'"
  by (auto simp: set_name_def normalizeWorkflowName_def wf_ok_def Let_def split: option.splits if_splits)

lemma set_slug_ok: "set_slug input w = Inr w' \<Longrightarrow> wf_ok w \<Longrightarrow> wf_ok w'"
  by (auto simp: set_slug_def wf_ok_def Let_def split: option.splits)

lemma set_description_ok: "set_description input w = Inr w' \<Longrightarrow> wf_ok w \<Longrightarrow> wf_ok w'"
  by (auto simp: set_description_def normalizeWorkflowDescription_def wf_ok_def Let_def split: option.splits if_splits)

lemma set_definition_ok: "set_definition input w = Inr w' \<Longrightarrow> wf_ok w \<Longrightarrow> wf_ok w'"
  by (auto simp: set_definition_def wf_ok_def parse_ok split: sum.splits if_splits)

lemma updated_ok: "updated_workflow input w = Inr w' \<Longrightarrow> wf_ok w \<Longrightarrow> wf_ok w'"
  unfolding updated_workflow_def and_then_def
  by (auto split: sum.splits dest: set_name_ok set_slug_ok set_description_ok set_definition_ok)

lemma steps_service_CreateWorkflow:
  assumes "others_keep E wf_safe"
  shows "steps (on_store wf_safe) (service_CreateWorkflow E u input)"
  unfolding service_CreateWorkflow_def Let_def
  by (intro wg.steps_world steps_CreateWorkflow [OF assms]) (auto dest: draft_ok)

lemma wf_outside: "\<not> wf_inv s \<Longrightarrow> wf_safe s s'"
  by (simp add: wf_safe_def)

lemma moves_GetWorkflowByID:
  assumes "others_keep E wf_safe"
  shows "moves (wf_inv \<circ> w_store) (on_store wf_safe) (GetWorkflowByID E orgID i)
    (\<lambda>r _. case r of Inl _ \<Rightarrow> True | Inr w \<Rightarrow> wf_ok w)"
  unfolding GetWorkflowByID_def
  by (rule wg.moves_query [OF assms, where Q = "\<lambda>r _. case r of Inl _ \<Rightarrow> True | Inr w \<Rightarrow> wf_ok w", unfolded comp_def, folded comp_def])
    (auto simp: wf_safe_def wf_inv_def row_def find_Some_iff list_all_iff split: option.split)

lemma steps_service_UpdateWorkflow:
  assumes "others_keep E wf_safe"
  shows "steps (on_store wf_safe) (service_UpdateWorkflow E orgID i input)"
proof -
  have "steps (on_store wf_safe) (if wf_Status x = WorkflowStatusArchived then State_Monad.return (Inl ErrInvalidStateTransition)
      else case updated_workflow input x of Inl e \<Rightarrow> State_Monad.return (Inl e)
        | Inr w \<Rightarrow> do { now \<leftarrow> time_now E; let w = w\<lparr>wf_Status := WorkflowStatusDraft, wf_UpdatedAt := now\<rparr>;
            bind_ok (UpdateWorkflow E w) (\<lambda>_. State_Monad.return (Inr w)) })" if "wf_ok x" for x
    unfolding Let_def
    by (intro wg.steps_world steps_UpdateWorkflow [OF assms]) (drule updated_ok [OF _ that], simp add: wf_ok_def)
  note body = moves_fact [OF this]
  show ?thesis
    unfolding service_UpdateWorkflow_def
    by (intro wg.world.steps_if wg.world.steps_return steps_inside
        [OF wg.world.moves_bind_ok [OF moves_GetWorkflowByID [OF assms], where Q = "\<lambda>_ _. True"] wf_outside])
      (simp_all add: body)
qed

lemma steps_DeleteWorkflow:
  "others_keep E wf_safe \<Longrightarrow> steps (on_store wf_safe) (DeleteWorkflow E orgID i)"
  unfolding DeleteWorkflow_def by (intro wg.steps_world steps_SoftDeleteWorkflow)

lemma steps_service_PublishWorkflow:
  "others_keep E wf_safe \<Longrightarrow> steps (on_store wf_safe) (service_PublishWorkflow E orgID i)"
  unfolding service_PublishWorkflow_def GetWorkflowByID_def Let_def
  by (intro wg.steps_world steps_repository_PublishWorkflow)

subsection \<open>Publishing\<close>

text \<open>
  What the other processes have to respect between the check of a definition and its
  publication: whoever changes the definition of a workflow moves \<open>updated_at\<close> to another
  microsecond.
\<close>

definition edits_touch :: "store \<Rightarrow> store \<Rightarrow> bool" where
  "edits_touch s s' \<longleftrightarrow>
     (distinct (map wf_ID (workflows s)) \<longrightarrow>
        distinct (map wf_ID (workflows s')) \<and>
        (\<forall>w \<in> set (workflows s). \<forall>w' \<in> set (workflows s').
           wf_ID w' = wf_ID w \<and> unix_micro (wf_UpdatedAt w') = unix_micro (wf_UpdatedAt w) \<longrightarrow>
             wf_Definition w' = wf_Definition w))"

lemma find_live: "find (live_workflow orgID i) ws = Some w \<Longrightarrow> w \<in> set ws \<and> wf_OrgID w = orgID \<and> wf_ID w = i"
  by (auto simp: find_Some_iff live_workflow_def)

lemma publish_tx_done:
  assumes "publish_tx i expected t s = (Inr v, s')"
  shows "\<exists>c. find (live_workflow (wf_OrgID expected) (wf_ID expected)) (workflows s) = Some c \<and>
    unix_micro (wf_UpdatedAt c) = unix_micro (wf_UpdatedAt expected) \<and> v_ID v = i \<and>
    v_OrgID v = wf_OrgID c \<and> v_WorkflowID v = wf_ID c \<and> v_Definition v = wf_Definition c \<and> v \<in> set (versions s')"
  using assms by (auto simp: publish_tx_def Let_def version_of_def split: option.splits if_splits)

definition read_row :: "uuid \<Rightarrow> uuid \<Rightarrow> Workflow \<Rightarrow> world \<Rightarrow> bool" where
  "read_row orgID i x w \<longleftrightarrow>
     distinct (map wf_ID (workflows (w_store w))) \<and> x \<in> set (workflows (w_store w)) \<and> wf_OrgID x = orgID \<and> wf_ID x = i"

lemma moves_get_row:
  assumes "others_keep E edits_touch"
  shows "moves (\<lambda>w. distinct (map wf_ID (workflows (w_store w)))) (\<lambda>_ _. True) (GetWorkflowByID E orgID i)
    (\<lambda>r w. case r of Inl _ \<Rightarrow> True | Inr x \<Rightarrow> read_row orgID i x w)"
  using assms unfolding moves_def GetWorkflowByID_def query_def run_atomic others_keep_def edits_touch_def Let_def row_def read_row_def
  by (auto dest: find_live split: outcome.split option.split)

lemma published_checked:
  assumes "others_keep E edits_touch" and "read_row orgID i x w"
    and "publish_tx k x t (interfere E n (w_store w)) = (Inr v, s')"
  shows "v_OrgID v = orgID \<and> v_WorkflowID v = i \<and> v_Definition v = wf_Definition x \<and> v \<in> set (versions s')"
proof -
  obtain c where c: "find (live_workflow (wf_OrgID x) (wf_ID x)) (workflows (interfere E n (w_store w))) = Some c"
    "unix_micro (wf_UpdatedAt c) = unix_micro (wf_UpdatedAt x)" "v_OrgID v = wf_OrgID c" "v_WorkflowID v = wf_ID c"
    "v_Definition v = wf_Definition c" "v \<in> set (versions s')"
    using publish_tx_done [OF assms(3)] by blast
  have "edits_touch (w_store w) (interfere E n (w_store w))" using assms(1) unfolding others_keep_def by blast
  then have "wf_Definition c = wf_Definition x"
    using find_live [OF c(1)] c(2) assms(2) unfolding edits_touch_def read_row_def by blast
  then show ?thesis using c(3-6) find_live [OF c(1)] assms(2) by (simp add: read_row_def)
qed

lemma moves_publish_row:
  assumes "others_keep E edits_touch"
  shows "moves (read_row orgID i x) (\<lambda>_ _. True) (repository_PublishWorkflow E x t)
    (\<lambda>r w. case r of Inl _ \<Rightarrow> True | Inr v \<Rightarrow>
       v_OrgID v = orgID \<and> v_WorkflowID v = i \<and> v_Definition v = wf_Definition x \<and> v \<in> set (versions (w_store w)))"
proof -
  have "case fst (run_state (repository_PublishWorkflow E x t) w) of Inl _ \<Rightarrow> True | Inr v \<Rightarrow>
       v_OrgID v = orgID \<and> v_WorkflowID v = i \<and> v_Definition v = wf_Definition x \<and>
       v \<in> set (versions (w_store (snd (run_state (repository_PublishWorkflow E x t) w))))" if "read_row orgID i x w" for w
    using published_checked [OF assms that, of "fresh E (w_tick w)" t "Suc (w_tick w)"]
    unfolding repository_PublishWorkflow_def
    by (auto simp: run_atomic Let_def prod_eq_iff split: outcome.split sum.split)
  then show ?thesis by (simp add: moves_def)
qed

lemma invalid_errors: "\<not> vr_Valid (ValidateWorkflowDefinition p d) \<Longrightarrow> vr_Errors (ValidateWorkflowDefinition p d) \<noteq> []"
  by (auto simp: ValidateWorkflowDefinition_def Let_def)

lemma moves_time_row: "moves (read_row orgID i x) (\<lambda>_ _. True) (time_now E) (\<lambda>_. read_row orgID i x)"
  by (simp add: moves_def read_row_def)

text \<open>
  C22. A publication that reports success has stored a version of the workflow whose
  definition passes the validation, although the check and the insertion are separate
  statements: a definition that was changed in between is not published. A publication
  that reports a failed validation carries a report with errors.
\<close>

theorem publish_only_validated:
  assumes "others_keep E edits_touch" and "distinct (map wf_ID (workflows (w_store w)))"
    and "run_state (service_PublishWorkflow E orgID i) w = (r, w')"
  shows "case r of
      Inr res \<Rightarrow> (\<exists>v \<in> set (versions (w_store w')).
        v_ID v = wp_VersionID res \<and> v_OrgID v = orgID \<and> v_WorkflowID v = i \<and> v_Version v = wp_Version res \<and>
        vr_Valid (ValidateWorkflowDefinition (parse_uuid E) (v_Definition v)))
    | Inl (WorkflowValidationFailure report) \<Rightarrow> vr_Errors report \<noteq> []
    | Inl (PublishError e) \<Rightarrow> True"
proof -
  let ?post = "\<lambda>r w'. case r of
      Inr res \<Rightarrow> (\<exists>v \<in> set (versions (w_store w')).
        v_ID v = wp_VersionID res \<and> v_OrgID v = orgID \<and> v_WorkflowID v = i \<and> v_Version v = wp_Version res \<and>
        vr_Valid (ValidateWorkflowDefinition (parse_uuid E) (v_Definition v)))
    | Inl (WorkflowValidationFailure report) \<Rightarrow> vr_Errors report \<noteq> []
    | Inl (PublishError e) \<Rightarrow> True"
  have "moves (\<lambda>w. distinct (map wf_ID (workflows (w_store w)))) (\<lambda>_ _. True) (service_PublishWorkflow E orgID i) ?post"
    unfolding service_PublishWorkflow_def Let_def
  proof (rule any.moves_bind [OF moves_get_row [OF assms(1)]], rule any.moves_sum, goal_cases)
    case (1 r e)
    show ?case by (rule any.moves_return) simp
  next
    case (2 r x)
    show ?case
      unfolding 2 sum.case
    proof (rule any.moves_if, goal_cases)
      case 1
      then show ?case by (intro any.moves_return) (simp add: invalid_errors)
    next
      case 2
      then show ?case
        by (intro any.moves_bind [OF moves_time_row] any.moves_bind [OF moves_publish_row [OF assms(1)]]
            any.moves_sum any.moves_return) auto
    qed
  qed
  then show ?thesis using assms(2,3) unfolding moves_def by (auto simp: prod_eq_iff)
qed

definition sample_workflow :: Workflow where
  "sample_workflow =
     \<lparr>wf_ID = 2, wf_OrgID = 1, wf_Name = ''demo'', wf_Slug = ''demo'', wf_Description = None,
      wf_Status = WorkflowStatusDraft,
      wf_Definition =
        \<lparr>d_Nodes = Some
           [\<lparr>dn_ID = ''t'', dn_Type = WorkflowNodeTrigger, dn_Name = ''start'', dn_Position = None, dn_Config = Some []\<rparr>,
            \<lparr>dn_ID = ''d'', dn_Type = WorkflowNodeDelay, dn_Name = ''wait'', dn_Position = None,
             dn_Config = Some [(''duration_seconds'', JNum 5)]\<rparr>],
         d_Edges = Some [\<lparr>e_ID = ''e'', e_From = ''t'', e_To = ''d'', e_Condition = RawDoc JNull\<rparr>]\<rparr>,
      wf_CreatedAt = 5, wf_UpdatedAt = 5, wf_DeletedAt = None\<rparr>"

definition sample_world :: world where
  "sample_world = \<lparr>w_store = empty_store\<lparr>workflows := [sample_workflow]\<rparr>, w_metrics = [], w_tick = 0\<rparr>"

theorem publish_only_validated_witness:
  "\<exists>v \<in> set (versions (w_store (snd (run_state (service_PublishWorkflow quiet 1 2) sample_world)))).
     v_Version v = 1 \<and> vr_Valid (ValidateWorkflowDefinition (parse_uuid quiet) (v_Definition v))"
proof -
  have "others_keep quiet edits_touch"
    by (auto simp: others_keep_def quiet_def edits_touch_def distinct_map dest: inj_onD)
  moreover have "distinct (map wf_ID (workflows (w_store sample_world)))" by (simp add: sample_world_def)
  moreover have "fst (run_state (service_PublishWorkflow quiet 1 2) sample_world) =
      Inr \<lparr>wp_WorkflowID = 2, wp_Version = 1, wp_VersionID = 1002, wp_Status = WorkflowVersionStatusPublished,
        wp_PublishedAt = 1000000\<rparr>"
    by code_simp
  ultimately show ?thesis
    using publish_only_validated [of quiet sample_world 1 2, OF _ _ prod.collapse [symmetric]] by auto
qed

subsection \<open>Sequences of calls\<close>

datatype workflow_call =
    CreateCall CreateWorkflowInput
  | UpdateCall uuid uuid UpdateWorkflowInput
  | DeleteCall uuid uuid
  | PublishCall uuid uuid

fun workflow_serve_one :: "env \<Rightarrow> unicode_tables \<Rightarrow> workflow_call \<Rightarrow> unit io" where
  "workflow_serve_one E u (CreateCall input) = do { _ \<leftarrow> service_CreateWorkflow E u input; State_Monad.return () }"
| "workflow_serve_one E u (UpdateCall orgID i input) = do { _ \<leftarrow> service_UpdateWorkflow E orgID i input; State_Monad.return () }"
| "workflow_serve_one E u (DeleteCall orgID i) = do { _ \<leftarrow> DeleteWorkflow E orgID i; State_Monad.return () }"
| "workflow_serve_one E u (PublishCall orgID i) = do { _ \<leftarrow> service_PublishWorkflow E orgID i; State_Monad.return () }"

fun workflow_serve :: "env \<Rightarrow> unicode_tables \<Rightarrow> workflow_call list \<Rightarrow> unit io" where
  "workflow_serve E u [] = State_Monad.return ()"
| "workflow_serve E u (c # cs) = do { workflow_serve_one E u c; workflow_serve E u cs }"

lemma steps_workflow_serve:
  assumes "others_keep E wf_safe"
  shows "steps (on_store wf_safe) (workflow_serve E u cs)"
proof (induction cs)
  case (Cons c cs)
  have "steps (on_store wf_safe) (workflow_serve_one E u c)"
    by (cases c) (auto intro!: wg.world.steps_syntax steps_service_CreateWorkflow steps_service_UpdateWorkflow
        steps_DeleteWorkflow steps_service_PublishWorkflow assms)
  then show ?case using Cons.IH by (auto intro!: wg.world.steps_bind)
qed (simp add: wg.world.steps_return)

lemma workflow_serve_safe:
  assumes "others_keep E wf_safe" and "wf_inv (w_store w)" and "w' = snd (run_state (workflow_serve E u cs) w)"
  shows "evolves wf_step (workflows (w_store w)) (workflows (w_store w'))" and "wf_inv (w_store w')"
    and "take (length (versions (w_store w))) (versions (w_store w')) = versions (w_store w)"
  using steps_workflow_serve [OF assms(1), of u cs] assms(2,3)
  by (simp_all add: steps_def on_store_def wf_safe_def)

text \<open>
  C23. Published versions are immutable and numbered without gaps: over any sequence of
  calls of the service, with failing and unacknowledged statements and with concurrent
  processes, the versions there were stay as they were, and the versions of each workflow
  are numbered 1, 2, 3 and so on in the order of their publication.
\<close>

theorem versions_append_only:
  assumes "others_keep E wf_safe" and "wf_inv (w_store w)" and "w' = snd (run_state (workflow_serve E u cs) w)"
  shows "take (length (versions (w_store w))) (versions (w_store w')) = versions (w_store w) \<and>
    map v_Version (filter (is_version_of orgID i) (versions (w_store w'))) =
      map int [1..<Suc (length (filter (is_version_of orgID i) (versions (w_store w'))))]"
proof
  show "take (length (versions (w_store w))) (versions (w_store w')) = versions (w_store w)"
    by (rule workflow_serve_safe(3) [OF assms])
  have "numbered (versions (w_store w'))" using workflow_serve_safe(2) [OF assms] by (simp add: wf_inv_def)
  then show "map v_Version (filter (is_version_of orgID i) (versions (w_store w'))) =
      map int [1..<Suc (length (filter (is_version_of orgID i) (versions (w_store w'))))]"
    unfolding numbered_def numbers_def length_map by blast
qed

lemma quiet_workflows: "others_keep quiet wf_safe"
  by (simp add: others_keep_def quiet_def wg.refl)

lemma sample_inv: "wf_inv (w_store sample_world)"
  by (simp add: wf_inv_def sample_world_def sample_workflow_def wf_ok_def slugs_unique_def numbered_def numbers_def
      definition_ok_def node_acceptable_def node_type_valid_def raw_empty_def) code_simp

theorem versions_append_only_witness:
  "map v_Version (filter (is_version_of 1 2) (versions (w_store (snd (run_state (workflow_serve quiet \<lparr>ut_lower = id, ut_alnum = (\<lambda>_. False)\<rparr>
      [PublishCall 1 2, PublishCall 1 2]) sample_world))))) = [1, 2]"
proof -
  let ?s = "w_store (snd (run_state (workflow_serve quiet \<lparr>ut_lower = id, ut_alnum = (\<lambda>_. False)\<rparr>
      [PublishCall 1 2, PublishCall 1 2]) sample_world))"
  have "length (filter (is_version_of 1 2) (versions ?s)) = 2" by code_simp
  then have "map int [1..<Suc (length (filter (is_version_of 1 2) (versions ?s)))] = [1, 2]" by (simp only:) code_simp
  then show ?thesis by (rule trans [OF conjunct2 [OF versions_append_only [OF quiet_workflows sample_inv refl]]])
qed

text \<open>
  C24. Workflow rows stay well formed: every row has a trimmed non-empty name, a valid
  slug and a definition that parses (distinct node and edge identifiers, edges between
  nodes that exist), no two workflows of an organisation that are not deleted share a
  slug, no workflow changes its identity, and a deleted workflow never changes again.
\<close>

theorem workflow_rows_well_formed:
  assumes "others_keep E wf_safe" and "wf_inv (w_store w)" and "w' = snd (run_state (workflow_serve E u cs) w)"
  shows "list_all wf_ok (workflows (w_store w')) \<and> distinct (map wf_ID (workflows (w_store w'))) \<and>
    slugs_unique (workflows (w_store w')) \<and> evolves wf_step (workflows (w_store w)) (workflows (w_store w'))"
  using workflow_serve_safe(1,2) [OF assms] by (simp add: wf_inv_def)

theorem workflow_rows_well_formed_witness:
  "let s = w_store (snd (run_state (workflow_serve quiet \<lparr>ut_lower = id, ut_alnum = (\<lambda>_. False)\<rparr>
      [UpdateCall 1 2 \<lparr>uw_Name = Some '' new '', uw_Slug = Some ''other'', uw_DescriptionSet = False, uw_Description = None,
         uw_Definition = RawNil\<rparr>]) sample_world)) in
   list_all wf_ok (workflows s) \<and> map wf_Name (workflows s) = [''new'']"
proof -
  let ?s = "w_store (snd (run_state (workflow_serve quiet \<lparr>ut_lower = id, ut_alnum = (\<lambda>_. False)\<rparr>
      [UpdateCall 1 2 \<lparr>uw_Name = Some '' new '', uw_Slug = Some ''other'', uw_DescriptionSet = False, uw_Description = None,
         uw_Definition = RawNil\<rparr>]) sample_world))"
  have "map wf_Name (workflows ?s) = [''new'']" by code_simp
  then show ?thesis
    unfolding Let_def by (rule conjI [OF conjunct1 [OF workflow_rows_well_formed [OF quiet_workflows sample_inv refl]]])
qed

end
