(* ===== verification/Base64.thy ===== *)
theory Base64
  imports Prelude
begin

text \<open>
  base64 without padding (\<open>RawURLEncoding\<close> and \<open>RawStdEncoding\<close> of encoding/base64), which
  cursors, generated secrets and encrypted secrets are written in. The two encodings
  differ in their alphabet.
\<close>

definition url_alphabet :: string where
  "url_alphabet = ''ABCDEFGHIJKLMNOPQRSTUVWXYZabcdefghijklmnopqrstuvwxyz0123456789-_''"

definition std_alphabet :: string where
  "std_alphabet = ''ABCDEFGHIJKLMNOPQRSTUVWXYZabcdefghijklmnopqrstuvwxyz0123456789+/''"

definition b64_digit :: "string \<Rightarrow> char \<Rightarrow> nat option" where
  "b64_digit alphabet c = find (\<lambda>i. alphabet ! i = c) [0..<64]"

fun b64_groups :: "nat list \<Rightarrow> nat list" where
  "b64_groups [] = []"
| "b64_groups [a] = [a div 4, a mod 4 * 16]"
| "b64_groups [a, b] = [a div 4, a mod 4 * 16 + b div 16, b mod 16 * 4]"
| "b64_groups (a # b # c # xs) =
     [a div 4, a mod 4 * 16 + b div 16, b mod 16 * 4 + c div 64, c mod 64] @ b64_groups xs"

definition EncodeToString :: "string \<Rightarrow> string \<Rightarrow> string" where
  "EncodeToString alphabet s = map ((!) alphabet) (b64_groups (map of_char s))"

fun b64_bytes :: "nat list \<Rightarrow> nat list option" where
  "b64_bytes [] = Some []"
| "b64_bytes [x] = None"
| "b64_bytes [x, y] = Some [x * 4 + y div 16]"
| "b64_bytes [x, y, z] = Some [x * 4 + y div 16, y mod 16 * 16 + z div 4]"
| "b64_bytes (x # y # z # w # xs) =
     map_option (\<lambda>bs. [x * 4 + y div 16, y mod 16 * 16 + z div 4, z mod 4 * 64 + w] @ bs) (b64_bytes xs)"

text \<open>The decoder skips line breaks and does not look at the unused bits of the last group.\<close>

definition DecodeString :: "string \<Rightarrow> string \<Rightarrow> string option" where
  "DecodeString alphabet s =
     (let ds = map (b64_digit alphabet) (filter (\<lambda>c. c \<noteq> CHR 0x0A \<and> c \<noteq> CHR 0x0D) s) in
      if None \<in> set ds then None else map_option (map char_of) (b64_bytes (map the ds)))"

text \<open>An alphabet has 64 different characters and no line break.\<close>

definition alphabet_ok :: "string \<Rightarrow> bool" where
  "alphabet_ok alphabet \<longleftrightarrow>
     list_all (\<lambda>i. b64_digit alphabet (alphabet ! i) = Some i \<and> alphabet ! i \<notin> {CHR 0x0A, CHR 0x0D}) [0..<64]"

lemma url_alphabet_ok [simp]: "alphabet_ok url_alphabet"
  by code_simp

lemma std_alphabet_ok [simp]: "alphabet_ok std_alphabet"
  by code_simp

lemma b64_groups_small: "list_all (\<lambda>a. a < 256) xs \<Longrightarrow> list_all (\<lambda>i. i < 64) (b64_groups xs)"
  by (induction xs rule: b64_groups.induct) auto

lemma b64_bytes_groups: "list_all (\<lambda>a. a < 256) xs \<Longrightarrow> b64_bytes (b64_groups xs) = Some xs"
  by (induction xs rule: b64_groups.induct) (auto simp: div_mult_mod_eq)

lemma DecodeString_EncodeToString:
  assumes "alphabet_ok alphabet"
  shows "DecodeString alphabet (EncodeToString alphabet s) = Some s"
proof -
  let ?g = "b64_groups (map of_char s)"
  have bytes: "list_all (\<lambda>a. a < 256) (map of_char s :: nat list)" by (simp add: list_all_iff)
  have small: "b64_digit alphabet (alphabet ! i) = Some i" "alphabet ! i \<notin> {CHR 0x0A, CHR 0x0D}" if "i \<in> set ?g" for i
  proof -
    have "i < 64" using b64_groups_small [OF bytes] that by (simp add: list_all_iff)
    then have "i \<in> set [0..<64]" by simp
    then show "b64_digit alphabet (alphabet ! i) = Some i" "alphabet ! i \<notin> {CHR 0x0A, CHR 0x0D}"
      using assms unfolding alphabet_ok_def list_all_iff by blast+
  qed
  have "filter (\<lambda>c. c \<noteq> CHR 0x0A \<and> c \<noteq> CHR 0x0D) (EncodeToString alphabet s) = EncodeToString alphabet s"
    unfolding EncodeToString_def using small(2) by (intro filter_True) auto
  moreover have "map (b64_digit alphabet) (EncodeToString alphabet s) = map Some ?g"
    unfolding EncodeToString_def using small(1) by simp
  ultimately show ?thesis
    unfolding DecodeString_def Let_def using b64_bytes_groups [OF bytes] by (simp add: comp_def image_iff)
qed

end
