(* ===== verification/Cursor.thy ===== *)
theory Cursor
  imports Go_Time World Base64
begin

text \<open>
  The cursors of the list operations (encodeCursor and decodeCursor in
  postgres_storage.go): the creation time and the identifier of the last row of a page,
  as text in the URL alphabet of base64. What the code uses of the standard library is
  modelled first: reading decimal digits and \<open>time.Parse\<close> for \<open>RFC3339Nano\<close>.
\<close>

subsection \<open>Decimal digits\<close>

definition is_digit :: "char \<Rightarrow> bool" where
  "is_digit c \<longleftrightarrow> 48 \<le> (of_char c :: int) \<and> (of_char c :: int) \<le> 57"

definition digits_value :: "string \<Rightarrow> int" where
  "digits_value s = foldl (\<lambda>x c. 10 * x + (of_char c - 48)) 0 s"

text \<open>\<open>parseUint\<close>: decimal digits with a value in a range.\<close>

definition parse_uint :: "int \<Rightarrow> int \<Rightarrow> string \<Rightarrow> int option" where
  "parse_uint lo hi s =
     (if list_all is_digit s \<and> lo \<le> digits_value s \<and> digits_value s \<le> hi then Some (digits_value s) else None)"

lemma digit_char_digit: "0 \<le> d \<Longrightarrow> d < 10 \<Longrightarrow> is_digit (digit_char d) \<and> (of_char (digit_char d) :: int) = d + 48"
proof -
  assume "0 \<le> d" "d < 10"
  then have "d \<in> set [0,1,2,3,4,5,6,7,8,9]" by simp arith
  moreover have "list_all (\<lambda>d. is_digit (digit_char d) \<and> (of_char (digit_char d) :: int) = d + 48) [0,1,2,3,4,5,6,7,8,9]"
    by code_simp
  ultimately show ?thesis by (simp only: list_all_iff)
qed

lemma digits_value_snoc: "digits_value (s @ [c]) = 10 * digits_value s + (of_char c - 48)"
  by (simp add: digits_value_def)

lemma utoa_digits: "0 \<le> n \<Longrightarrow> list_all is_digit (utoa n) \<and> digits_value (utoa n) = n"
proof (induction n rule: utoa.induct)
  case (1 n)
  show ?case
  proof (cases "n < 10")
    case True
    then show ?thesis using 1 digit_char_digit [of n] by (subst (1 2) utoa.simps) (simp add: digits_value_def)
  next
    case False
    then have "list_all is_digit (utoa (n div 10)) \<and> digits_value (utoa (n div 10)) = n div 10" using 1 by simp
    then show ?thesis
      using False digit_char_digit [of "n mod 10"] by (subst (1 2) utoa.simps) (simp add: digits_value_snoc)
  qed
qed

lemma utoa_length: "0 \<le> n \<Longrightarrow> n < 10 ^ w \<Longrightarrow> 0 < w \<Longrightarrow> length (utoa n) \<le> w"
proof (induction n arbitrary: w rule: utoa.induct)
  case (1 n)
  show ?case
  proof (cases "n < 10")
    case True
    then show ?thesis using 1 by (subst utoa.simps) simp
  next
    case False
    then obtain v where v: "w = Suc v" "0 < v" using 1 by (cases w; cases "w - 1") auto
    then have "n div 10 < 10 ^ v" using 1 by simp
    then have "length (utoa (n div 10)) \<le> v" using 1 False v by simp
    then show ?thesis using False v by (subst utoa.simps) simp
  qed
qed

lemma digits_value_zeros: "digits_value (replicate k CHR ''0'' @ s) = digits_value s"
  by (induction k) (simp_all add: digits_value_def)

lemma zeros_digits: "list_all is_digit (replicate k CHR ''0'')"
  by (simp add: list_all_iff is_digit_def)

lemma pad_digits:
  assumes "0 \<le> n" and "n < 10 ^ w" and "0 < w"
  shows "length (pad w n) = w" and "list_all is_digit (pad w n)" and "digits_value (pad w n) = n"
  using utoa_digits [OF assms(1)] utoa_length [OF assms]
  by (simp_all add: pad_def Let_def digits_value_zeros zeros_digits)

lemma parse_uint_pad:
  "0 \<le> n \<Longrightarrow> n < 10 ^ w \<Longrightarrow> 0 < w \<Longrightarrow> lo \<le> n \<Longrightarrow> n \<le> hi \<Longrightarrow> parse_uint lo hi (pad w n) = Some n"
  by (simp add: parse_uint_def pad_digits)

subsection \<open>Instants\<close>

definition leap :: "int \<Rightarrow> bool" where
  "leap y \<longleftrightarrow> 4 dvd y \<and> (\<not> 100 dvd y \<or> 400 dvd y)"

definition days_in :: "int \<Rightarrow> int \<Rightarrow> int" where
  "days_in m y = (if m = 2 then (if leap y then 29 else 28) else if m \<in> {4, 6, 9, 11} then 30 else 31)"

text \<open>The day number of a date, the inverse of \<open>civil\<close>.\<close>

definition day_number :: "int \<Rightarrow> int \<Rightarrow> int \<Rightarrow> int" where
  "day_number y m d =
     (let y' = (if m \<le> 2 then y - 1 else y);
          yoe = y' mod 400;
          mp = (if m \<le> 2 then m + 9 else m - 3) in
      y' div 400 * 146097 + 365 * yoe + yoe div 4 - yoe div 100 + (153 * mp + 2) div 5 + d - 1 - 306)"

text \<open>\<open>parseNanoseconds\<close>: the digits after the point, at most nine of them.\<close>

definition nanoseconds :: "string \<Rightarrow> int" where
  "nanoseconds ds = digits_value (take 9 ds) * 10 ^ (9 - length (take 9 ds))"

definition parse_fraction :: "string \<Rightarrow> int \<times> string" where
  "parse_fraction s =
     (case s of
        p # c # _ \<Rightarrow>
          if p = CHR ''.'' \<and> is_digit c
          then (nanoseconds (takeWhile is_digit (tl s)), dropWhile is_digit (tl s)) else (0, s)
      | _ \<Rightarrow> (0, s))"

text \<open>The offset of the zone, in seconds east of UTC.\<close>

definition parse_zone :: "string \<Rightarrow> int option" where
  "parse_zone s =
     (if s = ''Z'' then Some 0
      else if length s \<noteq> 6 then None
      else case (parse_uint 0 23 (take 2 (drop 1 s)), parse_uint 0 59 (take 2 (drop 4 s))) of
        (Some hr, Some mm) \<Rightarrow>
          if (s ! 0 = CHR ''-'' \<or> s ! 0 = CHR ''+'') \<and> s ! 3 = CHR '':''
          then Some ((if s ! 0 = CHR ''-'' then -1 else 1) * (hr * 60 + mm) * 60) else None
      | _ \<Rightarrow> None)"

text \<open>\<open>parseRFC3339\<close>, the first thing \<open>time.Parse\<close> tries for the layout.\<close>

definition parseRFC3339 :: "string \<Rightarrow> time option" where
  "parseRFC3339 s =
     (if length s < 19 then None
      else case (parse_uint 0 9999 (take 4 s), parse_uint 1 12 (take 2 (drop 5 s))) of
        (Some year, Some month) \<Rightarrow>
          (case (parse_uint 1 (days_in month year) (take 2 (drop 8 s)), parse_uint 0 23 (take 2 (drop 11 s)),
                 parse_uint 0 59 (take 2 (drop 14 s)), parse_uint 0 59 (take 2 (drop 17 s))) of
             (Some day, Some hour, Some mn, Some sec) \<Rightarrow>
               if s ! 4 = CHR ''-'' \<and> s ! 7 = CHR ''-'' \<and> s ! 10 = CHR ''T'' \<and> s ! 13 = CHR '':'' \<and> s ! 16 = CHR '':''
               then
                 (case parse_fraction (drop 19 s) of (nsec, rest) \<Rightarrow>
                    map_option
                      (\<lambda>offset. (day_number year month day * 86400 + hour * 3600 + mn * 60 + sec - offset) * Second + nsec)
                      (parse_zone rest))
               else None
           | _ \<Rightarrow> None)
      | _ \<Rightarrow> None)"

definition time_Parse :: "env \<Rightarrow> string \<Rightarrow> time option" where
  "time_Parse E s = (case parseRFC3339 s of Some t \<Rightarrow> Some t | None \<Rightarrow> parse_lenient E s)"

lemma civil_parts:
  fixes z :: int
  assumes "doe = z mod 146097" and "c = min 3 (doe div 36524)" and "doc = doe - 36524 * c" and "q = doc div 1461"
    and "doq = doc - 1461 * q" and "n = min 3 (doq div 365)" and "doy = doq - 365 * n" and "mp = (5 * doy + 2) div 153"
  shows "0 \<le> c" and "c \<le> 3" and "0 \<le> q" and "q \<le> 24" and "0 \<le> n" and "n \<le> 3"
    and "0 \<le> doy" and "doy \<le> 365" and "0 \<le> mp" and "mp \<le> 11"
proof -
  have doe: "0 \<le> doe" "doe \<le> 146096" by (simp_all add: assms(1))
  then show c: "0 \<le> c" "c \<le> 3" by (simp_all add: assms(2))
  have doc: "0 \<le> doc" "doc \<le> 36524" using doe unfolding assms(3,2) by (simp_all add: min_def) linarith+
  then show q: "0 \<le> q" "q \<le> 24" by (simp_all add: assms(4))
  have doq: "0 \<le> doq" "doq \<le> 1460" using doc unfolding assms(5,4) by linarith+
  then show n: "0 \<le> n" "n \<le> 3" by (simp_all add: assms(6))
  show doy: "0 \<le> doy" "doy \<le> 365" using doq unfolding assms(7,6) by (simp_all add: min_def) linarith+
  then show "0 \<le> mp" "mp \<le> 11" by (simp_all add: assms(8))
qed

text \<open>The month \<open>mp\<close> counted from March, its first day and its length.\<close>

lemma month_cases:
  fixes doy mp :: int
  assumes "0 \<le> doy" and "doy \<le> 365" and "mp = (5 * doy + 2) div 153"
  shows "mp \<in> {0..11}" and "0 \<le> doy - (153 * mp + 2) div 5"
    and "doy - (153 * mp + 2) div 5 < (if mp = 11 then 29 else if mp \<in> {1, 3, 6, 8} then 30 else 31)"
    and "mp = 11 \<Longrightarrow> doy < 365 \<Longrightarrow> doy - (153 * mp + 2) div 5 < 28"
proof -
  have r: "153 * mp \<le> 5 * doy + 2" "5 * doy + 2 < 153 * mp + 153" using assms(3) by linarith+
  then have "mp \<in> {0..11}" using assms(1,2) by auto
  then show "mp \<in> {0..11}" .
  then have "mp = 0 \<or> mp = 1 \<or> mp = 2 \<or> mp = 3 \<or> mp = 4 \<or> mp = 5 \<or> mp = 6 \<or> mp = 7 \<or> mp = 8 \<or> mp = 9 \<or> mp = 10 \<or> mp = 11"
    by simp presburger
  note cases = this
  show "0 \<le> doy - (153 * mp + 2) div 5" using cases r(1) by (elim disjE) simp_all
  show "doy - (153 * mp + 2) div 5 < (if mp = 11 then 29 else if mp \<in> {1, 3, 6, 8} then 30 else 31)"
    using cases r(2) assms(2) by (elim disjE) simp_all
  show "mp = 11 \<Longrightarrow> doy < 365 \<Longrightarrow> doy - (153 * mp + 2) div 5 < 28" by simp
qed

lemma civil_date:
  assumes "civil days = (y, m, d)"
  shows "1 \<le> m \<and> m \<le> 12" and "1 \<le> d \<and> d \<le> days_in m y" and "day_number y m d = days"
proof -
  define z where "z = days + 306"
  define doe where "doe = z mod 146097"
  define c where "c = min 3 (doe div 36524)"
  define doc where "doc = doe - 36524 * c"
  define q where "q = doc div 1461"
  define doq where "doq = doc - 1461 * q"
  define n where "n = min 3 (doq div 365)"
  define doy where "doy = doq - 365 * n"
  define mp where "mp = (5 * doy + 2) div 153"
  define era where "era = z div 146097"
  note bounds = civil_parts [OF doe_def c_def doc_def q_def doq_def n_def doy_def mp_def]
  define m' where "m' = (if mp < 10 then mp + 3 else mp - 9)"
  have "civil days = (400 * era + 100 * c + 4 * q + n + (if m' \<le> 2 then 1 else 0), m', doy - (153 * mp + 2) div 5 + 1)"
    unfolding civil_def Let_def m'_def mp_def doy_def n_def doq_def q_def doc_def c_def doe_def era_def z_def by (rule refl)
  then have y: "y = 400 * era + 100 * c + 4 * q + n + (if m \<le> 2 then 1 else 0)"
    and m: "m = (if mp < 10 then mp + 3 else mp - 9)" and d: "d = doy - (153 * mp + 2) div 5 + 1"
    unfolding assms m'_def by simp_all
  show "1 \<le> m \<and> m \<le> 12" using bounds m by auto
  note month = month_cases [OF bounds(7,8) mp_def]
  have leap: "leap y" if "mp = 11" "doy = 365"
  proof -
    have doq_le: "doq \<le> 1460" unfolding doq_def q_def by linarith
    have doq: "doq = 1460" using that(2) bounds(6) bounds(5) doq_le unfolding doy_def n_def by (simp add: min_def split: if_splits)
    then have n3: "n = 3" by (simp add: n_def)
    have c3: "c = 3" if "q = 24"
    proof (rule ccontr)
      assume "c \<noteq> 3"
      then have "c = doe div 36524" by (simp add: c_def min_def split: if_splits)
      then have "doc < 36524" unfolding doc_def by linarith
      then show False using doq that unfolding doq_def by simp
    qed
    have y4: "y = 4 * (100 * era + 25 * c + q + 1)" using y m that(1) n3 by simp
    show ?thesis
    proof (cases "q = 24")
      case True
      then have "y = 400 * (era + 1)" using y4 c3 by simp
      then show ?thesis by (simp add: leap_def)
    next
      case False
      have "y = 4 * (q + 1) + 100 * (4 * era + c)" using y4 by simp
      then have "y mod 100 = 4 * (q + 1) mod 100" by (simp only: mod_mult_self2)
      also have "\<dots> = 4 * (q + 1)" using False bounds(3,4) by (intro mod_pos_pos_trivial) simp_all
      finally have "\<not> 100 dvd y" using bounds(3) by (simp add: dvd_eq_mod_eq_0)
      moreover have "4 dvd y" unfolding y4 by (rule dvd_triv_left)
      ultimately show ?thesis by (simp add: leap_def)
    qed
  qed
  have "doy < 365 \<or> leap y" if "mp = 11" using leap that bounds(8) by linarith
  then show "1 \<le> d \<and> d \<le> days_in m y"
    using month bounds(9,10) unfolding d m days_in_def by (auto split: if_splits)
  define Y where "Y = 100 * c + 4 * q + n"
  have y': "(if m \<le> 2 then y - 1 else y) = Y + 400 * era" using y by (simp add: Y_def)
  have mp': "(if m \<le> 2 then m + 9 else m - 3) = mp" using m bounds(9,10) by simp
  have Y: "0 \<le> Y" "Y < 400" using bounds by (simp_all add: Y_def)
  have "Y div 4 = 25 * c + q" "Y div 100 = c" using bounds unfolding Y_def by linarith+
  then have "day_number y m d = era * 146097 + 365 * Y + (25 * c + q) - c + (153 * mp + 2) div 5 + d - 1 - 306"
    using Y unfolding day_number_def Let_def y' mp' by simp
  also have "\<dots> = era * 146097 + doe - 306" unfolding d by (simp add: Y_def doy_def doq_def doc_def)
  also have "\<dots> = days" by (simp add: era_def doe_def z_def)
  finally show "day_number y m d = days" .
qed

lemma digits_value_scale: "digits_value (s @ replicate k CHR ''0'') = digits_value s * 10 ^ k"
proof (induction k)
  case (Suc k)
  have "s @ replicate (Suc k) CHR ''0'' = (s @ replicate k CHR ''0'') @ [CHR ''0'']" by (simp add: replicate_append_same)
  then show ?case by (simp only: digits_value_snoc Suc) simp
qed simp

lemma strip_zeros:
  fixes s :: string
  obtains k where "s = rev (dropWhile (\<lambda>c. c = CHR ''0'') (rev s)) @ replicate k CHR ''0''"
proof -
  let ?P = "\<lambda>c. c = CHR ''0''"
  have "takeWhile ?P (rev s) = replicate (length (takeWhile ?P (rev s))) CHR ''0''"
    by (rule replicate_eqI) (auto dest: set_takeWhileD)
  then have "rev s = replicate (length (takeWhile ?P (rev s))) CHR ''0'' @ dropWhile ?P (rev s)"
    by (metis takeWhile_dropWhile_id)
  then have "s = rev (dropWhile ?P (rev s)) @ replicate (length (takeWhile ?P (rev s))) CHR ''0''"
    by (metis rev_append rev_replicate rev_rev_ident)
  then show ?thesis by (rule that)
qed

lemma parse_fraction_text:
  assumes "0 \<le> ns" and "ns < 10 ^ 9"
  shows "parse_fraction (fraction_text ns @ ''Z'') = (ns, ''Z'')"
proof (cases "ns = 0")
  case True
  then show ?thesis by (simp add: fraction_text_def parse_fraction_def)
next
  case False
  define ds where "ds = rev (dropWhile (\<lambda>c. c = CHR ''0'') (rev (pad 9 ns)))"
  note pad = pad_digits [OF assms, simplified]
  obtain k where k: "pad 9 ns = ds @ replicate k CHR ''0''" unfolding ds_def by (rule strip_zeros)
  have digits: "list_all is_digit ds" using pad(2) k by simp
  have val: "digits_value ds * 10 ^ k = ns" using pad(3) digits_value_scale [of ds k] k by simp
  then obtain c cs where ds: "ds = c # cs" using False by (cases ds) (simp_all add: digits_value_def)
  have len: "length ds = 9 - k" "k \<le> 9" using pad(1) k by auto
  have "takeWhile is_digit (ds @ ''Z'') = ds" "dropWhile is_digit (ds @ ''Z'') = ''Z''"
    using digits by (simp_all add: list_all_iff is_digit_def)
  moreover have "nanoseconds ds = ns" using val len by (simp add: nanoseconds_def)
  moreover have "fraction_text ns = ''.'' @ ds" using False by (simp add: fraction_text_def ds_def)
  ultimately show ?thesis using digits by (simp add: parse_fraction_def ds)
qed

lemma civil_year:
  assumes "0 \<le> days" and "civil days = (y, m, d)"
  shows "0 \<le> y"
proof (rule ccontr)
  assume neg: "\<not> 0 \<le> y"
  define y' where "y' = (if m \<le> 2 then y - 1 else y)"
  define mp where "mp = (if m \<le> 2 then m + 9 else m - 3)"
  note c = civil_date [OF assms(2)]
  have d: "d \<le> 31" using c(2) unfolding days_in_def by (auto split: if_splits)
  have "mp \<le> 11" using c(1) by (auto simp: mp_def)
  then have mp: "(153 * mp + 2) div 5 \<le> 337" by simp
  have "y' < 0" using neg by (simp add: y'_def)
  then have y': "y' div 400 \<le> - 1" by simp
  have "0 \<le> y' mod 400" "y' mod 400 \<le> 399" by simp_all
  then have yoe: "365 * (y' mod 400) + y' mod 400 div 4 - y' mod 400 div 100 \<le> 145734" by simp
  have "day_number y m d = y' div 400 * 146097 + 365 * (y' mod 400) + y' mod 400 div 4 - y' mod 400 div 100 +
      (153 * mp + 2) div 5 + d - 1 - 306"
    by (simp add: day_number_def Let_def y'_def mp_def)
  then show False using c(3) assms(1) d mp y' yoe by linarith
qed

text \<open>The instants that the layout can express: four digits of the year.\<close>

definition year_of :: "time \<Rightarrow> int" where
  "year_of t = fst (civil (t div Second div 86400))"

lemma length_pad: "0 \<le> n \<Longrightarrow> n < 10 ^ w \<Longrightarrow> 0 < w \<Longrightarrow> length (pad w n) = w"
  by (rule pad_digits)

lemma parse_fields:
  assumes "0 \<le> y" and "y \<le> 9999" and "1 \<le> m \<and> m \<le> 12" and "1 \<le> d \<and> d \<le> days_in m y"
    and "0 \<le> h \<and> h \<le> 23" and "0 \<le> mi \<and> mi \<le> 59" and "0 \<le> sc \<and> sc \<le> 59" and "parse_fraction rest = (ns, ''Z'')"
  shows "parseRFC3339 (pad 4 y @ ''-'' @ pad 2 m @ ''-'' @ pad 2 d @ ''T'' @ pad 2 h @ '':'' @ pad 2 mi @ '':'' @ pad 2 sc @ rest) =
    Some ((day_number y m d * 86400 + h * 3600 + mi * 60 + sc) * Second + ns)"
proof -
  have "d \<le> 31" using assms(4) unfolding days_in_def by (auto split: if_splits)
  then have len: "length (pad 4 y) = 4" "length (pad 2 m) = 2" "length (pad 2 d) = 2" "length (pad 2 h) = 2"
      "length (pad 2 mi) = 2" "length (pad 2 sc) = 2"
    and val: "parse_uint 0 9999 (pad 4 y) = Some y" "parse_uint 1 12 (pad 2 m) = Some m"
      "parse_uint 1 (days_in m y) (pad 2 d) = Some d" "parse_uint 0 23 (pad 2 h) = Some h"
      "parse_uint 0 59 (pad 2 mi) = Some mi" "parse_uint 0 59 (pad 2 sc) = Some sc"
    using assms(1-7) by (auto intro!: length_pad parse_uint_pad)
  show ?thesis unfolding parseRFC3339_def by (simp add: len val assms(8) parse_zone_def nth_append)
qed

lemma day_seconds:
  fixes x :: int
  shows "x div 3600 * 3600 + x mod 3600 div 60 * 60 + x mod 60 = x"
proof -
  have "x mod 60 = x mod 3600 mod 60" by (simp add: mod_mod_cancel)
  then show ?thesis using div_mult_mod_eq [of x 3600] div_mult_mod_eq [of "x mod 3600" 60] by simp
qed

lemma parse_time_text:
  assumes "0 \<le> t" and "year_of t \<le> 9999"
  shows "parseRFC3339 (time_text t) = Some t"
proof -
  define secs where "secs = t div Second"
  define sod where "sod = secs mod 86400"
  obtain y m d where date: "civil (secs div 86400) = (y, m, d)" by (cases "civil (secs div 86400)")
  note c = civil_date [OF date]
  have "0 \<le> secs" using assms(1) by (simp add: secs_def)
  then have y: "0 \<le> y" "y \<le> 9999"
    using civil_year [OF _ date] assms(2) by (simp_all add: year_of_def date secs_def [symmetric])
  have day: "1 \<le> d" "d \<le> 31" "d \<le> days_in m y" using c(2) by (auto simp: days_in_def split: if_splits)
  have sod: "0 \<le> sod" "sod < 86400" by (simp_all add: sod_def)
  then have hms: "0 \<le> sod div 3600" "sod div 3600 \<le> 23" "0 \<le> sod mod 3600 div 60" "sod mod 3600 div 60 \<le> 59"
    "0 \<le> sod mod 60" "sod mod 60 \<le> 59" "sod div 3600 * 3600 + sod mod 3600 div 60 * 60 + sod mod 60 = sod"
    by (simp_all add: day_seconds)
  let ?rest = "fraction_text (t mod Second) @ ''Z''"
  have frac: "parse_fraction ?rest = (t mod Second, ''Z'')"
    by (rule parse_fraction_text) simp_all
  have split: "time_text t = pad 4 y @ ''-'' @ pad 2 m @ ''-'' @ pad 2 d @ ''T'' @ pad 2 (sod div 3600) @ '':'' @
      pad 2 (sod mod 3600 div 60) @ '':'' @ pad 2 (sod mod 60) @ ?rest"
    unfolding time_text_def Let_def by (fold secs_def, fold sod_def) (simp only: date prod.case append_assoc)
  have "day_number y m d * 86400 + (sod div 3600 * 3600 + sod mod 3600 div 60 * 60 + sod mod 60) = secs"
    unfolding hms(7) c(3) unfolding sod_def by (rule div_mult_mod_eq)
  then have "(day_number y m d * 86400 + sod div 3600 * 3600 + sod mod 3600 div 60 * 60 + sod mod 60) * Second + t mod Second = t"
    unfolding add.assoc by (simp only: secs_def div_mult_mod_eq)
  then show ?thesis
    unfolding split parse_fields [OF y c(1) c(2) conjI [OF hms(1,2)] conjI [OF hms(3,4)] conjI [OF hms(5,6)] frac] by (rule arg_cong)
qed

subsection \<open>Cursors\<close>

definition encodeCursor :: "env \<Rightarrow> time \<Rightarrow> uuid \<Rightarrow> string" where
  "encodeCursor E createdAt i = EncodeToString url_alphabet (time_text createdAt @ ''|'' @ uuid_text E i)"

definition decodeCursor :: "env \<Rightarrow> string \<Rightarrow> (time \<times> uuid) option" where
  "decodeCursor E cursor =
     (case DecodeString url_alphabet cursor of
        None \<Rightarrow> None
      | Some raw \<Rightarrow>
          (case dropWhile (\<lambda>c. c \<noteq> CHR ''|'') raw of
             [] \<Rightarrow> None
           | _ # part \<Rightarrow>
               (case time_Parse E (takeWhile (\<lambda>c. c \<noteq> CHR ''|'') raw) of
                  None \<Rightarrow> None
                | Some createdAt \<Rightarrow> map_option (Pair createdAt) (parse_uuid E part))))"

lemma digits_no_bar: "list_all is_digit s \<Longrightarrow> CHR ''|'' \<notin> set s"
  by (auto simp: list_all_iff is_digit_def)

lemma pad_no_bar: "0 \<le> n \<Longrightarrow> CHR ''|'' \<notin> set (pad w n)"
  using utoa_digits [of n] by (intro digits_no_bar) (simp add: pad_def Let_def zeros_digits)

lemma fraction_no_bar: "0 \<le> ns \<Longrightarrow> CHR ''|'' \<notin> set (fraction_text ns)"
  using pad_no_bar [of ns 9] by (auto simp: fraction_text_def dest!: set_dropWhileD)

lemma time_text_no_bar:
  assumes "0 \<le> t"
  shows "CHR ''|'' \<notin> set (time_text t)"
proof -
  obtain y m d where date: "civil (t div Second div 86400) = (y, m, d)" by (cases "civil (t div Second div 86400)")
  have "0 \<le> t div Second div 86400" using assms by simp
  then have "0 \<le> y" "0 \<le> m" "0 \<le> d" using civil_year [OF _ date] civil_date [OF date] by linarith+
  then show ?thesis
    unfolding time_text_def Let_def date prod.case
    by (simp add: pad_no_bar fraction_no_bar)
qed

lemma cursor_decodes:
  assumes "parse_uuid E (uuid_text E i) = Some i" and "0 \<le> t" and "year_of t \<le> 9999"
  shows "decodeCursor E (encodeCursor E t i) = Some (t, i)"
proof -
  let ?raw = "time_text t @ ''|'' @ uuid_text E i"
  have "takeWhile (\<lambda>c. c \<noteq> CHR ''|'') ?raw = time_text t" "dropWhile (\<lambda>c. c \<noteq> CHR ''|'') ?raw = ''|'' @ uuid_text E i"
    using time_text_no_bar [OF assms(2)] by (auto simp: takeWhile_append dropWhile_append)
  then show ?thesis
    using assms parse_time_text [OF assms(2,3)]
    by (simp add: decodeCursor_def encodeCursor_def DecodeString_EncodeToString url_alphabet_ok time_Parse_def)
qed

text \<open>
  C25. A cursor is decoded to what it encodes: the creation time, to the nanosecond, and
  the identifier, for every instant of the years 1 to 9999.
\<close>

theorem cursor_round_trip:
  assumes "parse_uuid E (uuid_text E i) = Some i" and "0 \<le> t" and "year_of t \<le> 9999"
  shows "decodeCursor E (encodeCursor E t i) = Some (t, i)"
  using assms by (rule cursor_decodes)

text \<open>An environment whose identifiers are texts of ones.\<close>

definition unary_ids :: env where
  "unary_ids = quiet\<lparr>uuid_text := (\<lambda>i. replicate i CHR ''1''), parse_uuid := (\<lambda>s. Some (length s))\<rparr>"

theorem cursor_round_trip_witness:
  "decodeCursor unary_ids (encodeCursor unary_ids 63871234567123456000 3) = Some (63871234567123456000, 3)"
proof (rule cursor_round_trip)
  show "parse_uuid unary_ids (uuid_text unary_ids 3) = Some 3" by (simp add: unary_ids_def)
  show "year_of 63871234567123456000 \<le> 9999" by code_simp
qed simp

end
