(* ===== verification/Pages.thy ===== *)
theory Pages
  imports Cursor Task_Store Workflow_Store Exec_Store Webhook_Store Delivery_Worker Exec_Service
begin

text \<open>
  The list operations of the repositories: newest rows first, a page at a time, with a
  cursor for the next page (ListTasks, ListWorkflows, ListWorkflowExecutions,
  ListWebhookDeliveries and ListMetricEvents under internal/storage/postgres).
\<close>

subsection \<open>One page\<close>

type_synonym row_key = "time \<times> uuid"

definition key_less :: "row_key \<Rightarrow> row_key \<Rightarrow> bool" where
  "key_less a b \<longleftrightarrow> fst a < fst b \<or> fst a = fst b \<and> snd a < snd b"

definition page_size :: "int \<Rightarrow> nat" where
  "page_size limit = (if limit \<le> 0 \<or> limit > 100 then 50 else nat limit)"

text \<open>\<open>AND (created_at,id) < cursor ... ORDER BY created_at DESC,id DESC\<close>\<close>

definition newest_first :: "('r \<Rightarrow> row_key) \<Rightarrow> 'r \<Rightarrow> 'r \<Rightarrow> bool" where
  "newest_first key a b \<longleftrightarrow> key_less (key b) (key a)"

definition rows_below :: "('r \<Rightarrow> row_key) \<Rightarrow> row_key option \<Rightarrow> 'r \<Rightarrow> bool" where
  "rows_below key bound r \<longleftrightarrow> (case bound of None \<Rightarrow> True | Some k \<Rightarrow> key_less (key r) k)"

definition selected :: "('r \<Rightarrow> row_key) \<Rightarrow> ('r \<Rightarrow> bool) \<Rightarrow> row_key option \<Rightarrow> 'r list \<Rightarrow> 'r list" where
  "selected key matches bound rows =
     sort_by (newest_first key) (filter (\<lambda>r. matches r \<and> rows_below key bound r) rows)"

text \<open>\<open>LIMIT n+1\<close>; the row too many tells that there is a next page.\<close>

definition cut_page :: "env \<Rightarrow> ('r \<Rightarrow> row_key) \<Rightarrow> nat \<Rightarrow> 'r list \<Rightarrow> 'r list \<times> string" where
  "cut_page E key n rows =
     (let rows = take (n + 1) rows in
      if length rows > n
      then (take n rows, encodeCursor E (fst (key (rows ! (n - 1)))) (snd (key (rows ! (n - 1)))))
      else (rows, []))"

text \<open>The bound of a cursor: none for the empty one, an error for one that does not decode.\<close>

definition bound_of :: "env \<Rightarrow> string \<Rightarrow> row_key option option" where
  "bound_of E cursor = (if cursor = [] then Some None else map_option Some (decodeCursor E cursor))"

definition list_rows ::
  "env \<Rightarrow> string \<Rightarrow> (store \<Rightarrow> 'r list) \<Rightarrow> ('r \<Rightarrow> row_key) \<Rightarrow> ('r \<Rightarrow> bool) \<Rightarrow> nat \<Rightarrow> string \<Rightarrow>
     (err + 'r list \<times> string) io" where
  "list_rows E what tab key matches n cursor =
     (case bound_of E cursor of
        None \<Rightarrow> State_Monad.return (Inl ErrInvalidInput)
      | Some bound \<Rightarrow> query E what (\<lambda>s. Inr (cut_page E key n (selected key matches bound (tab s)))))"

subsection \<open>The lists\<close>

definition task_matches :: "uuid \<Rightarrow> TaskFilter \<Rightarrow> Task \<Rightarrow> bool" where
  "task_matches orgID f t \<longleftrightarrow>
     t_OrgID t = orgID \<and> t_DeletedAt t = None \<and> (tf_Queue f = [] \<or> t_Queue t = tf_Queue f) \<and>
     (case tf_Status f of None \<Rightarrow> True | Some st \<Rightarrow> t_Status t = st)"

definition task_row_key :: "Task \<Rightarrow> row_key" where
  "task_row_key t = (t_CreatedAt t, t_ID t)"

definition ListTasks :: "env \<Rightarrow> uuid \<Rightarrow> TaskFilter \<Rightarrow> (err + Task list \<times> string) io" where
  "ListTasks E orgID f =
     list_rows E ''postgres: list tasks'' tasks task_row_key (task_matches orgID f) (page_size (tf_Limit f)) (tf_Cursor f)"

definition ListDeadLetter :: "env \<Rightarrow> uuid \<Rightarrow> string \<Rightarrow> string \<Rightarrow> int \<Rightarrow> (err + Task list \<times> string) io" where
  "ListDeadLetter E orgID queue cursor limit =
     ListTasks E orgID
       \<lparr>tf_Queue = queue, tf_Status = Some StatusDeadLetter, tf_Cursor = cursor, tf_Limit = limit\<rparr>"

record WorkflowFilter =
  wff_Status :: "WorkflowStatus option"
  wff_Cursor :: string
  wff_Limit :: int

definition workflow_matches :: "uuid \<Rightarrow> WorkflowFilter \<Rightarrow> Workflow \<Rightarrow> bool" where
  "workflow_matches orgID f w \<longleftrightarrow>
     wf_OrgID w = orgID \<and> wf_DeletedAt w = None \<and>
     (case wff_Status f of None \<Rightarrow> True | Some st \<Rightarrow> wf_Status w = st)"

definition workflow_row_key :: "Workflow \<Rightarrow> row_key" where
  "workflow_row_key w = (wf_CreatedAt w, wf_ID w)"

definition ListWorkflows :: "env \<Rightarrow> uuid \<Rightarrow> WorkflowFilter \<Rightarrow> (err + Workflow list \<times> string) io" where
  "ListWorkflows E orgID f =
     list_rows E ''postgres: list workflows'' workflows workflow_row_key (workflow_matches orgID f)
       (page_size (wff_Limit f)) (wff_Cursor f)"

record WorkflowExecutionFilter =
  xf_Status :: "WorkflowExecutionStatus option"
  xf_Cursor :: string
  xf_Limit :: int

definition execution_matches ::
  "uuid \<Rightarrow> uuid \<Rightarrow> WorkflowExecutionFilter \<Rightarrow> WorkflowExecution \<Rightarrow> bool" where
  "execution_matches orgID workflowID f x \<longleftrightarrow>
     x_OrgID x = orgID \<and> x_WorkflowID x = workflowID \<and>
     (case xf_Status f of None \<Rightarrow> True | Some st \<Rightarrow> x_Status x = st)"

definition execution_row_key :: "WorkflowExecution \<Rightarrow> row_key" where
  "execution_row_key x = (x_CreatedAt x, x_ID x)"

definition ListWorkflowExecutions ::
  "env \<Rightarrow> uuid \<Rightarrow> uuid \<Rightarrow> WorkflowExecutionFilter \<Rightarrow> (err + WorkflowExecution list \<times> string) io" where
  "ListWorkflowExecutions E orgID workflowID f =
     list_rows E ''postgres: list workflow executions'' executions execution_row_key
       (execution_matches orgID workflowID f) (page_size (xf_Limit f)) (xf_Cursor f)"

definition ListExecutions ::
  "env \<Rightarrow> uuid \<Rightarrow> uuid \<Rightarrow> WorkflowExecutionFilter \<Rightarrow> (err + WorkflowExecution list \<times> string) io" where
  "ListExecutions E orgID workflowID f =
     bind_ok (GetWorkflowByID E orgID workflowID) (\<lambda>_. ListWorkflowExecutions E orgID workflowID f)"

text \<open>The status and the event type of the delivery filter are the texts of the request.\<close>

record WebhookDeliveryFilter =
  df_EndpointID :: "uuid option"
  df_Status :: string
  df_EventType :: string
  df_Cursor :: string
  df_Limit :: int

definition delivery_matches :: "uuid \<Rightarrow> WebhookDeliveryFilter \<Rightarrow> WebhookDelivery \<Rightarrow> bool" where
  "delivery_matches orgID f d \<longleftrightarrow>
     wd_OrgID d = orgID \<and>
     (case df_EndpointID f of None \<Rightarrow> True | Some e \<Rightarrow> wd_EndpointID d = e) \<and>
     (df_Status f = [] \<or> delivery_status_text (wd_Status d) = df_Status f) \<and>
     (df_EventType f = [] \<or> webhook_event_text (wd_EventType d) = df_EventType f)"

definition delivery_row_key :: "WebhookDelivery \<Rightarrow> row_key" where
  "delivery_row_key d = (wd_CreatedAt d, wd_ID d)"

definition ListWebhookDeliveries ::
  "env \<Rightarrow> uuid \<Rightarrow> WebhookDeliveryFilter \<Rightarrow> (err + WebhookDelivery list \<times> string) io" where
  "ListWebhookDeliveries E orgID f =
     list_rows E ''postgres: list webhook deliveries'' deliveries delivery_row_key (delivery_matches orgID f)
       (page_size (df_Limit f)) (df_Cursor f)"

definition metric_matches :: "uuid \<Rightarrow> MetricEventFilter \<Rightarrow> MetricEvent \<Rightarrow> bool" where
  "metric_matches orgID f e \<longleftrightarrow>
     me_OrganizationID e = orgID \<and> mf_From f \<le> me_OccurredAt e \<and> me_OccurredAt e < mf_To f \<and>
     (case mf_Source f of None \<Rightarrow> True | Some s \<Rightarrow> me_Source e = s) \<and>
     (case mf_EventType f of None \<Rightarrow> True | Some t \<Rightarrow> me_EventType e = t)"

definition metric_row_key :: "MetricEvent \<Rightarrow> row_key" where
  "metric_row_key e = (me_OccurredAt e, me_ID e)"

definition ListMetricEvents :: "env \<Rightarrow> uuid \<Rightarrow> MetricEventFilter \<Rightarrow> (err + MetricEvent list \<times> string) io" where
  "ListMetricEvents E orgID f =
     (if orgID = 0 then State_Monad.return (Inl ErrInvalidInput)
      else if \<not> metric_filter_valid f then State_Monad.return (Inl ErrInvalidInput)
      else list_rows E ''postgres: list metric events'' metric_events metric_row_key (metric_matches orgID f)
             (nat (mf_Limit f)) (mf_Cursor f))"

end
