(* ===== verification/Page_Claims.thy ===== *)
theory Page_Claims
  imports Pages
begin

text \<open>
  A client that follows the cursors of a list: it meets every row that stays, no row twice,
  and comes to an end. The lemmas are proved once, in the locale \<open>listing\<close>, for every list
  operation of the repositories.
\<close>

subsection \<open>Sorted rows\<close>

lemma key_less_irrefl: "\<not> key_less a a"
  by (simp add: key_less_def)

lemma key_less_trans: "key_less a b \<Longrightarrow> key_less b c \<Longrightarrow> key_less a c"
  by (auto simp: key_less_def)

lemma key_less_total: "a \<noteq> b \<Longrightarrow> key_less a b \<or> key_less b a"
  by (cases a; cases b) (auto simp: key_less_def)

lemma newest_first_trans: "newest_first key a b \<Longrightarrow> newest_first key b c \<Longrightarrow> newest_first key a c"
  unfolding newest_first_def by (rule key_less_trans)

lemma sorted_insert_by:
  assumes "sorted_wrt (newest_first key) ys" and "key x \<notin> key ` set ys"
  shows "sorted_wrt (newest_first key) (insert_by (newest_first key) x ys)"
  using assms
proof (induction ys)
  case (Cons y ys)
  show ?case
  proof (cases "newest_first key y x")
    case True
    then show ?thesis using Cons by simp
  next
    case False
    then have "newest_first key x y" using Cons.prems(2) key_less_total [of "key x" "key y"] by (auto simp: newest_first_def)
    moreover have "newest_first key x z" if "z \<in> set ys" for z
      using newest_first_trans [OF \<open>newest_first key x y\<close>] Cons.prems(1) that by simp
    ultimately show ?thesis using False Cons.prems(1) by auto
  qed
qed simp

lemma sorted_sort_by: "distinct (map key xs) \<Longrightarrow> sorted_wrt (newest_first key) (sort_by (newest_first key) xs)"
proof (induction xs)
  case (Cons x xs)
  have "sort_by (newest_first key) (x # xs) = insert_by (newest_first key) x (sort_by (newest_first key) xs)"
    by (simp add: sort_by_def)
  then show ?case using Cons by (auto intro: sorted_insert_by)
qed (simp add: sort_by_def)

lemma sorted_unique:
  assumes "sorted_wrt (newest_first key) xs" and "sorted_wrt (newest_first key) ys" and "set xs = set ys"
  shows "xs = ys"
  using assms
proof (induction xs arbitrary: ys)
  case (Cons x xs)
  then obtain y zs where ys: "ys = y # zs" by (cases ys) auto
  have asym: "\<not> (newest_first key a b \<and> newest_first key b a)" for a b
    using newest_first_trans [of key a b a] by (auto simp: newest_first_def key_less_irrefl)
  have irrefl: "\<not> newest_first key a a" for a by (simp add: newest_first_def key_less_irrefl)
  have "x = y"
  proof (rule ccontr)
    assume "x \<noteq> y"
    then have "x \<in> set zs" "y \<in> set xs" using Cons.prems(3) ys by auto
    then show False using Cons.prems(1,2) ys asym by auto
  qed
  moreover have "x \<notin> set xs" "y \<notin> set zs" using Cons.prems(1,2) ys irrefl by auto
  then have "set xs = set zs" using Cons.prems(3) ys \<open>x = y\<close> by auto
  ultimately show ?case using Cons ys by auto
qed simp

text \<open>Rows that a cursor can point at: different keys, years of four digits.\<close>

definition listable :: "('r \<Rightarrow> row_key) \<Rightarrow> 'r list \<Rightarrow> bool" where
  "listable key rows \<longleftrightarrow>
     distinct (map key rows) \<and> list_all (\<lambda>r. 0 \<le> fst (key r) \<and> year_of (fst (key r)) \<le> 9999) rows"

definition ids_parse :: "env \<Rightarrow> bool" where
  "ids_parse E \<longleftrightarrow> (\<forall>i. parse_uuid E (uuid_text E i) = Some i)"

lemma encode_nonempty: "encodeCursor E t i \<noteq> []"
proof -
  have "length (b64_groups (a # xs)) \<noteq> 0" for a xs by (cases "a # xs" rule: b64_groups.cases) auto
  moreover obtain c cs where "time_text t @ ''|'' @ uuid_text E i = c # cs" by (cases "time_text t @ ''|'' @ uuid_text E i") auto
  ultimately show ?thesis by (simp add: encodeCursor_def EncodeToString_def)
qed

lemma bound_of_cursor:
  assumes "ids_parse E" and "listable key rows" and "r \<in> set rows"
  shows "bound_of E (encodeCursor E (fst (key r)) (snd (key r))) = Some (Some (key r))"
proof -
  have "decodeCursor E (encodeCursor E (fst (key r)) (snd (key r))) = Some (fst (key r), snd (key r))"
  proof -
    have t: "0 \<le> fst (key r)" "year_of (fst (key r)) \<le> 9999" using assms(2,3) by (auto simp: listable_def list_all_iff)
    show ?thesis
      using assms(1) t by (intro cursor_decodes) (simp_all add: ids_parse_def)
  qed
  then show ?thesis by (simp add: bound_of_def encode_nonempty)
qed

lemma selected_props:
  assumes "listable key rows"
  shows "sorted_wrt (newest_first key) (selected key m b rows)"
    and "set (selected key m b rows) = {r \<in> set rows. m r \<and> rows_below key b r}"
  using assms by (auto simp: selected_def listable_def distinct_map inj_on_def intro!: sorted_sort_by)

lemma selected_rest:
  assumes "listable key rows" and "0 < n" and "n \<le> length (selected key m b rows)"
  shows "selected key m (Some (key (selected key m b rows ! (n - 1)))) rows = drop n (selected key m b rows)"
proof -
  let ?L = "selected key m b rows"
  let ?x = "?L ! (n - 1)"
  note L = selected_props [OF assms(1), of m b]
  have x: "?x \<in> set ?L" using assms(2,3) by (intro nth_mem) simp
  have below: "rows_below key b r" if "key_less (key r) (key ?x)" for r
    using x that L(2) by (auto simp: rows_below_def split: option.splits intro: key_less_trans)
  have order: "newest_first key (?L ! i) (?L ! j)" if "i < j" "j < length ?L" for i j
    using L(1) that by (simp add: sorted_wrt_iff_nth_less)
  have "r \<in> set (drop n ?L)" if r: "r \<in> set rows" "m r" "key_less (key r) (key ?x)" for r
  proof -
    from r below have "r \<in> set ?L" using L(2) by simp
    then obtain i where i: "i < length ?L" "r = ?L ! i" by (auto simp: in_set_conv_nth)
    have "n \<le> i"
    proof (rule ccontr)
      assume "\<not> n \<le> i"
      then have "i = n - 1 \<or> i < n - 1" by linarith
      then show False
        using order [of i "n - 1"] assms(2,3) i(2) r(3) key_less_trans [of "key r" "key ?x" "key r"]
        by (auto simp: newest_first_def key_less_irrefl)
    qed
    then have "drop n ?L ! (i - n) = r" "i - n < length (drop n ?L)" using i by simp_all
    then show ?thesis by (metis nth_mem)
  qed
  moreover have "r \<in> set rows \<and> m r \<and> key_less (key r) (key ?x)" if r: "r \<in> set (drop n ?L)" for r
  proof -
    obtain i where "i < length (drop n ?L)" "r = drop n ?L ! i" using r by (metis in_set_conv_nth)
    then have i: "n + i < length ?L" "r = ?L ! (n + i)" using assms(3) by simp_all
    then show ?thesis using order [of "n - 1" "n + i"] assms(2) L(2) in_set_dropD [OF r] by (auto simp: newest_first_def)
  qed
  ultimately have "set (selected key m (Some (key ?x)) rows) = set (drop n ?L)"
    using selected_props(2) [OF assms(1)] by (auto simp: rows_below_def)
  then show ?thesis
    using selected_props(1) [OF assms(1)] L(1) by (intro sorted_unique) (auto simp: sorted_wrt_drop)
qed

subsection \<open>Following the cursors\<close>

text \<open>
  A client that fetches page after page: \<open>None\<close> when \<open>m\<close> pages were not enough.
\<close>

fun collect :: "nat \<Rightarrow> (string \<Rightarrow> (err + 'r list \<times> string) io) \<Rightarrow> string \<Rightarrow> (err + 'r list) option io" where
  "collect 0 fetch cursor = State_Monad.return None"
| "collect (Suc m) fetch cursor = do {
     r \<leftarrow> fetch cursor;
     case r of
       Inl e \<Rightarrow> State_Monad.return (Some (Inl e))
     | Inr (rows, next) \<Rightarrow>
         if next = [] then State_Monad.return (Some (Inr rows))
         else do {
           rest \<leftarrow> collect m fetch next;
           State_Monad.return (map_option (map_sum id ((@) rows)) rest) } }"

lemma appended:
  assumes "map_option (map_sum id ((@) rows)) r = Some (Inr rs)"
  obtains rest where "r = Some (Inr rest)" and "rs = rows @ rest"
proof (cases r)
  case (Some q)
  then show thesis using assms that by (cases q) simp_all
qed (use assms in simp)

locale listing =
  fixes E :: env and fetch :: "string \<Rightarrow> (err + 'r list \<times> string) io"
    and what :: string and tab :: "store \<Rightarrow> 'r list" and key :: "'r \<Rightarrow> row_key"
    and matches :: "'r \<Rightarrow> bool" and n :: nat
  assumes fetch: "fetch cursor = list_rows E what tab key matches n cursor"
    and size: "0 < n"
begin

abbreviation rows_after :: "row_key option \<Rightarrow> store \<Rightarrow> 'r list" where
  "rows_after b s \<equiv> selected key matches b (tab s)"

lemma fetched:
  assumes "bound_of E cursor = Some b" and "run_state (fetch cursor) w = (Inr (rows, next), w')"
  shows "w_store w' = interfere E (w_tick w) (w_store w)"
    and "(rows, next) = cut_page E key n (rows_after b (interfere E (w_tick w) (w_store w)))"
  using assms by (auto simp: fetch list_rows_def query_def run_atomic Let_def split: outcome.splits)

lemma page_cut:
  assumes "ids_parse E" and "listable key (tab s)" and "(rows, next) = cut_page E key n (rows_after b s)"
  shows "next = [] \<and> rows = rows_after b s \<or>
    next \<noteq> [] \<and> rows = take n (rows_after b s) \<and> n < length (rows_after b s) \<and>
      (\<exists>k. bound_of E next = Some (Some k) \<and> rows_after (Some k) s = drop n (rows_after b s) \<and> (\<exists>x \<in> set rows. key x = k) \<and>
         (\<forall>x \<in> set rows. key x = k \<or> key_less k (key x)))"
proof (cases "n < length (rows_after b s)")
  case False
  then show ?thesis using assms(3) by (simp add: cut_page_def Let_def)
next
  case True
  let ?L = "rows_after b s"
  let ?x = "?L ! (n - 1)"
  have page: "rows = take n ?L" "next = encodeCursor E (fst (key ?x)) (snd (key ?x))"
  proof -
    have "length (take (n + 1) ?L) = Suc n" "take n (take (n + 1) ?L) = take n ?L" "take (n + 1) ?L ! (n - 1) = ?x"
      using True by simp_all
    then have "cut_page E key n ?L = (take n ?L, encodeCursor E (fst (key ?x)) (snd (key ?x)))"
      by (simp only: cut_page_def Let_def) simp
    then show "rows = take n ?L" "next = encodeCursor E (fst (key ?x)) (snd (key ?x))" using assms(3) by simp_all
  qed
  have x: "?x \<in> set rows" unfolding page using True size by (auto simp: in_set_conv_nth intro!: exI [of _ "n - 1"])
  have "?x \<in> set (tab s)" using True size selected_props(2) [OF assms(2), of matches b] nth_mem [of "n - 1" ?L] by auto
  then have bound: "bound_of E next = Some (Some (key ?x))" unfolding page by (rule bound_of_cursor [OF assms(1,2)])
  have last: "key y = key ?x \<or> key_less (key ?x) (key y)" if y: "y \<in> set rows" for y
  proof -
    obtain i where i: "i < n" "y = ?L ! i" using y True by (auto simp: page in_set_conv_nth)
    then have "i = n - 1 \<or> i < n - 1" by linarith
    then show ?thesis
      using selected_props(1) [OF assms(2), of matches b] i True
      by (auto simp: sorted_wrt_iff_nth_less newest_first_def)
  qed
  have "next \<noteq> []" unfolding page by (rule encode_nonempty)
  moreover have "rows_after (Some (key ?x)) s = drop n ?L" by (rule selected_rest [OF assms(2) size less_imp_le [OF True]])
  ultimately show ?thesis using page(1) True bound
    by (intro disjI2 [of _ "next = [] \<and> rows = ?L"] conjI exI [of _ "key ?x"] ballI bexI [OF _ x] last) simp_all
qed

lemma collect_ends:
  assumes "undisturbed E" and "ids_parse E"
  shows "listable key (tab (w_store w)) \<Longrightarrow> bound_of E cursor = Some b \<Longrightarrow> 0 < m \<Longrightarrow>
    length (rows_after b (w_store w)) \<le> m * n \<Longrightarrow>
    fst (run_state (collect m fetch cursor) w) = Some (Inr (rows_after b (w_store w)))"
proof (induction m arbitrary: cursor b w)
  case (Suc m)
  obtain rows "next" where cut: "(rows, next) = cut_page E key n (rows_after b (w_store w))"
    by (cases "cut_page E key n (rows_after b (w_store w))") auto
  let ?w = "w\<lparr>w_tick := w_tick w + 1\<rparr>"
  have run: "run_state (fetch cursor) w = (Inr (rows, next), ?w)"
    using assms(1) Suc.prems(2) cut by (simp add: fetch list_rows_def query_def run_atomic undisturbed_def Let_def)
  from page_cut [OF assms(2) Suc.prems(1) cut] show ?case
  proof (elim disjE)
    assume "next = [] \<and> rows = rows_after b (w_store w)"
    then show ?thesis by (simp add: run)
  next
    assume *: "next \<noteq> [] \<and> rows = take n (rows_after b (w_store w)) \<and> n < length (rows_after b (w_store w)) \<and>
      (\<exists>k. bound_of E next = Some (Some k) \<and> rows_after (Some k) (w_store w) = drop n (rows_after b (w_store w)) \<and>
         (\<exists>x \<in> set rows. key x = k) \<and> (\<forall>x \<in> set rows. key x = k \<or> key_less k (key x)))"
    then obtain k where k: "bound_of E next = Some (Some k)" "rows_after (Some k) (w_store ?w) = drop n (rows_after b (w_store w))"
      by auto
    have "0 < m" using * Suc.prems(4) by (cases m) auto
    then have "fst (run_state (collect m fetch next) ?w) = Some (Inr (rows_after (Some k) (w_store ?w)))"
      using Suc.prems(1,4) k by (intro Suc.IH) simp_all
    then show ?thesis using * k(2) by (simp add: run split_beta)
  qed
qed simp

definition stays :: "'r \<Rightarrow> store \<Rightarrow> store \<Rightarrow> bool" where
  "stays r s s' \<longleftrightarrow>
     (listable key (tab s) \<longrightarrow> listable key (tab s') \<and> (r \<in> set (tab s) \<longrightarrow> r \<in> set (tab s')))"

lemma page_meets:
  assumes "ids_parse E" and "listable key (tab s)" and "(rows, next) = cut_page E key n (rows_after b s)"
  shows "sorted_wrt (newest_first key) rows" and "x \<in> set rows \<Longrightarrow> rows_below key b x"
    and "r \<in> set (tab s) \<Longrightarrow> matches r \<Longrightarrow> rows_below key b r \<Longrightarrow> next = [] \<Longrightarrow> r \<in> set rows"
    and "next \<noteq> [] \<Longrightarrow> \<exists>k. bound_of E next = Some (Some k) \<and> (\<exists>x \<in> set rows. key x = k) \<and>
      (\<forall>x \<in> set rows. key x = k \<or> key_less k (key x)) \<and>
      (r \<in> set (tab s) \<longrightarrow> matches r \<longrightarrow> rows_below key b r \<longrightarrow> r \<in> set rows \<or> rows_below key (Some k) r)"
proof -
  note L = selected_props [OF assms(2), of matches b]
  note cut = page_cut [OF assms]
  have prefix: "rows = take (length rows) (rows_after b s)" using cut by auto
  show "sorted_wrt (newest_first key) rows" using prefix L(1) by (metis sorted_wrt_take)
  show "x \<in> set rows \<Longrightarrow> rows_below key b x" using prefix L(2) by (metis (no_types, lifting) in_set_takeD mem_Collect_eq)
  show "r \<in> set (tab s) \<Longrightarrow> matches r \<Longrightarrow> rows_below key b r \<Longrightarrow> next = [] \<Longrightarrow> r \<in> set rows" using cut L(2) by auto
  assume "next \<noteq> []"
  then obtain k where k: "rows = take n (rows_after b s)" "bound_of E next = Some (Some k)"
    "rows_after (Some k) s = drop n (rows_after b s)" "\<exists>x \<in> set rows. key x = k"
    "\<forall>x \<in> set rows. key x = k \<or> key_less k (key x)" using cut by blast
  have "r \<in> set rows \<or> rows_below key (Some k) r" if "r \<in> set (tab s)" "matches r" "rows_below key b r"
  proof -
    have "r \<in> set (rows_after b s)" using that L(2) by simp
    then have "r \<in> set rows \<or> r \<in> set (rows_after (Some k) s)" unfolding k(1,3) by (metis Un_iff append_take_drop_id set_append)
    then show ?thesis using selected_props(2) [OF assms(2), of matches "Some k"] by auto
  qed
  with k show "\<exists>k. bound_of E next = Some (Some k) \<and> (\<exists>x \<in> set rows. key x = k) \<and>
      (\<forall>x \<in> set rows. key x = k \<or> key_less k (key x)) \<and>
      (r \<in> set (tab s) \<longrightarrow> matches r \<longrightarrow> rows_below key b r \<longrightarrow> r \<in> set rows \<or> rows_below key (Some k) r)"
    by blast
qed

lemma collect_meets:
  assumes "ids_parse E" and others: "others_keep E (stays r)" and "matches r"
  shows "listable key (tab (w_store w)) \<Longrightarrow> r \<in> set (tab (w_store w)) \<Longrightarrow> bound_of E cursor = Some b \<Longrightarrow>
    fst (run_state (collect m fetch cursor) w) = Some (Inr rs) \<Longrightarrow>
    sorted_wrt (newest_first key) rs \<and> (\<forall>x \<in> set rs. rows_below key b x) \<and> (rows_below key b r \<longrightarrow> r \<in> set rs)"
proof (induction m arbitrary: cursor b w rs)
  case (Suc m)
  obtain res w' where run: "run_state (fetch cursor) w = (res, w')" by fastforce
  obtain rows "next" where res: "res = Inr (rows, next)" using Suc.prems(4) run by (cases res) auto
  note page = fetched [OF Suc.prems(3) run [unfolded res]]
  have s': "listable key (tab (w_store w'))" "r \<in> set (tab (w_store w'))"
    using others Suc.prems(1,2) page(1) unfolding others_keep_def stays_def by (metis)+
  note meets = page_meets [OF assms(1) s'(1) page(2) [folded page(1)]]
  show ?case
  proof (cases "next = []")
    case True
    then have "rs = rows" using Suc.prems(4) run res by simp
    then show ?thesis using meets(1-3) [OF] s'(2) assms(3) True by blast
  next
    case False
    obtain k where k: "bound_of E next = Some (Some k)" "\<exists>x \<in> set rows. key x = k"
      "\<forall>x \<in> set rows. key x = k \<or> key_less k (key x)"
      "rows_below key b r \<Longrightarrow> r \<in> set rows \<or> rows_below key (Some k) r"
      using meets(4) [OF False] s'(2) assms(3) by blast
    have "map_option (map_sum id ((@) rows)) (fst (run_state (collect m fetch next) w')) = Some (Inr rs)"
      using Suc.prems(4) run res False by (simp add: split_beta)
    then obtain rest where rest: "fst (run_state (collect m fetch next) w') = Some (Inr rest)" "rs = rows @ rest"
      by (rule appended)
    note IH = Suc.IH [OF s' k(1) rest(1)]
    have under: "key_less (key y) k" if "y \<in> set rest" for y using IH that by (auto simp: rows_below_def)
    have "newest_first key x y" if "x \<in> set rows" "y \<in> set rest" for x y
      using k(3) that(1) under [OF that(2)] key_less_trans [of "key y" k "key x"] by (auto simp: newest_first_def)
    moreover have "rows_below key b y" if "y \<in> set rest" for y
      using under [OF that] k(2) meets(2) by (auto simp: rows_below_def split: option.splits intro: key_less_trans)
    ultimately show ?thesis using meets(1,2) IH k(4) unfolding rest(2) by (auto simp: sorted_wrt_append)
  qed
qed simp

end

subsection \<open>The lists of the repositories\<close>

lemma page_size_pos: "0 < page_size limit"
  by (simp add: page_size_def)

interpretation task_list: listing E "\<lambda>c. ListTasks E orgID (f\<lparr>tf_Cursor := c\<rparr>)" "''postgres: list tasks''" tasks
  task_row_key "task_matches orgID f" "page_size (tf_Limit f)" for E orgID f
  by unfold_locales (simp_all add: ListTasks_def page_size_pos task_matches_def [abs_def])

interpretation workflow_list: listing E "\<lambda>c. ListWorkflows E orgID (f\<lparr>wff_Cursor := c\<rparr>)" "''postgres: list workflows''"
  workflows workflow_row_key "workflow_matches orgID f" "page_size (wff_Limit f)" for E orgID f
  by unfold_locales (simp_all add: ListWorkflows_def page_size_pos workflow_matches_def [abs_def])

interpretation execution_list: listing E "\<lambda>c. ListWorkflowExecutions E orgID i (f\<lparr>xf_Cursor := c\<rparr>)"
  "''postgres: list workflow executions''" executions execution_row_key "execution_matches orgID i f"
  "page_size (xf_Limit f)" for E orgID i f
  by unfold_locales (simp_all add: ListWorkflowExecutions_def page_size_pos execution_matches_def [abs_def])

interpretation delivery_list: listing E "\<lambda>c. ListWebhookDeliveries E orgID (f\<lparr>df_Cursor := c\<rparr>)"
  "''postgres: list webhook deliveries''" deliveries delivery_row_key "delivery_matches orgID f"
  "page_size (df_Limit f)" for E orgID f
  by unfold_locales (simp_all add: ListWebhookDeliveries_def page_size_pos delivery_matches_def [abs_def])

text \<open>
  C26. A client that follows the cursors of the task list to the end meets every task that
  matches its filter and stays in the table, and gets the tasks in strictly descending
  order of creation, so none of them twice, whatever other processes add or remove between
  its requests.
\<close>

theorem task_listing_complete:
  assumes "ids_parse E" and "listable task_row_key (tasks (w_store w))"
    and "others_keep E (\<lambda>s s'. listable task_row_key (tasks s) \<longrightarrow>
      listable task_row_key (tasks s') \<and> (t \<in> set (tasks s) \<longrightarrow> t \<in> set (tasks s')))"
    and "t \<in> set (tasks (w_store w))" and "task_matches orgID f t"
    and "fst (run_state (collect m (\<lambda>c. ListTasks E orgID (f\<lparr>tf_Cursor := c\<rparr>)) []) w) = Some (Inr ts)"
  shows "t \<in> set ts \<and> sorted_wrt (newest_first task_row_key) ts"
proof -
  have "others_keep E (task_list.stays t)" using assms(3) by (simp add: task_list.stays_def [abs_def])
  from task_list.collect_meets [OF assms(1) this assms(5,2,4) _ assms(6), of None] show ?thesis
    by (simp add: bound_of_def rows_below_def)
qed

definition listed_task :: "uuid \<Rightarrow> Task" where
  "listed_task i = NewTask i 5 1 ''mail'' (RawDoc JNull) (replicate i CHR ''k'') ''fp'' 1 30000000000"

definition listed_world :: world where
  "listed_world =
     \<lparr>w_store = empty_store\<lparr>tasks := map listed_task [1, 2, 3]\<rparr>, w_metrics = [], w_tick = 0\<rparr>"

lemma listed_world_ok: "ids_parse unary_ids" "listable task_row_key (tasks (w_store listed_world))" "undisturbed unary_ids"
proof -
  show "ids_parse unary_ids" by (simp add: ids_parse_def unary_ids_def)
  show "undisturbed unary_ids" by (simp add: undisturbed_def unary_ids_def quiet_def)
  have "year_of 5 \<le> 9999" by code_simp
  then show "listable task_row_key (tasks (w_store listed_world))"
    by (simp add: listable_def listed_world_def listed_task_def task_row_key_def NewTask_def)
qed

text \<open>
  C27. The pages of the task list come to an end: with nothing else going on, \<open>m\<close> requests
  are enough for \<open>m\<close> times the page size, and what they return together is the list of the
  matching tasks, newest first.
\<close>

theorem task_listing_ends:
  assumes "undisturbed E" and "ids_parse E" and "listable task_row_key (tasks (w_store w))"
    and "0 < m" and "length (filter (task_matches orgID f) (tasks (w_store w))) \<le> m * page_size (tf_Limit f)"
  shows "fst (run_state (collect m (\<lambda>c. ListTasks E orgID (f\<lparr>tf_Cursor := c\<rparr>)) []) w) =
    Some (Inr (sort_by (newest_first task_row_key) (filter (task_matches orgID f) (tasks (w_store w)))))"
  using task_list.collect_ends [OF assms(1,2,3), of "[]" None m orgID f] assms(4,5)
  by (simp add: bound_of_def selected_def rows_below_def)

theorem task_listing_ends_witness:
  "fst (run_state (collect 2 (\<lambda>c. ListTasks unary_ids 1
     (\<lparr>tf_Queue = ''mail'', tf_Status = None, tf_Cursor = [], tf_Limit = 2\<rparr>\<lparr>tf_Cursor := c\<rparr>)) []) listed_world) =
   Some (Inr [listed_task 3, listed_task 2, listed_task 1])"
proof -
  let ?f = "\<lparr>tf_Queue = ''mail'', tf_Status = None, tf_Cursor = [], tf_Limit = 2\<rparr>"
  have rows: "filter (task_matches 1 ?f) (tasks (w_store listed_world)) = map listed_task [1, 2, 3]"
    by (simp add: listed_world_def listed_task_def task_matches_def NewTask_def)
  have "sort_by (newest_first task_row_key) (map listed_task [1, 2, 3]) = [listed_task 3, listed_task 2, listed_task 1]"
    by (simp add: sort_by_def newest_first_def key_less_def task_row_key_def listed_task_def NewTask_def)
  with task_listing_ends [OF listed_world_ok(3,1,2), of 2 1 ?f] rows show ?thesis
    by (simp add: page_size_def)
qed

theorem task_listing_complete_witness:
  "\<exists>ts. fst (run_state (collect 2 (\<lambda>c. ListTasks unary_ids 1
     (\<lparr>tf_Queue = ''mail'', tf_Status = None, tf_Cursor = [], tf_Limit = 2\<rparr>\<lparr>tf_Cursor := c\<rparr>)) []) listed_world) = Some (Inr ts) \<and>
     listed_task 2 \<in> set ts \<and> sorted_wrt (newest_first task_row_key) ts"
proof -
  let ?f = "\<lparr>tf_Queue = ''mail'', tf_Status = None, tf_Cursor = [], tf_Limit = 2\<rparr>"
  have others: "others_keep unary_ids (\<lambda>s s'. listable task_row_key (tasks s) \<longrightarrow>
      listable task_row_key (tasks s') \<and> (listed_task 2 \<in> set (tasks s) \<longrightarrow> listed_task 2 \<in> set (tasks s')))"
    using listed_world_ok(3) by (simp add: others_keep_def undisturbed_def)
  have member: "listed_task 2 \<in> set (tasks (w_store listed_world))" by (simp add: listed_world_def)
  have fits: "task_matches 1 ?f (listed_task 2)" by (simp add: task_matches_def listed_task_def NewTask_def)
  have "fst (run_state (collect 2 (\<lambda>c. ListTasks unary_ids 1 (?f\<lparr>tf_Cursor := c\<rparr>)) []) listed_world) =
      Some (Inr (selected task_row_key (task_matches 1 ?f) None (tasks (w_store listed_world))))"
    by (rule task_list.collect_ends [OF listed_world_ok(3,1,2)])
      (simp_all add: bound_of_def selected_def listed_world_def page_size_def)
  with task_listing_complete [OF listed_world_ok(1,2) others member fits] show ?thesis by blast
qed

end
