(* ===== verification/Webhook_Service.thy ===== *)
theory Webhook_Service
  imports Base64 Pages Workflow_Service
begin

text \<open>
  The endpoints of webhooks (webhook_service.go), the cipher of their secrets (crypto.go)
  and the delivery log (webhook_delivery_logs.go). The authenticated encryption, the
  source of randomness and the parsers of URLs and addresses of the standard library are
  parameters.
\<close>

subsection \<open>Parameters\<close>

text \<open>\<open>wl_random t n\<close> are the \<open>n\<close> bytes that \<open>rand.Read\<close> returns at time \<open>t\<close>.\<close>

record parsed_url =
  pu_Scheme :: string
  pu_Host :: string
  pu_Hostname :: string

record webhook_lib =
  wl_seal :: "string \<Rightarrow> string \<Rightarrow> string"
  wl_open :: "string \<Rightarrow> string \<Rightarrow> string option"
  wl_random :: "nat \<Rightarrow> nat \<Rightarrow> string option"
  wl_parse_url :: "string \<Rightarrow> parsed_url option"
  wl_loopback :: "string \<Rightarrow> bool"
  wl_allowInsecureLocal :: bool

subsection \<open>Secrets\<close>

definition ciphertextVersion :: string where
  "ciphertextVersion = ''v1:''"

definition nonce_size :: nat where
  "nonce_size = 12"

definition Encrypt :: "webhook_lib \<Rightarrow> string \<Rightarrow> (err + string) io" where
  "Encrypt L plaintext = do {
     t \<leftarrow> tick;
     State_Monad.return
       (case wl_random L t nonce_size of
          None \<Rightarrow> Inl (ErrInfra ''generate webhook secret nonce'')
        | Some nonce \<Rightarrow> Inr (ciphertextVersion @ EncodeToString std_alphabet (nonce @ wl_seal L nonce plaintext))) }"

definition Decrypt :: "webhook_lib \<Rightarrow> string \<Rightarrow> string + string" where
  "Decrypt L ciphertext =
     (if \<not> starts_with ciphertextVersion ciphertext then Inl ''unsupported webhook secret ciphertext''
      else case DecodeString std_alphabet (trim_prefix ciphertextVersion ciphertext) of
        None \<Rightarrow> Inl ''decode webhook secret ciphertext''
      | Some encrypted \<Rightarrow>
          if length encrypted < nonce_size then Inl ''invalid webhook secret ciphertext''
          else case wl_open L (take nonce_size encrypted) (drop nonce_size encrypted) of
            None \<Rightarrow> Inl ''decrypt webhook secret''
          | Some plaintext \<Rightarrow> Inr plaintext)"

definition generateWebhookSecret :: "webhook_lib \<Rightarrow> (err + string) io" where
  "generateWebhookSecret L = do {
     t \<leftarrow> tick;
     State_Monad.return
       (case wl_random L t 32 of
          None \<Rightarrow> Inl (ErrInfra ''rand.Read'')
        | Some v \<Rightarrow> Inr (EncodeToString url_alphabet v)) }"

definition hashWebhookSecret :: "env \<Rightarrow> string \<Rightarrow> string" where
  "hashWebhookSecret E secret = sha256_hex E secret"

definition SigningSecret :: "webhook_lib \<Rightarrow> WebhookEndpoint \<Rightarrow> string + string" where
  "SigningSecret L endpoint =
     (if we_SecretCiphertext endpoint = [] then Inl ''webhook endpoint signing secret must be rotated''
      else Decrypt L (we_SecretCiphertext endpoint))"

subsection \<open>Checks\<close>

text \<open>
  \<open>strings.EqualFold\<close> against a text of ASCII letters: beside the upper case letters, the
  long s folds to \<open>s\<close> and the Kelvin sign to \<open>k\<close>.
\<close>

definition fold_rune :: "int \<Rightarrow> int" where
  "fold_rune r = (if 65 \<le> r \<and> r \<le> 90 then r + 32 else if r = 0x17F then 115 else if r = 0x212A then 107 else r)"

definition EqualFold :: "string \<Rightarrow> string \<Rightarrow> bool" where
  "EqualFold s t \<longleftrightarrow> map fold_rune (runes s) = map fold_rune (runes t)"

definition ascii_lower :: "string \<Rightarrow> string" where
  "ascii_lower s =
     map (\<lambda>c. if 65 \<le> (of_char c :: nat) \<and> (of_char c :: nat) \<le> 90 then char_of ((of_char c :: nat) + 32) else c) s"

definition isLocalWebhookHost :: "webhook_lib \<Rightarrow> string \<Rightarrow> bool" where
  "isLocalWebhookHost L host \<longleftrightarrow> EqualFold host ''localhost'' \<or> wl_loopback L host"

text \<open>A scheme is ASCII, so lower-casing it is too.\<close>

definition validateURL :: "webhook_lib \<Rightarrow> string \<Rightarrow> err option" where
  "validateURL L raw =
     (case wl_parse_url L raw of
        None \<Rightarrow> Some ErrInvalidInput
      | Some parsed \<Rightarrow>
          if pu_Host parsed = [] then Some ErrInvalidInput
          else if ascii_lower (pu_Scheme parsed) = ''https'' then None
          else if ascii_lower (pu_Scheme parsed) = ''http'' then
            (if wl_allowInsecureLocal L \<and> isLocalWebhookHost L (pu_Hostname parsed) then None
             else Some ErrInvalidInput)
          else Some ErrInvalidInput)"

text \<open>An event type of a request is a text; the valid ones are the events of tasks.\<close>

definition event_type_of :: "string \<Rightarrow> WebhookEventType option" where
  "event_type_of s =
     find (\<lambda>e. webhook_event_text e = s)
       [WebhookEventTaskCreated, WebhookEventTaskProcessing, WebhookEventTaskCompleted, WebhookEventTaskFailed,
        WebhookEventTaskDeadLetter, WebhookEventTaskCancelled]"

fun normalize_events :: "string list \<Rightarrow> WebhookEventType list \<Rightarrow> err + WebhookEventType list" where
  "normalize_events [] result = Inr result"
| "normalize_events (v # vs) result =
     (case event_type_of v of
        None \<Rightarrow> Inl ErrInvalidInput
      | Some e \<Rightarrow> normalize_events vs (if e \<in> set result then result else result @ [e]))"

definition normalizeWebhookEventTypes :: "string list \<Rightarrow> err + WebhookEventType list" where
  "normalizeWebhookEventTypes values = (if values = [] then Inl ErrInvalidInput else normalize_events values [])"

subsection \<open>Endpoints\<close>

record CreateWebhookEndpointInput =
  ce_OrgID :: uuid
  ce_Name :: string
  ce_URL :: string
  ce_Secret :: string
  ce_EventTypes :: "string list"
  ce_IsActive :: bool

record UpdateWebhookEndpointInput =
  ue_Name :: "string option"
  ue_URL :: "string option"
  ue_Secret :: "string option"
  ue_EventTypes :: "string list option"
  ue_IsActive :: "bool option"

definition endpoint_name :: "string \<Rightarrow> err + string" where
  "endpoint_name v =
     (let name = trim_space v in if name = [] \<or> length name > 255 then Inl ErrInvalidInput else Inr name)"

definition endpoint_url :: "webhook_lib \<Rightarrow> string \<Rightarrow> err + string" where
  "endpoint_url L v = (let u = trim_space v in case validateURL L u of Some e \<Rightarrow> Inl e | None \<Rightarrow> Inr u)"

definition CreateEndpoint ::
  "env \<Rightarrow> webhook_lib \<Rightarrow> CreateWebhookEndpointInput \<Rightarrow> (err + WebhookEndpoint \<times> string) io" where
  "CreateEndpoint E L input =
     (case and_then (endpoint_name (ce_Name input)) (\<lambda>name. and_then (endpoint_url L (ce_URL input)) (\<lambda>u.
             and_then (normalizeWebhookEventTypes (ce_EventTypes input)) (\<lambda>events. Inr (name, u, events)))) of
        Inl e \<Rightarrow> State_Monad.return (Inl e)
      | Inr (name, u, events) \<Rightarrow>
          bind_ok (if trim_space (ce_Secret input) = [] then generateWebhookSecret L
                   else State_Monad.return (Inr (ce_Secret input))) (\<lambda>secret.
          bind_ok (Encrypt L secret) (\<lambda>ciphertext. do {
            now \<leftarrow> time_now E;
            i \<leftarrow> uuid_new E;
            let endpoint =
              \<lparr>we_ID = i, we_OrgID = ce_OrgID input, we_Name = name, we_URL = u,
               we_SecretHash = hashWebhookSecret E secret, we_SecretCiphertext = ciphertext,
               we_EventTypes = events, we_IsActive = ce_IsActive input, we_DeletedAt = None,
               we_CreatedAt = now, we_UpdatedAt = now\<rparr>;
            bind_ok (CreateWebhookEndpoint E endpoint) (\<lambda>_. State_Monad.return (Inr (endpoint, secret))) })))"

definition ListEndpoints :: "env \<Rightarrow> uuid \<Rightarrow> (err + WebhookEndpoint list) io" where
  "ListEndpoints E orgID = ListWebhookEndpoints E orgID"

definition GetEndpoint :: "env \<Rightarrow> uuid \<Rightarrow> uuid \<Rightarrow> (err + WebhookEndpoint) io" where
  "GetEndpoint E orgID i = GetWebhookEndpoint E orgID i"

definition update_name_url :: "webhook_lib \<Rightarrow> UpdateWebhookEndpointInput \<Rightarrow> WebhookEndpoint \<Rightarrow> err + WebhookEndpoint" where
  "update_name_url L input w =
     and_then (case ue_Name input of None \<Rightarrow> Inr w
               | Some v \<Rightarrow> and_then (endpoint_name v) (\<lambda>name. Inr (w\<lparr>we_Name := name\<rparr>))) (\<lambda>w.
       case ue_URL input of None \<Rightarrow> Inr w
       | Some v \<Rightarrow> and_then (endpoint_url L v) (\<lambda>u. Inr (w\<lparr>we_URL := u\<rparr>)))"

definition set_secret :: "env \<Rightarrow> webhook_lib \<Rightarrow> string \<Rightarrow> WebhookEndpoint \<Rightarrow> (err + WebhookEndpoint) io" where
  "set_secret E L secret w =
     bind_ok (Encrypt L secret) (\<lambda>ciphertext.
       State_Monad.return (Inr (w\<lparr>we_SecretHash := hashWebhookSecret E secret, we_SecretCiphertext := ciphertext\<rparr>)))"

definition update_secret ::
  "env \<Rightarrow> webhook_lib \<Rightarrow> UpdateWebhookEndpointInput \<Rightarrow> WebhookEndpoint \<Rightarrow> (err + WebhookEndpoint) io" where
  "update_secret E L input w =
     (case ue_Secret input of
        None \<Rightarrow> State_Monad.return (Inr w)
      | Some v \<Rightarrow>
          if trim_space v = [] then State_Monad.return (Inl ErrInvalidInput) else set_secret E L v w)"

definition update_events :: "UpdateWebhookEndpointInput \<Rightarrow> WebhookEndpoint \<Rightarrow> err + WebhookEndpoint" where
  "update_events input w =
     (case ue_EventTypes input of None \<Rightarrow> Inr w
      | Some vs \<Rightarrow> and_then (normalizeWebhookEventTypes vs) (\<lambda>es. Inr (w\<lparr>we_EventTypes := es\<rparr>)))"

definition UpdateEndpoint ::
  "env \<Rightarrow> webhook_lib \<Rightarrow> uuid \<Rightarrow> uuid \<Rightarrow> UpdateWebhookEndpointInput \<Rightarrow> (err + WebhookEndpoint) io" where
  "UpdateEndpoint E L orgID i input =
     (if ue_Name input = None \<and> ue_URL input = None \<and> ue_Secret input = None \<and> ue_EventTypes input = None \<and>
         ue_IsActive input = None
      then State_Monad.return (Inl ErrInvalidInput)
      else bind_ok (GetWebhookEndpoint E orgID i) (\<lambda>w.
        case update_name_url L input w of
          Inl e \<Rightarrow> State_Monad.return (Inl e)
        | Inr w \<Rightarrow>
            bind_ok (update_secret E L input w) (\<lambda>w.
              case update_events input w of
                Inl e \<Rightarrow> State_Monad.return (Inl e)
              | Inr w \<Rightarrow> do {
                  now \<leftarrow> time_now E;
                  let w = w\<lparr>we_IsActive := (case ue_IsActive input of None \<Rightarrow> we_IsActive w | Some b \<Rightarrow> b),
                            we_UpdatedAt := now\<rparr>;
                  bind_ok (UpdateWebhookEndpoint E w) (\<lambda>_. State_Monad.return (Inr w)) })))"

definition DeleteEndpoint :: "env \<Rightarrow> uuid \<Rightarrow> uuid \<Rightarrow> (err + unit) io" where
  "DeleteEndpoint E orgID i = do { now \<leftarrow> time_now E; SoftDeleteWebhookEndpoint E orgID i now }"

definition RotateSecret :: "env \<Rightarrow> webhook_lib \<Rightarrow> uuid \<Rightarrow> uuid \<Rightarrow> (err + string) io" where
  "RotateSecret E L orgID i =
     bind_ok (GetWebhookEndpoint E orgID i) (\<lambda>w.
     bind_ok (generateWebhookSecret L) (\<lambda>secret.
     bind_ok (set_secret E L secret w) (\<lambda>w. do {
       now \<leftarrow> time_now E;
       bind_ok (UpdateWebhookEndpoint E (w\<lparr>we_UpdatedAt := now\<rparr>)) (\<lambda>_. State_Monad.return (Inr secret)) })))"

subsection \<open>The delivery log\<close>

definition delivery_status_valid :: "string \<Rightarrow> bool" where
  "delivery_status_valid s \<longleftrightarrow> s \<in> set [''pending'', ''delivering'', ''delivered'', ''retrying'', ''failed'']"

definition ListDeliveries ::
  "env \<Rightarrow> uuid \<Rightarrow> WebhookDeliveryFilter \<Rightarrow> (err + WebhookDelivery list \<times> string) io" where
  "ListDeliveries E orgID f =
     (if df_Status f \<noteq> [] \<and> \<not> delivery_status_valid (df_Status f) then State_Monad.return (Inl ErrInvalidInput)
      else if df_EventType f \<noteq> [] \<and> event_type_of (df_EventType f) = None then State_Monad.return (Inl ErrInvalidInput)
      else ListWebhookDeliveries E orgID f)"

definition GetDelivery :: "env \<Rightarrow> uuid \<Rightarrow> uuid \<Rightarrow> (err + WebhookDelivery) io" where
  "GetDelivery E orgID i = GetWebhookDelivery E orgID i"

definition RetryDelivery :: "env \<Rightarrow> uuid \<Rightarrow> uuid \<Rightarrow> (err + WebhookDelivery) io" where
  "RetryDelivery E orgID i =
     bind_ok (GetWebhookDelivery E orgID i) (\<lambda>delivery.
       if wd_Status delivery \<notin> {WebhookDeliveryFailed, WebhookDeliveryRetrying}
       then State_Monad.return (Inl ErrInvalidStateTransition)
       else do { now \<leftarrow> time_now E; RetryWebhookDelivery E orgID i now })"

end
