(* ===== verification/Webhook_Claims.thy ===== *)
theory Webhook_Claims
  imports Webhook_Service
begin

text \<open>
  Webhook endpoints under every sequence of calls: well-formed rows, and secrets that the
  sender of deliveries recovers.
\<close>

subsection \<open>Secrets\<close>

text \<open>What the authenticated encryption and the source of randomness promise.\<close>

definition aead_ok :: "webhook_lib \<Rightarrow> bool" where
  "aead_ok L \<longleftrightarrow>
     (\<forall>nonce p. wl_open L nonce (wl_seal L nonce p) = Some p) \<and>
     (\<forall>t n v. wl_random L t n = Some v \<longrightarrow> length v = n)"

lemma decrypt_sealed:
  assumes "aead_ok L" and "wl_random L t nonce_size = Some nonce"
  shows "Decrypt L (ciphertextVersion @ EncodeToString std_alphabet (nonce @ wl_seal L nonce p)) = Inr p"
proof -
  have "length nonce = nonce_size" using assms by (simp add: aead_ok_def)
  then show ?thesis
    using assms(1) by (simp add: Decrypt_def DecodeString_EncodeToString aead_ok_def starts_with_def trim_prefix_def)
qed

lemma returns_Encrypt:
  assumes "aead_ok L"
  shows "returns (Encrypt L p) (\<lambda>r. case r of Inl _ \<Rightarrow> True | Inr c \<Rightarrow> Decrypt L c = Inr p)"
  using decrypt_sealed [OF assms] by (auto simp: returns_def Encrypt_def split: option.split)

subsection \<open>Rows\<close>

text \<open>The stored hash is that of the secret in the ciphertext.\<close>

definition secret_ok :: "env \<Rightarrow> webhook_lib \<Rightarrow> string \<Rightarrow> string \<Rightarrow> bool" where
  "secret_ok E L ciphertext hash \<longleftrightarrow>
     (case Decrypt L ciphertext of Inl _ \<Rightarrow> False | Inr secret \<Rightarrow> hash = sha256_hex E secret)"

definition endpoint_ok :: "env \<Rightarrow> webhook_lib \<Rightarrow> WebhookEndpoint \<Rightarrow> bool" where
  "endpoint_ok E L e \<longleftrightarrow>
     we_Name e \<noteq> [] \<and> length (we_Name e) \<le> 255 \<and> trim_space (we_Name e) = we_Name e \<and>
     validateURL L (we_URL e) = None \<and>
     we_EventTypes e \<noteq> [] \<and> distinct (we_EventTypes e) \<and> list_all webhook_event_valid (we_EventTypes e) \<and>
     secret_ok E L (we_SecretCiphertext e) (we_SecretHash e)"

definition endpoint_step :: "WebhookEndpoint \<Rightarrow> WebhookEndpoint \<Rightarrow> bool" where
  "endpoint_step e e' \<longleftrightarrow>
     we_ID e' = we_ID e \<and> we_OrgID e' = we_OrgID e \<and> we_CreatedAt e' = we_CreatedAt e \<and>
     (we_DeletedAt e = None \<or> e' = e)"

definition endpoint_inv :: "env \<Rightarrow> webhook_lib \<Rightarrow> store \<Rightarrow> bool" where
  "endpoint_inv E L s \<longleftrightarrow> list_all (endpoint_ok E L) (endpoints s) \<and> distinct (map we_ID (endpoints s))"

definition endpoint_safe :: "env \<Rightarrow> webhook_lib \<Rightarrow> store \<Rightarrow> store \<Rightarrow> bool" where
  "endpoint_safe E L s s' \<longleftrightarrow>
     (endpoint_inv E L s \<longrightarrow> evolves endpoint_step (endpoints s) (endpoints s') \<and> endpoint_inv E L s')"

lemma endpoint_step_refl: "endpoint_step e e"
  by (simp add: endpoint_step_def)

lemma endpoint_step_trans: "endpoint_step a b \<Longrightarrow> endpoint_step b c \<Longrightarrow> endpoint_step a c"
  by (auto simp: endpoint_step_def)

lemma endpoints_trans:
  "evolves endpoint_step a b \<Longrightarrow> evolves endpoint_step b c \<Longrightarrow> evolves endpoint_step a c"
  by (rule evolves_trans) (erule (1) endpoint_step_trans, assumption+)

interpretation eg: store_guarantee "endpoint_safe E L" for E L
proof
  show "endpoint_safe E L s s" for s by (simp add: endpoint_safe_def evolves_refl endpoint_step_refl)
  show "endpoint_safe E L s u" if "endpoint_safe E L s t" "endpoint_safe E L t u" for s t u
    using that unfolding endpoint_safe_def by (blast intro: endpoints_trans)
qed

lemma safe_endpoint_update:
  assumes "\<And>e. P e \<Longrightarrow> endpoint_ok E L e \<Longrightarrow> endpoint_step e (f e) \<and> endpoint_ok E L (f e)"
  shows "endpoint_safe E L s (s\<lparr>endpoints := update_where P f (endpoints s)\<rparr>)"
  unfolding endpoint_safe_def
proof (intro impI conjI)
  assume inv: "endpoint_inv E L s"
  have ok: "endpoint_ok E L e" if "e \<in> set (endpoints s)" for e using inv that by (simp add: endpoint_inv_def list_all_iff)
  have step: "endpoint_step e (f e)" "endpoint_ok E L (f e)" if "e \<in> set (endpoints s)" "P e" for e
    using assms [OF that(2) ok [OF that(1)]] by simp_all
  show "evolves endpoint_step (endpoints s) (endpoints (s\<lparr>endpoints := update_where P f (endpoints s)\<rparr>))"
    using step(1) by (auto intro: evolves_update_where endpoint_step_refl)
  have "map we_ID (update_where P f (endpoints s)) = map we_ID (endpoints s)"
    using step(1) by (simp add: update_where_def endpoint_step_def)
  moreover have "endpoint_ok E L r" if "r \<in> set (update_where P f (endpoints s))" for r
    using that ok step(2) unfolding set_update_where by (elim imageE) (simp split: if_splits)
  ultimately show "endpoint_inv E L (s\<lparr>endpoints := update_where P f (endpoints s)\<rparr>)"
    using inv unfolding endpoint_inv_def by (simp add: list_all_iff)
qed

lemma steps_CreateWebhookEndpoint:
  assumes "others_keep E (endpoint_safe E L)" and "endpoint_ok E L e"
  shows "steps (on_store (endpoint_safe E L)) (CreateWebhookEndpoint E e)"
proof -
  have "endpoint_ok E L (e\<lparr>we_DeletedAt := None\<rparr>)" using assms(2) by (simp add: endpoint_ok_def)
  then have "endpoint_safe E L s (s\<lparr>endpoints := endpoints s @ [e\<lparr>we_DeletedAt := None\<rparr>]\<rparr>)"
    if "we_ID e \<notin> we_ID ` set (endpoints s)" for s
    using that by (simp add: endpoint_safe_def endpoint_inv_def evolves_append endpoint_step_refl)
  then show ?thesis
    unfolding CreateWebhookEndpoint_def by (intro eg.steps_atomic [OF assms(1)]) (simp add: eg.refl)
qed

lemma steps_UpdateWebhookEndpoint:
  assumes "others_keep E (endpoint_safe E L)" and "endpoint_ok E L u"
  shows "steps (on_store (endpoint_safe E L)) (UpdateWebhookEndpoint E u)"
proof -
  let ?P = "is_endpoint (we_OrgID u) (we_ID u)"
  let ?f = "\<lambda>e. e\<lparr>we_Name := we_Name u, we_URL := we_URL u, we_SecretHash := we_SecretHash u,
    we_SecretCiphertext := we_SecretCiphertext u, we_EventTypes := we_EventTypes u, we_IsActive := we_IsActive u,
    we_UpdatedAt := we_UpdatedAt u\<rparr>"
  have "endpoint_safe E L s (s\<lparr>endpoints := update_where ?P ?f (endpoints s)\<rparr>)" for s
    using assms(2) by (intro safe_endpoint_update) (simp add: endpoint_step_def endpoint_ok_def is_endpoint_def)
  then show ?thesis
    unfolding UpdateWebhookEndpoint_def Let_def by (intro eg.steps_atomic [OF assms(1)]) (simp add: eg.refl)
qed

lemma steps_SoftDeleteWebhookEndpoint:
  assumes "others_keep E (endpoint_safe E L)"
  shows "steps (on_store (endpoint_safe E L)) (SoftDeleteWebhookEndpoint E orgID i now)"
proof -
  have "endpoint_safe E L s (s\<lparr>endpoints := update_where (is_endpoint orgID i)
      (\<lambda>e. e\<lparr>we_DeletedAt := Some now, we_IsActive := False, we_UpdatedAt := now\<rparr>) (endpoints s)\<rparr>)" for s
    by (intro safe_endpoint_update) (simp add: endpoint_step_def endpoint_ok_def is_endpoint_def)
  then show ?thesis
    unfolding SoftDeleteWebhookEndpoint_def by (intro eg.steps_atomic [OF assms]) (simp add: eg.refl)
qed

subsection \<open>Operations of the service\<close>

lemma steps_generateWebhookSecret: "steps (on_store (endpoint_safe E L)) (generateWebhookSecret L')"
  by (simp add: steps_def on_store_def generateWebhookSecret_def eg.refl)

lemma steps_Encrypt: "steps (on_store (endpoint_safe E L)) (Encrypt L' p)"
  by (simp add: steps_def on_store_def Encrypt_def eg.refl)

lemma endpoint_name_ok: "endpoint_name v = Inr n \<Longrightarrow> n \<noteq> [] \<and> length n \<le> 255 \<and> trim_space n = n"
  by (auto simp: endpoint_name_def Let_def split: if_splits)

lemma endpoint_url_ok: "endpoint_url L v = Inr u \<Longrightarrow> validateURL L u = None"
  by (auto simp: endpoint_url_def Let_def split: option.splits)

lemma event_type_valid: "event_type_of v = Some e \<Longrightarrow> webhook_event_valid e"
  by (auto simp: event_type_of_def webhook_event_valid_def split: if_splits)

lemma normalize_events_ok:
  "normalize_events vs r = Inr r' \<Longrightarrow> distinct r \<Longrightarrow> list_all webhook_event_valid r \<Longrightarrow>
     distinct r' \<and> list_all webhook_event_valid r' \<and> (r \<noteq> [] \<or> vs \<noteq> [] \<longrightarrow> r' \<noteq> [])"
proof (induction vs r arbitrary: r' rule: normalize_events.induct)
  case (2 v vs result)
  then obtain e where e: "event_type_of v = Some e"
    "normalize_events vs (if e \<in> set result then result else result @ [e]) = Inr r'" by (auto split: option.splits)
  have "distinct r' \<and> list_all webhook_event_valid r' \<and>
      ((if e \<in> set result then result else result @ [e]) \<noteq> [] \<or> vs \<noteq> [] \<longrightarrow> r' \<noteq> [])"
    by (rule "2.IH" [OF e]) (use "2.prems" event_type_valid [OF e(1)] in auto)
  then show ?case by (auto split: if_splits)
qed simp

lemma events_ok:
  "normalizeWebhookEventTypes vs = Inr es \<Longrightarrow> es \<noteq> [] \<and> distinct es \<and> list_all webhook_event_valid es"
  using normalize_events_ok [of vs "[]" es] by (auto simp: normalizeWebhookEventTypes_def split: if_splits)

lemma secret_okI: "Decrypt L c = Inr secret \<Longrightarrow> secret_ok E L c (hashWebhookSecret E secret)"
  by (simp add: secret_ok_def hashWebhookSecret_def)

lemma steps_sealed:
  assumes "aead_ok L" and "\<And>c. Decrypt L c = Inr p \<Longrightarrow> steps (on_store (endpoint_safe E L)) (f c)"
  shows "steps (on_store (endpoint_safe E L)) (bind_ok (Encrypt L p) f)"
  unfolding bind_ok_def
  by (rule eg.world.steps_via [OF steps_Encrypt returns_Encrypt [OF assms(1)]])
    (auto intro: assms(2) eg.world.steps_return split: sum.splits)

lemma steps_CreateEndpoint:
  assumes "others_keep E (endpoint_safe E L)" and "aead_ok L"
  shows "steps (on_store (endpoint_safe E L)) (CreateEndpoint E L input)"
proof (cases "and_then (endpoint_name (ce_Name input)) (\<lambda>name. and_then (endpoint_url L (ce_URL input)) (\<lambda>u.
    and_then (normalizeWebhookEventTypes (ce_EventTypes input)) (\<lambda>events. Inr (name, u, events))))")
  case (Inl e)
  then show ?thesis unfolding CreateEndpoint_def Inl by (simp add: eg.world.steps_return)
next
  case (Inr r)
  obtain name u events where r: "r = (name, u, events)" by (cases r)
  then have parts: "endpoint_name (ce_Name input) = Inr name" "endpoint_url L (ce_URL input) = Inr u"
    "normalizeWebhookEventTypes (ce_EventTypes input) = Inr events"
    using Inr by (auto simp: and_then_def split: sum.splits)
  show ?thesis
    unfolding CreateEndpoint_def Let_def Inr r sum.case prod.case
    by (intro eg.world.steps_bind_ok eg.world.steps_if steps_generateWebhookSecret eg.steps_world
        steps_CreateWebhookEndpoint assms steps_sealed)
      (use endpoint_name_ok [OF parts(1)] endpoint_url_ok [OF parts(2)] events_ok [OF parts(3)] in
        \<open>simp_all add: endpoint_ok_def secret_okI\<close>)
qed

lemma endpoint_outside: "\<not> endpoint_inv E L s \<Longrightarrow> endpoint_safe E L s s'"
  by (simp add: endpoint_safe_def)

lemma moves_GetWebhookEndpoint:
  assumes "others_keep E (endpoint_safe E L)"
  shows "moves (endpoint_inv E L \<circ> w_store) (on_store (endpoint_safe E L)) (GetWebhookEndpoint E orgID i)
    (\<lambda>r _. case r of Inl _ \<Rightarrow> True | Inr e \<Rightarrow> endpoint_ok E L e)"
  unfolding GetWebhookEndpoint_def
  by (rule eg.moves_query [OF assms, where Q = "\<lambda>r _. case r of Inl _ \<Rightarrow> True | Inr e \<Rightarrow> endpoint_ok E L e",
        unfolded comp_def, folded comp_def])
    (auto simp: endpoint_safe_def endpoint_inv_def row_def find_Some_iff list_all_iff split: option.split)

lemma steps_endpoint_read:
  assumes "others_keep E (endpoint_safe E L)"
    and "\<And>e. endpoint_ok E L e \<Longrightarrow> steps (on_store (endpoint_safe E L)) (f e)"
  shows "steps (on_store (endpoint_safe E L)) (bind_ok (GetWebhookEndpoint E orgID i) f)"
  by (rule steps_inside [OF eg.world.moves_bind_ok [OF moves_GetWebhookEndpoint [OF assms(1)], where Q = "\<lambda>_ _. True"]
        endpoint_outside])
    (simp_all add: moves_fact [OF assms(2)])

lemma update_name_url_ok: "update_name_url L input w = Inr w' \<Longrightarrow> endpoint_ok E L w \<Longrightarrow> endpoint_ok E L w'"
  by (auto simp: update_name_url_def and_then_def endpoint_ok_def
      dest: endpoint_name_ok endpoint_url_ok split: option.splits sum.splits)

lemma update_events_ok: "update_events input w = Inr w' \<Longrightarrow> endpoint_ok E L w \<Longrightarrow> endpoint_ok E L w'"
  by (auto simp: update_events_def and_then_def endpoint_ok_def dest: events_ok split: option.splits sum.splits)

lemma steps_set_secret:
  assumes "aead_ok L" and "endpoint_ok E L w" and "\<And>w'. endpoint_ok E L w' \<Longrightarrow> steps (on_store (endpoint_safe E L)) (f w')"
  shows "steps (on_store (endpoint_safe E L)) (bind_ok (set_secret E L secret w) f)"
proof -
  have "bind_ok (set_secret E L secret w) f =
      bind_ok (Encrypt L secret) (\<lambda>c. f (w\<lparr>we_SecretHash := hashWebhookSecret E secret, we_SecretCiphertext := c\<rparr>))"
    by (simp add: set_secret_def bind_ok_def bind_assoc sum.case_distrib [where h = "\<lambda>m. State_Monad.bind m _"] cong: sum.case_cong)
  then show ?thesis
    using assms(2) by (simp, intro steps_sealed assms) (simp add: endpoint_ok_def secret_okI)
qed

lemma steps_update_secret:
  assumes "aead_ok L" and "endpoint_ok E L w" and "\<And>w'. endpoint_ok E L w' \<Longrightarrow> steps (on_store (endpoint_safe E L)) (f w')"
  shows "steps (on_store (endpoint_safe E L)) (bind_ok (update_secret E L input w) f)"
proof (cases "ue_Secret input")
  case None
  then show ?thesis using assms(2,3) by (simp add: update_secret_def bind_ok_def)
next
  case (Some v)
  show ?thesis
  proof (cases "trim_space v = []")
    case True
    then show ?thesis using Some by (simp add: update_secret_def bind_ok_def eg.world.steps_return)
  next
    case False
    then show ?thesis using Some steps_set_secret [OF assms] by (simp add: update_secret_def)
  qed
qed

lemma steps_UpdateEndpoint:
  assumes "others_keep E (endpoint_safe E L)" and "aead_ok L"
  shows "steps (on_store (endpoint_safe E L)) (UpdateEndpoint E L orgID i input)"
  unfolding UpdateEndpoint_def Let_def
  by (intro eg.world.steps_if eg.world.steps_return steps_endpoint_read [OF assms(1)] eg.world.steps_sum
      steps_update_secret [OF assms(2)] eg.world.steps_bind eg.steps_time eg.world.steps_bind_ok steps_UpdateWebhookEndpoint [OF assms(1)])
    (auto dest: update_name_url_ok update_events_ok simp: endpoint_ok_def)

lemma steps_RotateSecret:
  assumes "others_keep E (endpoint_safe E L)" and "aead_ok L"
  shows "steps (on_store (endpoint_safe E L)) (RotateSecret E L orgID i)"
  unfolding RotateSecret_def
  by (intro steps_endpoint_read [OF assms(1)] eg.world.steps_bind_ok [OF steps_generateWebhookSecret] steps_set_secret [OF assms(2)]
      eg.world.steps_bind [OF eg.steps_time] eg.world.steps_bind_ok [OF steps_UpdateWebhookEndpoint [OF assms(1)]] eg.world.steps_return)
    (simp_all add: endpoint_ok_def)

lemma steps_DeleteEndpoint:
  "others_keep E (endpoint_safe E L) \<Longrightarrow> steps (on_store (endpoint_safe E L)) (DeleteEndpoint E orgID i)"
  unfolding DeleteEndpoint_def by (intro eg.steps_world steps_SoftDeleteWebhookEndpoint)

subsection \<open>Sequences of calls\<close>

datatype endpoint_call =
    CallCreateEndpoint CreateWebhookEndpointInput
  | CallUpdateEndpoint uuid uuid UpdateWebhookEndpointInput
  | CallDeleteEndpoint uuid uuid
  | CallRotateSecret uuid uuid

fun endpoint_serve_one :: "env \<Rightarrow> webhook_lib \<Rightarrow> endpoint_call \<Rightarrow> unit io" where
  "endpoint_serve_one E L (CallCreateEndpoint input) = do { _ \<leftarrow> CreateEndpoint E L input; State_Monad.return () }"
| "endpoint_serve_one E L (CallUpdateEndpoint orgID i input) =
     do { _ \<leftarrow> UpdateEndpoint E L orgID i input; State_Monad.return () }"
| "endpoint_serve_one E L (CallDeleteEndpoint orgID i) = do { _ \<leftarrow> DeleteEndpoint E orgID i; State_Monad.return () }"
| "endpoint_serve_one E L (CallRotateSecret orgID i) = do { _ \<leftarrow> RotateSecret E L orgID i; State_Monad.return () }"

fun endpoint_serve :: "env \<Rightarrow> webhook_lib \<Rightarrow> endpoint_call list \<Rightarrow> unit io" where
  "endpoint_serve E L [] = State_Monad.return ()"
| "endpoint_serve E L (c # cs) = do { endpoint_serve_one E L c; endpoint_serve E L cs }"

lemma steps_endpoint_serve:
  assumes "others_keep E (endpoint_safe E L)" and "aead_ok L"
  shows "steps (on_store (endpoint_safe E L)) (endpoint_serve E L cs)"
proof (induction cs)
  case (Cons c cs)
  have "steps (on_store (endpoint_safe E L)) (endpoint_serve_one E L c)"
    by (cases c) (auto intro!: eg.world.steps_syntax steps_CreateEndpoint steps_UpdateEndpoint steps_DeleteEndpoint
        steps_RotateSecret assms)
  then show ?case using Cons.IH by (auto intro!: eg.world.steps_bind)
qed (simp add: eg.world.steps_return)

text \<open>
  C28. Webhook endpoints stay well formed through every sequence of calls of the service,
  with failing and unacknowledged statements and with concurrent processes: a trimmed
  non-empty name, a URL that passes the check (HTTPS, or a local address where that is
  allowed), events of tasks without repetition, and a ciphertext that decrypts to the
  secret whose hash is stored. No endpoint changes its identity, and a deleted one never
  changes again.
\<close>

theorem endpoint_rows_well_formed:
  assumes "others_keep E (endpoint_safe E L)" and "aead_ok L" and "endpoint_inv E L (w_store w)"
    and "w' = snd (run_state (endpoint_serve E L cs) w)"
  shows "list_all (endpoint_ok E L) (endpoints (w_store w')) \<and> distinct (map we_ID (endpoints (w_store w'))) \<and>
    evolves endpoint_step (endpoints (w_store w)) (endpoints (w_store w'))"
  using steps_endpoint_serve [OF assms(1,2), of cs] assms(3,4)
  by (simp add: steps_def on_store_def endpoint_safe_def endpoint_inv_def)

text \<open>A cipher that changes nothing, and a parser that knows one address.\<close>

definition plain_lib :: webhook_lib where
  "plain_lib =
     \<lparr>wl_seal = (\<lambda>nonce p. p), wl_open = (\<lambda>nonce c. Some c), wl_random = (\<lambda>t n. Some (replicate n CHR ''r'')),
      wl_parse_url = (\<lambda>u. if u = ''https://a.example/h'' then Some \<lparr>pu_Scheme = ''https'', pu_Host = ''a.example'', pu_Hostname = ''a.example''\<rparr> else None),
      wl_loopback = (\<lambda>_. False), wl_allowInsecureLocal = False\<rparr>"

definition plain_input :: CreateWebhookEndpointInput where
  "plain_input =
     \<lparr>ce_OrgID = 1, ce_Name = '' hook '', ce_URL = ''https://a.example/h'', ce_Secret = [],
      ce_EventTypes = [''task.completed'', ''task.failed'', ''task.completed''], ce_IsActive = True\<rparr>"

definition plain_world :: world where
  "plain_world = \<lparr>w_store = empty_store, w_metrics = [], w_tick = 0\<rparr>"

lemma plain_lib_ok: "aead_ok plain_lib"
  by (simp add: aead_ok_def plain_lib_def)

theorem endpoint_rows_well_formed_witness:
  "let s = w_store (snd (run_state (endpoint_serve quiet plain_lib [CallCreateEndpoint plain_input]) plain_world)) in
   list_all (endpoint_ok quiet plain_lib) (endpoints s) \<and>
   map we_EventTypes (endpoints s) = [[WebhookEventTaskCompleted, WebhookEventTaskFailed]]"
proof -
  let ?s = "w_store (snd (run_state (endpoint_serve quiet plain_lib [CallCreateEndpoint plain_input]) plain_world))"
  have "others_keep quiet (endpoint_safe quiet plain_lib)" by (simp add: others_keep_def quiet_def eg.refl)
  moreover have "endpoint_inv quiet plain_lib (w_store plain_world)" by (simp add: endpoint_inv_def plain_world_def)
  ultimately have "list_all (endpoint_ok quiet plain_lib) (endpoints ?s)"
    using endpoint_rows_well_formed [OF _ plain_lib_ok _ refl] by blast
  moreover have "map we_EventTypes (endpoints ?s) = [[WebhookEventTaskCompleted, WebhookEventTaskFailed]]" by code_simp
  ultimately show ?thesis unfolding Let_def by (rule conjI)
qed

subsection \<open>Signatures\<close>




end
