(* ===== verification/Http.thy ===== *)
theory Http
  imports Webhook_Service Dispatchers
begin

text \<open>
  Requests and responses of the HTTP API and what its handlers share: the decoding of a
  body (decodeJSON of handlers.go), the parsing of limits and identifiers, the answers
  (writeJSON, writeAPIError, internalError) and the mapping from an error of the services
  to a status and a code, one per group of handlers.

  A request has the cleaned path as the list of its segments, the first value of each
  header and query parameter, and its body. A body is one JSON value, given by its tree
  and the text of each top-level member as it was sent, a body that encoding/json
  refuses, or one of more than \<open>maxRequestBodyBytes\<close>. A response has a status and the Go
  value that is encoded; encoding it is the work of encoding/json. A handler that panics
  gives no response of its own (\<open>None\<close>).
\<close>

subsection \<open>Requests and responses\<close>

datatype http_body = BodyDoc json "string \<Rightarrow> string" | BodyInvalid | BodyTooLarge

record http_request =
  hr_Method :: string
  hr_Path :: "string list"
  hr_Header :: "string \<Rightarrow> string"
  hr_Query :: "string \<Rightarrow> string"
  hr_Body :: http_body
  hr_PathValue :: "string \<Rightarrow> string"
  hr_Principal :: "Principal option"

record taskResponse =
  to_ID :: uuid
  to_Status :: TaskStatus
  to_Queue :: string
  to_CreatedAt :: time

definition toTaskResponse :: "Task \<Rightarrow> taskResponse" where
  "toTaskResponse task =
     \<lparr>to_ID = t_ID task, to_Status = t_Status task, to_Queue = t_Queue task, to_CreatedAt = t_CreatedAt task\<rparr>"

record webhookEndpointResponse =
  wo_ID :: uuid
  wo_OrgID :: uuid
  wo_Name :: string
  wo_URL :: string
  wo_EventTypes :: "WebhookEventType list"
  wo_IsActive :: bool
  wo_CreatedAt :: time
  wo_UpdatedAt :: time

definition toWebhookEndpointResponse :: "WebhookEndpoint \<Rightarrow> webhookEndpointResponse" where
  "toWebhookEndpointResponse endpoint =
     \<lparr>wo_ID = we_ID endpoint, wo_OrgID = we_OrgID endpoint, wo_Name = we_Name endpoint,
      wo_URL = we_URL endpoint, wo_EventTypes = we_EventTypes endpoint, wo_IsActive = we_IsActive endpoint,
      wo_CreatedAt = we_CreatedAt endpoint, wo_UpdatedAt = we_UpdatedAt endpoint\<rparr>"

record webhookDeliveryResponse =
  do_ID :: uuid
  do_EndpointID :: uuid
  do_EventType :: WebhookEventType
  do_Status :: WebhookDeliveryStatus
  do_AttemptCount :: int
  do_MaxAttempts :: int
  do_NextAttemptAt :: "time option"
  do_LastAttemptAt :: "time option"
  do_ResponseStatus :: "int option"
  do_ResponseBody :: "string option"
  do_LastError :: "string option"
  do_CreatedAt :: time
  do_UpdatedAt :: time

definition toWebhookDeliveryResponse :: "WebhookDelivery \<Rightarrow> webhookDeliveryResponse" where
  "toWebhookDeliveryResponse delivery =
     \<lparr>do_ID = wd_ID delivery, do_EndpointID = wd_EndpointID delivery, do_EventType = wd_EventType delivery,
      do_Status = wd_Status delivery, do_AttemptCount = wd_AttemptCount delivery,
      do_MaxAttempts = wd_MaxAttempts delivery, do_NextAttemptAt = wd_NextAttemptAt delivery,
      do_LastAttemptAt = wd_LastAttemptAt delivery, do_ResponseStatus = wd_ResponseStatus delivery,
      do_ResponseBody =
        (case wd_ResponseBody delivery of
           None \<Rightarrow> None
         | Some responseBody \<Rightarrow> Some (if length responseBody > 4096 then take 4096 responseBody else responseBody)),
      do_LastError = wd_LastError delivery, do_CreatedAt = wd_CreatedAt delivery,
      do_UpdatedAt = wd_UpdatedAt delivery\<rparr>"

text \<open>The values of the details of an error.\<close>

datatype detail = DetailText string | DetailID uuid | DetailErrors "WorkflowValidationError list"

datatype event_chunk = ChunkRetry | ChunkTask Task | ChunkKeepalive | ChunkUnavailable

datatype content =
    NoContent
  | PlainText string
  | Redirect string
  | StatusText string
  | APIError string string "(string \<times> detail) list"
  | TaskSummary taskResponse
  | TaskValue Task
  | TaskPage "Task list" string
  | StatsValue queue_stats
  | WorkerItems "Worker list"
  | WorkerValue Worker
  | TaskEvents "event_chunk list"
  | WorkflowValue Workflow
  | WorkflowPage "Workflow list" string
  | ValidationValue WorkflowValidationResult
  | PublishValue WorkflowPublishResult
  | VersionPage "WorkflowVersionSummary list"
  | VersionValue WorkflowVersion
  | StartValue "WorkflowExecutionStartResult option"
  | ExecutionPage "WorkflowExecution list" string
  | ExecutionDetail "WorkflowExecution \<times> WorkflowNodeExecution list"
  | ExecutionValue WorkflowExecution
  | EndpointCreated webhookEndpointResponse string
  | EndpointItems "webhookEndpointResponse list"
  | EndpointValue webhookEndpointResponse
  | SecretValue string
  | DeliveryPage "webhookDeliveryResponse list" string
  | DeliveryDetail webhookDeliveryResponse raw
  | DeliveryValue webhookDeliveryResponse

record http_response =
  hs_Status :: int
  hs_Content :: content

type_synonym answer = "http_response option"

definition writeJSON :: "int \<Rightarrow> content \<Rightarrow> answer" where
  "writeJSON status v = Some \<lparr>hs_Status = status, hs_Content = v\<rparr>"

definition writeAPIError :: "int \<Rightarrow> string \<Rightarrow> string \<Rightarrow> (string \<times> detail) list \<Rightarrow> answer" where
  "writeAPIError status code msg details = writeJSON status (APIError code msg details)"

definition WriteHeader :: "int \<Rightarrow> answer" where
  "WriteHeader status = writeJSON status NoContent"

definition internalError :: answer where
  "internalError = writeAPIError 500 ''internal_error'' ''internal server error'' []"

text \<open>\<open>MustPrincipal\<close> panics on a request that did not pass the authentication.\<close>

definition MustPrincipal :: "http_request \<Rightarrow> (Principal \<Rightarrow> answer io) \<Rightarrow> answer io" where
  "MustPrincipal r f = (case hr_Principal r of None \<Rightarrow> State_Monad.return None | Some p \<Rightarrow> f p)"

subsection \<open>Decoding a body\<close>

datatype decode_error = RequestTooLarge | RequestMalformed

text \<open>Integers are decoded from integer literals only: \<open>1.0\<close> and \<open>1e2\<close> are refused.\<close>

definition int_literal :: "string \<Rightarrow> bool" where
  "int_literal s \<longleftrightarrow>
     (let ds = (case s of [] \<Rightarrow> [] | c # cs \<Rightarrow> if c = CHR ''-'' then cs else s)
      in ds \<noteq> [] \<and> list_all is_digit ds)"

definition int_literal_field :: "(string \<Rightarrow> string) \<Rightarrow> string \<Rightarrow> (int \<Rightarrow> 'r \<Rightarrow> 'r) \<Rightarrow> json \<Rightarrow> 'r \<Rightarrow> string + 'r" where
  "int_literal_field member k upd j r =
     (case j of
        JNum _ \<Rightarrow> if int_literal (member k) then int_field k upd j r
                  else Inl (type_error (''number '' @ member k) k ''int'')
      | _ \<Rightarrow> int_field k upd j r)"

definition ptr_field ::
  "(('a \<Rightarrow> 'r \<Rightarrow> 'r) \<Rightarrow> json \<Rightarrow> 'r \<Rightarrow> string + 'r) \<Rightarrow> ('a option \<Rightarrow> 'r \<Rightarrow> 'r) \<Rightarrow> json \<Rightarrow> 'r \<Rightarrow> string + 'r" where
  "ptr_field f upd j r = (case j of JNull \<Rightarrow> Inr (upd None r) | _ \<Rightarrow> f (\<lambda>v. upd (Some v)) j r)"

definition time_field :: "env \<Rightarrow> (time \<Rightarrow> 'r \<Rightarrow> 'r) \<Rightarrow> json \<Rightarrow> 'r \<Rightarrow> string + 'r" where
  "time_field E upd j r =
     (case j of
        JNull \<Rightarrow> Inr r
      | JStr s \<Rightarrow> (case time_Parse E s of None \<Rightarrow> Inl ''parsing time'' | Some t \<Rightarrow> Inr (upd t r))
      | _ \<Rightarrow> Inl ''Time.UnmarshalJSON: input is not a JSON string'')"

definition string_element :: "json \<Rightarrow> string + string" where
  "string_element j =
     (case j of JStr s \<Rightarrow> Inr s | JNull \<Rightarrow> Inr [] | _ \<Rightarrow> Inl (type_error (json_kind j) [] ''string''))"

definition decodeJSON ::
  "((string \<Rightarrow> string) \<Rightarrow> 'r field list) \<Rightarrow> 'r \<Rightarrow> http_request \<Rightarrow> decode_error + 'r" where
  "decodeJSON fs zero r =
     (case hr_Body r of
        BodyTooLarge \<Rightarrow> Inl RequestTooLarge
      | BodyInvalid \<Rightarrow> Inl RequestMalformed
      | BodyDoc j member \<Rightarrow>
          (case decode_struct (fs member) zero j of Inl _ \<Rightarrow> Inl RequestMalformed | Inr v \<Rightarrow> Inr v))"

definition member_len :: "http_request \<Rightarrow> string \<Rightarrow> raw \<Rightarrow> nat" where
  "member_len r k v =
     (case hr_Body r of
        BodyDoc _ member \<Rightarrow> (if raw_empty v then 0 else length (member k))
      | _ \<Rightarrow> 0)"

text \<open>The answer to a body that was refused (decodeWorkflowRequest and CreateTask).\<close>

definition decode_answer :: "decode_error \<Rightarrow> answer" where
  "decode_answer e =
     (case e of
        RequestTooLarge \<Rightarrow> writeAPIError 413 ''request_too_large'' ''request body is too large'' []
      | RequestMalformed \<Rightarrow>
          writeAPIError 400 ''invalid_json'' ''request body must be a single valid JSON object'' [])"

subsection \<open>Parameters of a request\<close>

definition Atoi :: "string \<Rightarrow> int option" where
  "Atoi s =
     (let neg = (case s of [] \<Rightarrow> False | c # _ \<Rightarrow> c = CHR ''-'');
          ds = (case s of [] \<Rightarrow> [] | c # cs \<Rightarrow> if c = CHR ''-'' \<or> c = CHR ''+'' then cs else s);
          n = (if neg then - digits_value ds else digits_value ds)
      in if ds \<noteq> [] \<and> list_all is_digit ds \<and> - (2 ^ 63) \<le> n \<and> n < 2 ^ 63 then Some n else None)"

definition parseLimit :: "string \<Rightarrow> answer + int" where
  "parseLimit raw =
     (if raw = [] then Inr 50
      else case Atoi raw of
        None \<Rightarrow> Inl (writeAPIError 400 ''invalid_limit'' ''limit must be between 1 and 100'' [])
      | Some limit \<Rightarrow>
          if limit < 1 \<or> limit > 100
          then Inl (writeAPIError 400 ''invalid_limit'' ''limit must be between 1 and 100'' [])
          else Inr limit)"

definition parse_id :: "env \<Rightarrow> string \<Rightarrow> string \<Rightarrow> string \<Rightarrow> answer + uuid" where
  "parse_id E code msg raw =
     (case parse_uuid E raw of None \<Rightarrow> Inl (writeAPIError 400 code msg []) | Some i \<Rightarrow> Inr i)"

definition parseTaskID :: "env \<Rightarrow> string \<Rightarrow> answer + uuid" where
  "parseTaskID E raw = parse_id E ''invalid_task_id'' ''task id must be a UUID'' raw"

definition parseWorkflowID :: "env \<Rightarrow> string \<Rightarrow> answer + uuid" where
  "parseWorkflowID E raw = parse_id E ''invalid_workflow_id'' ''workflow id must be a UUID'' raw"

definition parseWorkflowExecutionIDs :: "env \<Rightarrow> http_request \<Rightarrow> answer + (uuid \<times> uuid)" where
  "parseWorkflowExecutionIDs E r =
     (case parseWorkflowID E (hr_PathValue r ''id'') of
        Inl a \<Rightarrow> Inl a
      | Inr workflowID \<Rightarrow>
          (case parse_id E ''invalid_workflow_execution_id'' ''workflow execution id must be a UUID''
                  (hr_PathValue r ''execution_id'') of
             Inl a \<Rightarrow> Inl a
           | Inr executionID \<Rightarrow> Inr (workflowID, executionID)))"

definition parseWebhookEndpointID :: "env \<Rightarrow> string \<Rightarrow> answer + uuid" where
  "parseWebhookEndpointID E raw =
     parse_id E ''invalid_webhook_endpoint_id'' ''webhook endpoint id must be a UUID'' raw"

definition parseWebhookDeliveryID :: "env \<Rightarrow> string \<Rightarrow> answer + uuid" where
  "parseWebhookDeliveryID E raw =
     parse_id E ''invalid_webhook_delivery_id'' ''webhook delivery id must be a UUID'' raw"

text \<open>The early return of a handler whose parameters were refused.\<close>

definition parsed :: "answer + 'a \<Rightarrow> ('a \<Rightarrow> answer io) \<Rightarrow> answer io" where
  "parsed p f = (case p of Inl a \<Rightarrow> State_Monad.return a | Inr x \<Rightarrow> f x)"

text \<open>The call of a service: an error is answered by \<open>bad\<close>, a result by \<open>good\<close>.\<close>

definition respond :: "(err + 'a) io \<Rightarrow> (err \<Rightarrow> answer) \<Rightarrow> ('a \<Rightarrow> answer) \<Rightarrow> answer io" where
  "respond m bad good = do {
     r \<leftarrow> m;
     State_Monad.return (case r of Inl e \<Rightarrow> bad e | Inr v \<Rightarrow> good v) }"

subsection \<open>Errors\<close>

definition writeDomainError :: "err \<Rightarrow> answer" where
  "writeDomainError e =
     (case e of
        ErrTaskNotFound \<Rightarrow> writeAPIError 404 ''task_not_found'' ''task not found'' []
      | ErrInvalidInput \<Rightarrow> writeAPIError 400 ''invalid_cursor'' ''cursor is invalid'' []
      | ErrInvalidStateTransition \<Rightarrow>
          writeAPIError 409 ''invalid_state_transition'' ''operation is not valid for the current task state'' []
      | ErrDispatchUnavailable \<Rightarrow>
          writeAPIError 503 ''dispatch_unavailable''
            ''task state was persisted and reconciliation will retry dispatch'' []
      | _ \<Rightarrow> internalError)"

definition writeWorkflowError :: "err \<Rightarrow> answer" where
  "writeWorkflowError e =
     (case e of
        ErrWorkflowNotFound \<Rightarrow> writeAPIError 404 ''workflow_not_found'' ''workflow not found'' []
      | ErrWorkflowVersionNotFound \<Rightarrow>
          writeAPIError 404 ''workflow_version_not_found'' ''workflow version not found'' []
      | ErrWorkflowSlugConflict \<Rightarrow> writeAPIError 409 ''workflow_slug_conflict'' ''workflow slug already exists'' []
      | ErrWorkflowPublishConflict \<Rightarrow>
          writeAPIError 409 ''workflow_publish_conflict'' ''workflow changed during publish; retry the request'' []
      | ErrInvalidInput \<Rightarrow> writeAPIError 400 ''validation_failed'' ''request validation failed'' []
      | ErrInvalidStateTransition \<Rightarrow>
          writeAPIError 409 ''workflow_not_editable'' ''archived workflows cannot be changed or published'' []
      | _ \<Rightarrow> internalError)"

definition writeWorkflowExecutionError :: "err \<Rightarrow> answer" where
  "writeWorkflowExecutionError e =
     (case e of
        ErrWorkflowExecutionNotFound \<Rightarrow>
          writeAPIError 404 ''workflow_execution_not_found'' ''workflow execution not found'' []
      | ErrWorkflowNotPublished \<Rightarrow>
          writeAPIError 409 ''workflow_not_published'' ''workflow must be published before execution'' []
      | ErrWorkflowVersionNotFound \<Rightarrow>
          writeAPIError 404 ''workflow_version_not_found'' ''workflow version not found'' []
      | ErrWorkflowExecutionTerminal \<Rightarrow>
          writeAPIError 409 ''workflow_execution_terminal'' ''terminal workflow executions cannot be cancelled'' []
      | ErrWorkflowExecutionIdempotencyConflict \<Rightarrow>
          writeAPIError 409 ''idempotency_conflict''
            ''Idempotency-Key was already used for a different workflow execution request'' []
      | ErrWorkflowNotFound \<Rightarrow> writeWorkflowError e
      | ErrInvalidInput \<Rightarrow> writeAPIError 400 ''validation_failed'' ''request validation failed'' []
      | _ \<Rightarrow> internalError)"

definition writeWebhookError :: "err \<Rightarrow> answer" where
  "writeWebhookError e =
     (case e of
        ErrWebhookEndpointNotFound \<Rightarrow>
          writeAPIError 404 ''webhook_endpoint_not_found'' ''webhook endpoint not found'' []
      | ErrInvalidInput \<Rightarrow> writeAPIError 400 ''validation_failed'' ''webhook endpoint validation failed'' []
      | _ \<Rightarrow> internalError)"

definition writeWebhookDeliveryError :: "err \<Rightarrow> answer" where
  "writeWebhookDeliveryError e =
     (case e of
        ErrWebhookDeliveryNotFound \<Rightarrow>
          writeAPIError 404 ''webhook_delivery_not_found'' ''webhook delivery not found'' []
      | ErrInvalidInput \<Rightarrow> writeAPIError 400 ''validation_failed'' ''webhook delivery filter is invalid'' []
      | ErrInvalidStateTransition \<Rightarrow>
          writeAPIError 409 ''invalid_state_transition''
            ''webhook delivery cannot be retried in its current state'' []
      | _ \<Rightarrow> internalError)"

end
