(* ===== verification/Api_Tasks.thy ===== *)
theory Api_Tasks
  imports Http
begin

text \<open>
  The handlers of tasks, queues, workers and the dead letter queue (handlers.go,
  validation.go), with the queries of the task service they call (service.go).
\<close>

subsection \<open>Queries of the service\<close>

definition service_ListTasks :: "env \<Rightarrow> uuid \<Rightarrow> TaskFilter \<Rightarrow> (err + Task list \<times> string) io" where
  "service_ListTasks E orgID f = ListTasks E orgID f"

definition service_QueueStats :: "env \<Rightarrow> uuid \<Rightarrow> string \<Rightarrow> (err + queue_stats) io" where
  "service_QueueStats E orgID queue = QueueStats E orgID queue"

definition ListDLQ :: "env \<Rightarrow> uuid \<Rightarrow> string \<Rightarrow> string \<Rightarrow> int \<Rightarrow> (err + Task list \<times> string) io" where
  "ListDLQ E orgID queue cursor limit = ListDeadLetter E orgID queue cursor limit"

definition service_ListWorkers :: "env \<Rightarrow> uuid \<Rightarrow> (err + Worker list) io" where
  "service_ListWorkers E orgID = ListWorkers E orgID"

definition storage_Ping :: "env \<Rightarrow> (err + unit) io" where
  "storage_Ping E = query E ''postgres: ping'' (\<lambda>_. Inr ())"

definition broker_Ping :: "env \<Rightarrow> (err + unit) io" where
  "broker_Ping E = query E ''redis: ping'' (\<lambda>_. Inr ())"

definition Ready :: "env \<Rightarrow> (err + unit) io" where
  "Ready E = bind_ok (storage_Ping E) (\<lambda>_. broker_Ping E)"

subsection \<open>Creating a task\<close>

record createTaskRequest =
  tr_Queue :: string
  tr_Payload :: raw
  tr_Priority :: int
  tr_MaxRetries :: "int option"
  tr_TimeoutSeconds :: int
  tr_VisibilityTimeoutSeconds :: int
  tr_ScheduledAt :: "time option"
  tr_BackoffStrategy :: string

definition zero_create_task :: createTaskRequest where
  "zero_create_task =
     \<lparr>tr_Queue = [], tr_Payload = RawNil, tr_Priority = 0, tr_MaxRetries = None, tr_TimeoutSeconds = 0,
      tr_VisibilityTimeoutSeconds = 0, tr_ScheduledAt = None, tr_BackoffStrategy = []\<rparr>"

definition create_task_fields :: "env \<Rightarrow> (string \<Rightarrow> string) \<Rightarrow> createTaskRequest field list" where
  "create_task_fields E member =
     [(''queue'', string_field ''queue'' (\<lambda>v r. r\<lparr>tr_Queue := v\<rparr>)),
      (''payload'', raw_field (\<lambda>v r. r\<lparr>tr_Payload := v\<rparr>)),
      (''priority'', int_literal_field member ''priority'' (\<lambda>v r. r\<lparr>tr_Priority := v\<rparr>)),
      (''max_retries'',
         ptr_field (int_literal_field member ''max_retries'') (\<lambda>v r. r\<lparr>tr_MaxRetries := v\<rparr>)),
      (''timeout_seconds'',
         int_literal_field member ''timeout_seconds'' (\<lambda>v r. r\<lparr>tr_TimeoutSeconds := v\<rparr>)),
      (''visibility_timeout_seconds'',
         int_literal_field member ''visibility_timeout_seconds'' (\<lambda>v r. r\<lparr>tr_VisibilityTimeoutSeconds := v\<rparr>)),
      (''scheduled_at'', ptr_field (time_field E) (\<lambda>v r. r\<lparr>tr_ScheduledAt := v\<rparr>)),
      (''backoff_strategy'', string_field ''backoff_strategy'' (\<lambda>v r. r\<lparr>tr_BackoffStrategy := v\<rparr>))]"

definition maxPayloadBytes :: nat where
  "maxPayloadBytes = 256 * 1024"

definition validateCreateTask :: "createTaskRequest \<Rightarrow> (string \<times> detail) list" where
  "validateCreateTask req =
     (if trim_space (tr_Queue req) = [] \<or> length (tr_Queue req) > 64
      then [(''queue'', DetailText ''must be between 1 and 64 characters'')] else []) @
     (if raw_empty (tr_Payload req) \<or> tr_Payload req = RawDoc JNull
      then [(''payload'', DetailText ''is required'')] else []) @
     (if tr_Priority req < 0 \<or> tr_Priority req > 9
      then [(''priority'', DetailText ''must be between 0 and 9'')] else []) @
     (case tr_MaxRetries req of
        None \<Rightarrow> []
      | Some n \<Rightarrow> if n < 0 \<or> n > 99 then [(''max_retries'', DetailText ''must be between 0 and 99'')] else []) @
     (if tr_TimeoutSeconds req < 0 \<or> tr_TimeoutSeconds req > 86400
      then [(''timeout_seconds'', DetailText ''must be between 1 and 86400'')] else []) @
     (if tr_VisibilityTimeoutSeconds req < 0 \<or> tr_VisibilityTimeoutSeconds req > 86400
      then [(''visibility_timeout_seconds'', DetailText ''must be between 1 and 86400'')] else []) @
     (if tr_BackoffStrategy req \<noteq> [] \<and> tr_BackoffStrategy req \<noteq> ''exponential'' \<and>
         tr_BackoffStrategy req \<noteq> ''linear'' \<and> tr_BackoffStrategy req \<noteq> ''fixed''
      then [(''backoff_strategy'', DetailText ''must be exponential, linear, or fixed'')] else [])"

text \<open>The input of the service, with the defaults of the handler.\<close>

definition task_input :: "uuid \<Rightarrow> string \<Rightarrow> string \<Rightarrow> createTaskRequest \<Rightarrow> CreateTaskInput" where
  "task_input orgID idempotencyKey traceID req =
     \<lparr>ci_OrgID = orgID, ci_IdempotencyKey = idempotencyKey, ci_Queue = tr_Queue req,
      ci_Payload = tr_Payload req, ci_Priority = tr_Priority req,
      ci_MaxRetries = (case tr_MaxRetries req of None \<Rightarrow> 4 | Some n \<Rightarrow> n),
      ci_Timeout = (if tr_TimeoutSeconds req = 0 then 60 else tr_TimeoutSeconds req) * Second,
      ci_VisibilityTimeout =
        (if tr_VisibilityTimeoutSeconds req = 0 then 30 else tr_VisibilityTimeoutSeconds req) * Second,
      ci_ScheduledAt = tr_ScheduledAt req,
      ci_BackoffStrategy = (if tr_BackoffStrategy req = [] then ''exponential'' else tr_BackoffStrategy req),
      ci_TraceID = traceID\<rparr>"

text \<open>The answer to what the service returned; a task that is not there is a nil pointer.\<close>

definition create_task_answer :: "create_result \<Rightarrow> answer" where
  "create_task_answer result =
     (case result of
        (task, replay, Some e) \<Rightarrow>
          if e = ErrIdempotencyConflict then
            writeAPIError 409 ''idempotency_conflict'' ''Idempotency-Key was already used for a different request'' []
          else if e = ErrDispatchUnavailable then
            (case task of
               None \<Rightarrow> None
             | Some task \<Rightarrow>
                 writeAPIError 503 ''dispatch_unavailable''
                   ''task was persisted and will be dispatched by reconciliation''
                   [(''task_id'', DetailID (t_ID task))])
          else internalError
      | (None, replay, None) \<Rightarrow> None
      | (Some task, replay, None) \<Rightarrow>
          writeJSON (if replay then 200 else 201) (TaskSummary (toTaskResponse task)))"

definition header_key :: "http_request \<Rightarrow> answer + string" where
  "header_key r =
     (let key = trim_space (hr_Header r ''Idempotency-Key'') in
      if key = [] then
        Inl (writeAPIError 400 ''missing_idempotency_key'' ''Idempotency-Key header is required'' [])
      else if length key > 255 then
        Inl (writeAPIError 400 ''invalid_idempotency_key'' ''Idempotency-Key must not exceed 255 characters'' [])
      else Inr key)"

text \<open>What the handler accepts of a request, before it calls the service.\<close>

definition create_task_request :: "env \<Rightarrow> http_request \<Rightarrow> answer + (string \<times> createTaskRequest)" where
  "create_task_request E r =
     (case header_key r of
        Inl a \<Rightarrow> Inl a
      | Inr key \<Rightarrow>
          (case decodeJSON (create_task_fields E) zero_create_task r of
             Inl e \<Rightarrow> Inl (decode_answer e)
           | Inr req \<Rightarrow>
               if member_len r ''payload'' (tr_Payload req) > maxPayloadBytes then
                 Inl (writeAPIError 413 ''payload_too_large'' ''payload must not exceed 262144 bytes'' [])
               else
                 let details = validateCreateTask req in
                 if details \<noteq> [] then
                   Inl (writeAPIError 400 ''validation_failed'' ''request validation failed'' details)
                 else Inr (key, req)))"

definition handle_CreateTask :: "env \<Rightarrow> wiring \<Rightarrow> http_request \<Rightarrow> answer io" where
  "handle_CreateTask E W r =
     parsed (create_task_request E r) (\<lambda>(key, req).
       MustPrincipal r (\<lambda>p. do {
         result \<leftarrow> CreateTask E W (task_input (pr_OrgID p) key (hr_Header r ''Trace-Id'') req);
         State_Monad.return (create_task_answer result) }))"

subsection \<open>Other handlers\<close>

definition handle_GetTask :: "env \<Rightarrow> http_request \<Rightarrow> answer io" where
  "handle_GetTask E r =
     parsed (parseTaskID E (hr_PathValue r ''id'')) (\<lambda>i.
       MustPrincipal r (\<lambda>p. respond (GetTask E (pr_OrgID p) i) writeDomainError (\<lambda>t. writeJSON 200 (TaskValue t))))"

definition task_status_of :: "string \<Rightarrow> TaskStatus option" where
  "task_status_of s =
     find (\<lambda>st. task_status_text st = s)
       [StatusPending, StatusProcessing, StatusCompleted, StatusFailed, StatusDeadLetter, StatusCancelled]"

definition validStatus :: "string \<Rightarrow> bool" where
  "validStatus s \<longleftrightarrow> task_status_of s \<noteq> None"

definition handle_ListTasks :: "env \<Rightarrow> http_request \<Rightarrow> answer io" where
  "handle_ListTasks E r =
     parsed (parseLimit (hr_Query r ''limit'')) (\<lambda>limit.
       let status = hr_Query r ''status'' in
       if status \<noteq> [] \<and> \<not> validStatus status then
         State_Monad.return (writeAPIError 400 ''invalid_status'' ''unsupported task status'' [])
       else MustPrincipal r (\<lambda>p.
         respond
           (service_ListTasks E (pr_OrgID p)
              \<lparr>tf_Queue = hr_Query r ''queue'', tf_Status = task_status_of status,
               tf_Cursor = hr_Query r ''cursor'', tf_Limit = limit\<rparr>)
           writeDomainError (\<lambda>(ts, next_cursor). writeJSON 200 (TaskPage ts next_cursor))))"

text \<open>\<open>taskMutation\<close>; the answer dereferences the task of a call without an error.\<close>

definition mutation_answer :: "retry_result \<Rightarrow> answer" where
  "mutation_answer result =
     (case result of
        (_, Some e) \<Rightarrow> writeDomainError e
      | (None, None) \<Rightarrow> None
      | (Some task, None) \<Rightarrow> writeJSON 200 (TaskSummary (toTaskResponse task)))"

definition taskMutation :: "env \<Rightarrow> http_request \<Rightarrow> (uuid \<Rightarrow> uuid \<Rightarrow> retry_result io) \<Rightarrow> answer io" where
  "taskMutation E r fn =
     parsed (parseTaskID E (hr_PathValue r ''id'')) (\<lambda>i.
       MustPrincipal r (\<lambda>p. do {
         result \<leftarrow> fn (pr_OrgID p) i;
         State_Monad.return (mutation_answer result) }))"

definition handle_RetryTask :: "env \<Rightarrow> http_request \<Rightarrow> answer io" where
  "handle_RetryTask E r = taskMutation E r (RetryTask E)"

definition handle_CancelTask :: "env \<Rightarrow> wiring \<Rightarrow> http_request \<Rightarrow> answer io" where
  "handle_CancelTask E W r =
     taskMutation E r (\<lambda>orgID i. do {
       result \<leftarrow> CancelTask E W orgID i;
       State_Monad.return (case result of Inl e \<Rightarrow> (None, Some e) | Inr t \<Rightarrow> (Some t, None)) })"

definition handle_DeleteTask :: "env \<Rightarrow> http_request \<Rightarrow> answer io" where
  "handle_DeleteTask E r =
     parsed (parseTaskID E (hr_PathValue r ''id'')) (\<lambda>i.
       MustPrincipal r (\<lambda>p. respond (SoftDeleteTask E (pr_OrgID p) i) writeDomainError (\<lambda>_. WriteHeader 204)))"

definition handle_QueueStats :: "env \<Rightarrow> http_request \<Rightarrow> answer io" where
  "handle_QueueStats E r =
     (let queue = trim_space (hr_PathValue r ''name'') in
      if queue = [] then State_Monad.return (writeAPIError 400 ''invalid_queue'' ''queue is required'' [])
      else MustPrincipal r (\<lambda>p.
        respond (service_QueueStats E (pr_OrgID p) queue) (\<lambda>_. internalError) (\<lambda>s. writeJSON 200 (StatsValue s))))"

definition handle_ListDLQ :: "env \<Rightarrow> http_request \<Rightarrow> answer io" where
  "handle_ListDLQ E r =
     parsed (parseLimit (hr_Query r ''limit'')) (\<lambda>limit.
       MustPrincipal r (\<lambda>p.
         respond (ListDLQ E (pr_OrgID p) (hr_Query r ''queue'') (hr_Query r ''cursor'') limit)
           writeDomainError (\<lambda>(ts, next_cursor). writeJSON 200 (TaskPage ts next_cursor))))"

definition handle_RequeueDLQ :: "env \<Rightarrow> http_request \<Rightarrow> answer io" where
  "handle_RequeueDLQ E r = taskMutation E r (RequeueDLQ E)"

definition handle_ListWorkers :: "env \<Rightarrow> http_request \<Rightarrow> answer io" where
  "handle_ListWorkers E r =
     MustPrincipal r (\<lambda>p.
       respond (service_ListWorkers E (pr_OrgID p)) (\<lambda>_. internalError) (\<lambda>ws. writeJSON 200 (WorkerItems ws)))"

text \<open>The queue and the status of the body of a heartbeat.\<close>

definition heartbeat_fields :: "(string \<Rightarrow> string) \<Rightarrow> (string \<times> string) field list" where
  "heartbeat_fields member =
     [(''queue'', string_field ''queue'' (\<lambda>v r. (v, snd r))),
      (''status'', string_field ''status'' (\<lambda>v r. (fst r, v)))]"

definition handle_WorkerHeartbeat :: "env \<Rightarrow> http_request \<Rightarrow> answer io" where
  "handle_WorkerHeartbeat E r =
     (case decodeJSON heartbeat_fields ([], []) r of
        Inl _ \<Rightarrow> State_Monad.return (writeAPIError 400 ''invalid_json'' ''request body must be valid JSON'' [])
      | Inr (queue, status) \<Rightarrow>
          if trim_space queue = [] then
            State_Monad.return (writeAPIError 400 ''validation_failed'' ''queue is required'' [])
          else MustPrincipal r (\<lambda>p.
            respond
              (WorkerHeartbeat E
                 \<lparr>w_ID = hr_PathValue r ''id'', w_OrgID = pr_OrgID p, w_Queue = queue, w_Status = status,
                  w_LastHeartbeatAt = 0, w_CreatedAt = 0, w_UpdatedAt = 0\<rparr>)
              (\<lambda>_. internalError) (\<lambda>w. writeJSON 200 (WorkerValue w))))"

definition handle_Health :: "answer io" where
  "handle_Health = State_Monad.return (writeJSON 200 (StatusText ''ok''))"

definition handle_Ready :: "env \<Rightarrow> answer io" where
  "handle_Ready E =
     respond (Ready E)
       (\<lambda>_. writeAPIError 503 ''not_ready'' ''a required dependency is unavailable'' [])
       (\<lambda>_. writeJSON 200 (StatusText ''ready''))"

subsection \<open>The stream of task events\<close>

text \<open>
  \<open>seen\<close> maps a task to the version last sent; a missing key reads as the empty string.
  The encoding of a task cannot fail, since its payload was validated when it was created,
  and a write that fails ends the stream, which is the end of the request.
\<close>

definition task_version :: "Task \<Rightarrow> string" where
  "task_version task = task_status_text (t_Status task) @ ''|'' @ time_text (t_UpdatedAt task)"

fun send_tasks :: "(uuid \<Rightarrow> string) \<Rightarrow> Task list \<Rightarrow> event_chunk list \<times> (uuid \<Rightarrow> string)" where
  "send_tasks seen [] = ([], seen)"
| "send_tasks seen (task # ts) =
     (if seen (t_ID task) = task_version task then send_tasks seen ts
      else case send_tasks (seen(t_ID task := task_version task)) ts of
        (chunks, seen') \<Rightarrow> (ChunkTask task # chunks, seen'))"

definition poll :: "env \<Rightarrow> uuid \<Rightarrow> (uuid \<Rightarrow> string) \<Rightarrow> (event_chunk list \<times> (uuid \<Rightarrow> string)) io" where
  "poll E orgID seen = do {
     page \<leftarrow> service_ListTasks E orgID \<lparr>tf_Queue = [], tf_Status = None, tf_Cursor = [], tf_Limit = 100\<rparr>;
     State_Monad.return
       (case page of
          Inl _ \<Rightarrow> ([ChunkUnavailable], seen)
        | Inr (ts, _) \<Rightarrow> (case send_tasks seen ts of (chunks, seen') \<Rightarrow> (chunks @ [ChunkKeepalive], seen'))) }"

text \<open>The polls of a request that lasts for \<open>n\<close> ticks of the ticker.\<close>

fun polls :: "env \<Rightarrow> uuid \<Rightarrow> nat \<Rightarrow> (uuid \<Rightarrow> string) \<Rightarrow> event_chunk list io" where
  "polls E orgID 0 seen = do {
     first \<leftarrow> poll E orgID seen;
     State_Monad.return (fst first) }"
| "polls E orgID (Suc n) seen = do {
     first \<leftarrow> poll E orgID seen;
     rest \<leftarrow> polls E orgID n (snd first);
     State_Monad.return (fst first @ rest) }"

definition handle_StreamTaskEvents :: "env \<Rightarrow> nat \<Rightarrow> http_request \<Rightarrow> answer io" where
  "handle_StreamTaskEvents E n r =
     MustPrincipal r (\<lambda>p. do {
       chunks \<leftarrow> polls E (pr_OrgID p) n (\<lambda>_. []);
       State_Monad.return (writeJSON 200 (TaskEvents (ChunkRetry # chunks))) })"

end
