(* ===== verification/Api_Workflows.thy ===== *)
theory Api_Workflows
  imports Api_Tasks
begin

text \<open>
  The handlers of workflows (workflow_handlers.go) and of their executions
  (workflow_execution_handlers.go).
\<close>

subsection \<open>Workflows\<close>

text \<open>The status of a filter is a valid one here: the handler has refused any other text.\<close>

definition service_ListWorkflows :: "env \<Rightarrow> uuid \<Rightarrow> WorkflowFilter \<Rightarrow> (err + Workflow list \<times> string) io" where
  "service_ListWorkflows E orgID f = ListWorkflows E orgID f"

record createWorkflowRequest =
  wc_Name :: string
  wc_Slug :: string
  wc_Description :: "string option"
  wc_Definition :: raw

record updateWorkflowRequest =
  wu_Name :: "string option"
  wu_Slug :: "string option"
  wu_Description :: raw
  wu_Definition :: raw

definition create_workflow_fields :: "(string \<Rightarrow> string) \<Rightarrow> createWorkflowRequest field list" where
  "create_workflow_fields member =
     [(''name'', string_field ''name'' (\<lambda>v r. r\<lparr>wc_Name := v\<rparr>)),
      (''slug'', string_field ''slug'' (\<lambda>v r. r\<lparr>wc_Slug := v\<rparr>)),
      (''description'', ptr_field (string_field ''description'') (\<lambda>v r. r\<lparr>wc_Description := v\<rparr>)),
      (''definition'', raw_field (\<lambda>v r. r\<lparr>wc_Definition := v\<rparr>))]"

definition update_workflow_fields :: "(string \<Rightarrow> string) \<Rightarrow> updateWorkflowRequest field list" where
  "update_workflow_fields member =
     [(''name'', ptr_field (string_field ''name'') (\<lambda>v r. r\<lparr>wu_Name := v\<rparr>)),
      (''slug'', ptr_field (string_field ''slug'') (\<lambda>v r. r\<lparr>wu_Slug := v\<rparr>)),
      (''description'', raw_field (\<lambda>v r. r\<lparr>wu_Description := v\<rparr>)),
      (''definition'', raw_field (\<lambda>v r. r\<lparr>wu_Definition := v\<rparr>))]"

definition decodeWorkflowRequest ::
  "((string \<Rightarrow> string) \<Rightarrow> 'r field list) \<Rightarrow> 'r \<Rightarrow> http_request \<Rightarrow> answer + 'r" where
  "decodeWorkflowRequest fs zero r =
     (case decodeJSON fs zero r of Inl e \<Rightarrow> Inl (decode_answer e) | Inr v \<Rightarrow> Inr v)"

definition handle_CreateWorkflow :: "env \<Rightarrow> unicode_tables \<Rightarrow> http_request \<Rightarrow> answer io" where
  "handle_CreateWorkflow E u r =
     parsed
       (decodeWorkflowRequest create_workflow_fields
          \<lparr>wc_Name = [], wc_Slug = [], wc_Description = None, wc_Definition = RawNil\<rparr> r)
       (\<lambda>request. MustPrincipal r (\<lambda>p.
          respond
            (service_CreateWorkflow E u
               \<lparr>cw_OrgID = pr_OrgID p, cw_Name = wc_Name request, cw_Slug = wc_Slug request,
                cw_Description = wc_Description request, cw_Definition = wc_Definition request\<rparr>)
            writeWorkflowError (\<lambda>w. writeJSON 201 (WorkflowValue w))))"

definition workflow_status_of :: "string \<Rightarrow> WorkflowStatus option" where
  "workflow_status_of s =
     map_of [(''draft'', WorkflowStatusDraft), (''published'', WorkflowStatusPublished),
             (''archived'', WorkflowStatusArchived)] s"

text \<open>In the lists, an invalid input can only be the cursor.\<close>

definition cursor_error :: "(err \<Rightarrow> answer) \<Rightarrow> err \<Rightarrow> answer" where
  "cursor_error f e =
     (if e = ErrInvalidInput then writeAPIError 400 ''invalid_cursor'' ''cursor is invalid'' [] else f e)"

definition handle_ListWorkflows :: "env \<Rightarrow> http_request \<Rightarrow> answer io" where
  "handle_ListWorkflows E r =
     parsed (parseLimit (hr_Query r ''limit'')) (\<lambda>limit.
       let status = hr_Query r ''status'' in
       if status \<noteq> [] \<and> workflow_status_of status = None then
         State_Monad.return
           (writeAPIError 400 ''invalid_status'' ''status must be draft, published, or archived'' [])
       else MustPrincipal r (\<lambda>p.
         respond
           (service_ListWorkflows E (pr_OrgID p)
              \<lparr>wff_Status = workflow_status_of status, wff_Cursor = hr_Query r ''cursor'', wff_Limit = limit\<rparr>)
           (cursor_error writeWorkflowError)
           (\<lambda>(ws, next_cursor). writeJSON 200 (WorkflowPage ws next_cursor))))"

text \<open>The handlers of one workflow: the identifier, then a call of the service.\<close>

definition workflow_call_of :: "env \<Rightarrow> http_request \<Rightarrow> (uuid \<Rightarrow> uuid \<Rightarrow> answer io) \<Rightarrow> answer io" where
  "workflow_call_of E r f =
     parsed (parseWorkflowID E (hr_PathValue r ''id'')) (\<lambda>i. MustPrincipal r (\<lambda>p. f (pr_OrgID p) i))"

definition handle_GetWorkflow :: "env \<Rightarrow> http_request \<Rightarrow> answer io" where
  "handle_GetWorkflow E r =
     workflow_call_of E r (\<lambda>orgID i.
       respond (GetWorkflow E orgID i) writeWorkflowError (\<lambda>w. writeJSON 200 (WorkflowValue w)))"

text \<open>A description that is there and not \<open>null\<close> has to be a string.\<close>

definition description_of :: "raw \<Rightarrow> answer + string option" where
  "description_of v =
     (case v of
        RawDoc (JStr s) \<Rightarrow> Inr (Some s)
      | RawDoc JNull \<Rightarrow> Inr None
      | RawNil \<Rightarrow> Inr None
      | _ \<Rightarrow> Inl (writeAPIError 400 ''validation_failed'' ''request validation failed''
                   [(''description'', DetailText ''must be a string or null'')]))"

definition handle_UpdateWorkflow :: "env \<Rightarrow> http_request \<Rightarrow> answer io" where
  "handle_UpdateWorkflow E r =
     parsed (parseWorkflowID E (hr_PathValue r ''id'')) (\<lambda>i.
     parsed
       (decodeWorkflowRequest update_workflow_fields
          \<lparr>wu_Name = None, wu_Slug = None, wu_Description = RawNil, wu_Definition = RawNil\<rparr> r) (\<lambda>request.
     parsed (description_of (wu_Description request)) (\<lambda>description.
       MustPrincipal r (\<lambda>p.
         respond
           (service_UpdateWorkflow E (pr_OrgID p) i
              \<lparr>uw_Name = wu_Name request, uw_Slug = wu_Slug request,
               uw_DescriptionSet = (\<not> raw_empty (wu_Description request)),
               uw_Description = description, uw_Definition = wu_Definition request\<rparr>)
           writeWorkflowError (\<lambda>w. writeJSON 200 (WorkflowValue w))))))"

definition handle_DeleteWorkflow :: "env \<Rightarrow> http_request \<Rightarrow> answer io" where
  "handle_DeleteWorkflow E r =
     workflow_call_of E r (\<lambda>orgID i.
       respond (DeleteWorkflow E orgID i) writeWorkflowError (\<lambda>_. WriteHeader 204))"

definition handle_ValidateWorkflow :: "env \<Rightarrow> http_request \<Rightarrow> answer io" where
  "handle_ValidateWorkflow E r =
     workflow_call_of E r (\<lambda>orgID i.
       respond (ValidateWorkflow E orgID i) writeWorkflowError (\<lambda>v. writeJSON 200 (ValidationValue v)))"

definition publish_answer :: "publish_error + WorkflowPublishResult \<Rightarrow> answer" where
  "publish_answer result =
     (case result of
        Inl (WorkflowValidationFailure v) \<Rightarrow>
          writeAPIError 400 ''workflow_validation_failed'' ''workflow graph validation failed''
            [(''errors'', DetailErrors (vr_Errors v))]
      | Inl (PublishError e) \<Rightarrow> writeWorkflowError e
      | Inr v \<Rightarrow> writeJSON 201 (PublishValue v))"

definition handle_PublishWorkflow :: "env \<Rightarrow> http_request \<Rightarrow> answer io" where
  "handle_PublishWorkflow E r =
     workflow_call_of E r (\<lambda>orgID i. do {
       result \<leftarrow> service_PublishWorkflow E orgID i;
       State_Monad.return (publish_answer result) })"

definition handle_ListWorkflowVersions :: "env \<Rightarrow> http_request \<Rightarrow> answer io" where
  "handle_ListWorkflowVersions E r =
     workflow_call_of E r (\<lambda>orgID i.
       respond (service_ListWorkflowVersions E orgID i) writeWorkflowError (\<lambda>vs. writeJSON 200 (VersionPage vs)))"

definition parse_version :: "string \<Rightarrow> answer + int" where
  "parse_version raw =
     (let refused = writeAPIError 400 ''invalid_workflow_version'' ''workflow version must be a positive integer'' [] in
      case Atoi raw of None \<Rightarrow> Inl refused | Some v \<Rightarrow> if v \<le> 0 then Inl refused else Inr v)"

definition handle_GetWorkflowVersion :: "env \<Rightarrow> http_request \<Rightarrow> answer io" where
  "handle_GetWorkflowVersion E r =
     parsed (parseWorkflowID E (hr_PathValue r ''id'')) (\<lambda>i.
     parsed (parse_version (hr_PathValue r ''version'')) (\<lambda>version.
       MustPrincipal r (\<lambda>p.
         respond (service_GetWorkflowVersion E (pr_OrgID p) i version) writeWorkflowError
           (\<lambda>v. writeJSON 200 (VersionValue v)))))"

subsection \<open>Executions\<close>

record startWorkflowExecutionRequest =
  sx_Version :: "int option"
  sx_Input :: raw

definition start_execution_fields :: "(string \<Rightarrow> string) \<Rightarrow> startWorkflowExecutionRequest field list" where
  "start_execution_fields member =
     [(''version'', ptr_field (int_literal_field member ''version'') (\<lambda>v r. r\<lparr>sx_Version := v\<rparr>)),
      (''input'', raw_field (\<lambda>v r. r\<lparr>sx_Input := v\<rparr>))]"

definition start_answer :: "start_result \<Rightarrow> answer" where
  "start_answer result =
     (case result of
        (_, _, Some e) \<Rightarrow> writeWorkflowExecutionError e
      | (v, _, None) \<Rightarrow> writeJSON 202 (StartValue v))"

definition handle_StartWorkflowExecution :: "env \<Rightarrow> wiring \<Rightarrow> http_request \<Rightarrow> answer io" where
  "handle_StartWorkflowExecution E W r =
     parsed (parseWorkflowID E (hr_PathValue r ''id'')) (\<lambda>workflowID.
     parsed (header_key r) (\<lambda>key.
     parsed (decodeWorkflowRequest start_execution_fields \<lparr>sx_Version = None, sx_Input = RawNil\<rparr> r) (\<lambda>request.
       if member_len r ''input'' (sx_Input request) > maxPayloadBytes then
         State_Monad.return
           (writeAPIError 413 ''payload_too_large'' ''workflow execution input must not exceed 262144 bytes'' [])
       else MustPrincipal r (\<lambda>p. do {
         result \<leftarrow> StartExecution E W
           \<lparr>si_OrgID = pr_OrgID p, si_WorkflowID = workflowID, si_Version = sx_Version request,
            si_Input = sx_Input request, si_IdempotencyKey = key\<rparr>;
         State_Monad.return (start_answer result) }))))"

definition execution_status_of :: "string \<Rightarrow> WorkflowExecutionStatus option" where
  "execution_status_of s =
     find (\<lambda>st. execution_status_text st = s)
       [WorkflowExecutionPending, WorkflowExecutionRunning, WorkflowExecutionSucceeded, WorkflowExecutionFailed,
        WorkflowExecutionCancelled]"

definition handle_ListWorkflowExecutions :: "env \<Rightarrow> http_request \<Rightarrow> answer io" where
  "handle_ListWorkflowExecutions E r =
     parsed (parseWorkflowID E (hr_PathValue r ''id'')) (\<lambda>workflowID.
     parsed (parseLimit (hr_Query r ''limit'')) (\<lambda>limit.
       let status = hr_Query r ''status'' in
       if status \<noteq> [] \<and> execution_status_of status = None then
         State_Monad.return
           (writeAPIError 400 ''invalid_status'' ''status must be pending, running, succeeded, failed, or cancelled'' [])
       else MustPrincipal r (\<lambda>p.
         respond
           (ListExecutions E (pr_OrgID p) workflowID
              \<lparr>xf_Status = execution_status_of status, xf_Cursor = hr_Query r ''cursor'', xf_Limit = limit\<rparr>)
           (cursor_error writeWorkflowExecutionError)
           (\<lambda>(xs, next_cursor). writeJSON 200 (ExecutionPage xs next_cursor)))))"

definition handle_GetWorkflowExecution :: "env \<Rightarrow> http_request \<Rightarrow> answer io" where
  "handle_GetWorkflowExecution E r =
     parsed (parseWorkflowExecutionIDs E r) (\<lambda>(workflowID, executionID).
       MustPrincipal r (\<lambda>p.
         respond (GetExecution E (pr_OrgID p) workflowID executionID) writeWorkflowExecutionError
           (\<lambda>d. writeJSON 200 (ExecutionDetail d))))"

definition handle_CancelWorkflowExecution :: "env \<Rightarrow> http_request \<Rightarrow> answer io" where
  "handle_CancelWorkflowExecution E r =
     parsed (parseWorkflowExecutionIDs E r) (\<lambda>(workflowID, executionID).
       MustPrincipal r (\<lambda>p.
         respond (CancelExecution E (pr_OrgID p) workflowID executionID) writeWorkflowExecutionError
           (\<lambda>x. writeJSON 200 (ExecutionValue x))))"

end
