(* ===== verification/Api_Webhooks.thy ===== *)
theory Api_Webhooks
  imports Http
begin

text \<open>
  The handlers of webhook endpoints (webhook_handlers.go) and of the delivery log
  (webhook_delivery_handlers.go). The answer to a body that was refused does not
  distinguish one that is too large here.
\<close>

subsection \<open>Endpoints\<close>

record createWebhookEndpointRequest =
  ec_Name :: string
  ec_URL :: string
  ec_Secret :: string
  ec_EventTypes :: "string list option"
  ec_IsActive :: "bool option"

record updateWebhookEndpointRequest =
  eu_Name :: "string option"
  eu_URL :: "string option"
  eu_Secret :: "string option"
  eu_EventTypes :: "string list option"
  eu_IsActive :: "bool option"

definition create_endpoint_fields :: "(string \<Rightarrow> string) \<Rightarrow> createWebhookEndpointRequest field list" where
  "create_endpoint_fields member =
     [(''name'', string_field ''name'' (\<lambda>v r. r\<lparr>ec_Name := v\<rparr>)),
      (''url'', string_field ''url'' (\<lambda>v r. r\<lparr>ec_URL := v\<rparr>)),
      (''secret'', string_field ''secret'' (\<lambda>v r. r\<lparr>ec_Secret := v\<rparr>)),
      (''event_types'', slice_field ''event_types'' string_element (\<lambda>v r. r\<lparr>ec_EventTypes := v\<rparr>)),
      (''is_active'', bool_ptr_field ''is_active'' (\<lambda>v r. r\<lparr>ec_IsActive := v\<rparr>))]"

definition update_endpoint_fields :: "(string \<Rightarrow> string) \<Rightarrow> updateWebhookEndpointRequest field list" where
  "update_endpoint_fields member =
     [(''name'', ptr_field (string_field ''name'') (\<lambda>v r. r\<lparr>eu_Name := v\<rparr>)),
      (''url'', ptr_field (string_field ''url'') (\<lambda>v r. r\<lparr>eu_URL := v\<rparr>)),
      (''secret'', ptr_field (string_field ''secret'') (\<lambda>v r. r\<lparr>eu_Secret := v\<rparr>)),
      (''event_types'', slice_field ''event_types'' string_element (\<lambda>v r. r\<lparr>eu_EventTypes := v\<rparr>)),
      (''is_active'', bool_ptr_field ''is_active'' (\<lambda>v r. r\<lparr>eu_IsActive := v\<rparr>))]"

definition decode_endpoint ::
  "((string \<Rightarrow> string) \<Rightarrow> 'r field list) \<Rightarrow> 'r \<Rightarrow> http_request \<Rightarrow> answer + 'r" where
  "decode_endpoint fs zero r =
     (case decodeJSON fs zero r of
        Inl _ \<Rightarrow> Inl (writeAPIError 400 ''invalid_json'' ''request body must be a single valid JSON object'' [])
      | Inr v \<Rightarrow> Inr v)"

definition handle_CreateWebhookEndpoint :: "env \<Rightarrow> webhook_lib \<Rightarrow> http_request \<Rightarrow> answer io" where
  "handle_CreateWebhookEndpoint E L r =
     parsed
       (decode_endpoint create_endpoint_fields
          \<lparr>ec_Name = [], ec_URL = [], ec_Secret = [], ec_EventTypes = None, ec_IsActive = None\<rparr> r)
       (\<lambda>request. MustPrincipal r (\<lambda>p.
          respond
            (CreateEndpoint E L
               \<lparr>ce_OrgID = pr_OrgID p, ce_Name = ec_Name request, ce_URL = ec_URL request,
                ce_Secret = ec_Secret request, ce_EventTypes = elems (ec_EventTypes request),
                ce_IsActive = (case ec_IsActive request of None \<Rightarrow> True | Some b \<Rightarrow> b)\<rparr>)
            writeWebhookError
            (\<lambda>(endpoint, secret). writeJSON 201 (EndpointCreated (toWebhookEndpointResponse endpoint) secret))))"

definition handle_ListWebhookEndpoints :: "env \<Rightarrow> http_request \<Rightarrow> answer io" where
  "handle_ListWebhookEndpoints E r =
     MustPrincipal r (\<lambda>p.
       respond (ListEndpoints E (pr_OrgID p)) writeWebhookError
         (\<lambda>endpoints. writeJSON 200 (EndpointItems (map toWebhookEndpointResponse endpoints))))"

definition endpoint_call_of :: "env \<Rightarrow> http_request \<Rightarrow> (uuid \<Rightarrow> uuid \<Rightarrow> answer io) \<Rightarrow> answer io" where
  "endpoint_call_of E r f =
     parsed (parseWebhookEndpointID E (hr_PathValue r ''id'')) (\<lambda>i. MustPrincipal r (\<lambda>p. f (pr_OrgID p) i))"

definition handle_GetWebhookEndpoint :: "env \<Rightarrow> http_request \<Rightarrow> answer io" where
  "handle_GetWebhookEndpoint E r =
     endpoint_call_of E r (\<lambda>orgID i.
       respond (GetEndpoint E orgID i) writeWebhookError
         (\<lambda>endpoint. writeJSON 200 (EndpointValue (toWebhookEndpointResponse endpoint))))"

definition handle_UpdateWebhookEndpoint :: "env \<Rightarrow> webhook_lib \<Rightarrow> http_request \<Rightarrow> answer io" where
  "handle_UpdateWebhookEndpoint E L r =
     parsed (parseWebhookEndpointID E (hr_PathValue r ''id'')) (\<lambda>i.
     parsed
       (decode_endpoint update_endpoint_fields
          \<lparr>eu_Name = None, eu_URL = None, eu_Secret = None, eu_EventTypes = None, eu_IsActive = None\<rparr> r) (\<lambda>request.
       MustPrincipal r (\<lambda>p.
         respond
           (UpdateEndpoint E L (pr_OrgID p) i
              \<lparr>ue_Name = eu_Name request, ue_URL = eu_URL request, ue_Secret = eu_Secret request,
               ue_EventTypes = eu_EventTypes request, ue_IsActive = eu_IsActive request\<rparr>)
           writeWebhookError
           (\<lambda>endpoint. writeJSON 200 (EndpointValue (toWebhookEndpointResponse endpoint))))))"

definition handle_DeleteWebhookEndpoint :: "env \<Rightarrow> http_request \<Rightarrow> answer io" where
  "handle_DeleteWebhookEndpoint E r =
     endpoint_call_of E r (\<lambda>orgID i. respond (DeleteEndpoint E orgID i) writeWebhookError (\<lambda>_. WriteHeader 204))"

definition handle_RotateWebhookEndpointSecret :: "env \<Rightarrow> webhook_lib \<Rightarrow> http_request \<Rightarrow> answer io" where
  "handle_RotateWebhookEndpointSecret E L r =
     endpoint_call_of E r (\<lambda>orgID i.
       respond (RotateSecret E L orgID i) writeWebhookError (\<lambda>secret. writeJSON 200 (SecretValue secret)))"

subsection \<open>Deliveries\<close>

definition parse_endpoint_filter :: "env \<Rightarrow> string \<Rightarrow> answer + uuid option" where
  "parse_endpoint_filter E raw =
     (if raw = [] then Inr None
      else case parse_id E ''invalid_webhook_endpoint_id'' ''endpoint_id must be a UUID'' raw of
        Inl a \<Rightarrow> Inl a
      | Inr i \<Rightarrow> Inr (Some i))"

definition handle_ListWebhookDeliveries :: "env \<Rightarrow> http_request \<Rightarrow> answer io" where
  "handle_ListWebhookDeliveries E r =
     parsed (parseLimit (hr_Query r ''limit'')) (\<lambda>limit.
     parsed (parse_endpoint_filter E (hr_Query r ''endpoint_id'')) (\<lambda>endpointID.
       MustPrincipal r (\<lambda>p.
         respond
           (ListDeliveries E (pr_OrgID p)
              \<lparr>df_EndpointID = endpointID, df_Status = hr_Query r ''status'', df_EventType = hr_Query r ''event_type'',
               df_Cursor = hr_Query r ''cursor'', df_Limit = limit\<rparr>)
           writeWebhookDeliveryError
           (\<lambda>(ds, next_cursor). writeJSON 200 (DeliveryPage (map toWebhookDeliveryResponse ds) next_cursor)))))"

definition handle_GetWebhookDelivery :: "env \<Rightarrow> http_request \<Rightarrow> answer io" where
  "handle_GetWebhookDelivery E r =
     parsed (parseWebhookDeliveryID E (hr_PathValue r ''id'')) (\<lambda>i.
       MustPrincipal r (\<lambda>p.
         respond (GetDelivery E (pr_OrgID p) i) writeWebhookDeliveryError
           (\<lambda>d. writeJSON 200 (DeliveryDetail (toWebhookDeliveryResponse d) (wd_Payload d)))))"

definition handle_RetryWebhookDelivery :: "env \<Rightarrow> http_request \<Rightarrow> answer io" where
  "handle_RetryWebhookDelivery E r =
     parsed (parseWebhookDeliveryID E (hr_PathValue r ''id'')) (\<lambda>i.
       MustPrincipal r (\<lambda>p.
         respond (RetryDelivery E (pr_OrgID p) i) writeWebhookDeliveryError
           (\<lambda>d. writeJSON 200 (DeliveryValue (toWebhookDeliveryResponse d)))))"

end
