(* ===== verification/Rate_Limiter.thy ===== *)
theory Rate_Limiter
  imports Webhook_Service
begin

text \<open>
  The token bucket of internal/broker/redis/rate_limiter.go. The script is one atomic step
  of Redis; its numbers are binary64 and keep their value when they are written to the hash
  and read back. A hash past its expiry, by the clock of the server, is gone.
\<close>

record TokenBucketLimiter =
  tl_ratePerSec :: int
  tl_burst :: int

definition live_bucket :: "time \<Rightarrow> bucket option \<Rightarrow> bucket option" where
  "live_bucket server b =
     (case b of None \<Rightarrow> None | Some b \<Rightarrow> if bk_expires b \<le> server then None else Some b)"

definition refill :: "int \<Rightarrow> int \<Rightarrow> rat \<Rightarrow> bucket option \<Rightarrow> rat" where
  "refill rate burst now b =
     (let tokens = (case b of None \<Rightarrow> of_int burst | Some b \<Rightarrow> bk_tokens b);
          ts = (case b of None \<Rightarrow> now | Some b \<Rightarrow> bk_ts b);
          elapsed = max 0 (fl (now - ts))
      in min (of_int burst) (fl (tokens + fl (elapsed * of_int rate))))"

definition tokenBucketScript ::
  "time \<Rightarrow> string \<Rightarrow> int \<Rightarrow> int \<Rightarrow> rat \<Rightarrow> store \<Rightarrow> (err + int) \<times> store" where
  "tokenBucketScript server key rate burst now s =
     (let tokens = refill rate burst now (live_bucket server (buckets s key));
          allowed = (if tokens \<ge> 1 then 1 else 0);
          tokens = (if tokens \<ge> 1 then fl (tokens - 1) else tokens)
      in (Inr allowed,
          s\<lparr>buckets := (buckets s)(key \<mapsto> \<lparr>bk_tokens = tokens, bk_ts = now, bk_expires = server + 60 * Second\<rparr>)\<rparr>))"

definition rateLimitKey :: "string \<Rightarrow> string" where
  "rateLimitKey scope = ''queueflow:v1:'' @ scope @ '':ratelimit''"

definition Allow :: "env \<Rightarrow> TokenBucketLimiter \<Rightarrow> string \<Rightarrow> (err + bool) io" where
  "Allow E l key = do {
     t \<leftarrow> time_now E;
     let now = fl (of_int (unix_milli t) / 1000);
     server \<leftarrow> time_now E;
     res \<leftarrow> atomic E ''rate limiter'' (tokenBucketScript server (rateLimitKey key) (tl_ratePerSec l) (tl_burst l) now);
     State_Monad.return (case res of Inl e \<Rightarrow> Inl e | Inr n \<Rightarrow> Inr (n = 1)) }"

text \<open>
  \<open>Wait\<close> polls until a token is there, an error occurs or the context is done; the context
  is done after \<open>n\<close> polls.
\<close>

fun Wait :: "env \<Rightarrow> TokenBucketLimiter \<Rightarrow> string \<Rightarrow> nat \<Rightarrow> (err + unit) io" where
  "Wait E l key 0 = State_Monad.return (Inl (ErrInfra ''context done''))"
| "Wait E l key (Suc n) = do {
     ok \<leftarrow> Allow E l key;
     case ok of
       Inl e \<Rightarrow> State_Monad.return (Inl e)
     | Inr True \<Rightarrow> State_Monad.return (Inr ())
     | Inr False \<Rightarrow> Wait E l key n }"

end
