(* ===== verification/Router.thy ===== *)
theory Router
  imports Api_Workflows Api_Webhooks Rate_Limiter
begin

text \<open>
  The middlewares (middleware.go) and the router (router.go). The patterns of net/http are
  lists of literal and variable segments; a variable matches one segment that is not
  empty, and \<open>GET\<close> also matches \<open>HEAD\<close>. The first pattern of a table that matches is the
  one net/http selects, because no two of them match the same request.
\<close>

subsection \<open>Middlewares\<close>

text \<open>\<open>strings.Cut\<close> at a blank.\<close>

definition cut_blank :: "string \<Rightarrow> (string \<times> string) option" where
  "cut_blank s =
     (case dropWhile (\<lambda>c. c \<noteq> CHR '' '') s of
        [] \<Rightarrow> None
      | _ # rest \<Rightarrow> Some (takeWhile (\<lambda>c. c \<noteq> CHR '' '') s, rest))"

definition unauthorized :: answer where
  "unauthorized = writeAPIError 401 ''unauthorized'' ''a valid Bearer API key is required'' []"

text \<open>The key of the header \<open>Authorization\<close>.\<close>

definition bearer_key :: "http_request \<Rightarrow> string option" where
  "bearer_key r =
     (case cut_blank (hr_Header r ''Authorization'') of
        None \<Rightarrow> None
      | Some (scheme, rawKey) \<Rightarrow>
          if \<not> EqualFold scheme ''Bearer'' \<or> trim_space rawKey = [] then None else Some (trim_space rawKey))"

definition AuthMiddleware :: "env \<Rightarrow> (http_request \<Rightarrow> answer io) \<Rightarrow> http_request \<Rightarrow> answer io" where
  "AuthMiddleware E nxt r =
     (case bearer_key r of
        None \<Rightarrow> State_Monad.return unauthorized
      | Some rawKey \<Rightarrow> do {
          principal \<leftarrow> Authenticate E rawKey;
          case principal of
            Inl _ \<Rightarrow> State_Monad.return unauthorized
          | Inr p \<Rightarrow> nxt (r\<lparr>hr_Principal := Some p\<rparr>) })"

definition rate_limited :: answer where
  "rate_limited = writeAPIError 429 ''rate_limit_exceeded'' ''rate limit exceeded'' []"

definition RateLimitMiddleware ::
  "env \<Rightarrow> TokenBucketLimiter option \<Rightarrow> (http_request \<Rightarrow> answer io) \<Rightarrow> http_request \<Rightarrow> answer io" where
  "RateLimitMiddleware E limiter nxt r =
     (case limiter of
        None \<Rightarrow> nxt r
      | Some l \<Rightarrow> MustPrincipal r (\<lambda>p. do {
          ok \<leftarrow> Allow E l (''org:'' @ uuid_text E (pr_OrgID p) @ '':api'');
          if ok \<noteq> Inr True then State_Monad.return rate_limited else nxt r }))"

text \<open>Logging reads the clock before and after the request; a panic passes through it.\<close>

definition LoggingMiddleware :: "env \<Rightarrow> (http_request \<Rightarrow> answer io) \<Rightarrow> http_request \<Rightarrow> answer io" where
  "LoggingMiddleware E nxt r = do {
     start \<leftarrow> time_now E;
     a \<leftarrow> nxt r;
     case a of
       None \<Rightarrow> State_Monad.return None
     | Some response \<Rightarrow> do { finish \<leftarrow> time_now E; State_Monad.return (Some response) } }"

definition RecoveryMiddleware :: "(http_request \<Rightarrow> answer io) \<Rightarrow> http_request \<Rightarrow> answer io" where
  "RecoveryMiddleware nxt r = do {
     a \<leftarrow> nxt r;
     State_Monad.return (case a of None \<Rightarrow> internalError | Some response \<Rightarrow> Some response) }"

subsection \<open>Patterns\<close>

datatype segment = Lit string | Var string

type_synonym pattern = "string \<times> segment list"

fun match_path :: "segment list \<Rightarrow> string list \<Rightarrow> (string \<times> string) list option" where
  "match_path [] [] = Some []"
| "match_path (Lit a # ps) (s # ss) = (if a = s then match_path ps ss else None)"
| "match_path (Var x # ps) (s # ss) = (if s = [] then None else map_option (Cons (x, s)) (match_path ps ss))"
| "match_path _ _ = None"

definition method_matches :: "string \<Rightarrow> string \<Rightarrow> bool" where
  "method_matches m method \<longleftrightarrow> m = method \<or> m = ''GET'' \<and> method = ''HEAD''"

definition pattern_matches :: "http_request \<Rightarrow> pattern \<Rightarrow> bool" where
  "pattern_matches r p \<longleftrightarrow> method_matches (fst p) (hr_Method r) \<and> match_path (snd p) (hr_Path r) \<noteq> None"

definition with_values :: "pattern \<Rightarrow> http_request \<Rightarrow> http_request" where
  "with_values p r =
     r\<lparr>hr_PathValue :=
         (\<lambda>k. case match_path (snd p) (hr_Path r) of
            None \<Rightarrow> []
          | Some vs \<Rightarrow> (case map_of vs k of None \<Rightarrow> [] | Some v \<Rightarrow> v))\<rparr>"

text \<open>A \<open>ServeMux\<close>: no pattern for the path is 404, none for the method is 405.\<close>

definition serve_mux :: "(pattern \<times> (http_request \<Rightarrow> answer io)) list \<Rightarrow> http_request \<Rightarrow> answer io" where
  "serve_mux table r =
     (case find (\<lambda>e. pattern_matches r (fst e)) table of
        Some (p, h) \<Rightarrow> h (with_values p r)
      | None \<Rightarrow>
          State_Monad.return
            (if \<exists>e \<in> set table. match_path (snd (fst e)) (hr_Path r) \<noteq> None
             then writeJSON 405 (PlainText ''Method Not Allowed'')
             else writeJSON 404 (PlainText ''404 page not found'')))"

subsection \<open>The router\<close>

text \<open>\<open>as_polls\<close> is the number of ticks for which a client follows the stream of events.\<close>

record api_server =
  as_wiring :: wiring
  as_lib :: webhook_lib
  as_unicode :: unicode_tables
  as_limiter :: "TokenBucketLimiter option"
  as_polls :: nat

definition v1 :: "segment list \<Rightarrow> segment list" where
  "v1 ps = Lit ''v1'' # ps"

definition task_routes :: "env \<Rightarrow> api_server \<Rightarrow> (pattern \<times> (http_request \<Rightarrow> answer io)) list" where
  "task_routes E S =
     [((''POST'', v1 [Lit ''tasks'']), handle_CreateTask E (as_wiring S)),
      ((''GET'', v1 [Lit ''tasks'']), handle_ListTasks E),
      ((''GET'', v1 [Lit ''tasks'', Var ''id'']), handle_GetTask E),
      ((''POST'', v1 [Lit ''tasks'', Var ''id'', Lit ''retry'']), handle_RetryTask E),
      ((''POST'', v1 [Lit ''tasks'', Var ''id'', Lit ''cancel'']), handle_CancelTask E (as_wiring S)),
      ((''DELETE'', v1 [Lit ''tasks'', Var ''id'']), handle_DeleteTask E),
      ((''GET'', v1 [Lit ''queues'', Var ''name'', Lit ''stats'']), handle_QueueStats E),
      ((''GET'', v1 [Lit ''workers'']), handle_ListWorkers E),
      ((''POST'', v1 [Lit ''workers'', Var ''id'', Lit ''heartbeat'']), handle_WorkerHeartbeat E),
      ((''GET'', v1 [Lit ''dlq'']), handle_ListDLQ E),
      ((''POST'', v1 [Lit ''dlq'', Var ''id'', Lit ''requeue'']), handle_RequeueDLQ E),
      ((''GET'', v1 [Lit ''events'', Lit ''tasks'']), handle_StreamTaskEvents E (as_polls S))]"

definition webhook_routes :: "env \<Rightarrow> api_server \<Rightarrow> (pattern \<times> (http_request \<Rightarrow> answer io)) list" where
  "webhook_routes E S =
     [((''POST'', v1 [Lit ''webhooks'', Lit ''endpoints'']), handle_CreateWebhookEndpoint E (as_lib S)),
      ((''GET'', v1 [Lit ''webhooks'', Lit ''endpoints'']), handle_ListWebhookEndpoints E),
      ((''GET'', v1 [Lit ''webhooks'', Lit ''endpoints'', Var ''id'']), handle_GetWebhookEndpoint E),
      ((''PATCH'', v1 [Lit ''webhooks'', Lit ''endpoints'', Var ''id'']), handle_UpdateWebhookEndpoint E (as_lib S)),
      ((''DELETE'', v1 [Lit ''webhooks'', Lit ''endpoints'', Var ''id'']), handle_DeleteWebhookEndpoint E),
      ((''POST'', v1 [Lit ''webhooks'', Lit ''endpoints'', Var ''id'', Lit ''rotate-secret'']),
         handle_RotateWebhookEndpointSecret E (as_lib S)),
      ((''GET'', v1 [Lit ''webhooks'', Lit ''deliveries'']), handle_ListWebhookDeliveries E),
      ((''GET'', v1 [Lit ''webhooks'', Lit ''deliveries'', Var ''id'']), handle_GetWebhookDelivery E),
      ((''POST'', v1 [Lit ''webhooks'', Lit ''deliveries'', Var ''id'', Lit ''retry'']),
         handle_RetryWebhookDelivery E)]"

definition workflow_routes :: "env \<Rightarrow> api_server \<Rightarrow> (pattern \<times> (http_request \<Rightarrow> answer io)) list" where
  "workflow_routes E S =
     [((''POST'', v1 [Lit ''workflows'']), handle_CreateWorkflow E (as_unicode S)),
      ((''GET'', v1 [Lit ''workflows'']), handle_ListWorkflows E),
      ((''GET'', v1 [Lit ''workflows'', Var ''id'']), handle_GetWorkflow E),
      ((''PATCH'', v1 [Lit ''workflows'', Var ''id'']), handle_UpdateWorkflow E),
      ((''DELETE'', v1 [Lit ''workflows'', Var ''id'']), handle_DeleteWorkflow E),
      ((''POST'', v1 [Lit ''workflows'', Var ''id'', Lit ''validate'']), handle_ValidateWorkflow E),
      ((''POST'', v1 [Lit ''workflows'', Var ''id'', Lit ''publish'']), handle_PublishWorkflow E),
      ((''GET'', v1 [Lit ''workflows'', Var ''id'', Lit ''versions'']), handle_ListWorkflowVersions E),
      ((''GET'', v1 [Lit ''workflows'', Var ''id'', Lit ''versions'', Var ''version'']),
         handle_GetWorkflowVersion E),
      ((''POST'', v1 [Lit ''workflows'', Var ''id'', Lit ''executions'']),
         handle_StartWorkflowExecution E (as_wiring S)),
      ((''GET'', v1 [Lit ''workflows'', Var ''id'', Lit ''executions'']), handle_ListWorkflowExecutions E),
      ((''GET'', v1 [Lit ''workflows'', Var ''id'', Lit ''executions'', Var ''execution_id'']),
         handle_GetWorkflowExecution E),
      ((''POST'', v1 [Lit ''workflows'', Var ''id'', Lit ''executions'', Var ''execution_id'', Lit ''cancel'']),
         handle_CancelWorkflowExecution E)]"

definition v1_mux :: "env \<Rightarrow> api_server \<Rightarrow> http_request \<Rightarrow> answer io" where
  "v1_mux E S r = serve_mux (task_routes E S @ webhook_routes E S @ workflow_routes E S) r"

definition protected_mux :: "env \<Rightarrow> api_server \<Rightarrow> http_request \<Rightarrow> answer io" where
  "protected_mux E S r = AuthMiddleware E (RateLimitMiddleware E (as_limiter S) (v1_mux E S)) r"

text \<open>
  The outer mux has the pattern \<open>/v1/\<close> for every path below it; the path \<open>/v1\<close> itself is
  redirected there.
\<close>

definition public_mux :: "env \<Rightarrow> api_server \<Rightarrow> http_request \<Rightarrow> answer io" where
  "public_mux E S r =
     (if hr_Path r = [''v1''] then State_Monad.return (writeJSON 301 (Redirect ''/v1/''))
      else if hr_Path r \<noteq> [] \<and> hd (hr_Path r) = ''v1'' then protected_mux E S r
      else serve_mux
        [((''GET'', [Lit ''healthz'']), \<lambda>_. handle_Health), ((''GET'', [Lit ''readyz'']), \<lambda>_. handle_Ready E)] r)"

definition NewRouter :: "env \<Rightarrow> api_server \<Rightarrow> http_request \<Rightarrow> answer io" where
  "NewRouter E S r = RecoveryMiddleware (LoggingMiddleware E (public_mux E S)) r"

end
