(* ===== verification/Isolation.thy ===== *)
theory Isolation
  imports Router
begin

text \<open>
  A calculus for what a request may touch. \<open>confined org m R\<close> says that every run of \<open>m\<close>
  leaves the rows and the queues of all organisations but \<open>org\<close> as they are, and that its
  result satisfies \<open>R\<close>; \<open>R\<close> carries the ownership of the rows that are passed on. The
  statements of the stores come first, then the services, in the order of their
  definitions.
\<close>

subsection \<open>What the other organisations have\<close>

text \<open>Everything in the store that does not belong to an organisation, the buckets of the
  rate limiter apart.\<close>

definition foreign_rows :: "uuid \<Rightarrow> store \<Rightarrow> store" where
  "foreign_rows org s =
     \<lparr>tasks = filter (\<lambda>r. t_OrgID r \<noteq> org) (tasks s), workers = filter (\<lambda>r. w_OrgID r \<noteq> org) (workers s),
      api_keys = api_keys s, endpoints = filter (\<lambda>r. we_OrgID r \<noteq> org) (endpoints s),
      deliveries = filter (\<lambda>r. wd_OrgID r \<noteq> org) (deliveries s),
      workflows = filter (\<lambda>r. wf_OrgID r \<noteq> org) (workflows s),
      versions = filter (\<lambda>r. v_OrgID r \<noteq> org) (versions s),
      executions = filter (\<lambda>r. x_OrgID r \<noteq> org) (executions s),
      node_executions = filter (\<lambda>r. n_OrgID r \<noteq> org) (node_executions s),
      metric_events = filter (\<lambda>r. me_OrganizationID r \<noteq> org) (metric_events s),
      queues = (\<lambda>k. if fst k = org then empty_queue else queues s k),
      buckets = (\<lambda>_. None)\<rparr>"

definition foreign_same :: "uuid \<Rightarrow> store \<Rightarrow> store \<Rightarrow> bool" where
  "foreign_same org s s' \<longleftrightarrow> foreign_rows org s' = foreign_rows org s"

interpretation fs: store_guarantee "foreign_same org"
  by unfold_locales (simp_all add: foreign_same_def)

definition confined :: "uuid \<Rightarrow> 'a io \<Rightarrow> ('a \<Rightarrow> bool) \<Rightarrow> bool" where
  "confined org m R \<longleftrightarrow> steps (on_store (foreign_same org)) m \<and> returns m R"

text \<open>No other process moves; statements may fail.\<close>

definition alone :: "env \<Rightarrow> bool" where
  "alone E \<longleftrightarrow> (\<forall>t s. interfere E t s = s)"

lemma filter_update_where:
  "(\<And>r. P r \<Longrightarrow> \<not> F r \<and> \<not> F (f r)) \<Longrightarrow> filter F (update_where P f rows) = filter F rows"
  by (induction rows) (auto simp: update_where_def)

subsection \<open>Rules\<close>

definition if_ok :: "('a \<Rightarrow> bool) \<Rightarrow> 'e + 'a \<Rightarrow> bool" where
  "if_ok P r \<longleftrightarrow> (case r of Inl _ \<Rightarrow> True | Inr x \<Rightarrow> P x)"

lemma if_ok_simps [simp]: "if_ok P (Inl e)" "if_ok P (Inr x) = P x"
  by (simp_all add: if_ok_def)

lemma confined_return: "R x \<Longrightarrow> confined org (State_Monad.return x) R"
  by (simp add: confined_def returns_return fs.world.steps_return)

lemma confined_post: "confined org m Q \<Longrightarrow> (\<And>x. Q x \<Longrightarrow> R x) \<Longrightarrow> confined org m R"
  unfolding confined_def by (blast intro: returns_post)

lemma confined_any: "confined org m Q \<Longrightarrow> confined org m (\<lambda>_. True)"
  by (rule confined_post) simp_all

lemma confined_bind:
  "confined org m Q \<Longrightarrow> (\<And>x. Q x \<Longrightarrow> confined org (f x) R) \<Longrightarrow> confined org (State_Monad.bind m f) R"
  unfolding confined_def by (blast intro: fs.world.steps_via returns_via)

lemma confined_bind_ok:
  assumes "confined org m (if_ok Q)" and "\<And>x. Q x \<Longrightarrow> confined org (f x) R" and "\<And>e. R (Inl e)"
  shows "confined org (bind_ok m f) R"
  unfolding bind_ok_def
  by (rule confined_bind [OF assms(1)]) (auto intro: assms(2,3) confined_return split: sum.split)

lemma confined_if: "(b \<Longrightarrow> confined org m R) \<Longrightarrow> (\<not> b \<Longrightarrow> confined org m' R) \<Longrightarrow> confined org (if b then m else m') R"
  by simp

lemma confined_sum:
  "(\<And>a. x = Inl a \<Longrightarrow> confined org (f a) R) \<Longrightarrow> (\<And>b. x = Inr b \<Longrightarrow> confined org (g b) R) \<Longrightarrow>
     confined org (case x of Inl a \<Rightarrow> f a | Inr b \<Rightarrow> g b) R"
  by (simp split: sum.split)

lemma confined_option:
  "(x = None \<Longrightarrow> confined org m R) \<Longrightarrow> (\<And>a. x = Some a \<Longrightarrow> confined org (f a) R) \<Longrightarrow>
     confined org (case x of None \<Rightarrow> m | Some a \<Rightarrow> f a) R"
  by (simp split: option.split)

lemma confined_prod:
  "(\<And>a b. x = (a, b) \<Longrightarrow> confined org (f a b) R) \<Longrightarrow> confined org (case x of (a, b) \<Rightarrow> f a b) R"
  by (simp split: prod.split)

lemma confined_let: "confined org (f x) R \<Longrightarrow> confined org (Let x f) R"
  by simp

lemma confined_time: "confined org (time_now E) (\<lambda>_. True)"
  by (simp add: confined_def fs.steps_time returns_any)

lemma confined_uuid: "confined org (uuid_new E) (\<lambda>_. True)"
  by (simp add: confined_def fs.steps_uuid returns_any)

lemma confined_metric: "confined org (Record E input) (\<lambda>_. True)"
  by (simp add: confined_def fs.steps_metric returns_any)

lemma confined_tick: "confined org tick (\<lambda>_. True)"
  by (simp add: confined_def returns_any steps_def on_store_def foreign_same_def tick_def)

lemma confined_service_now: "confined org (service_now E) (\<lambda>_. True)"
  unfolding service_now_def by (intro confined_bind [OF confined_time] confined_return) simp

lemmas confined_syntax = confined_return confined_bind confined_bind_ok confined_if confined_sum confined_option
  confined_prod confined_let

lemmas confined_clock = confined_time confined_uuid confined_metric confined_service_now confined_tick

lemma returns_atomic:
  assumes "\<And>s. R (fst (f s))" and "R (Inl (ErrInfra what))"
  shows "returns (atomic E what f) R"
  using assms by (simp add: returns_def run_atomic Let_def split: outcome.split)

lemma confined_atomic:
  assumes "alone E" and "\<And>s. foreign_same org s (snd (f s)) \<and> if_ok P (fst (f s))"
  shows "confined org (atomic E what f) (if_ok P)"
  unfolding confined_def
proof
  show "steps (on_store (foreign_same org)) (atomic E what f)"
    using assms by (intro fs.steps_atomic) (simp_all add: others_keep_def alone_def foreign_same_def)
  show "returns (atomic E what f) (if_ok P)"
    using assms(2) by (intro returns_atomic) simp_all
qed

lemma confined_query: "alone E \<Longrightarrow> (\<And>s. if_ok P (f s)) \<Longrightarrow> confined org (query E what f) (if_ok P)"
  unfolding query_def by (rule confined_atomic) (simp_all add: foreign_same_def)

lemma confined_row: "alone E \<Longrightarrow> (\<And>r. P r \<Longrightarrow> Q r) \<Longrightarrow> confined org (query E what (\<lambda>s. row e P (tab s))) (if_ok Q)"
  by (rule confined_query) (auto simp: row_def find_Some_iff split: option.split)

subsection \<open>Statements of the stores\<close>

lemma foreign_same_iff:
  "foreign_same org s s' \<longleftrightarrow>
     filter (\<lambda>r. t_OrgID r \<noteq> org) (tasks s') = filter (\<lambda>r. t_OrgID r \<noteq> org) (tasks s) \<and>
     filter (\<lambda>r. w_OrgID r \<noteq> org) (workers s') = filter (\<lambda>r. w_OrgID r \<noteq> org) (workers s) \<and>
     api_keys s' = api_keys s \<and>
     filter (\<lambda>r. we_OrgID r \<noteq> org) (endpoints s') = filter (\<lambda>r. we_OrgID r \<noteq> org) (endpoints s) \<and>
     filter (\<lambda>r. wd_OrgID r \<noteq> org) (deliveries s') = filter (\<lambda>r. wd_OrgID r \<noteq> org) (deliveries s) \<and>
     filter (\<lambda>r. wf_OrgID r \<noteq> org) (workflows s') = filter (\<lambda>r. wf_OrgID r \<noteq> org) (workflows s) \<and>
     filter (\<lambda>r. v_OrgID r \<noteq> org) (versions s') = filter (\<lambda>r. v_OrgID r \<noteq> org) (versions s) \<and>
     filter (\<lambda>r. x_OrgID r \<noteq> org) (executions s') = filter (\<lambda>r. x_OrgID r \<noteq> org) (executions s) \<and>
     filter (\<lambda>r. n_OrgID r \<noteq> org) (node_executions s') = filter (\<lambda>r. n_OrgID r \<noteq> org) (node_executions s) \<and>
     filter (\<lambda>r. me_OrganizationID r \<noteq> org) (metric_events s') = filter (\<lambda>r. me_OrganizationID r \<noteq> org) (metric_events s) \<and>
     (\<forall>q n. q \<noteq> org \<longrightarrow> queues s' (q, n) = queues s (q, n))"
  by (auto simp: foreign_same_def foreign_rows_def fun_eq_iff)

lemma confined_update_task:
  assumes "alone E" and "\<And>t. P t \<Longrightarrow> t_OrgID t = org" and "\<And>t. t_OrgID (f t) = t_OrgID t"
  shows "confined org (atomic E what (update_task e P f)) (if_ok (\<lambda>_. True))"
  by (rule confined_atomic [OF assms(1)]) (auto simp: update_task_def foreign_same_iff assms(2,3) if_ok_def intro!: filter_update_where split: sum.split)

lemma confined_Create: "alone E \<Longrightarrow> t_OrgID task = org \<Longrightarrow> confined org (Create E task) (if_ok (\<lambda>_. True))"
  unfolding Create_def by (rule confined_atomic) (auto simp: foreign_same_iff stored_task_def intro!: filter_update_where)

lemma confined_GetByID: "alone E \<Longrightarrow> confined org (GetByID E org i) (if_ok (\<lambda>t. t_OrgID t = org))"
  unfolding GetByID_def by (rule confined_row) (simp_all add: is_task_def)

lemma confined_FindByIdempotencyKey:
  "alone E \<Longrightarrow> confined org (FindByIdempotencyKey E org queue key) (if_ok (\<lambda>t. t_OrgID t = org))"
  unfolding FindByIdempotencyKey_def by (rule confined_row) simp_all

lemma confined_Requeue: "alone E \<Longrightarrow> confined org (Requeue E org i now) (if_ok (\<lambda>_. True))"
  unfolding Requeue_def by (rule confined_update_task) (simp_all add: is_task_def)

lemma confined_SoftDelete: "alone E \<Longrightarrow> confined org (SoftDelete E org i now) (if_ok (\<lambda>_. True))"
  unfolding SoftDelete_def by (rule confined_update_task) (simp_all add: is_task_def)

lemma confined_MarkDispatched: "alone E \<Longrightarrow> confined org (MarkDispatched E org i now) (if_ok (\<lambda>_. True))"
  unfolding MarkDispatched_def by (rule confined_update_task) (simp_all add: is_task_def)

lemma confined_Cancel: "alone E \<Longrightarrow> confined org (Cancel E org i now) (if_ok (\<lambda>t. t_OrgID t = org))"
  unfolding Cancel_def Let_def
  by (rule confined_atomic) (auto simp: foreign_same_iff cancelled_task_def is_task_def find_Some_iff intro!: filter_update_where split: option.split)

lemma confined_QueueStats: "alone E \<Longrightarrow> confined org (QueueStats E org queue) (if_ok (\<lambda>_. True))"
  unfolding QueueStats_def Let_def by (rule confined_query) simp_all

lemma confined_ListWorkers: "alone E \<Longrightarrow> confined org (ListWorkers E org) (if_ok (\<lambda>ws. \<forall>w \<in> set ws. w_OrgID w = org))"
  unfolding ListWorkers_def by (rule confined_query) (simp_all add: set_sort_by)

lemma confined_UpsertWorkerHeartbeat:
  "alone E \<Longrightarrow> w_OrgID worker = org \<Longrightarrow> confined org (UpsertWorkerHeartbeat E worker) (if_ok (\<lambda>_. True))"
  unfolding UpsertWorkerHeartbeat_def by (rule confined_atomic) (auto simp: foreign_same_iff is_worker_def intro!: filter_update_where)

lemma confined_broker_call: "alone E \<Longrightarrow> confined org (broker_call E what org queue f) (if_ok (\<lambda>_. True))"
  unfolding broker_call_def by (rule confined_atomic) (auto simp: foreign_same_iff on_queue_def intro!: filter_update_where)

lemma confined_CreateWebhookDelivery:
  "alone E \<Longrightarrow> wd_OrgID d = org \<Longrightarrow> confined org (CreateWebhookDelivery E d) (if_ok (\<lambda>_. True))"
  unfolding CreateWebhookDelivery_def by (rule confined_atomic) (auto simp: foreign_same_iff intro!: filter_update_where)

lemma confined_GetWebhookDelivery: "alone E \<Longrightarrow> confined org (GetWebhookDelivery E org i) (if_ok (\<lambda>d. wd_OrgID d = org))"
  unfolding GetWebhookDelivery_def by (rule confined_row) (simp_all add: is_delivery_def)

lemma confined_ListActive: "alone E \<Longrightarrow> confined org (ListActiveWebhookEndpointsForEvent E o' eventType) (if_ok (\<lambda>_. True))"
  unfolding ListActiveWebhookEndpointsForEvent_def by (rule confined_query) simp_all

lemma confined_GetWebhookEndpoint: "alone E \<Longrightarrow> confined org (GetWebhookEndpoint E org i) (if_ok (\<lambda>w. we_OrgID w = org))"
  unfolding GetWebhookEndpoint_def by (rule confined_row) (simp_all add: is_endpoint_def)

lemma confined_ListWebhookEndpoints:
  "alone E \<Longrightarrow> confined org (ListWebhookEndpoints E org) (if_ok (\<lambda>ws. \<forall>w \<in> set ws. we_OrgID w = org))"
  unfolding ListWebhookEndpoints_def by (rule confined_query) (simp_all add: set_sort_by)

lemma confined_CreateWebhookEndpoint:
  "alone E \<Longrightarrow> we_OrgID w = org \<Longrightarrow> confined org (CreateWebhookEndpoint E w) (if_ok (\<lambda>_. True))"
  unfolding CreateWebhookEndpoint_def by (rule confined_atomic) (auto simp: foreign_same_iff intro!: filter_update_where)

lemma confined_UpdateWebhookEndpoint:
  "alone E \<Longrightarrow> we_OrgID w = org \<Longrightarrow> confined org (UpdateWebhookEndpoint E w) (if_ok (\<lambda>_. True))"
  unfolding UpdateWebhookEndpoint_def Let_def by (rule confined_atomic) (auto simp: foreign_same_iff is_endpoint_def intro!: filter_update_where)

lemma confined_SoftDeleteWebhookEndpoint: "alone E \<Longrightarrow> confined org (SoftDeleteWebhookEndpoint E org i now) (if_ok (\<lambda>_. True))"
  unfolding SoftDeleteWebhookEndpoint_def by (rule confined_atomic) (auto simp: foreign_same_iff is_endpoint_def intro!: filter_update_where)

lemma confined_RetryWebhookDelivery:
  assumes "alone E"
  shows "confined org (RetryWebhookDelivery E org i now) (if_ok (\<lambda>d. wd_OrgID d = org))"
  unfolding RetryWebhookDelivery_def Let_def
  by (rule confined_bind_ok [OF confined_atomic [OF assms, where P = "\<lambda>r. \<forall>d. r = Some d \<longrightarrow> wd_OrgID d = org"]])
    (auto simp: foreign_same_iff is_delivery_def reset_delivery_def find_Some_iff
      intro!: filter_update_where confined_syntax confined_GetWebhookDelivery [OF assms] split: option.split)

lemma confined_GetWorkflowByID: "alone E \<Longrightarrow> confined org (GetWorkflowByID E org i) (if_ok (\<lambda>w. wf_OrgID w = org))"
  unfolding GetWorkflowByID_def by (rule confined_row) (simp_all add: live_workflow_def)

lemma confined_CreateWorkflow: "alone E \<Longrightarrow> wf_OrgID w = org \<Longrightarrow> confined org (CreateWorkflow E w) (if_ok (\<lambda>_. True))"
  unfolding CreateWorkflow_def by (intro confined_syntax confined_atomic) (auto simp: foreign_same_iff intro!: filter_update_where)

lemma confined_UpdateWorkflow: "alone E \<Longrightarrow> wf_OrgID w = org \<Longrightarrow> confined org (UpdateWorkflow E w) (if_ok (\<lambda>_. True))"
  unfolding UpdateWorkflow_def Let_def
  by (intro confined_syntax confined_atomic) (auto simp: foreign_same_iff live_workflow_def intro!: filter_update_where)

lemma confined_SoftDeleteWorkflow: "alone E \<Longrightarrow> confined org (SoftDeleteWorkflow E org i now) (if_ok (\<lambda>_. True))"
  unfolding SoftDeleteWorkflow_def by (rule confined_atomic) (auto simp: foreign_same_iff live_workflow_def intro!: filter_update_where)

lemma confined_PublishWorkflow:
  "alone E \<Longrightarrow> wf_OrgID w = org \<Longrightarrow> confined org (repository_PublishWorkflow E w t) (if_ok (\<lambda>_. True))"
  unfolding repository_PublishWorkflow_def publish_tx_def Let_def
  by (intro confined_bind [OF confined_uuid] confined_atomic)
    (auto simp: foreign_same_iff live_workflow_def find_Some_iff version_of_def intro!: filter_update_where split: option.split)

lemma confined_GetWorkflowVersion: "alone E \<Longrightarrow> confined org (GetWorkflowVersion E org i n) (if_ok (\<lambda>v. v_OrgID v = org))"
  unfolding GetWorkflowVersion_def
  by (rule confined_query) (auto simp: row_def is_version_of_def find_Some_iff split: option.split)

lemma confined_GetLatestWorkflowVersion:
  "alone E \<Longrightarrow> confined org (GetLatestWorkflowVersion E o' i) (if_ok (\<lambda>_. True))"
  unfolding GetLatestWorkflowVersion_def by (rule confined_query) (auto split: list.split)

lemma confined_ListWorkflowVersions: "alone E \<Longrightarrow> confined org (ListWorkflowVersions E org i) (if_ok (\<lambda>_. True))"
  unfolding ListWorkflowVersions_def
  by (intro confined_bind_ok [OF confined_GetWorkflowByID] confined_query) simp_all

lemma confined_find_execution:
  assumes "alone E" and "\<And>x. P x \<Longrightarrow> x_OrgID x = org"
  shows "confined org (query E what (\<lambda>s. case find P (executions s) of None \<Rightarrow> Inl e | Some x \<Rightarrow> Inr x))
    (if_ok (\<lambda>x. x_OrgID x = org))"
  using assms(1) by (rule confined_query) (auto simp: find_Some_iff assms(2) split: option.split)

lemma confined_GetWorkflowExecution:
  "alone E \<Longrightarrow> confined org (GetWorkflowExecution E org w i) (if_ok (\<lambda>x. x_OrgID x = org))"
  unfolding GetWorkflowExecution_def by (rule confined_find_execution) simp_all

lemma confined_by_idempotency:
  "alone E \<Longrightarrow> confined org (getWorkflowExecutionByIdempotency E org k) (if_ok (\<lambda>x. x_OrgID x = org))"
  unfolding getWorkflowExecutionByIdempotency_def by (rule confined_find_execution) simp_all

lemma confined_GetWorkflowExecutionVersion:
  "alone E \<Longrightarrow> confined org (GetWorkflowExecutionVersion E o' w i) (if_ok (\<lambda>_. True))"
  unfolding GetWorkflowExecutionVersion_def by (rule confined_query) (auto split: option.split)

lemma confined_GetWorkflowNodeExecutions:
  "alone E \<Longrightarrow> confined org (GetWorkflowNodeExecutions E org i) (if_ok (\<lambda>ns. \<forall>n \<in> set ns. n_OrgID n = org))"
  unfolding GetWorkflowNodeExecutions_def by (rule confined_query) (simp_all add: set_sort_by nodes_of_def)

lemma insert_nodes_foreign:
  "insert_nodes xs ns rows = Some rows' \<Longrightarrow> \<forall>n \<in> set ns. n_OrgID n = org \<Longrightarrow>
     filter (\<lambda>n. n_OrgID n \<noteq> org) rows' = filter (\<lambda>n. n_OrgID n \<noteq> org) rows"
  by (induction xs ns rows rule: insert_nodes.induct) (auto split: if_splits)

lemma confined_insert_execution:
  assumes "alone E" and "x_OrgID x = org" and "\<forall>n \<in> set ns. n_OrgID n = org"
  shows "confined org (atomic E what (insert_execution x ns)) (if_ok (\<lambda>_. True))"
  using assms(1) by (rule confined_atomic)
    (auto simp: insert_execution_def foreign_same_iff assms(2) insert_nodes_foreign [OF _ assms(3)] intro!: filter_update_where split: option.split)

lemma confined_CreateWorkflowExecution:
  assumes "alone E" and "x_OrgID x = org" and "\<forall>n \<in> set ns. n_OrgID n = org"
  shows "confined org (CreateWorkflowExecution E x ns) (if_ok (\<lambda>r. x_OrgID (fst r) = org))"
  unfolding CreateWorkflowExecution_def assms(2)
  by (intro confined_bind [OF confined_by_idempotency] confined_bind_ok [OF confined_insert_execution]
      confined_bind_ok [OF confined_by_idempotency] confined_syntax assms)
    (auto simp: same_request_def assms(2))

lemma confined_ClaimWorkflowNode:
  "alone E \<Longrightarrow> confined org (ClaimWorkflowNode E org i n now) (if_ok (\<lambda>r. \<forall>n. r = Some n \<longrightarrow> n_OrgID n = org))"
  unfolding ClaimWorkflowNode_def
  by (rule confined_atomic) (auto simp: foreign_same_iff claimable_def claimed_def find_Some_iff intro!: filter_update_where split: option.split)

lemma confined_UpdateWorkflowNodeExecution:
  "alone E \<Longrightarrow> n_OrgID n = org \<Longrightarrow> confined org (UpdateWorkflowNodeExecution E n st) (if_ok (\<lambda>_. True))"
  unfolding UpdateWorkflowNodeExecution_def
  by (rule confined_atomic) (auto simp: foreign_same_iff node_expected_def write_node_def intro!: filter_update_where)

lemma confined_UpdateWorkflowExecution:
  "alone E \<Longrightarrow> x_OrgID x = org \<Longrightarrow> confined org (UpdateWorkflowExecution E x sts) (if_ok (\<lambda>_. True))"
  unfolding UpdateWorkflowExecution_def
  by (rule confined_atomic) (auto simp: foreign_same_iff execution_expected_def write_execution_def intro!: filter_update_where)

lemma confined_FinalizeWorkflowExecution:
  "alone E \<Longrightarrow> x_OrgID x = org \<Longrightarrow> confined org (FinalizeWorkflowExecution E x sts b) (if_ok (\<lambda>_. True))"
  unfolding FinalizeWorkflowExecution_def
  by (rule confined_atomic)
    (auto simp: foreign_same_iff execution_expected_def write_execution_def open_node_def cancel_node_def intro!: filter_update_where)

lemma confined_CancelWorkflowExecution:
  "alone E \<Longrightarrow> confined org (CancelWorkflowExecution E org w i now) (if_ok (\<lambda>x. x_OrgID x = org))"
  unfolding CancelWorkflowExecution_def
  by (rule confined_atomic)
    (auto simp: foreign_same_iff cancel_execution_def open_node_def cancel_node_def find_Some_iff intro!: filter_update_where split: option.split)

subsection \<open>The services\<close>

abbreviation own_task :: "uuid \<Rightarrow> Task option \<Rightarrow> bool" where
  "own_task org r \<equiv> (\<forall>t. r = Some t \<longrightarrow> t_OrgID t = org)"

lemma confined_Enqueue: "alone E \<Longrightarrow> t_OrgID t = org \<Longrightarrow> confined org (Enqueue E t) (if_ok (\<lambda>_. True))"
  unfolding Enqueue_def by (simp add: confined_broker_call)

lemma confined_EnqueueDelayed:
  "alone E \<Longrightarrow> t_OrgID t = org \<Longrightarrow> confined org (EnqueueDelayed E t d) (if_ok (\<lambda>_. True))"
  unfolding EnqueueDelayed_def by (auto intro!: confined_bind [OF confined_time] confined_broker_call)

lemma confined_Remove: "alone E \<Longrightarrow> confined org (Remove E org queue i) (if_ok (\<lambda>_. True))"
  unfolding Remove_def by (rule confined_broker_call)

lemma confined_publish_to:
  "alone E \<Longrightarrow> t_OrgID task = org \<Longrightarrow> confined org (publish_to E m eventType payload now task es) (\<lambda>_. True)"
proof (induction es)
  case Nil
  then show ?case by (simp add: confined_return)
next
  case (Cons e es)
  then show ?case
    unfolding publish_to.simps Let_def delivery_created_metric_def
    by (intro confined_bind [OF confined_uuid] confined_bind [OF confined_CreateWebhookDelivery]
        confined_bind [OF confined_metric] confined_sum confined_bind [OF Cons.IH] confined_return)
      (simp_all add: new_delivery_def)
qed

lemma confined_publishTaskEvent:
  "alone E \<Longrightarrow> t_OrgID task = org \<Longrightarrow> confined org (publishTaskEvent E W eventType task) (\<lambda>_. True)"
  unfolding publishTaskEvent_def PublishTaskEvent_def
  by (intro confined_if confined_return confined_bind [where Q = "\<lambda>_. True"] confined_bind [OF confined_ListActive]
      confined_sum TrueI)
    (auto simp del: publish_to.simps split: list.split
      intro!: confined_return confined_bind [OF confined_time] confined_bind [OF confined_uuid] confined_publish_to)

lemma confined_dispatch_task:
  "alone E \<Longrightarrow> t_OrgID t = org \<Longrightarrow> confined org (dispatch_task E t) (\<lambda>r. own_task org (fst r))"
  unfolding dispatch_task_def
  by (intro confined_bind [OF confined_time]
      confined_bind [OF confined_if [OF confined_bind [OF confined_time confined_EnqueueDelayed] confined_Enqueue]]
      confined_bind [OF confined_MarkDispatched] confined_syntax) (auto intro: confined_MarkDispatched)

lemma confined_task_metric: "confined org (task_metric E t eventType now k) (\<lambda>_. True)"
  unfolding task_metric_def by (rule confined_metric)

lemma build_task_org: "t_OrgID (build_task input i now payload fp) = ci_OrgID input"
  by (simp add: build_task_def Let_def NewTask_def split: option.split)

lemma confined_insert_task:
  assumes "alone E" and "ci_OrgID input = org"
  shows "confined org (insert_task E W input fp payload) (\<lambda>r. own_task org (fst r))"
  unfolding insert_task_def Let_def assms(2)
  by (intro confined_bind [OF confined_time] confined_bind [OF confined_uuid] confined_bind [OF confined_Create]
      confined_sum)
    (auto simp: build_task_org assms reuse_task_def split: err.split if_splits
      intro!: confined_return confined_bind [OF confined_FindByIdempotencyKey] confined_sum confined_bind [OF confined_task_metric]
        confined_bind [OF confined_publishTaskEvent] confined_dispatch_task)

lemma confined_CreateTask:
  assumes "alone E" and "ci_OrgID input = org"
  shows "confined org (CreateTask E W input) (\<lambda>r. own_task org (fst r))"
  unfolding CreateTask_def assms(2)
  by (auto simp: assms reuse_task_def split: if_splits intro!: confined_sum confined_prod confined_return confined_if
      confined_bind [OF confined_FindByIdempotencyKey] confined_insert_task)

text \<open>
  The task is there whenever the caller reads it: when there is no error, and when
  \<open>CreateTask\<close> reports that the task was stored but not dispatched.
\<close>

definition no_nil :: "create_result \<Rightarrow> bool" where
  "no_nil r \<longleftrightarrow> (snd (snd r) = None \<or> snd (snd r) = Some ErrDispatchUnavailable \<longrightarrow> fst r \<noteq> None)"

lemma confined_conj: "confined org m Q \<Longrightarrow> returns m R \<Longrightarrow> confined org m (\<lambda>x. Q x \<and> R x)"
  by (simp add: confined_def returns_def)

lemma returns_FindByIdempotencyKey:
  "returns (FindByIdempotencyKey E orgID queue key) (\<lambda>r. r \<noteq> Inl ErrDispatchUnavailable)"
  unfolding FindByIdempotencyKey_def query_def by (rule returns_atomic) (simp_all add: row_def split: option.split)

lemma returns_Create: "returns (Create E task) (\<lambda>r. r \<noteq> Inl ErrDispatchUnavailable)"
  unfolding Create_def by (rule returns_atomic) simp_all

lemma returns_dispatch_task: "returns (dispatch_task E task) no_nil"
  unfolding dispatch_task_def
  by (intro returns_bind returns_sum returns_return) (simp_all add: no_nil_def)

lemma reuse_task_no_nil: "no_nil (reuse_task existing fp)"
  by (simp add: reuse_task_def no_nil_def)

lemma returns_insert_task: "returns (insert_task E W input fp payload) no_nil"
  unfolding insert_task_def Let_def
  by (intro returns_bind returns_via [OF returns_Create] returns_sum returns_dispatch_task)
    (auto split: err.split intro!: returns_bind returns_sum returns_return reuse_task_no_nil simp: no_nil_def)

lemma returns_CreateTask: "returns (CreateTask E W input) no_nil"
  unfolding CreateTask_def
  by (intro returns_sum returns_prod returns_return returns_via [OF returns_FindByIdempotencyKey] returns_if
      returns_insert_task reuse_task_no_nil) (auto simp: no_nil_def)

lemma returns_RetryTask: "returns (RetryTask E orgID i) (\<lambda>r. snd r = None \<longrightarrow> fst r \<noteq> None)"
  unfolding RetryTask_def retry_dispatch_def
  by (intro returns_bind returns_sum returns_return) simp_all

lemma confined_RetryTask: "alone E \<Longrightarrow> confined org (RetryTask E org i) (\<lambda>r. own_task org (fst r))"
  unfolding RetryTask_def retry_dispatch_def
  by (auto intro!: confined_sum confined_return confined_bind [OF confined_GetByID] confined_bind [OF confined_time]
      confined_bind [OF confined_Requeue] confined_bind [OF confined_Enqueue] confined_bind [OF confined_MarkDispatched])

lemma confined_CancelTask: "alone E \<Longrightarrow> confined org (CancelTask E W org i) (if_ok (\<lambda>t. t_OrgID t = org))"
  unfolding CancelTask_def
  by (auto intro!: confined_return confined_bind [OF confined_time] confined_bind_ok [OF confined_Cancel]
      confined_bind [OF confined_Remove] confined_bind [OF confined_task_metric] confined_bind [OF confined_publishTaskEvent])

lemma confined_SoftDeleteTask: "alone E \<Longrightarrow> confined org (SoftDeleteTask E org i) (if_ok (\<lambda>_. True))"
  unfolding SoftDeleteTask_def
  by (auto intro!: confined_if confined_return confined_bind_ok [OF confined_GetByID] confined_bind [OF confined_time]
      confined_bind_ok [OF confined_SoftDelete] confined_bind [OF confined_Remove])

lemma confined_WorkerHeartbeat:
  "alone E \<Longrightarrow> w_OrgID w = org \<Longrightarrow> confined org (WorkerHeartbeat E w) (if_ok (\<lambda>w. w_OrgID w = org))"
  unfolding WorkerHeartbeat_def
  by (auto simp: beating_worker_def intro!: confined_return confined_bind [OF confined_time]
      confined_bind_ok [OF confined_UpsertWorkerHeartbeat])

lemma confined_list_rows:
  assumes "alone E" and "\<And>r. matches r \<Longrightarrow> Q r"
  shows "confined org (list_rows E what tab key matches n cursor) (if_ok (\<lambda>p. \<forall>r \<in> set (fst p). Q r))"
proof -
  have "set (fst (cut_page E key n (selected key matches bound rows))) \<subseteq> Collect matches" for bound rows
    by (auto simp: cut_page_def selected_def Let_def set_sort_by dest!: in_set_takeD)
  then show ?thesis
    unfolding list_rows_def
    by (intro confined_option confined_return confined_query [OF assms(1)]) (auto intro!: assms(2))
qed

lemma confined_ListTasks: "alone E \<Longrightarrow> confined org (ListTasks E org f) (if_ok (\<lambda>p. \<forall>t \<in> set (fst p). t_OrgID t = org))"
  unfolding ListTasks_def by (rule confined_list_rows) (simp_all add: task_matches_def)

lemma confined_ListWorkflows:
  "alone E \<Longrightarrow> confined org (ListWorkflows E org f) (if_ok (\<lambda>p. \<forall>w \<in> set (fst p). wf_OrgID w = org))"
  unfolding ListWorkflows_def by (rule confined_list_rows) (simp_all add: workflow_matches_def)

lemma confined_ListExecutions:
  "alone E \<Longrightarrow> confined org (ListExecutions E org w f) (if_ok (\<lambda>p. \<forall>x \<in> set (fst p). x_OrgID x = org))"
  unfolding ListExecutions_def ListWorkflowExecutions_def
  by (intro confined_bind_ok [OF confined_GetWorkflowByID] confined_list_rows) (simp_all add: execution_matches_def)

lemma confined_ListDeliveries:
  "alone E \<Longrightarrow> confined org (ListDeliveries E org f) (if_ok (\<lambda>p. \<forall>d \<in> set (fst p). wd_OrgID d = org))"
  unfolding ListDeliveries_def ListWebhookDeliveries_def
  by (intro confined_if confined_return confined_list_rows) (simp_all add: delivery_matches_def)

lemma confined_Encrypt: "confined org (Encrypt L s) (if_ok (\<lambda>_. True))"
  unfolding Encrypt_def by (intro confined_bind [OF confined_tick] confined_return) (simp split: option.split)

lemma confined_generateWebhookSecret: "confined org (generateWebhookSecret L) (if_ok (\<lambda>_. True))"
  unfolding generateWebhookSecret_def by (intro confined_bind [OF confined_tick] confined_return) (simp split: option.split)

lemma confined_chosen_secret:
  "confined org (if b then generateWebhookSecret L else State_Monad.return (Inr s)) (if_ok (\<lambda>_. True))"
  by (intro confined_if confined_generateWebhookSecret confined_return) simp

lemma confined_CreateEndpoint:
  assumes "alone E" and "ce_OrgID input = org"
  shows "confined org (CreateEndpoint E L input) (if_ok (\<lambda>r. we_OrgID (fst r) = org))"
  unfolding CreateEndpoint_def assms(2)
  by (intro confined_sum confined_prod confined_return confined_let confined_bind_ok [OF confined_chosen_secret]
      confined_bind_ok [OF confined_Encrypt] confined_bind [OF confined_time] confined_bind [OF confined_uuid]
      confined_bind_ok [OF confined_CreateWebhookEndpoint [OF assms(1)]]) simp_all

lemma confined_set_secret:
  "we_OrgID w = org \<Longrightarrow> confined org (set_secret E L secret w) (if_ok (\<lambda>w. we_OrgID w = org))"
  unfolding set_secret_def by (auto intro!: confined_bind_ok [OF confined_Encrypt] confined_return)

lemma update_name_url_org: "update_name_url L input w = Inr w' \<Longrightarrow> we_OrgID w' = we_OrgID w"
  by (auto simp: update_name_url_def and_then_def split: option.splits sum.splits)

lemma update_events_org: "update_events input w = Inr w' \<Longrightarrow> we_OrgID w' = we_OrgID w"
  by (auto simp: update_events_def and_then_def split: option.splits sum.splits)

lemma confined_DeleteEndpoint: "alone E \<Longrightarrow> confined org (DeleteEndpoint E org i) (if_ok (\<lambda>_. True))"
  unfolding DeleteEndpoint_def by (intro confined_bind [OF confined_time] confined_SoftDeleteWebhookEndpoint)

lemma confined_RotateSecret: "alone E \<Longrightarrow> confined org (RotateSecret E L org i) (if_ok (\<lambda>_. True))"
  unfolding RotateSecret_def Let_def
  by (auto intro!: confined_bind_ok [OF confined_GetWebhookEndpoint] confined_bind_ok [OF confined_generateWebhookSecret]
      confined_bind_ok [OF confined_set_secret] confined_bind [OF confined_time]
      confined_bind_ok [OF confined_UpdateWebhookEndpoint] confined_return)

lemma confined_RetryDelivery: "alone E \<Longrightarrow> confined org (RetryDelivery E org i) (if_ok (\<lambda>d. wd_OrgID d = org))"
  unfolding RetryDelivery_def
  by (auto intro!: confined_bind_ok [OF confined_GetWebhookDelivery] confined_if confined_return
      confined_bind [OF confined_time] confined_RetryWebhookDelivery)

lemma confined_update_secret:
  "we_OrgID w = org \<Longrightarrow> confined org (update_secret E L input w) (if_ok (\<lambda>w. we_OrgID w = org))"
  unfolding update_secret_def by (intro confined_option confined_if confined_return confined_set_secret) simp_all

lemma confined_UpdateEndpoint: "alone E \<Longrightarrow> confined org (UpdateEndpoint E L org i input) (if_ok (\<lambda>w. we_OrgID w = org))"
  unfolding UpdateEndpoint_def
  by (intro confined_if confined_sum confined_return confined_let confined_bind_ok [OF confined_GetWebhookEndpoint]
      confined_bind_ok [OF confined_update_secret] confined_bind [OF confined_time]
      confined_bind_ok [OF confined_UpdateWebhookEndpoint])
    (auto dest!: update_name_url_org update_events_org)

lemma confined_service_CreateWorkflow:
  assumes "alone E" and "cw_OrgID input = org"
  shows "confined org (service_CreateWorkflow E u input) (if_ok (\<lambda>w. wf_OrgID w = org))"
  unfolding service_CreateWorkflow_def assms(2)
  by (intro confined_sum confined_prod confined_return confined_let confined_bind [OF confined_time]
      confined_bind [OF confined_uuid] confined_bind_ok [OF confined_CreateWorkflow [OF assms(1)]]) simp_all

lemma updated_workflow_org: "updated_workflow input w = Inr w' \<Longrightarrow> wf_OrgID w' = wf_OrgID w"
  by (auto simp: updated_workflow_def and_then_def set_name_def set_slug_def set_description_def set_definition_def
      Let_def split: option.splits sum.splits if_splits)

lemma confined_service_UpdateWorkflow:
  "alone E \<Longrightarrow> confined org (service_UpdateWorkflow E org i input) (if_ok (\<lambda>w. wf_OrgID w = org))"
  unfolding service_UpdateWorkflow_def
  by (intro confined_if confined_sum confined_return confined_let confined_bind_ok [OF confined_GetWorkflowByID]
      confined_bind [OF confined_time] confined_bind_ok [OF confined_UpdateWorkflow])
    (auto dest!: updated_workflow_org)

lemma confined_DeleteWorkflow: "alone E \<Longrightarrow> confined org (DeleteWorkflow E org i) (if_ok (\<lambda>_. True))"
  unfolding DeleteWorkflow_def by (intro confined_bind [OF confined_time] confined_SoftDeleteWorkflow)

lemma confined_ValidateWorkflow: "alone E \<Longrightarrow> confined org (ValidateWorkflow E org i) (if_ok (\<lambda>_. True))"
  unfolding ValidateWorkflow_def by (intro confined_bind_ok [OF confined_GetWorkflowByID] confined_return) simp_all

lemma confined_service_PublishWorkflow: "alone E \<Longrightarrow> confined org (service_PublishWorkflow E org i) (\<lambda>_. True)"
  unfolding service_PublishWorkflow_def Let_def
  by (intro confined_if confined_sum confined_return confined_bind [OF confined_GetWorkflowByID]
      confined_bind [OF confined_time] confined_bind [OF confined_PublishWorkflow]) simp_all

lemma confined_service_GetWorkflowVersion:
  "alone E \<Longrightarrow> confined org (service_GetWorkflowVersion E org i n) (if_ok (\<lambda>v. v_OrgID v = org))"
  unfolding service_GetWorkflowVersion_def by (intro confined_if confined_return confined_GetWorkflowVersion) simp_all

end
