(* ===== verification/Exec_Isolation.thy ===== *)
theory Exec_Isolation
  imports Isolation
begin

text \<open>
  The execution engine of workflows leaves the rows of other organisations alone: every
  function of workflow_execution_service.go that a request reaches, in the calculus of
  \<open>confined\<close>.
\<close>

abbreviation own_exec :: "uuid \<Rightarrow> WorkflowExecution \<times> 'a \<Rightarrow> bool" where
  "own_exec org r \<equiv> x_OrgID (fst r) = org"

lemma confined_recordExecutionMetric: "confined org (recordExecutionMetric E x eventType code) (\<lambda>_. True)"
  unfolding recordExecutionMetric_def by (rule confined_metric)

lemma confined_recordNodeMetric: "confined org (recordNodeMetric E n eventType code) (\<lambda>_. True)"
  unfolding recordNodeMetric_def by (rule confined_metric)

lemma confined_record_cancelled: "confined org (record_cancelled E ns) (\<lambda>_. True)"
proof (induction ns)
  case Nil
  then show ?case by (simp add: confined_return)
next
  case (Cons n ns)
  show ?case unfolding record_cancelled.simps
    by (intro confined_bind [OF confined_if [OF confined_recordNodeMetric confined_return]] Cons.IH) simp
qed

lemma confined_updateNode:
  assumes "alone E" and "n_OrgID n = org"
  shows "confined org (updateNode E n st) (if_ok (\<lambda>_. True))"
proof -
  have "confined org (case n_Status n of
            WorkflowNodeSucceeded \<Rightarrow> recordNodeMetric E n MetricNodeExecutionSucceeded []
          | WorkflowNodeFailed \<Rightarrow> recordNodeMetric E n MetricNodeExecutionFailed (n_ErrorCode n)
          | WorkflowNodeSkipped \<Rightarrow> recordNodeMetric E n MetricNodeExecutionSkipped []
          | WorkflowNodeCancelled \<Rightarrow> recordNodeMetric E n MetricNodeExecutionCancelled []
          | _ \<Rightarrow> State_Monad.return ()) (\<lambda>_. True)"
    by (auto intro: confined_recordNodeMetric confined_return split: WorkflowNodeExecutionStatus.split)
  then show ?thesis unfolding updateNode_def
    by (intro confined_bind_ok [OF confined_UpdateWorkflowNodeExecution [OF assms]] confined_if confined_return
        confined_bind [where Q = "\<lambda>_. True"]) simp_all
qed

lemma confined_log_nodes:
  "confined org (case r of Inl _ \<Rightarrow> State_Monad.return () | Inr ns \<Rightarrow> record_cancelled E ns) (\<lambda>_. True)"
  by (intro confined_sum confined_record_cancelled confined_return TrueI)

lemma confined_failExecution:
  assumes "alone E" and "x_OrgID x = org"
  shows "confined org (failExecution E x code msg) (own_exec org)"
  unfolding failExecution_def Let_def
  by (intro confined_bind [OF confined_service_now] confined_bind [OF confined_FinalizeWorkflowExecution [OF assms(1)]]
      confined_sum confined_return)
    (auto simp: assms(2) split: bool.split
      intro!: confined_return confined_bind [OF confined_recordExecutionMetric] confined_bind [OF confined_log_nodes]
        confined_bind [OF confined_GetWorkflowNodeExecutions [OF assms(1)]])

lemma confined_failClaimedNode:
  assumes "alone E" and "x_OrgID x = org" and "n_OrgID n = org"
  shows "confined org (failClaimedNode E x n code msg) (own_exec org)"
  unfolding failClaimedNode_def Let_def
  by (intro confined_bind [OF confined_service_now] confined_bind [OF confined_updateNode [OF assms(1)]]
      confined_sum confined_return confined_failExecution) (simp_all add: assms)

lemma confined_touchRunningExecution:
  assumes "alone E" and "x_OrgID x = org"
  shows "confined org (touchRunningExecution E x) (own_exec org)"
  unfolding touchRunningExecution_def Let_def
  by (intro confined_bind [OF confined_service_now] confined_bind [OF confined_UpdateWorkflowExecution [OF assms(1)]]
      confined_sum confined_return) (simp_all add: assms)

lemma confined_finalize:
  assumes "alone E" and "x_OrgID x = org"
  shows "confined org (finalizeExecutionIfComplete E x d ns) (own_exec org)"
  unfolding finalizeExecutionIfComplete_def Let_def
  by (intro confined_if confined_touchRunningExecution confined_option confined_bind [OF confined_service_now]
      confined_bind [OF confined_FinalizeWorkflowExecution [OF assms(1)]] confined_sum confined_return)
    (auto simp: assms split: bool.split intro!: confined_return confined_bind [OF confined_recordExecutionMetric])

lemma confined_settle_node:
  assumes "alone E" and "x_OrgID x = org" and "n_OrgID n = org"
  shows "confined org (settle_node E x now n) (own_exec org)"
  unfolding settle_node_def
  by (intro confined_bind [OF confined_updateNode [OF assms(1)]] confined_sum confined_return) (simp_all add: assms)

lemma confined_DispatchWorkflowTask:
  "alone E \<Longrightarrow> confined org (DispatchWorkflowTask E W org i nodeID config input) (\<lambda>_. True)"
  unfolding DispatchWorkflowTask_def
  by (auto simp: Let_def workflow_task_input_def
      intro!: confined_sum confined_prod confined_return confined_bind [OF confined_CreateTask])

lemma confined_create_workflow_delivery:
  assumes "alone E" and "x_OrgID x = org"
  shows "confined org (create_workflow_delivery E W x n i payload) (\<lambda>_. True)"
  unfolding create_workflow_delivery_def Let_def assms(2) delivery_created_metric_def
  by (auto simp: new_delivery_def split: raw.split
      intro!: confined_bind [OF confined_time] confined_bind [OF confined_uuid] confined_return confined_sum
        confined_bind [OF confined_CreateWebhookDelivery [OF assms(1)]]
        confined_bind [OF confined_GetWebhookDelivery [OF assms(1)]] confined_bind [OF confined_metric])

lemma confined_DispatchWorkflowWebhook:
  assumes "alone E" and "x_OrgID x = org"
  shows "confined org (DispatchWorkflowWebhook E W x n input) (\<lambda>_. True)"
  unfolding DispatchWorkflowWebhook_def assms(2)
  by (intro confined_sum confined_option confined_if confined_return
      confined_bind_ok [OF confined_GetWebhookEndpoint [OF assms(1)]]
      confined_bind [OF confined_GetWebhookDelivery [OF assms(1)]]
      confined_create_workflow_delivery [OF assms]) simp_all

lemma confined_executeClaimedNode:
  assumes "alone E" and "x_OrgID x = org" and "n_OrgID n = org"
  shows "confined org (executeClaimedNode E W x dn n) (own_exec org)"
  unfolding executeClaimedNode_def Let_def
  by (intro confined_bind [OF confined_service_now])
    (auto simp: assms split: WorkflowNodeType.split
      intro!: confined_settle_node confined_failClaimedNode confined_sum confined_prod confined_option
        confined_bind [OF confined_DispatchWorkflowTask] confined_bind [OF confined_DispatchWorkflowWebhook])

lemma confined_skip_node:
  assumes "alone E" and "x_OrgID x = org" and "n_OrgID n = org"
  shows "confined org (skip_node E x n) (own_exec org)"
  unfolding skip_node_def
  by (intro confined_bind [OF confined_service_now] confined_bind [OF confined_updateNode [OF assms(1)]]
      confined_sum confined_return) (simp_all add: assms)

lemma confined_run_claimed:
  assumes "alone E" and "x_OrgID x = org" and "n_OrgID n = org"
  shows "confined org (run_claimed E W x dn b n) (own_exec org)"
  unfolding run_claimed_def
  by (intro confined_bind [OF confined_recordNodeMetric]
      confined_bind [OF confined_if [OF confined_skip_node [OF assms] confined_executeClaimedNode [OF assms]]]
      confined_prod confined_return) auto

lemma confined_schedule_nodes:
  "alone E \<Longrightarrow> x_OrgID x = org \<Longrightarrow> confined org (schedule_nodes E W x d ns dns) (own_exec org)"
proof (induction dns)
  case Nil
  then show ?case by (simp add: confined_return)
next
  case (Cons dn dns)
  show ?case unfolding schedule_nodes.simps Let_def Cons.prems(2)
    by (intro confined_option confined_if confined_sum confined_prod confined_return
        confined_bind [OF confined_service_now] confined_bind [OF confined_ClaimWorkflowNode [OF Cons.prems(1)]]
        confined_run_claimed Cons.IH Cons.prems) (auto simp: Cons.prems)
qed

lemma task_outcome_org [simp]: "n_OrgID (task_outcome E now t n) = n_OrgID n"
  by (simp add: task_outcome_def Let_def split: TaskStatus.split)

lemma delivery_outcome_org [simp]: "n_OrgID (delivery_outcome E now d n) = n_OrgID n"
  by (simp add: delivery_outcome_def Let_def split: WebhookDeliveryStatus.split)

lemma delay_outcome_org [simp]: "n_OrgID (delay_outcome now t n) = n_OrgID n"
  by (simp add: delay_outcome_def)

lemma confined_follow_node:
  assumes "alone E" and "x_OrgID x = org" and "n_OrgID n = org"
  shows "confined org (follow_node E x now n) (\<lambda>f. \<forall>m. f = Changed m \<longrightarrow> n_OrgID m = org)"
  unfolding follow_node_def GetWorkflowTask_def GetTask_def GetWorkflowWebhook_def assms(2)
  by (intro confined_option confined_return confined_bind [OF confined_GetByID [OF assms(1)]]
      confined_bind [OF confined_GetWebhookDelivery [OF assms(1)]])
    (auto simp: assms(3) split: sum.splits if_splits WorkflowNodeType.splits option.splits)

lemma confined_followed:
  "(f = Leave \<Longrightarrow> confined org a R) \<Longrightarrow> (\<And>e. f = Abort e \<Longrightarrow> confined org (b e) R) \<Longrightarrow>
     (\<And>n. f = Changed n \<Longrightarrow> confined org (c n) R) \<Longrightarrow> (f = Recover \<Longrightarrow> confined org r R) \<Longrightarrow>
     confined org (case f of Leave \<Rightarrow> a | Abort e \<Rightarrow> b e | Changed n \<Rightarrow> c n | Recover \<Rightarrow> r) R"
  by (cases f) simp_all

lemma confined_reconcile_nodes:
  "alone E \<Longrightarrow> x_OrgID x = org \<Longrightarrow> \<forall>n \<in> set ns. n_OrgID n = org \<Longrightarrow>
     confined org (reconcile_nodes E W x d ns b) (own_exec org)"
proof (induction ns arbitrary: x b)
  case Nil
  then show ?case by (simp add: confined_return)
next
  case (Cons n ns)
  have n: "n_OrgID n = org" "\<forall>n \<in> set ns. n_OrgID n = org" using Cons.prems(3) by simp_all
  note IH = Cons.IH [OF Cons.prems(1) _ n(2)]
  have recover: "confined org (case last_of dn_ID (elems (d_Nodes d)) (n_NodeID n) of
      None \<Rightarrow> State_Monad.return (x, b, Some ErrInvalidInput)
    | Some dn \<Rightarrow> executeClaimedNode E W x dn n \<bind> (\<lambda>r. case r of
        (x, Some e) \<Rightarrow> State_Monad.return (x, True, Some e)
      | (x, None) \<Rightarrow> reconcile_nodes E W x d ns True)) (own_exec org)"
    by (intro confined_option confined_prod confined_return IH
        confined_bind [OF confined_executeClaimedNode [OF Cons.prems(1,2) n(1)]]) (simp_all add: Cons.prems(2))
  have written: "confined org (if needs_write n m then updateNode E (m\<lparr>n_UpdatedAt := now\<rparr>) (n_Status n) \<bind> (\<lambda>r. case r of
        Inl e \<Rightarrow> State_Monad.return (x, b, Some e)
      | Inr u \<Rightarrow> reconcile_nodes E W x d ns (b \<or> u))
    else reconcile_nodes E W x d ns b) (own_exec org)" if "n_OrgID m = org" for m now
    by (intro confined_if confined_sum confined_return IH Cons.prems(2)
        confined_bind [OF confined_updateNode [OF Cons.prems(1)]]) (simp_all add: Cons.prems(2) that)
  show ?case unfolding reconcile_nodes.simps
    by (intro confined_if IH Cons.prems(2) confined_bind [OF confined_service_now]
        confined_bind [OF confined_follow_node [OF Cons.prems(1,2) n(1)]] confined_followed confined_return
        recover written) (simp_all add: Cons.prems(2))
qed

lemma confined_advance_tail:
  assumes "alone E" and "x_OrgID x = org"
  shows "confined org (advance_tail E W org i d x) (\<lambda>r. \<forall>x. r = Inl x \<longrightarrow> x_OrgID x = org)"
  unfolding advance_tail_def scheduleRunnableNodes_def
  by (intro confined_bind [OF confined_GetWorkflowNodeExecutions [OF assms(1)]] confined_sum confined_option
      confined_return confined_bind [OF confined_failExecution [OF assms]]
      confined_bind [OF confined_schedule_nodes [OF assms]])
    (auto split: prod.split option.split bool.split
      intro!: confined_return confined_bind [OF confined_finalize [OF assms(1)]])

lemma confined_advance_round:
  assumes "alone E" and "x_OrgID x = org"
  shows "confined org (advance_round E W org i d x) (\<lambda>r. \<forall>x. r = Inl x \<longrightarrow> x_OrgID x = org)"
  unfolding advance_round_def reconcileExternalNodes_def
  by (intro confined_bind [OF confined_GetWorkflowNodeExecutions [OF assms(1)]] confined_sum
      confined_return confined_bind [OF confined_reconcile_nodes [OF assms]])
    (auto split: prod.split option.split bool.split intro!: confined_return confined_advance_tail [OF assms(1)])

lemma confined_advance_loop:
  "alone E \<Longrightarrow> x_OrgID x = org \<Longrightarrow> confined org (advance_loop E W org i d k x) (\<lambda>_. True)"
  by (induction k arbitrary: x)
    (auto intro!: confined_return confined_sum confined_bind [OF confined_advance_round])

lemma confined_start_running:
  assumes "alone E" and "x_OrgID x = org"
  shows "confined org (start_running E x) (if_ok (\<lambda>x. x_OrgID x = org))"
  unfolding start_running_def Let_def
  by (intro confined_if confined_return confined_bind [OF confined_service_now]
      confined_bind_ok [OF confined_UpdateWorkflowExecution [OF assms(1)]]
      confined_bind [OF confined_if [OF confined_recordExecutionMetric confined_return]])
    (simp_all add: assms(2))

lemma confined_advance_version:
  assumes "alone E" and "x_OrgID x = org"
  shows "confined org (advance_version E W org i x v) (\<lambda>_. True)"
  unfolding advance_version_def
  by (intro confined_if confined_sum confined_return confined_bind [OF confined_start_running [OF assms]]
      confined_advance_loop assms(1)) simp_all

lemma confined_AdvanceExecution: "alone E \<Longrightarrow> confined org (AdvanceExecution E W org w i) (\<lambda>_. True)"
  unfolding AdvanceExecution_def advance_found_def
  by (intro confined_if confined_sum confined_return confined_bind [OF confined_GetWorkflowExecution]
      confined_bind [OF confined_GetWorkflowExecutionVersion] confined_advance_version) simp_all

lemma confined_new_nodes_for:
  "confined org (new_nodes_for E org i now dns) (\<lambda>ns. \<forall>n \<in> set ns. n_OrgID n = org)"
  by (induction dns) (auto intro!: confined_return confined_bind [OF confined_uuid] elim!: confined_bind)

lemma confined_selectVersion: "alone E \<Longrightarrow> confined org (selectVersion E org w v) (if_ok (\<lambda>_. True))"
  unfolding selectVersion_def Let_def
  by (intro confined_option confined_if confined_return confined_bind_ok [OF confined_GetWorkflowVersion]
      confined_bind_ok [OF confined_GetLatestWorkflowVersion]) (simp_all add: if_ok_def)

lemma confined_start_report:
  "alone E \<Longrightarrow> x_OrgID x = org \<Longrightarrow> confined org (start_report E x b) (\<lambda>_. True)"
  unfolding start_report_def by (auto intro!: confined_return confined_bind [OF confined_GetWorkflowExecution])

lemma confined_create_and_advance:
  assumes "alone E" and "si_OrgID input = org"
  shows "confined org (create_and_advance E W input k v ninput) (\<lambda>_. True)"
  unfolding create_and_advance_def Let_def assms(2)
  by (intro confined_bind [OF confined_service_now] confined_bind [OF confined_uuid]
      confined_bind [OF confined_new_nodes_for] confined_bind [OF confined_CreateWorkflowExecution [OF assms(1)]]
      confined_sum confined_prod confined_if confined_return
      confined_bind [OF confined_if [OF confined_return confined_recordExecutionMetric]])
    (auto intro!: confined_bind [OF confined_AdvanceExecution [OF assms(1)]] confined_option confined_return
      confined_start_report assms(1))

lemma confined_StartExecution:
  assumes "alone E" and "si_OrgID input = org"
  shows "confined org (StartExecution E W input) (\<lambda>_. True)"
  unfolding StartExecution_def Let_def assms(2)
  by (intro confined_if confined_return confined_sum confined_bind [OF confined_GetWorkflowByID [OF assms(1)]]
      confined_bind [OF confined_selectVersion [OF assms(1)]] confined_create_and_advance assms) simp_all

lemma confined_GetExecution:
  "alone E \<Longrightarrow> confined org (GetExecution E org w i)
     (if_ok (\<lambda>d. x_OrgID (fst d) = org \<and> (\<forall>n \<in> set (snd d). n_OrgID n = org)))"
  unfolding GetExecution_def
  by (intro confined_return confined_bind_ok [OF confined_GetWorkflowExecution]
      confined_bind_ok [OF confined_GetWorkflowNodeExecutions]) (simp_all add: set_sort_by)

lemma confined_CancelExecution: "alone E \<Longrightarrow> confined org (CancelExecution E org w i) (if_ok (\<lambda>x. x_OrgID x = org))"
  unfolding CancelExecution_def
  by (intro confined_return confined_bind [OF confined_service_now] confined_bind_ok [OF confined_CancelWorkflowExecution]
      confined_bind [OF confined_recordExecutionMetric] confined_bind [OF confined_GetWorkflowNodeExecutions]
      confined_bind [OF confined_log_nodes]) simp_all

end
