(* ===== verification/Api_Isolation.thy ===== *)
theory Api_Isolation
  imports Exec_Isolation
begin

text \<open>
  What the handlers of the API answer and touch: every handler behind the authentication
  stays inside the organisation of its principal, answers rows of that organisation only,
  and answers with a status of its own, never one of the middlewares. The properties of
  the whole router follow.
\<close>

subsection \<open>Answers\<close>

text \<open>The rows of an answer belong to the organisation.\<close>

fun owned :: "uuid \<Rightarrow> content \<Rightarrow> bool" where
  "owned org (TaskValue t) = (t_OrgID t = org)"
| "owned org (TaskPage ts _) = (\<forall>t \<in> set ts. t_OrgID t = org)"
| "owned org (WorkerItems ws) = (\<forall>w \<in> set ws. w_OrgID w = org)"
| "owned org (WorkerValue w) = (w_OrgID w = org)"
| "owned org (TaskEvents cs) = (\<forall>t. ChunkTask t \<in> set cs \<longrightarrow> t_OrgID t = org)"
| "owned org (WorkflowValue w) = (wf_OrgID w = org)"
| "owned org (WorkflowPage ws _) = (\<forall>w \<in> set ws. wf_OrgID w = org)"
| "owned org (VersionValue v) = (v_OrgID v = org)"
| "owned org (ExecutionPage xs _) = (\<forall>x \<in> set xs. x_OrgID x = org)"
| "owned org (ExecutionDetail d) = (x_OrgID (fst d) = org \<and> (\<forall>n \<in> set (snd d). n_OrgID n = org))"
| "owned org (ExecutionValue x) = (x_OrgID x = org)"
| "owned org (EndpointCreated e _) = (wo_OrgID e = org)"
| "owned org (EndpointItems es) = (\<forall>e \<in> set es. wo_OrgID e = org)"
| "owned org (EndpointValue e) = (wo_OrgID e = org)"
| "owned org _ = True"

definition handler_statuses :: "int list" where
  "handler_statuses = [200, 201, 202, 204, 400, 404, 405, 409, 413, 500, 503]"

definition fair_answer :: "uuid \<Rightarrow> answer \<Rightarrow> bool" where
  "fair_answer org a \<longleftrightarrow>
     (\<exists>response. a = Some response \<and>
        owned org (hs_Content response) \<and> hs_Status response \<in> set handler_statuses)"

lemma fair_writeJSON [simp]: "fair_answer org (writeJSON st c) \<longleftrightarrow> owned org c \<and> st \<in> set handler_statuses"
  by (simp add: fair_answer_def writeJSON_def)

lemma fair_error [simp]: "fair_answer org (writeAPIError st code msg ds) \<longleftrightarrow> st \<in> set handler_statuses"
  by (simp add: writeAPIError_def)

lemma fair_header [simp]: "fair_answer org (WriteHeader st) \<longleftrightarrow> st \<in> set handler_statuses"
  by (simp add: WriteHeader_def)

lemma fair_internal [simp]: "fair_answer org internalError"
  by (simp add: internalError_def handler_statuses_def)

lemma fair_errors [simp]:
  "fair_answer org (writeDomainError e)" "fair_answer org (writeWorkflowError e)"
  "fair_answer org (writeWorkflowExecutionError e)" "fair_answer org (writeWebhookError e)"
  "fair_answer org (writeWebhookDeliveryError e)" "fair_answer org (decode_answer de)"
  by (simp_all add: writeDomainError_def writeWorkflowError_def writeWorkflowExecutionError_def
      writeWebhookError_def writeWebhookDeliveryError_def decode_answer_def handler_statuses_def
      split: err.split decode_error.split)

subsection \<open>Rules\<close>

lemma confined_parsed:
  assumes "\<And>a. p = Inl a \<Longrightarrow> R a" and "\<And>x. p = Inr x \<Longrightarrow> confined org (f x) R"
  shows "confined org (parsed p f) R"
  unfolding parsed_def using assms by (intro confined_sum confined_return)

lemma confined_respond:
  assumes "confined org m (if_ok Q)" and "\<And>e. R (bad e)" and "\<And>v. Q v \<Longrightarrow> R (good v)"
  shows "confined org (respond m bad good) R"
  unfolding respond_def
  by (rule confined_bind [OF assms(1)]) (auto intro!: confined_return assms(2,3) split: sum.split)

lemma confined_principal:
  assumes "hr_Principal r = Some p" and "confined org (f p) R"
  shows "confined org (MustPrincipal r f) R"
  using assms by (simp add: MustPrincipal_def)

text \<open>A refused parameter is answered with an error of the client.\<close>

lemma refused_id: "parse_id E code msg raw = Inl a \<Longrightarrow> fair_answer org a"
  by (auto simp: parse_id_def handler_statuses_def split: option.splits)

lemma refused [dest]:
  "parseLimit raw = Inl a \<Longrightarrow> fair_answer org a" "parseTaskID E raw = Inl a \<Longrightarrow> fair_answer org a"
  "parseWorkflowID E raw = Inl a \<Longrightarrow> fair_answer org a"
  "parseWorkflowExecutionIDs E r = Inl a \<Longrightarrow> fair_answer org a"
  "parseWebhookEndpointID E raw = Inl a \<Longrightarrow> fair_answer org a"
  "parseWebhookDeliveryID E raw = Inl a \<Longrightarrow> fair_answer org a"
  "header_key r = Inl a \<Longrightarrow> fair_answer org a" "create_task_request E r = Inl a \<Longrightarrow> fair_answer org a"
  "description_of v = Inl a \<Longrightarrow> fair_answer org a" "parse_version raw = Inl a \<Longrightarrow> fair_answer org a"
  "parse_endpoint_filter E raw = Inl a \<Longrightarrow> fair_answer org a"
  by (auto simp: parseLimit_def parseTaskID_def parseWorkflowID_def parseWorkflowExecutionIDs_def
      parseWebhookEndpointID_def parseWebhookDeliveryID_def header_key_def create_task_request_def Let_def
      description_of_def parse_version_def parse_endpoint_filter_def handler_statuses_def
      dest!: refused_id split: option.splits sum.splits if_splits raw.splits json.splits)

lemma refused_body [dest]:
  "decodeWorkflowRequest fs z r = Inl a \<Longrightarrow> fair_answer org a" "decode_endpoint fs' z' r = Inl a \<Longrightarrow> fair_answer org a"
  by (auto simp: decodeWorkflowRequest_def decode_endpoint_def handler_statuses_def split: sum.splits)

lemmas confined_handler = confined_parsed confined_respond confined_principal

subsection \<open>Handlers\<close>

abbreviation keeps_to_itself :: "(http_request \<Rightarrow> answer io) \<Rightarrow> bool" where
  "keeps_to_itself h \<equiv>
     (\<forall>r p. hr_Principal r = Some p \<longrightarrow> confined (pr_OrgID p) (h r) (fair_answer (pr_OrgID p)))"

lemma create_answer_fair: "no_nil r \<Longrightarrow> fair_answer org (create_task_answer r)"
  by (auto simp: no_nil_def create_task_answer_def handler_statuses_def split: prod.split option.split)

lemma mutation_answer_fair: "(snd r = None \<longrightarrow> fst r \<noteq> None) \<Longrightarrow> fair_answer org (mutation_answer r)"
  by (auto simp: mutation_answer_def handler_statuses_def split: prod.split option.split)

lemma keeps_CreateTask: "alone E \<Longrightarrow> keeps_to_itself (handle_CreateTask E W)"
  unfolding handle_CreateTask_def
  by (auto simp: task_input_def
      intro!: confined_handler confined_bind [OF confined_conj [OF confined_CreateTask returns_CreateTask]] confined_return create_answer_fair)

lemma keeps_GetTask: "alone E \<Longrightarrow> keeps_to_itself (handle_GetTask E)"
  unfolding handle_GetTask_def GetTask_def
  by (auto simp: handler_statuses_def intro!: confined_handler confined_GetByID)

lemma keeps_ListTasks: "alone E \<Longrightarrow> keeps_to_itself (handle_ListTasks E)"
  unfolding handle_ListTasks_def service_ListTasks_def Let_def
  by (auto simp: handler_statuses_def intro!: confined_handler confined_if confined_return confined_ListTasks)

lemma keeps_taskMutation:
  assumes "\<And>org i. confined org (fn org i) (\<lambda>r. snd r = None \<longrightarrow> fst r \<noteq> None)"
  shows "keeps_to_itself (\<lambda>r. taskMutation E r fn)"
  unfolding taskMutation_def
  by (auto intro!: confined_parsed confined_principal confined_bind [OF assms] confined_return mutation_answer_fair)

lemma confined_retry: "alone E \<Longrightarrow> confined org (RetryTask E org i) (\<lambda>r. snd r = None \<longrightarrow> fst r \<noteq> None)"
  by (rule confined_post [OF confined_conj [OF confined_RetryTask returns_RetryTask]]) simp_all

lemma keeps_RetryTask: "alone E \<Longrightarrow> keeps_to_itself (handle_RetryTask E)"
  unfolding handle_RetryTask_def by (rule keeps_taskMutation) (rule confined_retry)

lemma keeps_RequeueDLQ: "alone E \<Longrightarrow> keeps_to_itself (handle_RequeueDLQ E)"
  unfolding handle_RequeueDLQ_def
  by (rule keeps_taskMutation) (simp only: RequeueDLQ_def confined_retry)

lemma keeps_CancelTask: "alone E \<Longrightarrow> keeps_to_itself (handle_CancelTask E W)"
  unfolding handle_CancelTask_def
  by (rule keeps_taskMutation) (auto split: sum.split intro!: confined_bind [OF confined_CancelTask] confined_return)

lemma keeps_DeleteTask: "alone E \<Longrightarrow> keeps_to_itself (handle_DeleteTask E)"
  unfolding handle_DeleteTask_def
  by (auto simp: handler_statuses_def intro!: confined_handler confined_SoftDeleteTask)

lemma keeps_QueueStats: "alone E \<Longrightarrow> keeps_to_itself (handle_QueueStats E)"
  unfolding handle_QueueStats_def service_QueueStats_def Let_def
  by (auto simp: handler_statuses_def intro!: confined_handler confined_if confined_return confined_QueueStats)

lemma keeps_ListDLQ: "alone E \<Longrightarrow> keeps_to_itself (handle_ListDLQ E)"
  unfolding handle_ListDLQ_def ListDLQ_def ListDeadLetter_def
  by (auto simp: handler_statuses_def intro!: confined_handler confined_ListTasks)

lemma keeps_ListWorkers: "alone E \<Longrightarrow> keeps_to_itself (handle_ListWorkers E)"
  unfolding handle_ListWorkers_def service_ListWorkers_def
  by (auto simp: handler_statuses_def intro!: confined_handler confined_ListWorkers)

lemma keeps_WorkerHeartbeat: "alone E \<Longrightarrow> keeps_to_itself (handle_WorkerHeartbeat E)"
  unfolding handle_WorkerHeartbeat_def
  by (auto simp: handler_statuses_def
      intro!: confined_sum confined_prod confined_handler confined_if confined_return confined_WorkerHeartbeat)

lemma send_tasks_own: "\<forall>t \<in> set ts. t_OrgID t = org \<Longrightarrow> ChunkTask t \<in> set (fst (send_tasks seen ts)) \<Longrightarrow> t_OrgID t = org"
  by (induction ts arbitrary: seen) (auto simp: split_beta split: if_splits)

lemma confined_poll:
  "alone E \<Longrightarrow> confined org (poll E org seen) (\<lambda>r. \<forall>t. ChunkTask t \<in> set (fst r) \<longrightarrow> t_OrgID t = org)"
  unfolding poll_def service_ListTasks_def
  by (intro confined_bind [OF confined_ListTasks] confined_return)
    (auto simp: split_beta split: sum.splits dest: send_tasks_own)

lemma confined_polls:
  "alone E \<Longrightarrow> confined org (polls E org n seen) (\<lambda>cs. \<forall>t. ChunkTask t \<in> set cs \<longrightarrow> t_OrgID t = org)"
proof (induction n arbitrary: seen)
  case 0
  then show ?case by (auto intro!: confined_bind [OF confined_poll] confined_return)
next
  case (Suc n)
  show ?case unfolding polls.simps
    by (intro confined_bind [OF confined_poll [OF Suc.prems]] confined_bind [OF Suc.IH [OF Suc.prems]] confined_return) auto
qed

lemma keeps_StreamTaskEvents: "alone E \<Longrightarrow> keeps_to_itself (handle_StreamTaskEvents E n)"
  unfolding handle_StreamTaskEvents_def
  by (auto simp: handler_statuses_def intro!: confined_principal confined_bind [OF confined_polls] confined_return)

lemmas keeps_tasks = keeps_CreateTask keeps_GetTask keeps_ListTasks keeps_RetryTask keeps_RequeueDLQ keeps_CancelTask
  keeps_DeleteTask keeps_QueueStats keeps_ListDLQ keeps_ListWorkers keeps_WorkerHeartbeat keeps_StreamTaskEvents

lemma keeps_CreateWebhookEndpoint: "alone E \<Longrightarrow> keeps_to_itself (handle_CreateWebhookEndpoint E L)"
  unfolding handle_CreateWebhookEndpoint_def
  by (auto simp: handler_statuses_def toWebhookEndpointResponse_def intro!: confined_handler confined_CreateEndpoint)

lemma keeps_ListWebhookEndpoints: "alone E \<Longrightarrow> keeps_to_itself (handle_ListWebhookEndpoints E)"
  unfolding handle_ListWebhookEndpoints_def ListEndpoints_def
  by (auto simp: handler_statuses_def toWebhookEndpointResponse_def intro!: confined_handler confined_ListWebhookEndpoints)

lemma keeps_GetWebhookEndpoint: "alone E \<Longrightarrow> keeps_to_itself (handle_GetWebhookEndpoint E)"
  unfolding handle_GetWebhookEndpoint_def endpoint_call_of_def GetEndpoint_def
  by (auto simp: handler_statuses_def toWebhookEndpointResponse_def intro!: confined_handler confined_GetWebhookEndpoint)

lemma keeps_UpdateWebhookEndpoint: "alone E \<Longrightarrow> keeps_to_itself (handle_UpdateWebhookEndpoint E L)"
  unfolding handle_UpdateWebhookEndpoint_def
  by (auto simp: handler_statuses_def toWebhookEndpointResponse_def intro!: confined_handler confined_UpdateEndpoint)

lemma keeps_DeleteWebhookEndpoint: "alone E \<Longrightarrow> keeps_to_itself (handle_DeleteWebhookEndpoint E)"
  unfolding handle_DeleteWebhookEndpoint_def endpoint_call_of_def
  by (auto simp: handler_statuses_def intro!: confined_handler confined_DeleteEndpoint)

lemma keeps_RotateWebhookEndpointSecret: "alone E \<Longrightarrow> keeps_to_itself (handle_RotateWebhookEndpointSecret E L)"
  unfolding handle_RotateWebhookEndpointSecret_def endpoint_call_of_def
  by (auto simp: handler_statuses_def intro!: confined_handler confined_RotateSecret)

lemma keeps_ListWebhookDeliveries: "alone E \<Longrightarrow> keeps_to_itself (handle_ListWebhookDeliveries E)"
  unfolding handle_ListWebhookDeliveries_def
  by (auto simp: handler_statuses_def intro!: confined_handler confined_ListDeliveries)

lemma keeps_GetWebhookDelivery: "alone E \<Longrightarrow> keeps_to_itself (handle_GetWebhookDelivery E)"
  unfolding handle_GetWebhookDelivery_def GetDelivery_def
  by (auto simp: handler_statuses_def intro!: confined_handler confined_GetWebhookDelivery)

lemma keeps_RetryWebhookDelivery: "alone E \<Longrightarrow> keeps_to_itself (handle_RetryWebhookDelivery E)"
  unfolding handle_RetryWebhookDelivery_def
  by (auto simp: handler_statuses_def intro!: confined_handler confined_RetryDelivery)

lemmas keeps_webhooks = keeps_CreateWebhookEndpoint keeps_ListWebhookEndpoints keeps_GetWebhookEndpoint
  keeps_UpdateWebhookEndpoint keeps_DeleteWebhookEndpoint keeps_RotateWebhookEndpointSecret
  keeps_ListWebhookDeliveries keeps_GetWebhookDelivery keeps_RetryWebhookDelivery

lemma keeps_CreateWorkflow: "alone E \<Longrightarrow> keeps_to_itself (handle_CreateWorkflow E u)"
  unfolding handle_CreateWorkflow_def
  by (auto simp: handler_statuses_def intro!: confined_handler confined_service_CreateWorkflow)

lemma cursor_error_fair: "(\<And>e. fair_answer org (f e)) \<Longrightarrow> fair_answer org (cursor_error f e)"
  by (simp add: cursor_error_def handler_statuses_def)

lemma keeps_ListWorkflows: "alone E \<Longrightarrow> keeps_to_itself (handle_ListWorkflows E)"
  unfolding handle_ListWorkflows_def service_ListWorkflows_def Let_def
  by (auto simp: handler_statuses_def
      intro!: confined_handler confined_if confined_return confined_ListWorkflows cursor_error_fair)

lemma keeps_workflow_call:
  assumes "\<And>org i. confined org (f org i) (fair_answer org)"
  shows "keeps_to_itself (\<lambda>r. workflow_call_of E r f)"
  unfolding workflow_call_of_def by (auto intro!: confined_parsed confined_principal assms)

lemma keeps_GetWorkflow: "alone E \<Longrightarrow> keeps_to_itself (handle_GetWorkflow E)"
  unfolding handle_GetWorkflow_def GetWorkflow_def
  by (rule keeps_workflow_call) (auto simp: handler_statuses_def intro!: confined_respond confined_GetWorkflowByID)

lemma keeps_UpdateWorkflow: "alone E \<Longrightarrow> keeps_to_itself (handle_UpdateWorkflow E)"
  unfolding handle_UpdateWorkflow_def
  by (auto simp: handler_statuses_def intro!: confined_handler confined_service_UpdateWorkflow)

lemma keeps_DeleteWorkflow: "alone E \<Longrightarrow> keeps_to_itself (handle_DeleteWorkflow E)"
  unfolding handle_DeleteWorkflow_def
  by (rule keeps_workflow_call) (auto simp: handler_statuses_def intro!: confined_respond confined_DeleteWorkflow)

lemma keeps_ValidateWorkflow: "alone E \<Longrightarrow> keeps_to_itself (handle_ValidateWorkflow E)"
  unfolding handle_ValidateWorkflow_def
  by (rule keeps_workflow_call) (auto simp: handler_statuses_def intro!: confined_respond confined_ValidateWorkflow)

lemma keeps_PublishWorkflow: "alone E \<Longrightarrow> keeps_to_itself (handle_PublishWorkflow E)"
  unfolding handle_PublishWorkflow_def
  by (rule keeps_workflow_call)
    (auto simp: handler_statuses_def publish_answer_def split: sum.split publish_error.split
      intro!: confined_bind [OF confined_service_PublishWorkflow] confined_return)

lemma keeps_ListWorkflowVersions: "alone E \<Longrightarrow> keeps_to_itself (handle_ListWorkflowVersions E)"
  unfolding handle_ListWorkflowVersions_def service_ListWorkflowVersions_def
  by (rule keeps_workflow_call) (auto simp: handler_statuses_def intro!: confined_respond confined_ListWorkflowVersions)

lemma keeps_GetWorkflowVersion: "alone E \<Longrightarrow> keeps_to_itself (handle_GetWorkflowVersion E)"
  unfolding handle_GetWorkflowVersion_def
  by (auto simp: handler_statuses_def intro!: confined_handler confined_service_GetWorkflowVersion)

lemma start_answer_fair: "fair_answer org (start_answer r)"
  by (auto simp: start_answer_def handler_statuses_def split: prod.split option.split)

lemma keeps_StartWorkflowExecution: "alone E \<Longrightarrow> keeps_to_itself (handle_StartWorkflowExecution E W)"
  unfolding handle_StartWorkflowExecution_def
  by (auto simp: handler_statuses_def start_answer_fair
      intro!: confined_parsed confined_if confined_return confined_principal confined_bind [OF confined_StartExecution])

lemma keeps_ListWorkflowExecutions: "alone E \<Longrightarrow> keeps_to_itself (handle_ListWorkflowExecutions E)"
  unfolding handle_ListWorkflowExecutions_def Let_def
  by (auto simp: handler_statuses_def
      intro!: confined_handler confined_if confined_return confined_ListExecutions cursor_error_fair)

lemma keeps_GetWorkflowExecution: "alone E \<Longrightarrow> keeps_to_itself (handle_GetWorkflowExecution E)"
  unfolding handle_GetWorkflowExecution_def
  by (auto simp: handler_statuses_def intro!: confined_handler confined_GetExecution)

lemma keeps_CancelWorkflowExecution: "alone E \<Longrightarrow> keeps_to_itself (handle_CancelWorkflowExecution E)"
  unfolding handle_CancelWorkflowExecution_def
  by (auto simp: handler_statuses_def intro!: confined_handler confined_CancelExecution)

lemmas keeps_workflows = keeps_CreateWorkflow keeps_ListWorkflows keeps_GetWorkflow keeps_UpdateWorkflow
  keeps_DeleteWorkflow keeps_ValidateWorkflow keeps_PublishWorkflow keeps_ListWorkflowVersions
  keeps_GetWorkflowVersion keeps_StartWorkflowExecution keeps_ListWorkflowExecutions keeps_GetWorkflowExecution
  keeps_CancelWorkflowExecution

subsection \<open>The router\<close>

lemma keeps_mux:
  assumes "\<And>e. e \<in> set table \<Longrightarrow> keeps_to_itself (snd e)"
  shows "keeps_to_itself (serve_mux table)"
proof (intro allI impI)
  fix r :: http_request and p
  assume p: "hr_Principal r = Some p"
  show "confined (pr_OrgID p) (serve_mux table r) (fair_answer (pr_OrgID p))"
  proof (cases "find (\<lambda>e. pattern_matches r (fst e)) table")
    case None
    then show ?thesis by (auto simp: serve_mux_def handler_statuses_def intro!: confined_return)
  next
    case (Some e)
    then have "e \<in> set table" by (auto simp: find_Some_iff)
    then show ?thesis using assms p Some by (auto simp: serve_mux_def with_values_def split: prod.split)
  qed
qed

lemma keeps_v1_mux: "alone E \<Longrightarrow> keeps_to_itself (v1_mux E S)"
  unfolding v1_mux_def [abs_def]
proof (rule keeps_mux)
  fix e
  assume E: "alone E" and "e \<in> set (task_routes E S @ webhook_routes E S @ workflow_routes E S)"
  then consider "e \<in> set (task_routes E S)" | "e \<in> set (webhook_routes E S)" | "e \<in> set (workflow_routes E S)" by auto
  then show "keeps_to_itself (snd e)"
  proof cases
    case 1
    then show ?thesis using keeps_tasks [OF E] unfolding task_routes_def by (auto simp only: list.set snd_conv insert_iff empty_iff)
  next
    case 2
    then show ?thesis using keeps_webhooks [OF E] unfolding webhook_routes_def by (auto simp only: list.set snd_conv insert_iff empty_iff)
  next
    case 3
    then show ?thesis using keeps_workflows [OF E] unfolding workflow_routes_def by (auto simp only: list.set snd_conv insert_iff empty_iff)
  qed
qed

text \<open>The principal of a request: the organisation of a key that is known and not revoked.\<close>

definition caller :: "env \<Rightarrow> http_request \<Rightarrow> store \<Rightarrow> Principal option" where
  "caller E r s =
     (case bearer_key r of
        None \<Rightarrow> None
      | Some rawKey \<Rightarrow>
          (case map_of (api_keys s) (sha256_hex E rawKey) of
             None \<Rightarrow> None
           | Some k \<Rightarrow>
               if ak_RevokedAt k \<noteq> None then None
               else Some \<lparr>pr_OrgID = ak_OrgID k, pr_Scopes = ak_Scopes k\<rparr>))"

lemma run_Authenticate:
  assumes "alone E" and "bearer_key r = Some k" and "run_state (Authenticate E k) w = (res, w')"
  shows "w_store w' = w_store w \<and> (\<forall>p. res = Inr p \<longrightarrow> caller E r (w_store w) = Some p)"
  using assms
  by (auto simp: Authenticate_def FindAPIKeyByHash_def query_def run_atomic Let_def alone_def caller_def
      split: outcome.splits option.splits if_splits)

text \<open>What a request that passed the authentication may do.\<close>

lemma confined_Allow: "alone E \<Longrightarrow> confined org (Allow E l k) (\<lambda>_. True)"
  unfolding Allow_def Let_def
  by (intro confined_bind [OF confined_time] confined_bind [OF confined_atomic [where P = "\<lambda>_. True"]] confined_return TrueI)
    (simp_all add: tokenBucketScript_def Let_def foreign_same_iff)

definition limited_answer :: "uuid \<Rightarrow> answer \<Rightarrow> bool" where
  "limited_answer org a \<longleftrightarrow> fair_answer org a \<or> a = rate_limited"

lemma confined_limited:
  assumes "alone E" and "hr_Principal r = Some p"
  shows "confined (pr_OrgID p) (RateLimitMiddleware E l (v1_mux E S) r) (limited_answer (pr_OrgID p))"
proof -
  have "confined (pr_OrgID p) (v1_mux E S r) (limited_answer (pr_OrgID p))"
    by (rule confined_post [of _ _ "fair_answer (pr_OrgID p)"])
      (use keeps_v1_mux [OF assms(1)] assms(2) in \<open>auto simp: limited_answer_def\<close>)
  then show ?thesis
    unfolding RateLimitMiddleware_def
    by (intro confined_option confined_principal [OF assms(2)] confined_bind [OF confined_Allow [OF assms(1)]]
        confined_if confined_return) (simp_all add: limited_answer_def)
qed

text \<open>A request that was limited has touched nothing but the bucket of the caller.\<close>

lemma run_Allow: "alone E \<Longrightarrow> run_state (Allow E l k) w = (ok, w') \<Longrightarrow> \<exists>b. w_store w' = w_store w\<lparr>buckets := b\<rparr>"
  by (auto simp: Allow_def Let_def run_atomic alone_def tokenBucketScript_def time_now_def
      split: outcome.splits intro: exI [of _ "buckets (w_store w)"])

lemma run_limited:
  assumes "alone E" and p: "hr_Principal r = Some p"
    and run: "run_state (RateLimitMiddleware E l (v1_mux E S) r) w = (a, w')"
  shows "(a = rate_limited \<and> (\<exists>b. w_store w' = w_store w\<lparr>buckets := b\<rparr>)) \<or> fair_answer (pr_OrgID p) a"
proof -
  have fair: "fair_answer (pr_OrgID p) b" if "run_state (v1_mux E S r) u = (b, u')" for b u u'
    using keeps_v1_mux [OF assms(1)] p that unfolding confined_def returns_def by (metis fst_conv)
  show ?thesis
  proof (cases l)
    case None
    then show ?thesis using run fair by (simp add: RateLimitMiddleware_def)
  next
    case (Some lim)
    let ?k = "''org:'' @ uuid_text E (pr_OrgID p) @ '':api''"
    obtain ok w1 where ok: "run_state (Allow E lim ?k) w = (ok, w1)" by (cases "run_state (Allow E lim ?k) w")
    show ?thesis
      using run ok Some p fair run_Allow [OF assms(1) ok]
      by (auto simp: RateLimitMiddleware_def MustPrincipal_def split: if_splits)
  qed
qed

lemma run_protected:
  assumes E: "alone E" and run: "run_state (protected_mux E S r) w = (a, w')"
  obtains "a = unauthorized" "w_store w' = w_store w"
  | p where "caller E r (w_store w) = Some p" "foreign_same (pr_OrgID p) (w_store w) (w_store w')"
      "(a = rate_limited \<and> (\<exists>b. w_store w' = w_store w\<lparr>buckets := b\<rparr>)) \<or> fair_answer (pr_OrgID p) a"
proof (cases "bearer_key r")
  case None
  then show thesis using that(1) run by (simp add: protected_mux_def AuthMiddleware_def)
next
  case (Some k)
  obtain res w1 where auth: "run_state (Authenticate E k) w = (res, w1)" by (cases "run_state (Authenticate E k) w")
  note w1 = run_Authenticate [OF E Some auth]
  show thesis
  proof (cases res)
    case (Inl e)
    then show thesis using that(1) run auth w1 Some by (simp add: protected_mux_def AuthMiddleware_def)
  next
    case (Inr p)
    let ?r = "r\<lparr>hr_Principal := Some p\<rparr>"
    have "confined (pr_OrgID p) (RateLimitMiddleware E (as_limiter S) (v1_mux E S) ?r) (limited_answer (pr_OrgID p))"
      by (rule confined_limited [OF E]) simp
    moreover have l: "run_state (RateLimitMiddleware E (as_limiter S) (v1_mux E S) ?r) w1 = (a, w')"
      using run auth Inr Some by (simp add: protected_mux_def AuthMiddleware_def)
    ultimately have "foreign_same (pr_OrgID p) (w_store w1) (w_store w')"
      unfolding confined_def steps_def on_store_def by (metis snd_conv)
    then show thesis using that(2) w1 Inr run_limited [OF E _ l] by simp
  qed
qed

end
