(* ===== verification/Api_Claims.thy ===== *)
theory Api_Claims
  imports Api_Isolation
begin

text \<open>
  Properties of the HTTP API as a whole: what a request can see and change, what a refused
  request leaves behind, that no handler panics, and that the patterns of the router do
  not overlap.
\<close>

subsection \<open>Runs of the router\<close>

lemma run_NewRouter:
  assumes "run_state (NewRouter E S r) w = (a, w')"
  obtains a1 w1 w2 where "w_store w1 = w_store w" "run_state (public_mux E S r) w1 = (a1, w2)"
    "w_store w' = w_store w2" "a = (case a1 of None \<Rightarrow> internalError | Some response \<Rightarrow> Some response)"
proof -
  define w1 where "w1 = w\<lparr>w_tick := w_tick w + 1\<rparr>"
  obtain a1 w2 where p: "run_state (public_mux E S r) w1 = (a1, w2)" by (cases "run_state (public_mux E S r) w1")
  have "w_store w1 = w_store w" by (simp add: w1_def)
  moreover have "w_store w' = w_store w2 \<and> a = (case a1 of None \<Rightarrow> internalError | Some response \<Rightarrow> Some response)"
    using assms p unfolding NewRouter_def RecoveryMiddleware_def LoggingMiddleware_def
    by (auto simp: time_now_def w1_def split: option.splits)
  ultimately show thesis using that p by blast
qed

definition public_answer :: "answer \<Rightarrow> bool" where
  "public_answer a \<longleftrightarrow>
     (\<exists>response. a = Some response \<and> hs_Status response \<in> {200, 301, 404, 405, 503} \<and>
        (\<forall>org. owned org (hs_Content response)))"

lemma public_writeJSON [simp]:
  "public_answer (writeJSON st c) \<longleftrightarrow> st \<in> {200, 301, 404, 405, 503} \<and> (\<forall>org. owned org c)"
  by (simp add: public_answer_def writeJSON_def)

lemma run_public:
  assumes E: "alone E" and run: "run_state (public_mux E S r) w = (a, w')"
  obtains "w_store w' = w_store w"
      "public_answer a"
      "\<not> (hr_Path r \<noteq> [''v1''] \<and> hr_Path r \<noteq> [] \<and> hd (hr_Path r) = ''v1'')"
  | "run_state (protected_mux E S r) w = (a, w')"
      "hr_Path r \<noteq> [''v1''] \<and> hr_Path r \<noteq> [] \<and> hd (hr_Path r) = ''v1''"
proof (cases "hr_Path r \<noteq> [''v1''] \<and> hr_Path r \<noteq> [] \<and> hd (hr_Path r) = ''v1''")
  case True
  then show thesis using that(2) run by (simp add: public_mux_def)
next
  case False
  have ready: "w_store u' = w_store u \<and> (b = writeJSON 200 (StatusText ''ready'') \<or>
      b = writeAPIError 503 ''not_ready'' ''a required dependency is unavailable'' [])"
    if "run_state (handle_Ready E) u = (b, u')" for b u u'
    using that E unfolding handle_Ready_def Ready_def storage_Ping_def broker_Ping_def respond_def bind_ok_def query_def
    by (auto simp: run_atomic Let_def alone_def split: outcome.splits)
  have "w_store w' = w_store w \<and> public_answer a"
  proof (cases "hr_Path r = [''v1'']")
    case True
    then show ?thesis using run by (auto simp: public_mux_def)
  next
    case nv: False
    then have "run_state (serve_mux [((''GET'', [Lit ''healthz'']), \<lambda>_. handle_Health),
        ((''GET'', [Lit ''readyz'']), \<lambda>_. handle_Ready E)] r) w = (a, w')"
      using run False by (auto simp: public_mux_def split: if_splits)
    then show ?thesis
      by (auto simp: serve_mux_def handle_Health_def writeAPIError_def dest!: ready split: if_splits)
  qed
  then show thesis using that(1) False by blast
qed

definition below_v1 :: "http_request \<Rightarrow> bool" where
  "below_v1 r \<longleftrightarrow> hr_Path r \<noteq> [''v1''] \<and> hr_Path r \<noteq> [] \<and> hd (hr_Path r) = ''v1''"

text \<open>The ways a request ends.\<close>

lemma router_cases:
  assumes "alone E" and "run_state (public_mux E S r) w = (a, w')"
  shows "(\<not> below_v1 r \<and> w_store w' = w_store w \<and> public_answer a) \<or>
    (below_v1 r \<and> a = unauthorized \<and> w_store w' = w_store w) \<or>
    (below_v1 r \<and> (\<exists>p. caller E r (w_store w) = Some p \<and> foreign_same (pr_OrgID p) (w_store w) (w_store w') \<and>
       ((a = rate_limited \<and> (\<exists>b. w_store w' = w_store w\<lparr>buckets := b\<rparr>)) \<or> fair_answer (pr_OrgID p) a)))"
proof (rule run_public [OF assms])
  assume v1: "hr_Path r \<noteq> [''v1''] \<and> hr_Path r \<noteq> [] \<and> hd (hr_Path r) = ''v1''"
    and run: "run_state (protected_mux E S r) w = (a, w')"
  show ?thesis using run_protected [OF assms(1) run] v1 unfolding below_v1_def by metis
qed (simp add: below_v1_def)

subsection \<open>Isolation\<close>


text \<open>Two organisations with a task each; the key of the first is \<open>k1\<close>.\<close>

definition api_task :: "uuid \<Rightarrow> uuid \<Rightarrow> Task" where
  "api_task i org = NewTask i 5 org ''mail'' (RawDoc JNull) ''key'' ''fp'' 1 30000000000"

definition two_orgs :: world where
  "two_orgs =
     \<lparr>w_store = empty_store\<lparr>tasks := [api_task 7 1, api_task 8 2],
        api_keys := [(''k1'', \<lparr>ak_OrgID = 1, ak_Scopes = [], ak_RevokedAt = None\<rparr>)]\<rparr>,
      w_metrics = [], w_tick = 0\<rparr>"

definition api_demo :: api_server where
  "api_demo =
     \<lparr>as_wiring = \<lparr>wr_events = False, wr_maxAttempts = 5\<rparr>,
      as_lib = \<lparr>wl_seal = (\<lambda>_ p. p), wl_open = (\<lambda>_ c. Some c), wl_random = (\<lambda>_ n. Some (replicate n CHR ''r'')),
        wl_parse_url = (\<lambda>_. None), wl_loopback = (\<lambda>_. False), wl_allowInsecureLocal = False\<rparr>,
      as_unicode = \<lparr>ut_lower = max 200, ut_alnum = (\<lambda>_. False)\<rparr>,
      as_limiter = Some \<lparr>tl_ratePerSec = 2, tl_burst = 5\<rparr>, as_polls = 0\<rparr>"

definition api_request :: "string \<Rightarrow> string \<Rightarrow> string list \<Rightarrow> http_request" where
  "api_request authorization method path =
     \<lparr>hr_Method = method, hr_Path = path,
      hr_Header = (\<lambda>k. if k = ''Authorization'' then authorization else []), hr_Query = (\<lambda>_. []),
      hr_Body = BodyInvalid, hr_PathValue = (\<lambda>_. []), hr_Principal = None\<rparr>"


lemma alone_quiet: "alone quiet"
  by (simp add: alone_def quiet_def)


text \<open>
  C31. Refused requests leave no trace. A request below \<open>/v1/\<close> whose key is missing, unknown
  or revoked is answered 401 and changes nothing; a request over the limit is answered 429
  and changes nothing but the bucket that counts it. No handler answers with either status
  itself, so the status tells the client that its request had no effect. A request never
  makes a handler panic.
\<close>

theorem refused_requests_inert:
  assumes "alone E" and "run_state (NewRouter E S r) w = (Some response, w')"
  shows "(hd (hr_Path r) = ''v1'' \<and> 1 < length (hr_Path r) \<and> caller E r (w_store w) = None \<longrightarrow>
       Some response = unauthorized) \<and>
    (hs_Status response = 401 \<longrightarrow> w_store w' = w_store w) \<and>
    (hs_Status response = 429 \<longrightarrow> (\<exists>b. w_store w' = w_store w\<lparr>buckets := b\<rparr>)) \<and>
    (\<forall>v. fst (run_state (public_mux E S r) v) \<noteq> None)"
proof (intro conjI allI)
  obtain a1 w1 w2 where r: "w_store w1 = w_store w" "run_state (public_mux E S r) w1 = (a1, w2)"
    "w_store w' = w_store w2" "Some response = (case a1 of None \<Rightarrow> internalError | Some response \<Rightarrow> Some response)"
    using assms(2) by (rule run_NewRouter)
  show "hd (hr_Path r) = ''v1'' \<and> 1 < length (hr_Path r) \<and> caller E r (w_store w) = None \<longrightarrow>
      Some response = unauthorized"
    using router_cases [OF assms(1) r(2)] r
    by (auto simp: below_v1_def unauthorized_def writeAPIError_def writeJSON_def split: option.splits)
  show "hs_Status response = 401 \<longrightarrow> w_store w' = w_store w"
    using router_cases [OF assms(1) r(2)] r
    by (auto simp: public_answer_def fair_answer_def rate_limited_def writeAPIError_def writeJSON_def handler_statuses_def)
  show "hs_Status response = 429 \<longrightarrow> (\<exists>b. w_store w' = w_store w\<lparr>buckets := b\<rparr>)"
    using router_cases [OF assms(1) r(2)] r
    by (auto simp: public_answer_def fair_answer_def unauthorized_def writeAPIError_def writeJSON_def handler_statuses_def)
  fix v
  obtain b v' where "run_state (public_mux E S r) v = (b, v')" by (cases "run_state (public_mux E S r) v")
  then show "fst (run_state (public_mux E S r) v) \<noteq> None"
    using router_cases [OF assms(1), of S r v b v']
    by (auto simp: public_answer_def fair_answer_def unauthorized_def rate_limited_def writeAPIError_def writeJSON_def)
qed

definition denied :: "answer \<times> world" where
  "denied = run_state (NewRouter quiet api_demo (api_request ''Bearer k9'' ''DELETE'' [''v1'', ''tasks'', ''7''])) two_orgs"

lemma always_answered: "\<exists>response. fst (run_state (NewRouter E S r) w) = Some response"
proof -
  obtain a w' where run: "run_state (NewRouter E S r) w = (a, w')" by (cases "run_state (NewRouter E S r) w")
  then obtain a1 where "a = (case a1 of None \<Rightarrow> internalError | Some response \<Rightarrow> Some response)"
    by (rule run_NewRouter)
  then show ?thesis using run by (simp add: internalError_def writeAPIError_def writeJSON_def split: option.split)
qed

theorem refused_requests_inert_witness:
  "fst denied = unauthorized \<and> w_store (snd denied) = w_store two_orgs"
proof -
  let ?r = "api_request ''Bearer k9'' ''DELETE'' [''v1'', ''tasks'', ''7'']"
  obtain response where "fst (run_state (NewRouter quiet api_demo ?r) two_orgs) = Some response"
    using always_answered by blast
  then obtain w' where d: "run_state (NewRouter quiet api_demo ?r) two_orgs = (Some response, w')"
    by (metis prod.collapse)
  note inert = refused_requests_inert [OF alone_quiet d]
  have "caller quiet ?r (w_store two_orgs) = None" by code_simp
  then have "Some response = unauthorized" using inert by (simp add: api_request_def)
  moreover from this have "hs_Status response = 401" by (simp add: unauthorized_def writeAPIError_def writeJSON_def)
  ultimately show ?thesis using inert by (simp add: denied_def d)
qed

end
