(* ===== verification/Spec2Isabelle.thy ===== *)
theory Spec2Isabelle
  imports Exec_Progress Task_Claims Broker_Queue Backoff_Claims Delivery_Claims Workflow_Claims Workflow_Rows
    Page_Claims Webhook_Claims Api_Claims
begin

text \<open>
  A verification development for the FlowForge services.
\<close>

end
